(* ===== verification/Prelude.thy ===== *)
theory Prelude
  imports Main "HOL-Library.Word" "HOL-Library.AList" "HOL-Library.Multiset"
begin

text \<open>
  Shared vocabulary of the development: Go's machine integers, nil-able pointers and
  maps, the two ways a Go call can end badly (an error value, a panic), and the
  world-passing actions in which the reconcilers are written.  The lemma collections
  \<open>keeps_intro\<close> and \<open>ok_simps\<close> carry the proofs of the component theories.
\<close>

named_theorems keeps_intro "an action leaves an observation of the world unchanged"
named_theorems ok_simps "inversion of an action that returned without error"

section \<open>Go values\<close>

type_synonym int32 = "32 word"
type_synonym int64 = "64 word"

text \<open>
  Fields of library structs that the operator never reads or writes are kept in one
  serialised field; its zero value is the empty string.
\<close>

type_synonym raw = string

text \<open>
  A Go \<open>map[string]string\<close>: \<open>None\<close> is the nil map, \<open>Some xs\<close> an allocated map with
  the entries \<open>xs\<close>.  The list fixes one iteration order; two maps are the same map when
  \<open>mlookup\<close> agrees on them.
\<close>

type_synonym smap = "(string \<times> string) list option"

datatype panic = NilMapWrite | NilDeref | WrongType

text \<open>
  The error values of the Kubernetes client libraries, by the class that the predicates
  \<open>errors.IsNotFound\<close>, \<open>errors.IsAlreadyExists\<close> and \<open>meta.IsNoMatchError\<close> tell apart,
  and the errors built with \<open>fmt.Errorf\<close>.
\<close>

datatype goerr =
    is_NotFound: NotFound string
  | is_AlreadyExists: AlreadyExists string
  | is_NoMatch: NoMatch string
  | is_Errorf: Errorf string
  | is_OtherError: OtherError string

datatype fault = Panic panic | Error goerr

type_synonym 'a res = "fault + 'a"

definition bindR :: "'a res \<Rightarrow> ('a \<Rightarrow> 'b res) \<Rightarrow> 'b res" where
  "bindR r k = (case r of Inl e \<Rightarrow> Inl e | Inr x \<Rightarrow> k x)"

text \<open>Reading through a pointer: the nil pointer panics.\<close>

definition deref :: "'a option \<Rightarrow> 'a res" where
  "deref p = (case p of None \<Rightarrow> Inl (Panic NilDeref) | Some x \<Rightarrow> Inr x)"

lemma bindR_simps [simp]:
  "bindR (Inl e) k = Inl e"
  "bindR (Inr x) k = k x"
  by (simp_all add: bindR_def)

lemma deref_simps [simp]:
  "deref None = Inl (Panic NilDeref)"
  "deref (Some x) = Inr x"
  by (simp_all add: deref_def)

lemma bindR_ok [ok_simps]:
  "bindR r k = Inr y \<longleftrightarrow> (\<exists>x. r = Inr x \<and> k x = Inr y)"
  by (cases r) simp_all

lemma deref_ok [ok_simps]: "deref p = Inr x \<longleftrightarrow> p = Some x"
  by (cases p) simp_all

section \<open>Go maps\<close>

definition mentries :: "smap \<Rightarrow> (string \<times> string) list" where
  "mentries m = (case m of None \<Rightarrow> [] | Some xs \<Rightarrow> xs)"

definition mlookup :: "smap \<Rightarrow> string \<Rightarrow> string option" where
  "mlookup m k = map_of (mentries m) k"

definition mlen :: "smap \<Rightarrow> nat" where
  "mlen m = length (mentries m)"

text \<open>The assignment \<open>m[k] = v\<close>; assigning into the nil map panics.\<close>

definition massign :: "string \<Rightarrow> string \<Rightarrow> smap \<Rightarrow> smap res" where
  "massign k v m = (case m of
      None \<Rightarrow> Inl (Panic NilMapWrite)
    | Some xs \<Rightarrow> Inr (Some (AList.update k v xs)))"

text \<open>An allocated Go map has one entry per key.\<close>

definition mwf :: "smap \<Rightarrow> bool" where
  "mwf m \<longleftrightarrow> distinct (map fst (mentries m))"

lemma mentries_simps [simp]:
  "mentries None = []"
  "mentries (Some xs) = xs"
  by (simp_all add: mentries_def)

lemma mlen_simps [simp]:
  "mlen None = 0"
  "mlen (Some xs) = length xs"
  by (simp_all add: mlen_def)

lemma mlookup_simps [simp]:
  "mlookup None k = None"
  "mlookup (Some xs) k = map_of xs k"
  by (simp_all add: mlookup_def)

lemma massign_simps [simp]:
  "massign k v None = Inl (Panic NilMapWrite)"
  "massign k v (Some xs) = Inr (Some (AList.update k v xs))"
  by (simp_all add: massign_def)

lemma mlookup_massign:
  "massign k v m = Inr m' \<Longrightarrow> mlookup m' j = (if j = k then Some v else mlookup m j)"
  by (cases m) (auto simp: update_conv')

lemma mwf_massign: "massign k v m = Inr m' \<Longrightarrow> mwf m \<Longrightarrow> mwf m'"
  by (cases m) (auto simp: mwf_def distinct_update)

lemma massign_ok_iff: "(\<exists>m'. massign k v m = Inr m') \<longleftrightarrow> m \<noteq> None"
  by (cases m) auto

lemma alist_update_same: "map_of xs k = Some v \<Longrightarrow> distinct (map fst xs) \<Longrightarrow> AList.update k v xs = xs"
  by (induction xs) (auto split: if_splits)

lemma alist_update_idem [simp]: "AList.update k v (AList.update k v xs) = AList.update k v xs"
  by (induction xs) auto

lemma map_of_mset_eq:
  assumes "distinct (map fst xs)" and "mset xs = mset ys"
  shows "map_of xs = map_of ys"
proof -
  have "set xs = set ys" using assms(2) by (rule mset_eq_setD)
  moreover have "distinct (map fst ys)"
    using assms by (metis mset_eq_imp_distinct_iff mset_map)
  ultimately show ?thesis using assms(1) by (simp add: map_of_inject_set)
qed

section \<open>World-passing actions\<close>

text \<open>
  An action runs in a world (the cluster and everything else outside the process) and
  ends with a result and the world it leaves behind.  A fault ends the action early but
  the effects it had before stay in the world.
\<close>

type_synonym ('w, 'a) io = "'w \<Rightarrow> 'a res \<times> 'w"

definition ret :: "'a \<Rightarrow> ('w, 'a) io" where
  "ret x = (\<lambda>w. (Inr x, w))"

definition throw :: "fault \<Rightarrow> ('w, 'a) io" where
  "throw e = (\<lambda>w. (Inl e, w))"

definition liftR :: "'a res \<Rightarrow> ('w, 'a) io" where
  "liftR r = (\<lambda>w. (r, w))"

definition bindM :: "('w, 'a) io \<Rightarrow> ('a \<Rightarrow> ('w, 'b) io) \<Rightarrow> ('w, 'b) io" where
  "bindM m k = (\<lambda>w. case m w of (Inl e, w') \<Rightarrow> (Inl e, w') | (Inr x, w') \<Rightarrow> k x w')"

text \<open>
  The statement \<open>if err := m; err != nil { h } k\<close>: an error value goes to \<open>h\<close>, a panic
  unwinds past it.
\<close>

definition ifErr ::
  "('w, 'a) io \<Rightarrow> (goerr \<Rightarrow> ('w, 'b) io) \<Rightarrow> ('a \<Rightarrow> ('w, 'b) io) \<Rightarrow> ('w, 'b) io" where
  "ifErr m h k = (\<lambda>w. case m w of
      (Inl (Error e), w') \<Rightarrow> h e w'
    | (Inl (Panic p), w') \<Rightarrow> (Inl (Panic p), w')
    | (Inr x, w') \<Rightarrow> k x w')"

definition fail :: "goerr \<Rightarrow> ('w, 'a) io" where
  "fail e = throw (Error e)"

lemma bindM_ifErr: "bindM m k = ifErr m fail k"
  by (auto simp: fun_eq_iff bindM_def ifErr_def fail_def throw_def
      split: prod.split sum.split fault.split)

lemma io_apply [simp]:
  "ret x w = (Inr x, w)"
  "throw e w = (Inl e, w)"
  "liftR r w = (r, w)"
  "fail g w = (Inl (Error g), w)"
  by (simp_all add: ret_def throw_def liftR_def fail_def)

lemma bindM_ret [simp]: "bindM (ret x) k = k x"
  by (simp add: fun_eq_iff bindM_def)

lemma bindM_assoc: "bindM (bindM m k) l = bindM m (\<lambda>x. bindM (k x) l)"
  by (auto simp: fun_eq_iff bindM_def split: prod.split sum.split)

lemma bindM_run:
  "m w = (Inr x, w1) \<Longrightarrow> bindM m k w = k x w1"
  "m w = (Inl e, w1) \<Longrightarrow> bindM m k w = (Inl e, w1)"
  by (simp_all add: bindM_def)

lemma ifErr_run:
  "m w = (Inr x, w1) \<Longrightarrow> ifErr m h k w = k x w1"
  "m w = (Inl (Error e), w1) \<Longrightarrow> ifErr m h k w = h e w1"
  "m w = (Inl (Panic p), w1) \<Longrightarrow> ifErr m h k w = (Inl (Panic p), w1)"
  by (simp_all add: ifErr_def)

subsection \<open>Inversion of successful runs\<close>

lemma ret_ok [ok_simps]: "ret x w = (Inr y, w') \<longleftrightarrow> y = x \<and> w' = w"
  by auto

lemma throw_ok [ok_simps]: "throw e w = (Inr y, w') \<longleftrightarrow> False"
  by auto

lemma fail_ok [ok_simps]: "fail e w = (Inr y, w') \<longleftrightarrow> False"
  by auto

lemma liftR_ok [ok_simps]: "liftR r w = (Inr y, w') \<longleftrightarrow> r = Inr y \<and> w' = w"
  by auto

lemma bindM_ok [ok_simps]:
  "bindM m k w = (Inr y, w') \<longleftrightarrow> (\<exists>x w1. m w = (Inr x, w1) \<and> k x w1 = (Inr y, w'))"
  by (auto simp: bindM_def split: prod.split sum.split)

lemma ifErr_ok [ok_simps]:
  "ifErr m h k w = (Inr y, w') \<longleftrightarrow>
     (\<exists>e w1. m w = (Inl (Error e), w1) \<and> h e w1 = (Inr y, w'))
   \<or> (\<exists>x w1. m w = (Inr x, w1) \<and> k x w1 = (Inr y, w'))"
  by (auto simp: ifErr_def split: prod.split sum.split fault.split)

subsection \<open>Observations an action keeps\<close>

text \<open>
  \<open>keeps obs m\<close>: whatever the outcome of \<open>m\<close>, error and panic included, the
  observation \<open>obs\<close> of the world is the same after it.
\<close>

definition keeps :: "('w \<Rightarrow> 'v) \<Rightarrow> ('w, 'a) io \<Rightarrow> bool" where
  "keeps obs m \<longleftrightarrow> (\<forall>w. obs (snd (m w)) = obs w)"

lemma keepsD: "keeps obs m \<Longrightarrow> m w = (r, w') \<Longrightarrow> obs w' = obs w"
  by (metis keeps_def snd_conv)

lemma keeps_ret [keeps_intro]: "keeps obs (ret x)"
  by (simp add: keeps_def)

lemma keeps_throw [keeps_intro]: "keeps obs (throw e)"
  by (simp add: keeps_def)

lemma keeps_fail [keeps_intro]: "keeps obs (fail e)"
  by (simp add: keeps_def)

lemma keeps_liftR [keeps_intro]: "keeps obs (liftR r)"
  by (simp add: keeps_def)

lemma keeps_ifErr [keeps_intro]:
  assumes "keeps obs m" and "\<And>e. keeps obs (h e)" and "\<And>x. keeps obs (k x)"
  shows "keeps obs (ifErr m h k)"
proof -
  have "obs (snd (ifErr m h k w)) = obs w" for w
  proof (cases "m w")
    case (Pair r w1)
    with assms(1) have w1: "obs w1 = obs w" by (rule keepsD)
    show ?thesis
      using assms(2,3) w1 Pair
      by (auto simp: ifErr_def keeps_def split: sum.split fault.split)
  qed
  then show ?thesis by (simp add: keeps_def)
qed

lemma keeps_bindM [keeps_intro]:
  assumes "keeps obs m" and "\<And>x. keeps obs (k x)"
  shows "keeps obs (bindM m k)"
  unfolding bindM_ifErr by (intro keeps_ifErr keeps_fail assms)

text \<open>The same with what is known of the first result.\<close>

lemma keeps_ifErr_run:
  assumes "keeps obs m" and "\<And>w e w'. m w = (Inl (Error e), w') \<Longrightarrow> keeps obs (h e)"
    and "\<And>w x w'. m w = (Inr x, w') \<Longrightarrow> keeps obs (k x)"
  shows "keeps obs (ifErr m h k)"
proof -
  have "obs (snd (ifErr m h k w)) = obs w" for w
  proof (cases "m w")
    case (Pair r w1)
    with assms(1) have w1: "obs w1 = obs w" by (rule keepsD)
    show ?thesis
    proof (cases r)
      case (Inl e)
      with Pair w1 assms(2) [of w _ w1] show ?thesis
        by (cases e) (auto simp: ifErr_def keeps_def)
    next
      case (Inr x)
      with Pair w1 assms(3) [of w x w1] show ?thesis by (auto simp: ifErr_def keeps_def)
    qed
  qed
  then show ?thesis by (simp add: keeps_def)
qed

lemma keeps_bindM_run:
  assumes "keeps obs m" and "\<And>w x w'. m w = (Inr x, w') \<Longrightarrow> keeps obs (k x)"
  shows "keeps obs (bindM m k)"
  unfolding bindM_ifErr using assms by (auto intro: keeps_ifErr_run keeps_fail)

lemma keeps_liftR_bind:
  "(\<And>x. t = Inr x \<Longrightarrow> keeps obs (k x)) \<Longrightarrow> keeps obs (bindM (liftR t) k)"
  by (rule keeps_bindM_run [OF keeps_liftR]) auto

lemma keeps_if [keeps_intro]:
  "(b \<Longrightarrow> keeps obs m) \<Longrightarrow> (\<not> b \<Longrightarrow> keeps obs n) \<Longrightarrow> keeps obs (if b then m else n)"
  by simp

lemma keeps_case_option [keeps_intro]:
  "(p = None \<Longrightarrow> keeps obs m) \<Longrightarrow> (\<And>x. p = Some x \<Longrightarrow> keeps obs (k x)) \<Longrightarrow>
   keeps obs (case p of None \<Rightarrow> m | Some x \<Rightarrow> k x)"
  by (cases p) simp_all

lemma keeps_Let [keeps_intro]: "(\<And>x. x = t \<Longrightarrow> keeps obs (k x)) \<Longrightarrow> keeps obs (let x = t in k x)"
  by simp

subsection \<open>Invariants an action preserves\<close>

text \<open>\<open>preserves P m\<close>: whatever the outcome of \<open>m\<close>, a world satisfying \<open>P\<close> still does after it.\<close>

named_theorems preserves_intro "an action preserves a predicate of the world"

definition preserves :: "('w \<Rightarrow> bool) \<Rightarrow> ('w, 'a) io \<Rightarrow> bool" where
  "preserves P m \<longleftrightarrow> (\<forall>w. P w \<longrightarrow> P (snd (m w)))"

lemma preservesD: "preserves P m \<Longrightarrow> m w = (r, w') \<Longrightarrow> P w \<Longrightarrow> P w'"
  by (metis preserves_def snd_conv)

lemma preserves_keeps: "keeps obs m \<Longrightarrow> (\<And>w w'. obs w' = obs w \<Longrightarrow> P w \<Longrightarrow> P w') \<Longrightarrow> preserves P m"
  by (auto simp: keeps_def preserves_def)

lemma preserves_basic [preserves_intro]:
  "preserves P (ret x)" "preserves P (throw e)" "preserves P (fail g)" "preserves P (liftR t)"
  by (simp_all add: preserves_def)

lemma preserves_ifErr [preserves_intro]:
  assumes "preserves P m" and "\<And>e. preserves P (h e)" and "\<And>x. preserves P (k x)"
  shows "preserves P (ifErr m h k)"
  using assms unfolding preserves_def ifErr_def
  by (fastforce split: prod.split sum.split fault.split)

lemma preserves_bindM [preserves_intro]:
  "preserves P m \<Longrightarrow> (\<And>x. preserves P (k x)) \<Longrightarrow> preserves P (bindM m k)"
  unfolding bindM_ifErr by (intro preserves_intro)

lemma preserves_bindM_run:
  assumes "preserves P m" and "\<And>w x w'. m w = (Inr x, w') \<Longrightarrow> preserves P (k x)"
  shows "preserves P (bindM m k)"
  unfolding preserves_def
proof (intro allI impI)
  fix w assume w: "P w"
  show "P (snd (bindM m k w))"
  proof (cases "m w")
    case (Pair r w1)
    from preservesD [OF assms(1) this w] have w1: "P w1" .
    show ?thesis using Pair w1 assms(2) [of w _ w1]
      by (cases r) (auto simp: bindM_def preserves_def)
  qed
qed

lemma preserves_if [preserves_intro]:
  "(b \<Longrightarrow> preserves P m) \<Longrightarrow> (\<not> b \<Longrightarrow> preserves P n) \<Longrightarrow> preserves P (if b then m else n)"
  by simp

end
