(* ===== verification/KubeTypes.thy ===== *)
theory KubeTypes
  imports Prelude
begin

text \<open>
  The Kubernetes API objects the operator builds and reads, as the Go client libraries
  declare them, restricted to the fields the operator touches.  A pointer field is an
  \<open>option\<close>, a slice a list (the operator never tells nil from empty), a
  \<open>map[string]string\<close> an \<open>smap\<close>.  All other fields of a struct sit together in one
  \<open>_rest\<close> field, whose zero value is the empty string.
\<close>

section \<open>Metadata\<close>

record OwnerReference =
  or_Kind :: string
  or_Name :: string
  or_UID :: string
  or_Controller :: bool

record ObjectMeta =
  om_Name :: string
  om_Namespace :: string
  om_Labels :: smap
  om_Annotations :: smap
  om_Finalizers :: "string list"
  om_DeletionTimestamp :: "string option"
  om_Generation :: int64
  om_OwnerReferences :: "OwnerReference list"
  om_rest :: raw

definition zeroMeta :: ObjectMeta where
  "zeroMeta = \<lparr>om_Name = [], om_Namespace = [], om_Labels = None, om_Annotations = None,
     om_Finalizers = [], om_DeletionTimestamp = None, om_Generation = 0,
     om_OwnerReferences = [], om_rest = []\<rparr>"

section \<open>Pods\<close>

datatype IntOrString = FromInt int32 | FromString string

text \<open>A \<open>resource.Quantity\<close>, by the text it is parsed from.\<close>

datatype quantity = MustParse string

record ContainerPort =
  cp_Name :: string
  cp_HostPort :: int32
  cp_ContainerPort :: int32
  cp_Protocol :: string

record ObjectFieldSelector =
  fs_APIVersion :: string
  fs_FieldPath :: string

datatype EnvVarSource = FieldRef ObjectFieldSelector | OtherEnvSource raw

record EnvVar =
  ev_Name :: string
  ev_Value :: string
  ev_ValueFrom :: "EnvVarSource option"

record VolumeMount =
  vm_Name :: string
  vm_ReadOnly :: bool
  vm_MountPath :: string

record HTTPGetAction =
  hg_Path :: string
  hg_Port :: IntOrString
  hg_Scheme :: string

record Probe =
  pr_HTTPGet :: "HTTPGetAction option"
  pr_InitialDelaySeconds :: int32
  pr_TimeoutSeconds :: int32
  pr_PeriodSeconds :: int32
  pr_SuccessThreshold :: int32
  pr_FailureThreshold :: int32
  pr_rest :: raw

record SecurityContext =
  sc_CapabilitiesDrop :: "string list option"
  sc_RunAsUser :: "int64 option"
  sc_RunAsGroup :: "int64 option"
  sc_RunAsNonRoot :: "bool option"
  sc_ReadOnlyRootFilesystem :: "bool option"
  sc_rest :: raw

record PodSecurityContext =
  psc_Sysctls :: "(string \<times> string) list"
  psc_rest :: raw

record ResourceRequirements =
  rr_Limits :: "(string \<times> quantity) list option"
  rr_Requests :: "(string \<times> quantity) list option"

definition zeroResources :: ResourceRequirements where
  "zeroResources = \<lparr>rr_Limits = None, rr_Requests = None\<rparr>"

record Container =
  ct_Name :: string
  ct_Image :: string
  ct_ImagePullPolicy :: string
  ct_Args :: "string list"
  ct_Ports :: "ContainerPort list"
  ct_Env :: "EnvVar list"
  ct_Resources :: ResourceRequirements
  ct_VolumeMounts :: "VolumeMount list"
  ct_ReadinessProbe :: "Probe option"
  ct_SecurityContext :: "SecurityContext option"
  ct_rest :: raw

text \<open>The sources of a volume, one constructor for each pointer of the Go struct.\<close>

datatype DownwardItem =
    DownwardField string ObjectFieldSelector
  | DownwardResource (di_Path: string) (di_Container: string) (di_Divisor: quantity) (di_Resource: string)

datatype VolumeSource =
    VEmptyDir string
  | VSecret string "int32 option" "bool option"
  | VConfigMap string "int32 option"
  | VDownwardAPI "DownwardItem list" "int32 option"
  | VTokenProjection string "int64 option" string
  | VHostPath string "string option"
  | VOther raw

record Volume =
  vol_Name :: string
  vol_Source :: VolumeSource

record PodSpec =
  ps_ImagePullSecrets :: "string list"
  ps_SecurityContext :: "PodSecurityContext option"
  ps_NodeSelector :: smap
  ps_Affinity :: "raw option"
  ps_Tolerations :: "raw list"
  ps_SchedulerName :: string
  ps_PriorityClassName :: string
  ps_Containers :: "Container list"
  ps_Volumes :: "Volume list"
  ps_HostNetwork :: bool
  ps_DNSPolicy :: string
  ps_ServiceAccountName :: string
  ps_rest :: raw

record PodTemplateSpec =
  pt_Meta :: ObjectMeta
  pt_Spec :: PodSpec

definition zeroPodSpec :: PodSpec where
  "zeroPodSpec = \<lparr>ps_ImagePullSecrets = [], ps_SecurityContext = None, ps_NodeSelector = None,
     ps_Affinity = None, ps_Tolerations = [], ps_SchedulerName = [], ps_PriorityClassName = [],
     ps_Containers = [], ps_Volumes = [], ps_HostNetwork = False, ps_DNSPolicy = [],
     ps_ServiceAccountName = [], ps_rest = []\<rparr>"

section \<open>Workloads and services\<close>

record RollingUpdateDeployment =
  ru_MaxUnavailable :: "IntOrString option"
  ru_MaxSurge :: "IntOrString option"

text \<open>\<open>ds_Selector\<close> is the pointer to a \<open>LabelSelector\<close>, of which only \<open>MatchLabels\<close> is used.\<close>

record DeploymentSpec =
  ds_Replicas :: "int32 option"
  ds_Selector :: "smap option"
  ds_RollingUpdate :: "RollingUpdateDeployment option"
  ds_Template :: PodTemplateSpec
  ds_rest :: raw

record Deployment =
  dep_Meta :: ObjectMeta
  dep_Spec :: DeploymentSpec
  dep_rest :: raw

definition zeroDeploymentSpec :: DeploymentSpec where
  "zeroDeploymentSpec = \<lparr>ds_Replicas = None, ds_Selector = None, ds_RollingUpdate = None,
     ds_Template = \<lparr>pt_Meta = zeroMeta, pt_Spec = zeroPodSpec\<rparr>, ds_rest = []\<rparr>"

record ServicePort =
  sp_Name :: string
  sp_Protocol :: string
  sp_Port :: int32
  sp_TargetPort :: IntOrString
  sp_rest :: raw

record ServiceSpec =
  ss_Selector :: smap
  ss_Type :: string
  ss_Ports :: "ServicePort list"
  ss_LoadBalancerIP :: string
  ss_LoadBalancerSourceRanges :: "string list"
  ss_ExternalTrafficPolicy :: string
  ss_rest :: raw

record ServiceObj =
  svc_Meta :: ObjectMeta
  svc_Spec :: ServiceSpec
  svc_rest :: raw

definition zeroServiceSpec :: ServiceSpec where
  "zeroServiceSpec = \<lparr>ss_Selector = None, ss_Type = [], ss_Ports = [], ss_LoadBalancerIP = [],
     ss_LoadBalancerSourceRanges = [], ss_ExternalTrafficPolicy = [], ss_rest = []\<rparr>"

record ConfigMap =
  cm_Meta :: ObjectMeta
  cm_Data :: smap
  cm_rest :: raw

record ServiceAccountObj =
  sao_Meta :: ObjectMeta
  sao_rest :: raw

record Namespace =
  ns_Meta :: ObjectMeta
  ns_Phase :: string

section \<open>RBAC\<close>

record PolicyRule =
  rule_Verbs :: "string list"
  rule_APIGroups :: "string list"
  rule_Resources :: "string list"
  rule_ResourceNames :: "string list"

record RoleRef =
  rref_APIGroup :: string
  rref_Kind :: string
  rref_Name :: string

record Subject =
  sub_Kind :: string
  sub_APIGroup :: string
  sub_Name :: string
  sub_Namespace :: string

definition zeroRoleRef :: RoleRef where
  "zeroRoleRef = \<lparr>rref_APIGroup = [], rref_Kind = [], rref_Name = []\<rparr>"

record ClusterRole =
  cr_Meta :: ObjectMeta
  cr_Rules :: "PolicyRule list"
  cr_rest :: raw

record ClusterRoleBinding =
  crb_Meta :: ObjectMeta
  crb_Subjects :: "Subject list"
  crb_RoleRef :: RoleRef

record Role =
  role_Meta :: ObjectMeta
  role_Rules :: "PolicyRule list"

record RoleBinding =
  rb_Meta :: ObjectMeta
  rb_Subjects :: "Subject list"
  rb_RoleRef :: RoleRef

section \<open>Autoscaling\<close>

record CrossVersionObjectReference =
  xr_Kind :: string
  xr_Name :: string
  xr_APIVersion :: string

record MetricTarget =
  mt_Type :: string
  mt_Value :: "quantity option"
  mt_AverageValue :: "quantity option"
  mt_AverageUtilization :: "int32 option"

record ResourceMetricSource =
  rm_Name :: string
  rm_Target :: MetricTarget

record MetricSpec =
  ms_Type :: string
  ms_Resource :: "ResourceMetricSource option"
  ms_rest :: raw

record HPASpec =
  hs_ScaleTargetRef :: CrossVersionObjectReference
  hs_MinReplicas :: "int32 option"
  hs_MaxReplicas :: int32
  hs_Metrics :: "MetricSpec list"
  hs_rest :: raw

text \<open>\<open>autoscaling/v2\<close>; \<open>autoscaling/v2beta2\<close> declares the same fields.\<close>

record HPAv2 =
  hpa_Meta :: ObjectMeta
  hpa_Spec :: HPASpec
  hpa_rest :: raw

text \<open>\<open>autoscaling/v2beta1\<close>: a resource metric has its targets inline and no target type.\<close>

record ResourceMetricSourceB1 =
  rb1_Name :: string
  rb1_TargetAverageUtilization :: "int32 option"
  rb1_TargetAverageValue :: "quantity option"

record MetricSpecB1 =
  mb1_Type :: string
  mb1_Resource :: "ResourceMetricSourceB1 option"
  mb1_rest :: raw

record HPASpecB1 =
  hb1_ScaleTargetRef :: CrossVersionObjectReference
  hb1_MinReplicas :: "int32 option"
  hb1_MaxReplicas :: int32
  hb1_Metrics :: "MetricSpecB1 list"

record HPAv2beta1 =
  hpb1_Meta :: ObjectMeta
  hpb1_Spec :: HPASpecB1
  hpb1_rest :: raw

section \<open>Unstructured objects\<close>

text \<open>The Go type \<open>any\<close>, as it occurs in \<open>unstructured.Unstructured\<close>.\<close>

datatype any =
    AString string
  | AInt64 int64
  | AMap "(string \<times> any) list option"
  | ASlice "any list option"

record GroupVersionKind =
  gvk_Group :: string
  gvk_Version :: string
  gvk_Kind :: string

text \<open>
  The nested map \<open>Object\<close>: its \<open>apiVersion\<close> and \<open>kind\<close> entries are \<open>un_GVK\<close>, its
  \<open>metadata\<close> entry is \<open>un_Meta\<close>, and \<open>un_Object\<close> holds the other entries.
\<close>

record Unstructured =
  un_GVK :: GroupVersionKind
  un_Meta :: ObjectMeta
  un_Object :: "(string \<times> any) list"

section \<open>Status conditions\<close>

record Condition =
  cond_Type :: string
  cond_Status :: string
  cond_ObservedGeneration :: int64
  cond_LastTransitionTime :: string
  cond_Reason :: string
  cond_Message :: string

end
