(* ===== verification/ApiTypes.thy ===== *)
theory ApiTypes
  imports KubeTypes
begin

text \<open>
  The custom resources of the operator (\<open>api/v1alpha1\<close>): \<open>common.go\<close>,
  \<open>higressgateway_types.go\<close> and \<open>higresscontroller_types.go\<close>.  An embedded Go struct
  is a field of its own (\<open>gws_Common\<close>, \<open>gws_Container\<close>).
\<close>

section \<open>common.go\<close>

record Image =
  img_Repository :: string
  img_Tag :: string
  img_ImagePullPolicy :: string

record ServiceAccount =
  sa_Enable :: bool
  sa_Name :: string
  sa_Annotations :: smap

type_synonym AutoScalingMode = string

definition AutoScalingModeDisabled :: AutoScalingMode where
  "AutoScalingModeDisabled = ''Disabled''"

definition AutoScalingModeNativeHPA :: AutoScalingMode where
  "AutoScalingModeNativeHPA = ''NativeHPA''"

definition AutoScalingModeKEDA :: AutoScalingMode where
  "AutoScalingModeKEDA = ''KEDA''"

record KEDAScaleTrigger =
  kt_Type :: string
  kt_Metadata :: smap
  kt_AuthenticationRef :: "string option"

record KEDAScalingConfig =
  kc_PollingIntervalSeconds :: "int32 option"
  kc_CooldownPeriodSeconds :: "int32 option"
  kc_IdleReplicaCount :: "int32 option"
  kc_Triggers :: "KEDAScaleTrigger list"

record AutoScaling =
  as_Mode :: AutoScalingMode
  as_Enable :: bool
  as_MinReplicas :: "int32 option"
  as_MaxReplicas :: int32
  as_TargetCPUUtilizationPercentage :: "int32 option"
  as_KEDA :: "KEDAScalingConfig option"

record RBAC =
  rbac_Enable :: bool

record Istio =
  istio_EnableAnalysis :: bool

record MultiCluster =
  mc_Enable :: bool
  mc_ClusterName :: string

record Service =
  sv_Type :: string
  sv_Ports :: "ServicePort list"
  sv_Annotations :: smap
  sv_LoadBalancerIP :: string
  sv_LoadBalancerSourceRanges :: "string list"
  sv_ExternalTrafficPolicy :: string

record CRDCommonFields =
  crd_Replicas :: "int32 option"
  crd_SelectorLabels :: smap
  crd_NodeSelector :: smap
  crd_Affinity :: "raw option"
  crd_Toleration :: "raw list"
  crd_Service :: "Service option"
  crd_RBAC :: "RBAC option"
  crd_ServiceAccount :: "ServiceAccount option"
  crd_AutoScaling :: "AutoScaling option"
  crd_PodSecurityContext :: "PodSecurityContext option"
  crd_EnableStatus :: bool
  crd_EnableHigressIstio :: bool
  crd_EnableIstioAPI :: bool
  crd_IstioNamespace :: string
  crd_Revision :: string
  crd_Istiod :: "Istio option"
  crd_MultiCluster :: "MultiCluster option"
  crd_Local :: bool
  crd_JwtPolicy :: string

record ContainerCommonFields =
  con_Name :: string
  con_Annotations :: smap
  con_Image :: Image
  con_ImagePullSecrets :: "string list"
  con_Env :: smap
  con_ReadinessProbe :: "Probe option"
  con_Ports :: "ContainerPort list"
  con_Resources :: "ResourceRequirements option"
  con_SecurityContext :: "SecurityContext option"
  con_LogLevel :: string
  con_LogAsJson :: bool

section \<open>higressgateway types.go\<close>

record Skywalking =
  sky_Enable :: bool
  sky_Port :: "int32 option"
  sky_Address :: string
  sky_CustomBootStrap :: string

record SchedulingPolicy =
  sch_SchedulerName :: string
  sch_PriorityClassName :: string
  sch_Labels :: smap
  sch_Annotations :: smap

record Endpoint =
  ep_FromCidr :: string
  ep_FromRegistry :: string

record Gateway =
  gt_Address :: string
  gt_RegistryServiceName :: string
  gt_Port :: int32

record Network =
  net_Endpoints :: "Endpoint list"
  net_Gateways :: "Gateway list"

record ConfigSource =
  src_Address :: string

record ProxyStatsMatcher =
  psm_InclusionPrefixes :: "string list"
  psm_InclusionSuffixes :: "string list"
  psm_InclusionRegexps :: "string list"

record TracingLightstep =
  ls_Address :: string
  ls_AccessToken :: string

record TracingStackdriver =
  sd_Debug :: bool
  sd_MaxNumberOfAttributes :: "int64 option"
  sd_MaxNumberOfAnnotations :: "int64 option"
  sd_MaxNumberOfMessageEvents :: "int64 option"

text \<open>\<open>TracingZipkin\<close>, \<open>TracingDatadog\<close> and \<open>TracingOpencensusagent\<close> hold one address.\<close>

record TracingAddress =
  tr_Address :: string

record Tracing =
  tr_Zipkin :: "TracingAddress option"
  tr_Lightstep :: "TracingLightstep option"
  tr_Datadog :: "TracingAddress option"
  tr_Stackdriver :: "TracingStackdriver option"
  tr_OpenCensusAgent :: "TracingAddress option"

record ProxyConfig =
  px_DisableAlpnH2 :: bool
  px_MeshId :: string
  px_Tracing :: "Tracing option"
  px_DiscoveryAddress :: string
  px_ProxyStatsMatcher :: "ProxyStatsMatcher option"

record MeshConfig =
  mesh_TrustDomain :: string
  mesh_AccessLogEncoding :: string
  mesh_AccessLogFile :: string
  mesh_IngressControllerMode :: string
  mesh_AccessLogFormat :: string
  mesh_DnsRefreshRate :: string
  mesh_EnableAutoMtls :: bool
  mesh_EnablePrometheusMerge :: bool
  mesh_ProtocolDetectionTimeout :: string
  mesh_ConfigSources :: "ConfigSource list"
  mesh_DefaultConfig :: ProxyConfig
  mesh_RootNamespace :: string

record HigressGatewaySpec =
  gws_Common :: CRDCommonFields
  gws_Container :: ContainerCommonFields
  gws_NetWorkGateway :: string
  gws_Skywalking :: "Skywalking option"
  gws_RollingMaxSurge :: IntOrString
  gws_RollingMaxUnavailable :: IntOrString
  gws_MeshConfig :: MeshConfig
  gws_MeshNetworks :: "(string \<times> Network) list option"
  gws_VolumeWasmPlugins :: "string list"
  gws_HostNetwork :: bool
  gws_Scheduling :: "SchedulingPolicy option"

record HigressGatewayStatus =
  gst_Deployed :: bool
  gst_ObservedGeneration :: int64
  gst_EffectiveScaleMode :: AutoScalingMode
  gst_Conditions :: "Condition list"

record HigressGateway =
  gw_Meta :: ObjectMeta
  gw_Spec :: HigressGatewaySpec
  gw_Status :: HigressGatewayStatus

section \<open>higresscontroller types.go\<close>

record ControllerSpec =
  cs_Container :: ContainerCommonFields
  cs_GatewayName :: string
  cs_IngressClass :: string
  cs_WatchNamespace :: string
  cs_SDSTokenAud :: string

record PilotSpec =
  pl_Container :: ContainerCommonFields
  pl_TraceSampling :: string
  pl_JwksResolveExtraRootCA :: string
  pl_Plugins :: "string list"
  pl_KeepaliveMaxServerConnectionAge :: string
  pl_ClusterDomain :: string
  pl_OneNamespace :: bool
  pl_EnableProtocolSniffingForOutbound :: bool
  pl_EnableProtocolSniffingForInbound :: bool

record HigressControllerSpec =
  hcs_Common :: CRDCommonFields
  hcs_Controller :: ControllerSpec
  hcs_Pilot :: PilotSpec

record HigressControllerStatus =
  hcst_Deployed :: bool

record HigressController =
  hc_Meta :: ObjectMeta
  hc_Spec :: HigressControllerSpec
  hc_Status :: HigressControllerStatus

section \<open>Promoted fields\<close>

text \<open>Go reads the fields of the embedded structs straight off \<open>instance.Spec\<close>.\<close>

abbreviation gw_common :: "HigressGateway \<Rightarrow> CRDCommonFields" where
  "gw_common g \<equiv> gws_Common (gw_Spec g)"

abbreviation gw_container :: "HigressGateway \<Rightarrow> ContainerCommonFields" where
  "gw_container g \<equiv> gws_Container (gw_Spec g)"

abbreviation hc_common :: "HigressController \<Rightarrow> CRDCommonFields" where
  "hc_common c \<equiv> hcs_Common (hc_Spec c)"

abbreviation gw_Name :: "HigressGateway \<Rightarrow> string" where
  "gw_Name g \<equiv> om_Name (gw_Meta g)"

abbreviation gw_Namespace :: "HigressGateway \<Rightarrow> string" where
  "gw_Namespace g \<equiv> om_Namespace (gw_Meta g)"

abbreviation gw_Labels :: "HigressGateway \<Rightarrow> smap" where
  "gw_Labels g \<equiv> om_Labels (gw_Meta g)"

abbreviation gw_Annotations :: "HigressGateway \<Rightarrow> smap" where
  "gw_Annotations g \<equiv> om_Annotations (gw_Meta g)"

abbreviation hc_Name :: "HigressController \<Rightarrow> string" where
  "hc_Name c \<equiv> om_Name (hc_Meta c)"

abbreviation hc_Namespace :: "HigressController \<Rightarrow> string" where
  "hc_Namespace c \<equiv> om_Namespace (hc_Meta c)"

abbreviation hc_Labels :: "HigressController \<Rightarrow> smap" where
  "hc_Labels c \<equiv> om_Labels (hc_Meta c)"

text \<open>Updates through the embedded struct.\<close>

definition gw_common_upd :: "(CRDCommonFields \<Rightarrow> CRDCommonFields) \<Rightarrow> HigressGateway \<Rightarrow> HigressGateway" where
  "gw_common_upd f g = g\<lparr>gw_Spec := (gw_Spec g)\<lparr>gws_Common := f (gw_common g)\<rparr>\<rparr>"

definition hc_common_upd ::
  "(CRDCommonFields \<Rightarrow> CRDCommonFields) \<Rightarrow> HigressController \<Rightarrow> HigressController" where
  "hc_common_upd f c = c\<lparr>hc_Spec := (hc_Spec c)\<lparr>hcs_Common := f (hc_common c)\<rparr>\<rparr>"

lemma gw_common_upd_simps [simp]:
  "gw_Meta (gw_common_upd f g) = gw_Meta g"
  "gw_Status (gw_common_upd f g) = gw_Status g"
  "gw_common (gw_common_upd f g) = f (gw_common g)"
  "gw_container (gw_common_upd f g) = gw_container g"
  "gws_NetWorkGateway (gw_Spec (gw_common_upd f g)) = gws_NetWorkGateway (gw_Spec g)"
  "gws_Skywalking (gw_Spec (gw_common_upd f g)) = gws_Skywalking (gw_Spec g)"
  "gws_MeshConfig (gw_Spec (gw_common_upd f g)) = gws_MeshConfig (gw_Spec g)"
  "gws_Scheduling (gw_Spec (gw_common_upd f g)) = gws_Scheduling (gw_Spec g)"
  by (simp_all add: gw_common_upd_def)

lemma hc_common_upd_simps [simp]:
  "hc_Meta (hc_common_upd f c) = hc_Meta c"
  "hc_Status (hc_common_upd f c) = hc_Status c"
  "hc_common (hc_common_upd f c) = f (hc_common c)"
  "hcs_Controller (hc_Spec (hc_common_upd f c)) = hcs_Controller (hc_Spec c)"
  "hcs_Pilot (hc_Spec (hc_common_upd f c)) = hcs_Pilot (hc_Spec c)"
  by (simp_all add: hc_common_upd_def)

end
