(* ===== verification/Client.thy ===== *)
theory Client
  imports ApiTypes
begin

text \<open>
  The client through which both reconcilers reach the cluster and the helpers of
  \<open>internal/controller/utils.go\<close> and \<open>const.go\<close>.  The client is a Go interface, here a
  record of actions.  What the API server promises is the locale \<open>api_server\<close>; what
  \<open>CreateOrUpdate\<close> promises is the locale \<open>upsert\<close>, which the repository's own
  \<open>createOrUpdate\<close> satisfies over every such server.
\<close>

section \<open>Objects and keys\<close>

datatype kind =
    KServiceAccount | KClusterRole | KClusterRoleBinding | KRole | KRoleBinding
  | KConfigMap | KDeployment | KService | KHPA | KUnstructured GroupVersionKind
  | KNamespace | KHigressGateway | KHigressController

datatype kobj =
    OServiceAccount ServiceAccountObj
  | OClusterRole ClusterRole
  | OClusterRoleBinding ClusterRoleBinding
  | ORole Role
  | ORoleBinding RoleBinding
  | OConfigMap ConfigMap
  | ODeployment Deployment
  | OService ServiceObj
  | OHPA HPAv2
  | OUnstructured Unstructured
  | ONamespace Namespace
  | OHigressGateway HigressGateway
  | OHigressController HigressController

fun kind_of :: "kobj \<Rightarrow> kind" where
  "kind_of (OServiceAccount x) = KServiceAccount"
| "kind_of (OClusterRole x) = KClusterRole"
| "kind_of (OClusterRoleBinding x) = KClusterRoleBinding"
| "kind_of (ORole x) = KRole"
| "kind_of (ORoleBinding x) = KRoleBinding"
| "kind_of (OConfigMap x) = KConfigMap"
| "kind_of (ODeployment x) = KDeployment"
| "kind_of (OService x) = KService"
| "kind_of (OHPA x) = KHPA"
| "kind_of (OUnstructured x) = KUnstructured (un_GVK x)"
| "kind_of (ONamespace x) = KNamespace"
| "kind_of (OHigressGateway x) = KHigressGateway"
| "kind_of (OHigressController x) = KHigressController"

fun meta_of :: "kobj \<Rightarrow> ObjectMeta" where
  "meta_of (OServiceAccount x) = sao_Meta x"
| "meta_of (OClusterRole x) = cr_Meta x"
| "meta_of (OClusterRoleBinding x) = crb_Meta x"
| "meta_of (ORole x) = role_Meta x"
| "meta_of (ORoleBinding x) = rb_Meta x"
| "meta_of (OConfigMap x) = cm_Meta x"
| "meta_of (ODeployment x) = dep_Meta x"
| "meta_of (OService x) = svc_Meta x"
| "meta_of (OHPA x) = hpa_Meta x"
| "meta_of (OUnstructured x) = un_Meta x"
| "meta_of (ONamespace x) = ns_Meta x"
| "meta_of (OHigressGateway x) = gw_Meta x"
| "meta_of (OHigressController x) = hc_Meta x"

fun map_meta :: "(ObjectMeta \<Rightarrow> ObjectMeta) \<Rightarrow> kobj \<Rightarrow> kobj" where
  "map_meta f (OServiceAccount x) = OServiceAccount (x\<lparr>sao_Meta := f (sao_Meta x)\<rparr>)"
| "map_meta f (OClusterRole x) = OClusterRole (x\<lparr>cr_Meta := f (cr_Meta x)\<rparr>)"
| "map_meta f (OClusterRoleBinding x) = OClusterRoleBinding (x\<lparr>crb_Meta := f (crb_Meta x)\<rparr>)"
| "map_meta f (ORole x) = ORole (x\<lparr>role_Meta := f (role_Meta x)\<rparr>)"
| "map_meta f (ORoleBinding x) = ORoleBinding (x\<lparr>rb_Meta := f (rb_Meta x)\<rparr>)"
| "map_meta f (OConfigMap x) = OConfigMap (x\<lparr>cm_Meta := f (cm_Meta x)\<rparr>)"
| "map_meta f (ODeployment x) = ODeployment (x\<lparr>dep_Meta := f (dep_Meta x)\<rparr>)"
| "map_meta f (OService x) = OService (x\<lparr>svc_Meta := f (svc_Meta x)\<rparr>)"
| "map_meta f (OHPA x) = OHPA (x\<lparr>hpa_Meta := f (hpa_Meta x)\<rparr>)"
| "map_meta f (OUnstructured x) = OUnstructured (x\<lparr>un_Meta := f (un_Meta x)\<rparr>)"
| "map_meta f (ONamespace x) = ONamespace (x\<lparr>ns_Meta := f (ns_Meta x)\<rparr>)"
| "map_meta f (OHigressGateway x) = OHigressGateway (x\<lparr>gw_Meta := f (gw_Meta x)\<rparr>)"
| "map_meta f (OHigressController x) = OHigressController (x\<lparr>hc_Meta := f (hc_Meta x)\<rparr>)"

lemma map_meta_simps [simp]:
  "kind_of (map_meta f x) = kind_of x"
  "meta_of (map_meta f x) = f (meta_of x)"
  by (cases x; simp)+

text \<open>\<open>types.NamespacedName\<close>: the namespace, then the name; cluster-scoped objects have no namespace.\<close>

type_synonym nskey = "string \<times> string"
type_synonym objkey = "kind \<times> nskey"

definition nskey_of_meta :: "ObjectMeta \<Rightarrow> nskey" where
  "nskey_of_meta m = (om_Namespace m, om_Name m)"

definition ObjectKeyFromObject :: "kobj \<Rightarrow> nskey" where
  "ObjectKeyFromObject x = nskey_of_meta (meta_of x)"

definition objkey_of :: "kobj \<Rightarrow> objkey" where
  "objkey_of x = (kind_of x, ObjectKeyFromObject x)"

lemma nskey_of_meta_rest [simp]:
  "nskey_of_meta (m\<lparr>om_Labels := l\<rparr>) = nskey_of_meta m"
  "nskey_of_meta (m\<lparr>om_Annotations := a\<rparr>) = nskey_of_meta m"
  "nskey_of_meta (m\<lparr>om_Finalizers := fs\<rparr>) = nskey_of_meta m"
  "nskey_of_meta (m\<lparr>om_OwnerReferences := os\<rparr>) = nskey_of_meta m"
  by (simp_all add: nskey_of_meta_def)

section \<open>The client\<close>

text \<open>
  \<open>Get\<close> names the kind and the key and returns the object that Go writes into the
  pointer it is given; \<open>Create\<close>, \<open>Update\<close> and the status operations return the server's
  version, which Go writes back into the object passed.
\<close>

record 'w client =
  Get :: "kind \<Rightarrow> nskey \<Rightarrow> ('w, kobj) io"
  Create :: "kobj \<Rightarrow> ('w, kobj) io"
  Update :: "kobj \<Rightarrow> ('w, kobj) io"
  Delete :: "kobj \<Rightarrow> ('w, unit) io"
  StatusUpdate :: "kobj \<Rightarrow> ('w, kobj) io"
  StatusPatch :: "kobj \<Rightarrow> kobj \<Rightarrow> ('w, kobj) io"

section \<open>const.go and utils.go\<close>

definition HigressGatewayConfig :: string where
  "HigressGatewayConfig = ''higress-gateway-config''"

definition DefaultNamespace :: string where
  "DefaultNamespace = ''higress-system''"

datatype OperationResult =
  OperationResultNone | OperationResultCreated | OperationResultUpdated

text \<open>A \<open>controllerutil.MutateFn\<close> closes over the object; here it takes and returns it.\<close>

type_synonym mutateFn = "kobj \<Rightarrow> kobj res"

definition mutate :: "mutateFn \<Rightarrow> nskey \<Rightarrow> kobj \<Rightarrow> kobj res" where
  "mutate f key obj = bindR (f obj) (\<lambda>obj'.
     if key \<noteq> ObjectKeyFromObject obj'
     then Inl (Error (Errorf ''MutateFn cannot mutate object name and/or object namespace''))
     else Inr obj')"

definition createOrUpdate ::
  "(kobj \<Rightarrow> kobj \<Rightarrow> bool) \<Rightarrow> ('w, 'z) client_scheme \<Rightarrow> kobj \<Rightarrow> mutateFn \<Rightarrow>
   ('w, OperationResult \<times> kobj) io" where
  "createOrUpdate semEq c obj f =
    (let key = ObjectKeyFromObject obj in
     ifErr (Get c (kind_of obj) key)
      (\<lambda>err.
        if \<not> is_NotFound err then fail err
        else bindM (liftR (mutate f key obj)) (\<lambda>obj'.
             bindM (Create c obj') (\<lambda>created.
             ret (OperationResultCreated, created))))
      (\<lambda>existing.
        bindM (liftR (mutate f key existing)) (\<lambda>obj'.
        if semEq existing obj' then ret (OperationResultNone, obj')
        else bindM (Update c obj') (\<lambda>updated.
             ret (OperationResultUpdated, updated)))))"

text \<open>
  The exported wrapper calls \<open>controllerutil.CreateOrUpdate\<close> of controller-runtime, the
  parameter \<open>cou\<close>; the kind's name only reaches the log.
\<close>

definition CreateOrUpdate ::
  "(kobj \<Rightarrow> mutateFn \<Rightarrow> ('w, OperationResult \<times> kobj) io) \<Rightarrow> string \<Rightarrow> kobj \<Rightarrow> mutateFn \<Rightarrow>
   ('w, unit) io" where
  "CreateOrUpdate cou kindName obj f = bindM (cou obj f) (\<lambda>status. ret ())"

definition CreateIfNotExits :: "('w, 'z) client_scheme \<Rightarrow> kobj \<Rightarrow> ('w, bool) io" where
  "CreateIfNotExits c obj =
    ifErr (Create c obj)
      (\<lambda>err. if is_AlreadyExists err then ret True else fail err)
      (\<lambda>_. ret False)"

definition UpdateObjectMeta :: "ObjectMeta \<Rightarrow> ObjectMeta \<Rightarrow> smap \<Rightarrow> ObjectMeta" where
  "UpdateObjectMeta obj instanceMeta labels =
     obj\<lparr>om_Name := om_Name instanceMeta, om_Namespace := om_Namespace instanceMeta,
         om_Labels := labels\<rparr>"

text \<open>
  A mutation that keeps an object's kind, as Go's static types guarantee, and its
  finalizers.
\<close>

definition meta_stable :: "mutateFn \<Rightarrow> bool" where
  "meta_stable f \<longleftrightarrow> (\<forall>x y. f x = Inr y \<longrightarrow>
     kind_of y = kind_of x \<and> om_Finalizers (meta_of y) = om_Finalizers (meta_of x))"

text \<open>An object with a deletion timestamp and no finalizer left is removed by the server.\<close>

definition gone :: "kobj \<Rightarrow> bool" where
  "gone x \<longleftrightarrow> om_DeletionTimestamp (meta_of x) \<noteq> None \<and> om_Finalizers (meta_of x) = []"

text \<open>Deleted, or marked for deletion and waiting for its finalizers.\<close>

definition removed :: "kobj option \<Rightarrow> bool" where
  "removed ob = (case ob of None \<Rightarrow> True | Some x \<Rightarrow> om_DeletionTimestamp (meta_of x) \<noteq> None)"

lemma removed_None [simp]: "removed None"
  by (simp add: removed_def)

lemma removed_Some [simp]: "removed (Some x) \<longleftrightarrow> om_DeletionTimestamp (meta_of x) \<noteq> None"
  by (simp add: removed_def)

lemma mutate_ok [ok_simps]:
  "mutate f key obj = Inr y \<longleftrightarrow> f obj = Inr y \<and> ObjectKeyFromObject y = key"
  by (cases "f obj") (auto simp: mutate_def)

end
