(* ===== verification/Server.thy ===== *)
theory Server
  imports Client
begin

text \<open>
  The contracts between the operator and what it calls.  \<open>lookup\<close> is the view of the
  cluster a world holds; \<open>admits old x y\<close> says that the server may store \<open>y\<close> when \<open>x\<close>
  is submitted over \<open>old\<close> (it fills in defaults and the fields it manages itself).
  The laws are the documented behaviour of the API server towards a client that reads
  its own writes, with no other writer on the objects concerned.
\<close>

locale api_server =
  fixes c :: "('w, 'z) client_scheme"
    and lookup :: "'w \<Rightarrow> objkey \<Rightarrow> kobj option"
    and admits :: "kobj option \<Rightarrow> kobj \<Rightarrow> kobj \<Rightarrow> bool"
  assumes stored_key: "lookup w q = Some x \<Longrightarrow> objkey_of x = q"
    and stored_alive: "lookup w q = Some x \<Longrightarrow> \<not> gone x"
    and get_keeps: "keeps lookup (Get c k n)"
    and get_ok: "Get c k n w = (Inr x, w') \<Longrightarrow> lookup w (k, n) = Some x"
    and get_absent: "Get c k n w = (Inl (Error e), w') \<Longrightarrow> is_NotFound e \<or> is_NoMatch e \<Longrightarrow>
      lookup w (k, n) = None"
    and admits_key: "admits old x y \<Longrightarrow> objkey_of y = objkey_of x"
    and admits_finalizers: "admits old x y \<Longrightarrow>
      om_Finalizers (meta_of y) = om_Finalizers (meta_of x)"
    and admits_deletion: "admits old x y \<Longrightarrow>
      om_DeletionTimestamp (meta_of y) =
        (case old of None \<Rightarrow> None | Some z \<Rightarrow> om_DeletionTimestamp (meta_of z))"
    and create_frame: "q \<noteq> objkey_of x \<Longrightarrow> keeps (\<lambda>w. lookup w q) (Create c x)"
    and create_ok: "Create c x w = (Inr y, w') \<Longrightarrow>
      lookup w (objkey_of x) = None \<and> admits None x y \<and> lookup w' = (lookup w)(objkey_of x \<mapsto> y)"
    and create_exists: "Create c x w = (Inl (Error e), w') \<Longrightarrow> is_AlreadyExists e \<Longrightarrow>
      lookup w (objkey_of x) \<noteq> None \<and> lookup w' = lookup w"
    and update_frame: "q \<noteq> objkey_of x \<Longrightarrow> keeps (\<lambda>w. lookup w q) (Update c x)"
    and update_ok: "Update c x w = (Inr y, w') \<Longrightarrow>
      \<exists>old. lookup w (objkey_of x) = Some old \<and> admits (Some old) x y \<and>
        lookup w' = (lookup w)(objkey_of x := if gone y then None else Some y)"
    and delete_frame: "q \<noteq> objkey_of x \<Longrightarrow> keeps (\<lambda>w. lookup w q) (Delete c x)"
    and delete_ok: "Delete c x w = (Inr u, w') \<Longrightarrow> removed (lookup w' (objkey_of x))"
    and delete_absent: "Delete c x w = (Inl (Error e), w') \<Longrightarrow> is_NotFound e \<or> is_NoMatch e \<Longrightarrow>
      lookup w' (objkey_of x) = None"

text \<open>
  The status subresource of the two custom resources: it replaces the status and leaves
  the rest of the stored object alone.  A merge patch is a difference against \<open>base\<close>, so
  it is exact when the stored status is the one the patch was computed against.
\<close>

locale status_server = api_server c lookup admits
  for c :: "('w, 'z) client_scheme" and lookup admits +
  fixes same_but_rest :: "ObjectMeta \<Rightarrow> ObjectMeta \<Rightarrow> bool"
  assumes rest_only: "same_but_rest m m' \<longleftrightarrow> m\<lparr>om_rest := []\<rparr> = m'\<lparr>om_rest := []\<rparr>"
    and patch_frame: "q \<noteq> objkey_of x \<Longrightarrow> keeps (\<lambda>w. lookup w q) (StatusPatch c x base)"
    and patch_status_only: "lookup w (objkey_of (OHigressGateway g)) = Some (OHigressGateway cur) \<Longrightarrow>
      \<exists>cur'. lookup (snd (StatusPatch c (OHigressGateway g) base w)) (objkey_of (OHigressGateway g)) =
          Some (OHigressGateway cur') \<and>
        gw_Spec cur' = gw_Spec cur \<and> same_but_rest (gw_Meta cur') (gw_Meta cur)"
    and patch_ok: "StatusPatch c (OHigressGateway g) (OHigressGateway b) w = (Inr y, w') \<Longrightarrow>
      \<exists>cur cur'. lookup w (objkey_of (OHigressGateway g)) = Some (OHigressGateway cur) \<and>
        lookup w' = (lookup w)(objkey_of (OHigressGateway g) \<mapsto> OHigressGateway cur') \<and>
        gw_Spec cur' = gw_Spec cur \<and> same_but_rest (gw_Meta cur') (gw_Meta cur) \<and>
        (gw_Status cur = gw_Status b \<longrightarrow> gw_Status cur' = gw_Status g)"
    and supdate_frame: "q \<noteq> objkey_of x \<Longrightarrow> keeps (\<lambda>w. lookup w q) (StatusUpdate c x)"
    and supdate_ok: "StatusUpdate c (OHigressController h) w = (Inr y, w') \<Longrightarrow>
      \<exists>cur cur'. lookup w (objkey_of (OHigressController h)) = Some (OHigressController cur) \<and>
        lookup w' = (lookup w)(objkey_of (OHigressController h) \<mapsto> OHigressController cur') \<and>
        hc_Spec cur' = hc_Spec cur \<and> same_but_rest (hc_Meta cur') (hc_Meta cur) \<and>
        hc_Status cur' = hc_Status h"

section \<open>CreateOrUpdate as a contract\<close>

text \<open>
  What the reconcilers rely on in \<open>controllerutil.CreateOrUpdate\<close>.  \<open>in_sync\<close> is the
  state a successful call leaves: the stored object was admitted from a mutated object,
  or an object that the mutation does not change semantically.
\<close>

definition in_sync ::
  "(kobj option \<Rightarrow> kobj \<Rightarrow> kobj \<Rightarrow> bool) \<Rightarrow> (kobj \<Rightarrow> kobj \<Rightarrow> bool) \<Rightarrow> mutateFn \<Rightarrow> kobj \<Rightarrow> bool" where
  "in_sync admits semEq f x \<longleftrightarrow>
     (\<exists>old base y. f base = Inr y \<and> (admits old y x \<or> (x = base \<and> semEq base y)))"

locale upsert =
  fixes cou :: "kobj \<Rightarrow> mutateFn \<Rightarrow> ('w, OperationResult \<times> kobj) io"
    and lookup :: "'w \<Rightarrow> objkey \<Rightarrow> kobj option"
    and admits :: "kobj option \<Rightarrow> kobj \<Rightarrow> kobj \<Rightarrow> bool"
    and semEq :: "kobj \<Rightarrow> kobj \<Rightarrow> bool"
  assumes upsert_frame: "meta_stable f \<Longrightarrow> q \<noteq> objkey_of obj \<Longrightarrow>
      keeps (\<lambda>w. lookup w q) (cou obj f)"
    and upsert_create: "cou obj f w = (Inr (r, y), w') \<Longrightarrow> meta_stable f \<Longrightarrow>
      lookup w (objkey_of obj) = None \<Longrightarrow>
      r = OperationResultCreated \<and>
      (\<exists>x. f obj = Inr x \<and> objkey_of x = objkey_of obj \<and> admits None x y \<and>
         lookup w' = (lookup w)(objkey_of obj \<mapsto> y))"
    and upsert_update: "cou obj f w = (Inr (r, y), w') \<Longrightarrow> meta_stable f \<Longrightarrow>
      lookup w (objkey_of obj) = Some old \<Longrightarrow>
      \<exists>x. f old = Inr x \<and> objkey_of x = objkey_of obj \<and>
        (r = OperationResultNone \<and> semEq old x \<and> lookup w' = lookup w
       \<or> r = OperationResultUpdated \<and> \<not> semEq old x \<and> admits (Some old) x y \<and>
         lookup w' = (lookup w)(objkey_of obj := if gone y then None else Some y))"
    and upsert_blocked: "meta_stable f \<Longrightarrow>
      (\<And>x. x = obj \<or> lookup w (objkey_of obj) = Some x \<Longrightarrow> \<exists>e. f x = Inl e) \<Longrightarrow>
      lookup (snd (cou obj f w)) = lookup w \<and> (\<exists>e. fst (cou obj f w) = Inl e)"
begin

lemma upsert_in_sync:
  assumes run: "cou obj f w = (Inr ry, w')" and f: "meta_stable f"
    and stored: "lookup w' (objkey_of obj) = Some x"
  shows "in_sync admits semEq f x"
proof -
  obtain r y where ry: "ry = (r, y)" by (cases ry)
  show ?thesis
  proof (cases "lookup w (objkey_of obj)")
    case None
    from upsert_create [OF run [unfolded ry] f None] stored
    have "\<exists>x'. f obj = Inr x' \<and> admits None x' x" by auto
    then show ?thesis unfolding in_sync_def by blast
  next
    case (Some old)
    from upsert_update [OF run [unfolded ry] f Some] stored Some
    have "\<exists>x'. f old = Inr x' \<and> (x = old \<and> semEq old x' \<or> admits (Some old) x' x)"
      by (auto split: if_splits)
    then show ?thesis unfolding in_sync_def by blast
  qed
qed

text \<open>No write happens when the stored object is already what the mutation asks for.\<close>

lemma upsert_noop:
  assumes run: "cou obj f w = (Inr (r, y), w')" and f: "meta_stable f"
    and stored: "lookup w (objkey_of obj) = Some x" and fx: "f x = Inr x'" and eq: "semEq x x'"
  shows "r = OperationResultNone \<and> lookup w' = lookup w"
  using upsert_update [OF run f stored] fx eq by auto

end

text \<open>The wrapper \<open>CreateOrUpdate\<close> keeps the contract's facts.\<close>

context upsert
begin

lemma CreateOrUpdate_frame:
  "meta_stable f \<Longrightarrow> q \<noteq> objkey_of obj \<Longrightarrow> keeps (\<lambda>w. lookup w q) (CreateOrUpdate cou n obj f)"
  unfolding CreateOrUpdate_def by (intro keeps_intro upsert_frame)

lemma CreateOrUpdate_in_sync:
  assumes "CreateOrUpdate cou n obj f w = (Inr u, w')" and "meta_stable f"
    and "lookup w' (objkey_of obj) = Some x"
  shows "in_sync admits semEq f x"
  using assms by (auto simp: CreateOrUpdate_def ok_simps intro: upsert_in_sync)

lemma CreateOrUpdate_blocked:
  assumes "meta_stable f"
    and "\<And>x. x = obj \<or> lookup w (objkey_of obj) = Some x \<Longrightarrow> \<exists>e. f x = Inl e"
  shows "lookup (snd (CreateOrUpdate cou n obj f w)) = lookup w"
    and "\<exists>e. fst (CreateOrUpdate cou n obj f w) = Inl e"
proof -
  obtain e w1 where "cou obj f w = (Inl e, w1)" and "lookup w1 = lookup w"
    using upsert_blocked [where f = f and w = w and obj = obj, OF assms] by (metis prod.collapse)
  then show "lookup (snd (CreateOrUpdate cou n obj f w)) = lookup w"
    and "\<exists>e. fst (CreateOrUpdate cou n obj f w) = Inl e"
    by (simp_all add: CreateOrUpdate_def bindM_run)
qed

end

section \<open>The repository's createOrUpdate satisfies the contract\<close>

context api_server
begin

lemma get_frame [keeps_intro]: "keeps (\<lambda>w. lookup w q) (Get c k n)"
  using get_keeps by (simp add: keeps_def)

lemma get_bind_frame:
  "(\<And>x. objkey_of x = (k, n) \<Longrightarrow> keeps (\<lambda>w. lookup w q) (K x)) \<Longrightarrow>
   keeps (\<lambda>w. lookup w q) (bindM (Get c k n) K)"
  by (rule keeps_bindM_run [OF get_frame]) (auto dest: get_ok stored_key)

lemma get_ifErr_frame:
  "(\<And>e. keeps (\<lambda>w. lookup w q) (h e)) \<Longrightarrow>
   (\<And>x. objkey_of x = (k, n) \<Longrightarrow> keeps (\<lambda>w. lookup w q) (K x)) \<Longrightarrow>
   keeps (\<lambda>w. lookup w q) (ifErr (Get c k n) h K)"
  by (rule keeps_ifErr_run [OF get_frame]) (auto dest: get_ok stored_key)

lemma get_lookup: "Get c k n w = (r, w') \<Longrightarrow> lookup w' = lookup w"
  by (rule keepsD [OF get_keeps])

lemma mutate_objkey:
  assumes "meta_stable f" and "mutate f (ObjectKeyFromObject x) z = Inr y" and "kind_of z = kind_of x"
  shows "objkey_of y = objkey_of x"
  using assms by (auto simp: ok_simps objkey_of_def meta_stable_def)

lemma createOrUpdate_frame:
  assumes f: "meta_stable f" and q: "q \<noteq> objkey_of obj"
  shows "keeps (\<lambda>w. lookup w q) (createOrUpdate semEq c obj f)"
proof -
  have "lookup (snd (createOrUpdate semEq c obj f w)) q = lookup w q" for w
  proof (cases "Get c (kind_of obj) (ObjectKeyFromObject obj) w")
    case (Pair r w1)
    note get = Pair
    then have w1: "lookup w1 = lookup w" by (rule get_lookup)
    have step: "lookup (snd (m w1)) q = lookup w q" if "keeps (\<lambda>w. lookup w q) m" for m :: "('w, OperationResult \<times> kobj) io"
      using that w1 by (simp add: keeps_def)
    show ?thesis
    proof (cases r)
      case (Inr old)
      with get have "lookup w (kind_of obj, ObjectKeyFromObject obj) = Some old"
        by (auto dest: get_ok)
      then have old: "kind_of old = kind_of obj"
        by (auto dest: stored_key simp: objkey_of_def)
      show ?thesis
      proof (cases "mutate f (ObjectKeyFromObject obj) old")
        case (Inl e)
        then show ?thesis using get Inr w1
          by (simp add: createOrUpdate_def Let_def ifErr_run bindM_run)
      next
        case r2: (Inr y)
        with f old have "objkey_of y = objkey_of obj" by (auto intro: mutate_objkey)
        with q have "keeps (\<lambda>w. lookup w q) (Update c y)" by (auto intro: update_frame)
        then show ?thesis using get Inr w1 r2
          by (auto simp: createOrUpdate_def Let_def ifErr_run bindM_run intro!: step keeps_intro)
      qed
    next
      case (Inl e)
      show ?thesis
      proof (cases "mutate f (ObjectKeyFromObject obj) obj")
        case r2: (Inl e')
        then show ?thesis using get Inl w1
          by (cases e) (auto simp: createOrUpdate_def Let_def ifErr_run bindM_run)
      next
        case r2: (Inr y)
        with f have "objkey_of y = objkey_of obj" by (auto intro: mutate_objkey)
        with q have "keeps (\<lambda>w. lookup w q) (Create c y)" by (auto intro: create_frame)
        then show ?thesis using get Inl w1 r2
          by (cases e) (auto simp: createOrUpdate_def Let_def ifErr_run bindM_run intro!: step keeps_intro)
      qed
    qed
  qed
  then show ?thesis by (simp add: keeps_def)
qed

text \<open>A successful run, by the two branches of \<open>createOrUpdate\<close>.\<close>

lemma createOrUpdate_ok:
  assumes run: "createOrUpdate semEq c obj f w = (Inr (r, y), w')" and f: "meta_stable f"
  shows "(lookup w (objkey_of obj) = None \<and> r = OperationResultCreated \<and>
          (\<exists>x. f obj = Inr x \<and> objkey_of x = objkey_of obj \<and> admits None x y \<and>
             lookup w' = (lookup w)(objkey_of obj \<mapsto> y)))
       \<or> (\<exists>old x. lookup w (objkey_of obj) = Some old \<and> f old = Inr x \<and> objkey_of x = objkey_of obj \<and>
           (r = OperationResultNone \<and> semEq old x \<and> lookup w' = lookup w
          \<or> r = OperationResultUpdated \<and> \<not> semEq old x \<and> admits (Some old) x y \<and>
            lookup w' = (lookup w)(objkey_of obj := if gone y then None else Some y)))"
proof (cases "Get c (kind_of obj) (ObjectKeyFromObject obj) w")
  case (Pair g w1)
  note get = Pair
  then have w1: "lookup w1 = lookup w" by (rule get_lookup)
  show ?thesis
  proof (cases g)
    case (Inl e)
    with run get obtain err x where e: "e = Error err" and nf: "is_NotFound err"
      and x: "mutate f (ObjectKeyFromObject obj) obj = Inr x" and r: "r = OperationResultCreated"
      and cr: "Create c x w1 = (Inr y, w')"
      by (cases e) (auto simp: createOrUpdate_def Let_def ifErr_run ok_simps split: if_splits)
    from x f have key: "objkey_of x = objkey_of obj" by (auto intro: mutate_objkey)
    from get_absent [of _ _ w err w1] get Inl e nf
    have "lookup w (objkey_of obj) = None" by (simp add: objkey_of_def)
    moreover from create_ok [OF cr] key w1
    have "admits None x y" and "lookup w' = (lookup w)(objkey_of obj \<mapsto> y)" by auto
    moreover from x have "f obj = Inr x" by (simp add: ok_simps)
    ultimately show ?thesis using r key by blast
  next
    case (Inr old)
    with get have stored: "lookup w (objkey_of obj) = Some old"
      by (auto dest: get_ok simp: objkey_of_def)
    then have kind: "kind_of old = kind_of obj"
      by (auto dest: stored_key simp: objkey_of_def)
    from run get Inr obtain x where x: "mutate f (ObjectKeyFromObject obj) old = Inr x"
      and rest: "if semEq old x then r = OperationResultNone \<and> w' = w1
         else r = OperationResultUpdated \<and> Update c x w1 = (Inr y, w')"
      by (auto simp: createOrUpdate_def Let_def ifErr_run ok_simps split: if_splits)
    from x f kind have key: "objkey_of x = objkey_of obj" by (auto intro: mutate_objkey)
    from x have fx: "f old = Inr x" by (simp add: ok_simps)
    show ?thesis
    proof (cases "semEq old x")
      case True
      with rest stored fx key w1 show ?thesis by auto
    next
      case False
      with rest have r: "r = OperationResultUpdated" and "Update c x w1 = (Inr y, w')" by auto
      from update_ok [OF this(2)] key w1 stored
      have "admits (Some old) x y"
        and "lookup w' = (lookup w)(objkey_of obj := if gone y then None else Some y)" by auto
      with False r stored fx key show ?thesis by blast
    qed
  qed
qed

lemma createOrUpdate_blocked:
  assumes f: "meta_stable f"
    and bad: "\<And>x. x = obj \<or> lookup w (objkey_of obj) = Some x \<Longrightarrow> \<exists>e. f x = Inl e"
  shows "lookup (snd (createOrUpdate semEq c obj f w)) = lookup w \<and>
    (\<exists>e. fst (createOrUpdate semEq c obj f w) = Inl e)"
proof (cases "Get c (kind_of obj) (ObjectKeyFromObject obj) w")
  case (Pair g w1)
  note get = Pair
  then have w1: "lookup w1 = lookup w" by (rule get_lookup)
  have stop: "\<exists>e. mutate f k x = Inl e" if "x = obj \<or> lookup w (objkey_of obj) = Some x" for k x
    using bad [OF that] by (auto simp: mutate_def)
  show ?thesis
  proof (cases g)
    case (Inl e)
    moreover obtain e1 where "mutate f (ObjectKeyFromObject obj) obj = Inl e1"
      using stop by blast
    ultimately show ?thesis using get w1
      by (cases e) (auto simp: createOrUpdate_def Let_def ifErr_run bindM_run)
  next
    case (Inr old)
    with get have "lookup w (objkey_of obj) = Some old"
      by (auto dest: get_ok simp: objkey_of_def)
    then obtain e1 where "mutate f (ObjectKeyFromObject obj) old = Inl e1"
      using stop by blast
    with get w1 Inr show ?thesis
      by (auto simp: createOrUpdate_def Let_def ifErr_run bindM_run)
  qed
qed

end

sublocale api_server \<subseteq> cou: upsert "createOrUpdate semEq c" lookup admits semEq for semEq
proof (unfold_locales, goal_cases)
  case (1 f q obj)
  then show ?case by (rule createOrUpdate_frame)
next
  case (2 obj f w r y w')
  with createOrUpdate_ok [OF 2(1,2)] show ?case by auto
next
  case (3 obj f w r y w' old)
  with createOrUpdate_ok [OF 3(1,2)] show ?case by auto
next
  case (4 f obj w)
  then show ?case by (rule createOrUpdate_blocked)
qed

context api_server begin

lemma createOrUpdate_upsert: "upsert (createOrUpdate semEq c) lookup admits semEq"
  by (rule cou.upsert_axioms)

end

end
