(* ===== verification/Lib.thy ===== *)
theory Lib
  imports Server
begin

text \<open>
  The third-party functions the operator calls, as one record of parameters: nothing is
  assumed about them here.  The documented behaviour a proof relies on is stated in the
  locales below, one for each function with a contract.
\<close>

record 'w lib =
  SetControllerReference :: "kobj \<Rightarrow> kobj \<Rightarrow> kobj res"
  ctrlCreateOrUpdate :: "'w client \<Rightarrow> kobj \<Rightarrow> mutateFn \<Rightarrow> ('w, OperationResult \<times> kobj) io"
  ContainsFinalizer :: "kobj \<Rightarrow> string \<Rightarrow> bool"
  AddFinalizer :: "kobj \<Rightarrow> string \<Rightarrow> kobj \<times> bool"
  RemoveFinalizer :: "kobj \<Rightarrow> string \<Rightarrow> kobj"
  SetStatusCondition :: "Condition list \<Rightarrow> Condition \<Rightarrow> Condition list"
  StatusDeepEqual :: "HigressGatewayStatus \<Rightarrow> HigressGatewayStatus \<Rightarrow> bool"
  MarshalNetworks :: "(string \<times> Network) list option \<Rightarrow> goerr + string"
  MarshalStringMap :: "(string \<times> string) list \<Rightarrow> goerr + string"
  MarshalMeshConfig :: "MeshConfig \<Rightarrow> goerr + string"
  IsZero :: "quantity \<Rightarrow> bool"

text \<open>\<open>CreateOrUpdate(ctx, r.Client, ...)\<close> of a reconciler, whose client is embedded in it.\<close>

definition upsertObj ::
  "'w lib \<Rightarrow> ('w, 'z) client_scheme \<Rightarrow> string \<Rightarrow> kobj \<Rightarrow> mutateFn \<Rightarrow> ('w, unit) io" where
  "upsertObj L r = CreateOrUpdate (ctrlCreateOrUpdate L (client.truncate r))"

section \<open>meta.SetStatusCondition\<close>

text \<open>
  \<open>meta.SetStatusCondition\<close> sets the condition of the given type: an existing one is
  overwritten in place, a new one is appended.  The time of the last transition is
  the server clock's and is left open.
\<close>

fun findCondition :: "string \<Rightarrow> Condition list \<Rightarrow> Condition option" where
  "findCondition t [] = None"
| "findCondition t (x # xs) = (if cond_Type x = t then Some x else findCondition t xs)"

definition untimed :: "Condition \<Rightarrow> Condition" where
  "untimed x = x\<lparr>cond_LastTransitionTime := []\<rparr>"

locale status_conditions =
  fixes setc :: "Condition list \<Rightarrow> Condition \<Rightarrow> Condition list"
  assumes set_types: "map cond_Type (setc cs x) =
      (if cond_Type x \<in> set (map cond_Type cs) then map cond_Type cs
       else map cond_Type cs @ [cond_Type x])"
    and set_same: "map_option untimed (findCondition (cond_Type x) (setc cs x)) = Some (untimed x)"
    and set_other: "t \<noteq> cond_Type x \<Longrightarrow> findCondition t (setc cs x) = findCondition t cs"
begin

lemma set_distinct: "distinct (map cond_Type cs) \<Longrightarrow> distinct (map cond_Type (setc cs x))"
  by (simp add: set_types)

lemma set_find:
  "map_option untimed (findCondition t (setc cs x)) =
     (if t = cond_Type x then Some (untimed x) else map_option untimed (findCondition t cs))"
  by (simp add: set_same set_other)

lemma set_type_set:
  "set (map cond_Type (setc cs x)) = insert (cond_Type x) (set (map cond_Type cs))"
  by (auto simp: set_types)

end

text \<open>
  The documented algorithm at a given clock reading; \<open>lib\<close>'s instance in the examples
  below.
\<close>

fun setCondition :: "string \<Rightarrow> Condition list \<Rightarrow> Condition \<Rightarrow> Condition list" where
  "setCondition now [] x = [x\<lparr>cond_LastTransitionTime := now\<rparr>]"
| "setCondition now (y # ys) x =
     (if cond_Type y = cond_Type x
      then x\<lparr>cond_LastTransitionTime :=
             (if cond_Status y = cond_Status x then cond_LastTransitionTime y else now)\<rparr> # ys
      else y # setCondition now ys x)"

interpretation documented: status_conditions "setCondition now" for now
proof (unfold_locales, goal_cases)
  case (1 cs x)
  show ?case by (induction cs) auto
next
  case (2 x cs)
  show ?case by (induction cs) (auto simp: untimed_def)
next
  case (3 t x cs)
  then show ?case by (induction cs) auto
qed

section \<open>ctrl.SetControllerReference\<close>

text \<open>
  \<open>SetControllerReference\<close> adds the owner to the object's owner references and touches
  nothing else of it; it fails when another controller owns the object already.
\<close>

locale controller_refs =
  fixes setref :: "kobj \<Rightarrow> kobj \<Rightarrow> kobj res"
  assumes setref_ok: "setref owner x = Inr y \<Longrightarrow>
      \<exists>refs. y = map_meta (\<lambda>m. m\<lparr>om_OwnerReferences := refs\<rparr>) x"
begin

lemma setref_key: "setref owner x = Inr y \<Longrightarrow> objkey_of y = objkey_of x"
  by (drule setref_ok) (auto simp: objkey_of_def ObjectKeyFromObject_def)

end

definition addOwner :: "kobj \<Rightarrow> kobj \<Rightarrow> kobj res" where
  "addOwner owner x =
     (if list_ex or_Controller (om_OwnerReferences (meta_of x))
      then Inl (Error (OtherError ''AlreadyOwnedError''))
      else Inr (map_meta (\<lambda>m. m\<lparr>om_OwnerReferences := om_OwnerReferences m @
        [\<lparr>or_Kind = (case owner of OHigressGateway g \<Rightarrow> ''HigressGateway'' | _ \<Rightarrow> ''HigressController''),
          or_Name = om_Name (meta_of owner), or_UID = om_rest (meta_of owner), or_Controller = True\<rparr>]\<rparr>) x))"

lemma map_meta_cong: "f (meta_of x) = g (meta_of x) \<Longrightarrow> map_meta f x = map_meta g x"
  by (cases x) auto

interpretation owned: controller_refs addOwner
proof (unfold_locales, goal_cases)
  case (1 owner x y)
  then have "\<exists>refs. y = map_meta (\<lambda>m. m\<lparr>om_OwnerReferences := om_OwnerReferences m @ refs\<rparr>) x"
    by (auto simp: addOwner_def split: if_splits)
  then obtain refs where y: "y = map_meta (\<lambda>m. m\<lparr>om_OwnerReferences := om_OwnerReferences m @ refs\<rparr>) x"
    by blast
  have "y = map_meta (\<lambda>m. m\<lparr>om_OwnerReferences := om_OwnerReferences (meta_of x) @ refs\<rparr>) x"
    unfolding y by (rule map_meta_cong) simp
  then show ?case by blast
qed

section \<open>controllerutil: finalizers\<close>

text \<open>
  \<open>AddFinalizer\<close> appends a finalizer that is not there yet and tells whether it did;
  \<open>RemoveFinalizer\<close> drops every occurrence.  Both change the object in place, here they
  return it.
\<close>

definition set_finalizers :: "string list \<Rightarrow> kobj \<Rightarrow> kobj" where
  "set_finalizers fs = map_meta (\<lambda>m. m\<lparr>om_Finalizers := fs\<rparr>)"

locale finalizer_utils =
  fixes has :: "kobj \<Rightarrow> string \<Rightarrow> bool"
    and add :: "kobj \<Rightarrow> string \<Rightarrow> kobj \<times> bool"
    and remove :: "kobj \<Rightarrow> string \<Rightarrow> kobj"
  assumes has_iff: "has x f \<longleftrightarrow> f \<in> set (om_Finalizers (meta_of x))"
    and add_new: "f \<notin> set (om_Finalizers (meta_of x)) \<Longrightarrow>
      add x f = (set_finalizers (om_Finalizers (meta_of x) @ [f]) x, True)"
    and add_old: "f \<in> set (om_Finalizers (meta_of x)) \<Longrightarrow> add x f = (x, False)"
    and remove_eq: "remove x f = set_finalizers (filter (\<lambda>h. h \<noteq> f) (om_Finalizers (meta_of x))) x"
begin

lemma add_has: "add x f = (y, ch) \<Longrightarrow> has y f"
  by (cases "f \<in> set (om_Finalizers (meta_of x))")
    (auto simp: has_iff add_new add_old set_finalizers_def)

lemma remove_has: "\<not> has (remove x f) f"
  by (simp add: has_iff remove_eq set_finalizers_def)

end

definition hasFinalizer :: "kobj \<Rightarrow> string \<Rightarrow> bool" where
  "hasFinalizer x f \<longleftrightarrow> f \<in> set (om_Finalizers (meta_of x))"

definition addFinalizer :: "kobj \<Rightarrow> string \<Rightarrow> kobj \<times> bool" where
  "addFinalizer x f =
     (if hasFinalizer x f then (x, False)
      else (set_finalizers (om_Finalizers (meta_of x) @ [f]) x, True))"

definition removeFinalizer :: "kobj \<Rightarrow> string \<Rightarrow> kobj" where
  "removeFinalizer x f = set_finalizers (filter (\<lambda>h. h \<noteq> f) (om_Finalizers (meta_of x))) x"

interpretation finalizing: finalizer_utils hasFinalizer addFinalizer removeFinalizer
  by unfold_locales (simp_all add: hasFinalizer_def addFinalizer_def removeFinalizer_def)

lemma set_finalizers_simps [simp]:
  "kind_of (set_finalizers fs x) = kind_of x"
  "meta_of (set_finalizers fs x) = (meta_of x)\<lparr>om_Finalizers := fs\<rparr>"
  "objkey_of (set_finalizers fs x) = objkey_of x"
  by (simp_all add: set_finalizers_def objkey_of_def ObjectKeyFromObject_def)

section \<open>What both reconcilers read\<close>

text \<open>The typed \<open>Get\<close> of a custom resource and of a namespace.\<close>

definition asGateway :: "kobj \<Rightarrow> HigressGateway res" where
  "asGateway x = (case x of OHigressGateway g \<Rightarrow> Inr g | _ \<Rightarrow> Inl (Panic WrongType))"

definition asController :: "kobj \<Rightarrow> HigressController res" where
  "asController x = (case x of OHigressController h \<Rightarrow> Inr h | _ \<Rightarrow> Inl (Panic WrongType))"

definition asNamespace :: "kobj \<Rightarrow> Namespace res" where
  "asNamespace x = (case x of ONamespace n \<Rightarrow> Inr n | _ \<Rightarrow> Inl (Panic WrongType))"

definition asClusterRoleBinding :: "kobj \<Rightarrow> ClusterRoleBinding res" where
  "asClusterRoleBinding x =
     (case x of OClusterRoleBinding crb \<Rightarrow> Inr crb | _ \<Rightarrow> Inl (Panic WrongType))"

lemma as_ok [ok_simps]:
  "asGateway x = Inr g \<longleftrightarrow> x = OHigressGateway g"
  "asController x = Inr h \<longleftrightarrow> x = OHigressController h"
  "asNamespace x = Inr n \<longleftrightarrow> x = ONamespace n"
  "asClusterRoleBinding x = Inr crb \<longleftrightarrow> x = OClusterRoleBinding crb"
  by (auto simp: asGateway_def asController_def asNamespace_def asClusterRoleBinding_def split: kobj.splits)

text \<open>
  The namespace check: on every error of the read the reconcile ends without an error,
  as it does for an absent or terminating namespace.
\<close>

definition namespaceActive :: "('w, 'z) client_scheme \<Rightarrow> string \<Rightarrow> ('w, bool) io" where
  "namespaceActive r ns =
     ifErr (Get r KNamespace ('''', ns))
       (\<lambda>err. ret False)
       (\<lambda>x. bindM (liftR (asNamespace x)) (\<lambda>n. ret (ns_Phase n \<noteq> ''Terminating'')))"

end
