(* ===== verification/RbacCommon.thy ===== *)
theory RbacCommon
  imports Client
begin

text \<open>
  The loops over the subjects of a role binding that \<open>rbac.go\<close> and the finalizers of both
  controllers share: adding the instance's service account, and dropping it again.
\<close>

text \<open>
  \<open>for _, sub := range Subjects { if reflect.DeepEqual(sub, subject) { return } }\<close>,
  then \<open>append\<close>.
\<close>

fun ensureSubject :: "Subject \<Rightarrow> Subject list \<Rightarrow> Subject list" where
  "ensureSubject s [] = [s]"
| "ensureSubject s (x # xs) = (if x = s then x # xs else x # ensureSubject s xs)"

text \<open>The loop of the finalizers: keep the subjects that differ in name or namespace.\<close>

fun dropSubjects :: "string \<Rightarrow> string \<Rightarrow> Subject list \<Rightarrow> Subject list" where
  "dropSubjects name ns [] = []"
| "dropSubjects name ns (x # xs) =
     (if sub_Name x \<noteq> name \<or> sub_Namespace x \<noteq> ns then x # dropSubjects name ns xs
      else dropSubjects name ns xs)"

definition serviceAccountSubject :: "string \<Rightarrow> string \<Rightarrow> Subject" where
  "serviceAccountSubject name ns =
     \<lparr>sub_Kind = ''ServiceAccount'', sub_APIGroup = '''', sub_Name = name, sub_Namespace = ns\<rparr>"

lemma serviceAccountSubject_sel [simp]:
  "sub_Kind (serviceAccountSubject n m) = ''ServiceAccount''"
  "sub_Name (serviceAccountSubject n m) = n"
  "sub_Namespace (serviceAccountSubject n m) = m"
  by (simp_all add: serviceAccountSubject_def)

lemma ensureSubject_append: "ensureSubject s xs = (if s \<in> set xs then xs else xs @ [s])"
  by (induction xs) auto

lemma set_ensureSubject [simp]: "set (ensureSubject s xs) = insert s (set xs)"
  by (auto simp: ensureSubject_append)

lemma ensureSubject_idem [simp]: "ensureSubject s (ensureSubject s xs) = ensureSubject s xs"
  by (simp add: ensureSubject_append)

lemma distinct_ensureSubject: "distinct xs \<Longrightarrow> distinct (ensureSubject s xs)"
  by (simp add: ensureSubject_append)

lemma dropSubjects_filter:
  "dropSubjects name ns xs = filter (\<lambda>x. sub_Name x \<noteq> name \<or> sub_Namespace x \<noteq> ns) xs"
  by (induction xs) auto

lemma dropSubjects_append: "dropSubjects n m (xs @ ys) = dropSubjects n m xs @ dropSubjects n m ys"
  by (simp add: dropSubjects_filter)

text \<open>
  Finalizing undoes what reconciling added, and touches no subject of another service
  account.
\<close>

lemma dropSubjects_ensureSubject:
  "dropSubjects name ns (ensureSubject (serviceAccountSubject name ns) xs) = dropSubjects name ns xs"
  by (auto simp: ensureSubject_append dropSubjects_append)

lemma dropSubjects_others:
  "s \<in> set (dropSubjects name ns xs) \<longleftrightarrow> s \<in> set xs \<and> (sub_Name s \<noteq> name \<or> sub_Namespace s \<noteq> ns)"
  by (simp add: dropSubjects_filter)

lemma dropSubjects_fresh:
  "(\<And>s. s \<in> set xs \<Longrightarrow> sub_Name s \<noteq> name \<or> sub_Namespace s \<noteq> ns) \<Longrightarrow> dropSubjects name ns xs = xs"
  by (simp add: dropSubjects_filter filter_id_conv)

end
