(* ===== verification/GwRbac.thy ===== *)
theory GwRbac
  imports Lib RbacCommon
begin

text \<open>
  \<open>internal/controller/higressgateway\<close>: \<open>serviceAccount.go\<close> and \<open>rbac.go\<close>.  A name the two
  controller packages both use carries the suffix \<open>_gw\<close> here.
\<close>

section \<open>serviceAccount.go\<close>

definition getServiceAccount_gw :: "HigressGateway \<Rightarrow> string res" where
  "getServiceAccount_gw g =
     bindR (deref (crd_ServiceAccount (gw_common g))) (\<lambda>sa.
     if sa_Name sa \<noteq> '''' then Inr (sa_Name sa) else Inr (gw_Name g))"

definition initServiceAccount_gw :: "HigressGateway \<Rightarrow> ServiceAccountObj res" where
  "initServiceAccount_gw g =
     bindR (getServiceAccount_gw g) (\<lambda>name.
     bindR (deref (crd_ServiceAccount (gw_common g))) (\<lambda>sa.
     Inr \<lparr>sao_Meta = zeroMeta\<lparr>om_Namespace := gw_Namespace g, om_Name := name,
            om_Labels := gw_Labels g, om_Annotations := sa_Annotations sa\<rparr>, sao_rest = []\<rparr>))"

section \<open>rbac.go\<close>

definition role_gw :: string where "role_gw = ''higress-gateway''"

definition clusterRole_gw :: string where "clusterRole_gw = ''higress-gateway''"

definition defaultRules_gw :: "PolicyRule list" where
  "defaultRules_gw =
     [\<lparr>rule_Verbs = [''get'', ''list'', ''watch'', ''update'', ''delete''],
       rule_APIGroups = [''''], rule_Resources = [''secrets''], rule_ResourceNames = []\<rparr>]"

definition initClusterRole_gw :: "HigressGateway \<Rightarrow> ClusterRole" where
  "initClusterRole_gw g =
     \<lparr>cr_Meta = zeroMeta\<lparr>om_Name := clusterRole_gw\<rparr>, cr_Rules = defaultRules_gw, cr_rest = []\<rparr>"

definition muteClusterRole_gw :: "HigressGateway \<Rightarrow> mutateFn" where
  "muteClusterRole_gw g x = (case x of
      OClusterRole cr \<Rightarrow> Inr (OClusterRole (cr\<lparr>cr_Rules := defaultRules_gw\<rparr>))
    | _ \<Rightarrow> Inl (Panic WrongType))"

definition updateClusterRoleBinding_gw ::
  "ClusterRoleBinding \<Rightarrow> HigressGateway \<Rightarrow> ClusterRoleBinding res" where
  "updateClusterRoleBinding_gw crb g =
     bindR (getServiceAccount_gw g) (\<lambda>name.
     Inr (crb\<lparr>crb_RoleRef := \<lparr>rref_APIGroup = ''rbac.authorization.k8s.io'',
                rref_Kind = ''ClusterRole'', rref_Name = clusterRole_gw\<rparr>,
              crb_Subjects := ensureSubject (serviceAccountSubject name (gw_Namespace g))
                (crb_Subjects crb)\<rparr>))"

definition initClusterRoleBinding_gw :: "HigressGateway \<Rightarrow> ClusterRoleBinding res" where
  "initClusterRoleBinding_gw g =
     bindR (getServiceAccount_gw g) (\<lambda>name.
     updateClusterRoleBinding_gw
       \<lparr>crb_Meta = zeroMeta\<lparr>om_Name := name\<rparr>, crb_Subjects = [], crb_RoleRef = zeroRoleRef\<rparr> g)"

definition muteClusterRoleBinding_gw :: "HigressGateway \<Rightarrow> mutateFn" where
  "muteClusterRoleBinding_gw g x = (case x of
      OClusterRoleBinding crb \<Rightarrow>
        bindR (updateClusterRoleBinding_gw crb g) (\<lambda>crb'. Inr (OClusterRoleBinding crb'))
    | _ \<Rightarrow> Inl (Panic WrongType))"

definition initRoleBinding_gw :: "HigressGateway \<Rightarrow> RoleBinding res" where
  "initRoleBinding_gw g =
     bindR (getServiceAccount_gw g) (\<lambda>name.
     Inr \<lparr>rb_Meta = zeroMeta\<lparr>om_Name := role_gw, om_Namespace := gw_Namespace g\<rparr>,
          rb_Subjects = [serviceAccountSubject name (gw_Namespace g)],
          rb_RoleRef = \<lparr>rref_APIGroup = ''rbac.authorization.k8s.io'',
            rref_Kind = ''Role'', rref_Name = name\<rparr>\<rparr>)"

definition updateRoleBinding_gw :: "RoleBinding \<Rightarrow> HigressGateway \<Rightarrow> RoleBinding res" where
  "updateRoleBinding_gw rb g =
     bindR (getServiceAccount_gw g) (\<lambda>name.
     Inr (rb\<lparr>rb_RoleRef := \<lparr>rref_APIGroup = ''rbac.authorization.k8s.io'',
               rref_Kind = ''Role'', rref_Name = role_gw\<rparr>,
             rb_Subjects := ensureSubject (serviceAccountSubject name (gw_Namespace g))
               (rb_Subjects rb)\<rparr>))"

definition muteRoleBinding_gw :: "HigressGateway \<Rightarrow> mutateFn" where
  "muteRoleBinding_gw g x = (case x of
      ORoleBinding rb \<Rightarrow> bindR (updateRoleBinding_gw rb g) (\<lambda>rb'. Inr (ORoleBinding rb'))
    | _ \<Rightarrow> Inl (Panic WrongType))"

definition initRole_gw :: "HigressGateway \<Rightarrow> Role" where
  "initRole_gw g =
     \<lparr>role_Meta = zeroMeta\<lparr>om_Name := role_gw, om_Namespace := gw_Namespace g\<rparr>,
      role_Rules = defaultRules_gw\<rparr>"

definition muteRole_gw :: "HigressGateway \<Rightarrow> mutateFn" where
  "muteRole_gw g x = (case x of
      ORole ro \<Rightarrow> Inr (ORole (ro\<lparr>role_Rules := defaultRules_gw\<rparr>))
    | _ \<Rightarrow> Inl (Panic WrongType))"

section \<open>Facts\<close>

lemma getServiceAccount_gw_Some:
  "crd_ServiceAccount (gw_common g) = Some sa \<Longrightarrow>
   getServiceAccount_gw g = Inr (if sa_Name sa \<noteq> '''' then sa_Name sa else gw_Name g)"
  by (simp add: getServiceAccount_gw_def)

lemma updateBinding_gw_meta:
  "updateClusterRoleBinding_gw crb g = Inr crb' \<Longrightarrow> crb_Meta crb' = crb_Meta crb"
  "updateRoleBinding_gw rb g = Inr rb' \<Longrightarrow> rb_Meta rb' = rb_Meta rb"
  by (auto simp: updateClusterRoleBinding_gw_def updateRoleBinding_gw_def ok_simps)

lemma meta_stable_rbac_gw [simp, intro]:
  "meta_stable (muteClusterRole_gw g)"
  "meta_stable (muteClusterRoleBinding_gw g)"
  "meta_stable (muteRoleBinding_gw g)"
  "meta_stable (muteRole_gw g)"
  by (auto simp: meta_stable_def muteClusterRole_gw_def muteClusterRoleBinding_gw_def
      muteRoleBinding_gw_def muteRole_gw_def ok_simps updateBinding_gw_meta split: kobj.splits)

lemma initClusterRole_gw_key [simp]:
  "objkey_of (OClusterRole (initClusterRole_gw g)) = (KClusterRole, ('''', clusterRole_gw))"
  by (simp add: objkey_of_def ObjectKeyFromObject_def nskey_of_meta_def initClusterRole_gw_def zeroMeta_def)

lemma initRole_gw_key [simp]:
  "objkey_of (ORole (initRole_gw g)) = (KRole, (gw_Namespace g, role_gw))"
  by (simp add: objkey_of_def ObjectKeyFromObject_def nskey_of_meta_def initRole_gw_def)

lemma initClusterRoleBinding_gw_key:
  "initClusterRoleBinding_gw g = Inr crb \<Longrightarrow> getServiceAccount_gw g = Inr n \<Longrightarrow>
   objkey_of (OClusterRoleBinding crb) = (KClusterRoleBinding, ('''', n))"
  by (auto simp: objkey_of_def ObjectKeyFromObject_def nskey_of_meta_def zeroMeta_def
      initClusterRoleBinding_gw_def updateClusterRoleBinding_gw_def)

lemma initRoleBinding_gw_key:
  "initRoleBinding_gw g = Inr rb \<Longrightarrow>
   objkey_of (ORoleBinding rb) = (KRoleBinding, (gw_Namespace g, role_gw))"
  by (auto simp: objkey_of_def ObjectKeyFromObject_def nskey_of_meta_def zeroMeta_def
      initRoleBinding_gw_def ok_simps)

lemma initServiceAccount_gw_key:
  "initServiceAccount_gw g = Inr x \<Longrightarrow> getServiceAccount_gw g = Inr n \<Longrightarrow>
   objkey_of (OServiceAccount x) = (KServiceAccount, (gw_Namespace g, n))"
  by (auto simp: objkey_of_def ObjectKeyFromObject_def nskey_of_meta_def zeroMeta_def
      initServiceAccount_gw_def ok_simps)

text \<open>Mutating twice is mutating once.\<close>

lemma muteClusterRoleBinding_gw_idem:
  "muteClusterRoleBinding_gw g x = Inr y \<Longrightarrow> muteClusterRoleBinding_gw g y = Inr y"
  by (auto simp: muteClusterRoleBinding_gw_def updateClusterRoleBinding_gw_def ok_simps
      split: kobj.splits)

lemma muteRoleBinding_gw_idem:
  "muteRoleBinding_gw g x = Inr y \<Longrightarrow> muteRoleBinding_gw g y = Inr y"
  by (auto simp: muteRoleBinding_gw_def updateRoleBinding_gw_def ok_simps split: kobj.splits)

end
