(* ===== verification/GwScaling.thy ===== *)
theory GwScaling
  imports Lib
begin

text \<open>
  The pure part of \<open>higressgateway_controller.go\<close>: defaulting, the effective autoscaling
  mode and the validation of the autoscaling section.
\<close>

section \<open>setDefaultValues\<close>

definition defaultSelector_gw :: smap where
  "defaultSelector_gw = Some [(''app'', ''higress-gateway''),
     (''higress'', ''higress-system-higress-gateway'')]"

definition defaultService_gw :: Service where
  "defaultService_gw =
     \<lparr>sv_Type = ''LoadBalancer'',
      sv_Ports =
        [\<lparr>sp_Name = ''http2'', sp_Protocol = ''TCP'', sp_Port = 80, sp_TargetPort = FromInt 80, sp_rest = []\<rparr>,
         \<lparr>sp_Name = ''https'', sp_Protocol = ''TCP'', sp_Port = 443, sp_TargetPort = FromInt 443, sp_rest = []\<rparr>],
      sv_Annotations = None, sv_LoadBalancerIP = '''', sv_LoadBalancerSourceRanges = [],
      sv_ExternalTrafficPolicy = ''''\<rparr>"

definition setDefaultCommon_gw :: "CRDCommonFields \<Rightarrow> CRDCommonFields" where
  "setDefaultCommon_gw c0 =
    (let c1 = (case crd_RBAC c0 of None \<Rightarrow> c0\<lparr>crd_RBAC := Some \<lparr>rbac_Enable = True\<rparr>\<rparr> | Some _ \<Rightarrow> c0);
         c2 = (case crd_ServiceAccount c1 of
                 None \<Rightarrow> c1\<lparr>crd_ServiceAccount := Some
                   \<lparr>sa_Enable = True, sa_Name = ''higress-gateway'', sa_Annotations = None\<rparr>\<rparr>
               | Some _ \<Rightarrow> c1);
         c3 = (case crd_Replicas c2 of None \<Rightarrow> c2\<lparr>crd_Replicas := Some 1\<rparr> | Some _ \<Rightarrow> c2);
         c4 = (if mlen (crd_SelectorLabels c3) = 0
               then c3\<lparr>crd_SelectorLabels := defaultSelector_gw\<rparr> else c3)
     in (case crd_Service c4 of None \<Rightarrow> c4\<lparr>crd_Service := Some defaultService_gw\<rparr> | Some _ \<Rightarrow> c4))"

definition setDefaultValues_gw :: "HigressGateway \<Rightarrow> HigressGateway" where
  "setDefaultValues_gw g =
    (let g1 = gw_common_upd setDefaultCommon_gw g
     in (case gws_Skywalking (gw_Spec g1) of
           None \<Rightarrow> g1\<lparr>gw_Spec := (gw_Spec g1)\<lparr>gws_Skywalking := Some
             \<lparr>sky_Enable = False, sky_Port = None, sky_Address = '''', sky_CustomBootStrap = ''''\<rparr>\<rparr>\<rparr>
         | Some _ \<Rightarrow> g1))"

section \<open>Autoscaling mode\<close>

definition getEffectiveScaleMode :: "HigressGateway \<Rightarrow> AutoScalingMode" where
  "getEffectiveScaleMode g = (case crd_AutoScaling (gw_common g) of
      None \<Rightarrow> AutoScalingModeDisabled
    | Some as \<Rightarrow>
        if \<not> as_Enable as then AutoScalingModeDisabled
        else if as_Mode as \<noteq> '''' then as_Mode as
        else (case as_KEDA as of Some _ \<Rightarrow> AutoScalingModeKEDA | None \<Rightarrow> AutoScalingModeNativeHPA))"

definition shouldPreserveReplicas :: "HigressGateway \<Rightarrow> bool" where
  "shouldPreserveReplicas g \<longleftrightarrow> getEffectiveScaleMode g \<noteq> AutoScalingModeDisabled"

section \<open>Validation\<close>

record validationError =
  ve_reason :: string
  ve_message :: string

text \<open>\<open>for _, trigger := range as.KEDA.Triggers\<close>: an empty type is an error.\<close>

fun validateTriggers :: "KEDAScaleTrigger list \<Rightarrow> validationError option" where
  "validateTriggers [] = None"
| "validateTriggers (t # ts) =
     (if kt_Type t = ''''
      then Some \<lparr>ve_reason = ''InvalidKEDATrigger'',
        ve_message = ''spec.autoScaling.keda.triggers.type must not be empty''\<rparr>
      else validateTriggers ts)"

definition missingCPURequest :: validationError where
  "missingCPURequest = \<lparr>ve_reason = ''MissingCPURequest'',
     ve_message = ''spec.resources.requests.cpu is required when autoscaling mode is NativeHPA''\<rparr>"

text \<open>
  The branch of \<open>switch\<close> for the effective mode; \<open>fmt\<close>'s \<open>%q\<close> is written for a mode
  without characters to escape.
\<close>

definition validateMode ::
  "(quantity \<Rightarrow> bool) \<Rightarrow> HigressGateway \<Rightarrow> AutoScaling \<Rightarrow> validationError option" where
  "validateMode isZero g as =
    (if getEffectiveScaleMode g = AutoScalingModeNativeHPA then
       (if as_TargetCPUUtilizationPercentage as = None
        then Some \<lparr>ve_reason = ''MissingCPUTarget'', ve_message =
          ''spec.autoScaling.targetCPUUtilizationPercentage is required when autoscaling mode is NativeHPA''\<rparr>
        else (case con_Resources (gw_container g) of
            None \<Rightarrow> Some missingCPURequest
          | Some res \<Rightarrow> (case rr_Requests res of
              None \<Rightarrow> Some missingCPURequest
            | Some reqs \<Rightarrow> (case map_of reqs ''cpu'' of
                None \<Rightarrow> Some missingCPURequest
              | Some cpuRequest \<Rightarrow> if isZero cpuRequest then Some missingCPURequest else None))))
     else if getEffectiveScaleMode g = AutoScalingModeKEDA then
       (case as_KEDA as of
          None \<Rightarrow> Some \<lparr>ve_reason = ''MissingKEDAConfig'', ve_message =
            ''spec.autoScaling.keda is required when autoscaling mode is KEDA''\<rparr>
        | Some keda \<Rightarrow>
            if length (kc_Triggers keda) = 0
            then Some \<lparr>ve_reason = ''MissingKEDATriggers'', ve_message =
              ''spec.autoScaling.keda.triggers must contain at least one trigger when autoscaling mode is KEDA''\<rparr>
            else validateTriggers (kc_Triggers keda))
     else Some \<lparr>ve_reason = ''UnsupportedAutoscalingMode'', ve_message =
       ''unsupported autoscaling mode '' @ [CHR 0x22] @ getEffectiveScaleMode g @ [CHR 0x22]\<rparr>)"

text \<open>
  \<open>instance.Spec.AutoScaling\<close> is dereferenced only after the mode is known not to be
  \<open>Disabled\<close>, so it is never nil there.
\<close>

definition validateAutoscalingConfig ::
  "(quantity \<Rightarrow> bool) \<Rightarrow> HigressGateway \<Rightarrow> validationError option res" where
  "validateAutoscalingConfig isZero g =
    (if getEffectiveScaleMode g = AutoScalingModeDisabled then Inr None
     else if crd_Local (gw_common g) then
       Inr (Some \<lparr>ve_reason = ''LocalModeUnsupported'',
         ve_message = ''autoscaling cannot be enabled when spec.local=true''\<rparr>)
     else bindR (deref (crd_AutoScaling (gw_common g))) (\<lambda>as.
       if (case as_MinReplicas as of None \<Rightarrow> False | Some mn \<Rightarrow> sint (as_MaxReplicas as) < sint mn)
       then Inr (Some \<lparr>ve_reason = ''InvalidReplicaBounds'', ve_message =
         ''spec.autoScaling.maxReplicas must be greater than or equal to spec.autoScaling.minReplicas''\<rparr>)
       else Inr (validateMode isZero g as)))"

section \<open>Facts\<close>

lemmas mode_defs = AutoScalingModeDisabled_def AutoScalingModeNativeHPA_def AutoScalingModeKEDA_def

lemma modes_distinct [simp]:
  "AutoScalingModeDisabled \<noteq> AutoScalingModeNativeHPA"
  "AutoScalingModeDisabled \<noteq> AutoScalingModeKEDA"
  "AutoScalingModeNativeHPA \<noteq> AutoScalingModeDisabled"
  "AutoScalingModeNativeHPA \<noteq> AutoScalingModeKEDA"
  "AutoScalingModeKEDA \<noteq> AutoScalingModeDisabled"
  "AutoScalingModeKEDA \<noteq> AutoScalingModeNativeHPA"
  by (simp_all add: mode_defs)

lemma setDefaultCommon_gw_other [simp]:
  "crd_AutoScaling (setDefaultCommon_gw c) = crd_AutoScaling c"
  "crd_Local (setDefaultCommon_gw c) = crd_Local c"
  "crd_JwtPolicy (setDefaultCommon_gw c) = crd_JwtPolicy c"
  "crd_EnableHigressIstio (setDefaultCommon_gw c) = crd_EnableHigressIstio c"
  "crd_NodeSelector (setDefaultCommon_gw c) = crd_NodeSelector c"
  "crd_Affinity (setDefaultCommon_gw c) = crd_Affinity c"
  "crd_Toleration (setDefaultCommon_gw c) = crd_Toleration c"
  "crd_PodSecurityContext (setDefaultCommon_gw c) = crd_PodSecurityContext c"
  "crd_EnableStatus (setDefaultCommon_gw c) = crd_EnableStatus c"
  "crd_EnableIstioAPI (setDefaultCommon_gw c) = crd_EnableIstioAPI c"
  "crd_IstioNamespace (setDefaultCommon_gw c) = crd_IstioNamespace c"
  "crd_Revision (setDefaultCommon_gw c) = crd_Revision c"
  "crd_Istiod (setDefaultCommon_gw c) = crd_Istiod c"
  "crd_MultiCluster (setDefaultCommon_gw c) = crd_MultiCluster c"
  by (simp_all add: setDefaultCommon_gw_def Let_def split: option.split)

lemma setDefaultCommon_gw_fields:
  "crd_RBAC (setDefaultCommon_gw c) =
     Some (case crd_RBAC c of None \<Rightarrow> \<lparr>rbac_Enable = True\<rparr> | Some r \<Rightarrow> r)"
  "crd_ServiceAccount (setDefaultCommon_gw c) = Some (case crd_ServiceAccount c of
     None \<Rightarrow> \<lparr>sa_Enable = True, sa_Name = ''higress-gateway'', sa_Annotations = None\<rparr> | Some s \<Rightarrow> s)"
  "crd_Replicas (setDefaultCommon_gw c) = Some (case crd_Replicas c of None \<Rightarrow> 1 | Some n \<Rightarrow> n)"
  "crd_SelectorLabels (setDefaultCommon_gw c) =
     (if mlen (crd_SelectorLabels c) = 0 then defaultSelector_gw else crd_SelectorLabels c)"
  "crd_Service (setDefaultCommon_gw c) =
     Some (case crd_Service c of None \<Rightarrow> defaultService_gw | Some s \<Rightarrow> s)"
  by (simp_all add: setDefaultCommon_gw_def Let_def split: option.split)

lemma setDefaultValues_gw_simps [simp]:
  "gw_Meta (setDefaultValues_gw g) = gw_Meta g"
  "gw_Status (setDefaultValues_gw g) = gw_Status g"
  "gw_common (setDefaultValues_gw g) = setDefaultCommon_gw (gw_common g)"
  "gw_container (setDefaultValues_gw g) = gw_container g"
  "gws_NetWorkGateway (gw_Spec (setDefaultValues_gw g)) = gws_NetWorkGateway (gw_Spec g)"
  by (simp_all add: setDefaultValues_gw_def Let_def split: option.split)

lemma setDefaultValues_gw_skywalking:
  "gws_Skywalking (gw_Spec (setDefaultValues_gw g)) =
     Some (case gws_Skywalking (gw_Spec g) of
        None \<Rightarrow> \<lparr>sky_Enable = False, sky_Port = None, sky_Address = '''', sky_CustomBootStrap = ''''\<rparr>
      | Some s \<Rightarrow> s)"
  by (simp add: setDefaultValues_gw_def Let_def split: option.split)

lemma mode_setDefaultValues [simp]:
  "getEffectiveScaleMode (setDefaultValues_gw g) = getEffectiveScaleMode g"
  by (simp add: getEffectiveScaleMode_def)

lemma setDefaultCommon_gw_idem [simp]:
  "setDefaultCommon_gw (setDefaultCommon_gw c) = setDefaultCommon_gw c"
  by (rule CRDCommonFields.equality)
    (simp_all add: setDefaultCommon_gw_fields defaultSelector_gw_def split: option.split)

lemma setDefaultValues_gw_idem [simp]:
  "setDefaultValues_gw (setDefaultValues_gw g) = setDefaultValues_gw g"
proof -
  have "gw_common_upd setDefaultCommon_gw (setDefaultValues_gw g) = setDefaultValues_gw g"
    by (auto simp: setDefaultValues_gw_def gw_common_upd_def Let_def split: option.split)
  then show ?thesis
    unfolding setDefaultValues_gw_def [of "setDefaultValues_gw g"] Let_def
    by (simp add: setDefaultValues_gw_skywalking)
qed

lemma mode_not_disabled_Some:
  "getEffectiveScaleMode g \<noteq> AutoScalingModeDisabled \<Longrightarrow> \<exists>as. crd_AutoScaling (gw_common g) = Some as"
  by (auto simp: getEffectiveScaleMode_def split: option.splits)

lemma validateTriggers_None:
  "validateTriggers ts = None \<longleftrightarrow> (\<forall>t \<in> set ts. kt_Type t \<noteq> '''')"
  by (induction ts) auto

text \<open>Validation never panics, and what it accepts is a mode the reconciler handles.\<close>

lemma validate_total: "\<exists>v. validateAutoscalingConfig isZero g = Inr v"
  using mode_not_disabled_Some [of g]
  by (auto simp: validateAutoscalingConfig_def)

lemma validate_ok_mode:
  assumes "validateAutoscalingConfig isZero g = Inr None"
  shows "getEffectiveScaleMode g \<in> {AutoScalingModeDisabled, AutoScalingModeNativeHPA, AutoScalingModeKEDA}"
  using assms
  by (auto simp: validateAutoscalingConfig_def validateMode_def ok_simps split: if_splits)

lemma validate_ok_native:
  assumes "validateAutoscalingConfig isZero g = Inr None"
    and "getEffectiveScaleMode g = AutoScalingModeNativeHPA"
  obtains as where "crd_AutoScaling (gw_common g) = Some as"
    and "as_TargetCPUUtilizationPercentage as \<noteq> None"
    and "\<And>mn. as_MinReplicas as = Some mn \<Longrightarrow> sint mn \<le> sint (as_MaxReplicas as)"
  using assms
  by (auto simp: validateAutoscalingConfig_def validateMode_def ok_simps split: if_splits option.splits)

lemma validate_ok_keda:
  assumes "validateAutoscalingConfig isZero g = Inr None"
    and "getEffectiveScaleMode g = AutoScalingModeKEDA"
  obtains as keda where "crd_AutoScaling (gw_common g) = Some as" and "as_KEDA as = Some keda"
    and "kc_Triggers keda \<noteq> []"
    and "\<And>mn. as_MinReplicas as = Some mn \<Longrightarrow> sint mn \<le> sint (as_MaxReplicas as)"
  using assms
  by (fastforce simp: validateAutoscalingConfig_def validateMode_def ok_simps split: if_splits option.splits)

end
