(* ===== verification/Workload.thy ===== *)
theory Workload
  imports Lib
begin

text \<open>
  Vocabulary shared by the two \<open>deployment.go\<close> files: environment entries, the loops over
  maps, and what it means for the mounts of a container to fit the volumes of its pod.
\<close>

definition envField :: "string \<Rightarrow> string \<Rightarrow> string \<Rightarrow> EnvVar" where
  "envField name apiVersion path = \<lparr>ev_Name = name, ev_Value = '''',
     ev_ValueFrom = Some (FieldRef \<lparr>fs_APIVersion = apiVersion, fs_FieldPath = path\<rparr>)\<rparr>"

definition envValue :: "string \<Rightarrow> string \<Rightarrow> EnvVar" where
  "envValue name val = \<lparr>ev_Name = name, ev_Value = val, ev_ValueFrom = None\<rparr>"

definition mount :: "string \<Rightarrow> string \<Rightarrow> bool \<Rightarrow> VolumeMount" where
  "mount name path ro = \<lparr>vm_Name = name, vm_ReadOnly = ro, vm_MountPath = path\<rparr>"

definition volume :: "string \<Rightarrow> VolumeSource \<Rightarrow> Volume" where
  "volume name src = \<lparr>vol_Name = name, vol_Source = src\<rparr>"

lemma workload_sel [simp]:
  "ev_Name (envField n a p) = n"
  "ev_Name (envValue n v) = n"
  "vm_Name (mount n p r) = n"
  "vm_MountPath (mount n p r) = p"
  "vol_Name (volume n s) = n"
  "vol_Source (volume n s) = s"
  by (simp_all add: envField_def envValue_def mount_def volume_def)

text \<open>
  Go ranges over a map in an order the language leaves open, anew for every loop.  The
  order is a parameter wherever the result depends on it.
\<close>

type_synonym rangeOrder = "(string \<times> string) list \<Rightarrow> (string \<times> string) list"

definition range_order :: "rangeOrder \<Rightarrow> bool" where
  "range_order ord \<longleftrightarrow> (\<forall>xs. mset (ord xs) = mset xs)"

definition envOfMap :: "rangeOrder \<Rightarrow> smap \<Rightarrow> EnvVar list" where
  "envOfMap ord m = map (\<lambda>(k, v). envValue k v) (ord (mentries m))"

lemma mset_envOfMap:
  assumes "range_order ord" and "range_order ord'"
  shows "mset (envOfMap ord m) = mset (envOfMap ord' m)"
proof -
  have "mset (ord (mentries m)) = mset (ord' (mentries m))"
    using assms by (simp add: range_order_def)
  then show ?thesis by (simp add: envOfMap_def)
qed

lemma range_order_id: "range_order (\<lambda>xs. xs)" and range_order_rev: "range_order rev"
  by (simp_all add: range_order_def)

section \<open>Well-formed pods\<close>

text \<open>
  The API server rejects a pod whose container mounts a volume the pod does not declare,
  or that declares a volume or a container twice.
\<close>

definition mounts_fit :: "PodSpec \<Rightarrow> bool" where
  "mounts_fit p \<longleftrightarrow> (\<forall>ct \<in> set (ps_Containers p). \<forall>m \<in> set (ct_VolumeMounts ct).
     vm_Name m \<in> vol_Name ` set (ps_Volumes p))"

definition pod_wellformed :: "PodSpec \<Rightarrow> bool" where
  "pod_wellformed p \<longleftrightarrow> mounts_fit p \<and> distinct (map vol_Name (ps_Volumes p)) \<and>
     distinct (map ct_Name (ps_Containers p)) \<and>
     (\<forall>ct \<in> set (ps_Containers p). distinct (map vm_MountPath (ct_VolumeMounts ct)))"

section \<open>copyStringMap\<close>

fun copyEntries :: "(string \<times> string) list \<Rightarrow> (string \<times> string) list \<Rightarrow> (string \<times> string) list" where
  "copyEntries acc [] = acc"
| "copyEntries acc ((k, v) # xs) = copyEntries (AList.update k v acc) xs"

definition copyStringMap :: "smap \<Rightarrow> smap" where
  "copyStringMap source =
     (if mlen source = 0 then None else Some (copyEntries [] (mentries source)))"

lemma map_of_copyEntries:
  "distinct (map fst xs) \<Longrightarrow> map_of (copyEntries acc xs) = map_of acc ++ map_of xs"
  by (induction acc xs rule: copyEntries.induct)
    (simp_all add: update_conv' map_add_upd_left dom_map_of_conv_image_fst)

lemma mlookup_copyStringMap: "mwf m \<Longrightarrow> mlookup (copyStringMap m) k = mlookup m k"
  by (cases m) (simp_all add: copyStringMap_def map_of_copyEntries mwf_def)

lemma copyStringMap_None: "copyStringMap m = None \<longleftrightarrow> mlen m = 0"
  by (simp add: copyStringMap_def)

end
