(* ===== verification/GwDeployment.thy ===== *)
theory GwDeployment
  imports GwScaling Workload
begin

text \<open>\<open>internal/controller/higressgateway/deployment.go\<close>.\<close>

definition instanceName :: string where "instanceName = ''higress-gateway''"

section \<open>Pod template metadata\<close>

text \<open>The loop of \<open>buildPodTemplateLabels\<close>: a label that exists already is skipped.\<close>

fun mergeLabels :: "(string \<times> string) list \<Rightarrow> (string \<times> string) list \<Rightarrow> (string \<times> string) list" where
  "mergeLabels labels [] = labels"
| "mergeLabels labels ((key, val) # xs) = (case map_of labels key of
      Some _ \<Rightarrow> mergeLabels labels xs
    | None \<Rightarrow> mergeLabels (AList.update key val labels) xs)"

definition buildPodTemplateLabels :: "HigressGateway \<Rightarrow> smap" where
  "buildPodTemplateLabels g =
    (let labels = copyStringMap (crd_SelectorLabels (gw_common g))
     in (case gws_Scheduling (gw_Spec g) of
           None \<Rightarrow> labels
         | Some sched \<Rightarrow>
             if mlen (sch_Labels sched) = 0 then labels
             else Some (mergeLabels (mentries labels) (mentries (sch_Labels sched)))))"

definition buildPodTemplateAnnotations :: "HigressGateway \<Rightarrow> smap" where
  "buildPodTemplateAnnotations g = (case gws_Scheduling (gw_Spec g) of
      None \<Rightarrow> None | Some sched \<Rightarrow> copyStringMap (sch_Annotations sched))"

definition getSchedulerName :: "HigressGateway \<Rightarrow> string" where
  "getSchedulerName g = (case gws_Scheduling (gw_Spec g) of
      None \<Rightarrow> '''' | Some sched \<Rightarrow> sch_SchedulerName sched)"

definition getPriorityClassName :: "HigressGateway \<Rightarrow> string" where
  "getPriorityClassName g = (case gws_Scheduling (gw_Spec g) of
      None \<Rightarrow> '''' | Some sched \<Rightarrow> sch_PriorityClassName sched)"

section \<open>The gateway container\<close>

definition genProbe :: "HigressGateway \<Rightarrow> Probe option" where
  "genProbe g = Some \<lparr>pr_HTTPGet = Some \<lparr>hg_Path = ''/healthz/ready'', hg_Port = FromInt 15021,
       hg_Scheme = ''HTTP''\<rparr>,
     pr_InitialDelaySeconds = 1, pr_TimeoutSeconds = 3, pr_PeriodSeconds = 2,
     pr_SuccessThreshold = 1, pr_FailureThreshold = 30, pr_rest = []\<rparr>"

definition genPorts :: "HigressGateway \<Rightarrow> ContainerPort list" where
  "genPorts g =
    (if length (con_Ports (gw_container g)) > 0 then con_Ports (gw_container g)
     else
       let ports = [\<lparr>cp_Name = ''http-envoy-prom'', cp_HostPort = 0, cp_ContainerPort = 15090,
                     cp_Protocol = ''TCP''\<rparr>]
       in if crd_Local (gw_common g)
          then ports @
            [\<lparr>cp_Name = ''http'', cp_HostPort = 80, cp_ContainerPort = 80, cp_Protocol = ''TCP''\<rparr>,
             \<lparr>cp_Name = ''https'', cp_HostPort = 443, cp_ContainerPort = 443, cp_Protocol = ''TCP''\<rparr>]
          else ports)"

definition skywalkingEnabled :: "HigressGateway \<Rightarrow> bool" where
  "skywalkingEnabled g \<longleftrightarrow>
     (case gws_Skywalking (gw_Spec g) of None \<Rightarrow> False | Some s \<Rightarrow> sky_Enable s)"

definition genEnv :: "rangeOrder \<Rightarrow> HigressGateway \<Rightarrow> EnvVar list" where
  "genEnv ord g =
     [envField ''NODE_NAME'' ''v1'' ''spec.nodeName'',
      envField ''POD_NAME'' ''v1'' ''metadata.name'',
      envField ''POD_NAMESPACE'' ''v1'' ''metadata.namespace'',
      envField ''INSTANCE_IP'' ''v1'' ''status.podIP'',
      envField ''HOST_IP'' ''v1'' ''status.hostIP'',
      envField ''SERVICE_ACCOUNT'' ''v1'' ''spec.serviceAccountName'',
      envValue ''PROXY_XDS_VIA_AGENT'' ''true'',
      envValue ''ENABLE_INGRESS_GATEWAY_SDS'' ''false'',
      envValue ''JWT_POLICY'' (crd_JwtPolicy (gw_common g)),
      envValue ''ISTIO_META_HTTP10'' ''1'',
      envValue ''ISTIO_META_CLUSTER_ID'' ''Kubernetes'',
      envValue ''INSTANCE_NAME'' instanceName]
   @ (if skywalkingEnabled g
      then [envValue ''ISTIO_BOOTSTRAP_OVERRIDE'' ''/etc/istio/custom-bootstrap/custom_bootstrap.json'']
      else [])
   @ (if gws_NetWorkGateway (gw_Spec g) \<noteq> ''''
      then [envValue ''ISTIO_META_REQUESTED_NETWORK_VIEW'' (gws_NetWorkGateway (gw_Spec g))]
      else [])
   @ envOfMap ord (con_Env (gw_container g))"

definition genImage_gw :: "HigressGateway \<Rightarrow> string" where
  "genImage_gw g = img_Repository (con_Image (gw_container g)) @ '':'' @ img_Tag (con_Image (gw_container g))"

definition genArgs :: "HigressGateway \<Rightarrow> string list" where
  "genArgs g = [''proxy'', ''router'', ''--domain'', gw_Namespace g @ ''.svc.cluster.local'',
     ''--proxyLogLevel=warning'', ''--proxyComponentLogLevel=misc:error'',
     ''--log_output_level=all:info'', ''--serviceCluster=higress-gateway'']"

definition genSecurityContextForContainer :: "HigressGateway \<Rightarrow> SecurityContext option" where
  "genSecurityContextForContainer g = (case con_SecurityContext (gw_container g) of
      Some s \<Rightarrow> Some s
    | None \<Rightarrow> Some \<lparr>sc_CapabilitiesDrop = Some [''ALL''], sc_RunAsUser = Some 1337,
        sc_RunAsGroup = Some 1337, sc_RunAsNonRoot = Some True,
        sc_ReadOnlyRootFilesystem = Some True, sc_rest = []\<rparr>)"

definition genSecurityContextForPod :: "HigressGateway \<Rightarrow> PodSecurityContext option" where
  "genSecurityContextForPod g = (case crd_PodSecurityContext (gw_common g) of
      Some s \<Rightarrow> Some s
    | None \<Rightarrow> Some \<lparr>psc_Sysctls = [(''net.ipv4.ip_unprivileged_port_start'', ''0'')], psc_rest = []\<rparr>)"

definition genVolumeMounts :: "HigressGateway \<Rightarrow> VolumeMount list" where
  "genVolumeMounts g =
     [mount ''config'' ''/etc/istio/config'' False,
      mount ''istio-ca-root-cert'' ''/var/run/secrets/istio'' False,
      mount ''istio-data'' ''/var/lib/istio/data'' False,
      mount ''podinfo'' ''/etc/istio/pod'' False,
      mount ''proxy-socket'' ''/etc/istio/proxy'' False]
   @ (if crd_JwtPolicy (gw_common g) = ''third-party-jwt''
      then [mount ''istio-token'' ''/var/run/secrets/tokens'' True] else [])
   @ (if skywalkingEnabled g
      then [mount ''custom-bootstrap-volume'' ''/etc/istio/custom-bootstrap'' False] else [])"

definition genVolumes_gw :: "HigressGateway \<Rightarrow> Volume list" where
  "genVolumes_gw g =
    (let caRootCertName =
           (if crd_EnableHigressIstio (gw_common g) then ''istio-ca-root-cert'' else ''higress-ca-root-cert'');
         mode = Some 420; quantity = MustParse ''1m''
     in [volume ''config'' (VConfigMap HigressGatewayConfig None)]
      @ [volume ''istio-ca-root-cert'' (VConfigMap caRootCertName None),
         volume ''istio-data'' (VEmptyDir ''''),
         volume ''proxy-socket'' (VEmptyDir ''''),
         volume ''podinfo'' (VDownwardAPI
           [DownwardField ''labels'' \<lparr>fs_APIVersion = ''v1'', fs_FieldPath = ''metadata.labels''\<rparr>,
            DownwardField ''annotations'' \<lparr>fs_APIVersion = ''v1'', fs_FieldPath = ''metadata.annotations''\<rparr>,
            DownwardResource ''cpu-request'' instanceName quantity ''requests.cpu'',
            DownwardResource ''cpu-limit'' instanceName quantity ''limits.cpu''] mode)]
      @ (if crd_JwtPolicy (gw_common g) = ''third-party-jwt''
         then [volume ''istio-token'' (VTokenProjection ''istio-ca'' (Some 43200) ''istio-token'')] else [])
      @ (if skywalkingEnabled g
         then [volume ''custom-bootstrap-volume'' (VConfigMap ''higress-custom-bootstrap'' mode)] else [])
      @ (if length (gws_VolumeWasmPlugins (gw_Spec g)) > 0
         then [volume ''local-wasmplugins-volume'' (VHostPath ''/opt/plugins'' (Some ''Directory''))]
         else []))"

section \<open>The deployment\<close>

definition gatewayContainer :: "rangeOrder \<Rightarrow> HigressGateway \<Rightarrow> Container" where
  "gatewayContainer ord g = \<lparr>ct_Name = instanceName, ct_Image = genImage_gw g,
     ct_ImagePullPolicy = '''', ct_Args = genArgs g, ct_Ports = genPorts g, ct_Env = genEnv ord g,
     ct_Resources = zeroResources, ct_VolumeMounts = genVolumeMounts g,
     ct_ReadinessProbe = genProbe g, ct_SecurityContext = genSecurityContextForContainer g,
     ct_rest = []\<rparr>"

text \<open>
  The pod of the composite literal, then the three assignments after it: the resources of
  the container at index 0, the host network with its DNS policy, the service account.
\<close>

definition gatewayPod :: "rangeOrder \<Rightarrow> HigressGateway \<Rightarrow> PodSpec" where
  "gatewayPod ord g =
    (let pod0 = zeroPodSpec\<lparr>ps_ImagePullSecrets := con_ImagePullSecrets (gw_container g),
           ps_SecurityContext := genSecurityContextForPod g,
           ps_NodeSelector := crd_NodeSelector (gw_common g),
           ps_Affinity := crd_Affinity (gw_common g),
           ps_Tolerations := crd_Toleration (gw_common g),
           ps_SchedulerName := getSchedulerName g,
           ps_PriorityClassName := getPriorityClassName g,
           ps_Containers := [gatewayContainer ord g],
           ps_Volumes := genVolumes_gw g\<rparr>;
         pod1 = (case con_Resources (gw_container g) of
             None \<Rightarrow> pod0
           | Some res \<Rightarrow>
               if \<not> crd_Local (gw_common g)
               then pod0\<lparr>ps_Containers := (ps_Containers pod0)
                      [0 := (ps_Containers pod0 ! 0)\<lparr>ct_Resources := res\<rparr>]\<rparr>
               else pod0);
         pod2 = (if gws_HostNetwork (gw_Spec g)
           then pod1\<lparr>ps_HostNetwork := gws_HostNetwork (gw_Spec g),
                     ps_DNSPolicy := ''ClusterFirstWithHostNet''\<rparr>
           else pod1)
     in (case crd_ServiceAccount (gw_common g) of
           None \<Rightarrow> pod2
         | Some sa \<Rightarrow> if sa_Enable sa then pod2\<lparr>ps_ServiceAccountName := sa_Name sa\<rparr> else pod2))"

definition updateDeploymentSpec_gw ::
  "rangeOrder \<Rightarrow> Deployment \<Rightarrow> HigressGateway \<Rightarrow> bool \<Rightarrow> Deployment" where
  "updateDeploymentSpec_gw ord deploy g preserveReplicas =
    (let replicas =
           (if preserveReplicas \<and> ds_Replicas (dep_Spec deploy) \<noteq> None
            then ds_Replicas (dep_Spec deploy) else crd_Replicas (gw_common g))
     in deploy\<lparr>dep_Spec :=
       \<lparr>ds_Replicas = replicas,
        ds_Selector = Some (crd_SelectorLabels (gw_common g)),
        ds_RollingUpdate = Some
          \<lparr>ru_MaxUnavailable = Some (gws_RollingMaxUnavailable (gw_Spec g)),
           ru_MaxSurge = Some (gws_RollingMaxSurge (gw_Spec g))\<rparr>,
        ds_Template =
          \<lparr>pt_Meta = zeroMeta\<lparr>om_Name := gw_Name g, om_Namespace := gw_Namespace g,
             om_Labels := buildPodTemplateLabels g, om_Annotations := buildPodTemplateAnnotations g\<rparr>,
           pt_Spec = gatewayPod ord g\<rparr>,
        ds_rest = []\<rparr>\<rparr>)"

definition initDeployment_gw :: "rangeOrder \<Rightarrow> HigressGateway \<Rightarrow> Deployment" where
  "initDeployment_gw ord g =
     updateDeploymentSpec_gw ord
       \<lparr>dep_Meta = zeroMeta\<lparr>om_Name := gw_Name g, om_Namespace := gw_Namespace g,
          om_Labels := gw_Labels g, om_Annotations := gw_Annotations g\<rparr>,
        dep_Spec = zeroDeploymentSpec, dep_rest = []\<rparr>
       g (shouldPreserveReplicas g)"

definition muteDeployment_gw :: "rangeOrder \<Rightarrow> HigressGateway \<Rightarrow> mutateFn" where
  "muteDeployment_gw ord g x = (case x of
      ODeployment d \<Rightarrow> Inr (ODeployment (updateDeploymentSpec_gw ord d g (shouldPreserveReplicas g)))
    | _ \<Rightarrow> Inl (Panic WrongType))"

section \<open>Facts\<close>

lemma map_of_mergeLabels: "map_of (mergeLabels labels xs) = map_of xs ++ map_of labels"
proof (induction labels xs rule: mergeLabels.induct)
  case (2 labels key val xs)
  then show ?case
    by (cases "map_of labels key")
      (auto simp: update_conv' fun_eq_iff map_add_def split: option.split)
qed simp

lemma mlookup_buildPodTemplateLabels:
  assumes "mwf (crd_SelectorLabels (gw_common g))"
  shows "mlookup (buildPodTemplateLabels g) k =
    (case mlookup (crd_SelectorLabels (gw_common g)) k of
       Some v \<Rightarrow> Some v
     | None \<Rightarrow> (case gws_Scheduling (gw_Spec g) of
         None \<Rightarrow> None | Some sched \<Rightarrow> mlookup (sch_Labels sched) k))"
  using mlookup_copyStringMap [OF assms, of k]
  by (auto simp: buildPodTemplateLabels_def Let_def map_of_mergeLabels map_add_def mlookup_def mlen_def
      split: option.split)

lemma instance_updateDeploymentSpec_gw [simp]:
  "dep_Meta (updateDeploymentSpec_gw ord d g p) = dep_Meta d"
  "ds_Replicas (dep_Spec (updateDeploymentSpec_gw ord d g p)) =
     (if p \<and> ds_Replicas (dep_Spec d) \<noteq> None then ds_Replicas (dep_Spec d) else crd_Replicas (gw_common g))"
  "pt_Spec (ds_Template (dep_Spec (updateDeploymentSpec_gw ord d g p))) = gatewayPod ord g"
  "om_Labels (pt_Meta (ds_Template (dep_Spec (updateDeploymentSpec_gw ord d g p)))) = buildPodTemplateLabels g"
  "ds_Selector (dep_Spec (updateDeploymentSpec_gw ord d g p)) = Some (crd_SelectorLabels (gw_common g))"
  by (simp_all add: updateDeploymentSpec_gw_def Let_def)

lemma updateDeploymentSpec_gw_idem:
  "updateDeploymentSpec_gw ord (updateDeploymentSpec_gw ord d g p) g p = updateDeploymentSpec_gw ord d g p"
  by (simp add: updateDeploymentSpec_gw_def Let_def)

lemma gatewayPod_fields:
  "ps_Volumes (gatewayPod ord g) = genVolumes_gw g"
  "ps_Containers (gatewayPod ord g) =
     [(gatewayContainer ord g)\<lparr>ct_Resources :=
        (case con_Resources (gw_container g) of
           Some res \<Rightarrow> if crd_Local (gw_common g) then zeroResources else res
         | None \<Rightarrow> zeroResources)\<rparr>]"
  "ps_ServiceAccountName (gatewayPod ord g) =
     (case crd_ServiceAccount (gw_common g) of
        None \<Rightarrow> '''' | Some sa \<Rightarrow> if sa_Enable sa then sa_Name sa else '''')"
  by (auto simp: gatewayPod_def Let_def gatewayContainer_def zeroPodSpec_def split: option.split)

lemma meta_stable_muteDeployment_gw [simp, intro]: "meta_stable (muteDeployment_gw ord g)"
  by (auto simp: meta_stable_def muteDeployment_gw_def split: kobj.splits)

lemma initDeployment_gw_key [simp]:
  "objkey_of (ODeployment (initDeployment_gw ord g)) = (KDeployment, (gw_Namespace g, gw_Name g))"
  by (simp add: objkey_of_def ObjectKeyFromObject_def nskey_of_meta_def initDeployment_gw_def)

lemma muteDeployment_gw_idem:
  "muteDeployment_gw ord g x = Inr y \<Longrightarrow> muteDeployment_gw ord g y = Inr y"
  by (auto simp: muteDeployment_gw_def updateDeploymentSpec_gw_idem split: kobj.splits)

text \<open>The names of the declared volumes and of the mounts, as functions of the three switches.\<close>

lemma gw_volume_names:
  "map vol_Name (genVolumes_gw g) =
     [''config'', ''istio-ca-root-cert'', ''istio-data'', ''proxy-socket'', ''podinfo'']
   @ (if crd_JwtPolicy (gw_common g) = ''third-party-jwt'' then [''istio-token''] else [])
   @ (if skywalkingEnabled g then [''custom-bootstrap-volume''] else [])
   @ (if gws_VolumeWasmPlugins (gw_Spec g) \<noteq> [] then [''local-wasmplugins-volume''] else [])"
  by (simp add: genVolumes_gw_def Let_def)

lemma gw_mount_names:
  "map vm_Name (genVolumeMounts g) =
     [''config'', ''istio-ca-root-cert'', ''istio-data'', ''podinfo'', ''proxy-socket'']
   @ (if crd_JwtPolicy (gw_common g) = ''third-party-jwt'' then [''istio-token''] else [])
   @ (if skywalkingEnabled g then [''custom-bootstrap-volume''] else [])"
  by (simp add: genVolumeMounts_def)

lemma gw_mounts_declared:
  "set (map vm_Name (genVolumeMounts g)) \<subseteq> set (map vol_Name (genVolumes_gw g))"
  unfolding gw_volume_names gw_mount_names by auto

lemma gatewayPod_wellformed: "pod_wellformed (gatewayPod ord g)"
proof -
  have "mounts_fit (gatewayPod ord g)"
    using gw_mounts_declared [of g]
    by (auto simp: mounts_fit_def gatewayPod_fields gatewayContainer_def)
  moreover have "distinct (map vol_Name (genVolumes_gw g))"
    unfolding gw_volume_names by simp
  moreover have "distinct (map vm_MountPath (genVolumeMounts g))"
    by (simp add: genVolumeMounts_def)
  ultimately show ?thesis
    by (simp add: pod_wellformed_def gatewayPod_fields gatewayContainer_def)
qed

text \<open>The order in which Go ranges over \<open>Env\<close> moves entries of the container's environment.\<close>

lemma genEnv_orders:
  assumes "range_order ord" and "range_order ord'"
  shows "mset (genEnv ord g) = mset (genEnv ord' g)"
  using mset_envOfMap [OF assms] by (simp add: genEnv_def)

lemma container_env_gw:
  "map ct_Env (ps_Containers (gatewayPod ord g)) = [genEnv ord g]"
  by (simp add: gatewayPod_fields gatewayContainer_def)

lemma env_order_visible:
  assumes "rev (mentries (con_Env (gw_container g))) \<noteq> mentries (con_Env (gw_container g))"
  shows "updateDeploymentSpec_gw rev (initDeployment_gw (\<lambda>xs. xs) g) g p \<noteq> initDeployment_gw (\<lambda>xs. xs) g"
proof
  assume eq: "updateDeploymentSpec_gw rev (initDeployment_gw (\<lambda>xs. xs) g) g p = initDeployment_gw (\<lambda>xs. xs) g"
  have "gatewayPod rev g = gatewayPod (\<lambda>xs. xs) g"
    using arg_cong [OF eq, of "\<lambda>d. pt_Spec (ds_Template (dep_Spec d))"]
    by (simp add: initDeployment_gw_def)
  then have "genEnv rev g = genEnv (\<lambda>xs. xs) g"
    using container_env_gw [of rev g] container_env_gw [of "\<lambda>xs. xs" g] by simp
  then have "map (\<lambda>(k, v). envValue k v) (rev (mentries (con_Env (gw_container g)))) =
      map (\<lambda>(k, v). envValue k v) (mentries (con_Env (gw_container g)))"
    by (simp add: genEnv_def envOfMap_def)
  moreover have "inj (\<lambda>(k, v). envValue k v)" by (auto simp: inj_def envValue_def)
  ultimately show False using assms by (simp add: inj_map_eq_map)
qed

lemma gatewayPod_account:
  "ps_ServiceAccountName (gatewayPod ord g) = (case crd_ServiceAccount (gw_common g) of
     None \<Rightarrow> '''' | Some sa \<Rightarrow> if sa_Enable sa then sa_Name sa else '''')"
  by (simp add: gatewayPod_def Let_def zeroPodSpec_def split: option.split)

end
