(* ===== verification/CtlService.thy ===== *)
theory CtlService
  imports Lib
begin

text \<open>\<open>internal/controller/higresscontroller/service.go\<close>.\<close>

definition HigressControllerServiceName :: string where
  "HigressControllerServiceName = ''higress-controller''"

text \<open>The ports of the control plane; \<open>TargetPort\<close> keeps its zero value, the number 0.\<close>

definition controlPlanePorts :: "ServicePort list" where
  "controlPlanePorts =
     [\<lparr>sp_Name = ''grpc-xds'', sp_Protocol = ''TCP'', sp_Port = 15010, sp_TargetPort = FromInt 0, sp_rest = []\<rparr>,
      \<lparr>sp_Name = ''https-dns'', sp_Protocol = ''TCP'', sp_Port = 15012, sp_TargetPort = FromInt 0, sp_rest = []\<rparr>,
      \<lparr>sp_Name = ''https-webhook'', sp_Protocol = ''TCP'', sp_Port = 443, sp_TargetPort = FromInt 0, sp_rest = []\<rparr>,
      \<lparr>sp_Name = ''https-monitoring'', sp_Protocol = ''TCP'', sp_Port = 15014, sp_TargetPort = FromInt 0, sp_rest = []\<rparr>]"

text \<open>The second loop: a port whose name is not in \<open>set\<close>, computed before the loop, is appended.\<close>

fun appendPorts :: "string set \<Rightarrow> ServicePort list \<Rightarrow> ServicePort list \<Rightarrow> ServicePort list" where
  "appendPorts names acc [] = acc"
| "appendPorts names acc (port # ports) =
     (if sp_Name port \<notin> names then appendPorts names (acc @ [port]) ports
      else appendPorts names acc ports)"

definition updateServiceSpec_ctl :: "ServiceObj \<Rightarrow> HigressController \<Rightarrow> ServiceObj" where
  "updateServiceSpec_ctl svc h =
    (let spec1 = (svc_Spec svc)\<lparr>ss_Selector := crd_SelectorLabels (hc_common h), ss_Type := ''ClusterIP''\<rparr>;
         spec2 = (case crd_Service (hc_common h) of
             None \<Rightarrow> spec1
           | Some s \<Rightarrow>
               (if sv_Type s \<noteq> '''' then spec1\<lparr>ss_Type := sv_Type s\<rparr> else spec1)\<lparr>ss_Ports := sv_Ports s\<rparr>);
         spec3 = (if \<not> crd_EnableHigressIstio (hc_common h)
           then spec2\<lparr>ss_Ports := appendPorts (set (map sp_Name (ss_Ports spec2)))
                  (ss_Ports spec2) controlPlanePorts\<rparr>
           else spec2)
     in svc\<lparr>svc_Spec := spec3\<rparr>)"

definition initService_ctl :: "HigressController \<Rightarrow> ServiceObj" where
  "initService_ctl h =
     updateServiceSpec_ctl
       \<lparr>svc_Meta = zeroMeta\<lparr>om_Name := HigressControllerServiceName,
          om_Namespace := hc_Namespace h, om_Labels := hc_Labels h\<rparr>,
        svc_Spec = zeroServiceSpec, svc_rest = []\<rparr> h"

definition muteService_ctl :: "HigressController \<Rightarrow> mutateFn" where
  "muteService_ctl h x = (case x of
      OService svc \<Rightarrow> Inr (OService (updateServiceSpec_ctl svc h))
    | _ \<Rightarrow> Inl (Panic WrongType))"

section \<open>Facts\<close>

lemma appendPorts_filter:
  "appendPorts names acc ports = acc @ filter (\<lambda>p. sp_Name p \<notin> names) ports"
  by (induction ports arbitrary: acc) auto

lemma ports_updateServiceSpec_ctl:
  "ss_Ports (svc_Spec (updateServiceSpec_ctl svc h)) =
    (let base = (case crd_Service (hc_common h) of None \<Rightarrow> ss_Ports (svc_Spec svc) | Some s \<Rightarrow> sv_Ports s)
     in if crd_EnableHigressIstio (hc_common h) then base
        else base @ filter (\<lambda>p. sp_Name p \<notin> sp_Name ` set base) controlPlanePorts)"
  by (simp add: updateServiceSpec_ctl_def Let_def appendPorts_filter split: option.split)

lemma updateServiceSpec_ctl_meta [simp]: "svc_Meta (updateServiceSpec_ctl svc h) = svc_Meta svc"
  by (simp add: updateServiceSpec_ctl_def Let_def)

lemma meta_stable_muteService_ctl [simp, intro]: "meta_stable (muteService_ctl h)"
  by (auto simp: meta_stable_def muteService_ctl_def split: kobj.splits)

lemma initService_ctl_key [simp]:
  "objkey_of (OService (initService_ctl h)) = (KService, (hc_Namespace h, HigressControllerServiceName))"
  by (simp add: objkey_of_def ObjectKeyFromObject_def nskey_of_meta_def initService_ctl_def)

lemma appendPorts_complete:
  "appendPorts (sp_Name ` set (appendPorts (sp_Name ` set base) base ps))
     (appendPorts (sp_Name ` set base) base ps) ps = appendPorts (sp_Name ` set base) base ps"
  by (auto simp: appendPorts_filter filter_empty_conv simp del: filter_False)

lemma updateServiceSpec_ctl_idem:
  "updateServiceSpec_ctl (updateServiceSpec_ctl svc h) h = updateServiceSpec_ctl svc h"
proof (cases "crd_Service (hc_common h)")
  case None
  then show ?thesis by (simp add: updateServiceSpec_ctl_def Let_def appendPorts_complete)
next
  case (Some s)
  then show ?thesis by (simp add: updateServiceSpec_ctl_def Let_def)
qed

lemma controller_ports:
  assumes "\<not> crd_EnableHigressIstio (hc_common h)"
    and "base = (case crd_Service (hc_common h) of None \<Rightarrow> ss_Ports (svc_Spec svc) | Some s \<Rightarrow> sv_Ports s)"
    and "distinct (map sp_Name base)"
  shows "sp_Name ` set controlPlanePorts \<subseteq> sp_Name ` set (ss_Ports (svc_Spec (updateServiceSpec_ctl svc h)))"
    and "take (length base) (ss_Ports (svc_Spec (updateServiceSpec_ctl svc h))) = base"
    and "distinct (map sp_Name (ss_Ports (svc_Spec (updateServiceSpec_ctl svc h))))"
proof -
  have ports: "ss_Ports (svc_Spec (updateServiceSpec_ctl svc h)) =
      base @ filter (\<lambda>p. sp_Name p \<notin> sp_Name ` set base) controlPlanePorts"
    using assms(1,2) by (simp add: ports_updateServiceSpec_ctl Let_def)
  show "sp_Name ` set controlPlanePorts \<subseteq> sp_Name ` set (ss_Ports (svc_Spec (updateServiceSpec_ctl svc h)))"
    unfolding ports by auto
  show "take (length base) (ss_Ports (svc_Spec (updateServiceSpec_ctl svc h))) = base"
    unfolding ports by simp
  have "distinct (map sp_Name controlPlanePorts)" by (simp add: controlPlanePorts_def)
  with assms(3) show "distinct (map sp_Name (ss_Ports (svc_Spec (updateServiceSpec_ctl svc h))))"
    unfolding ports by (auto simp: distinct_map_filter image_iff)
qed

end
