(* ===== verification/GwService.thy ===== *)
theory GwService
  imports GwScaling CtlService
begin

text \<open>
  \<open>internal/controller/higressgateway\<close>: \<open>service.go\<close> and \<open>configmap.go\<close>.  Both files
  write through maps and structs they share with the instance; what they change of the
  instance is a second result.
\<close>

section \<open>service.go\<close>

definition HigressGatewayServiceName :: string where
  "HigressGatewayServiceName = ''higress-gateway''"

definition networkPorts :: "ServicePort list" where
  "networkPorts =
     [\<lparr>sp_Name = ''status-port'', sp_Protocol = '''', sp_Port = 15021, sp_TargetPort = FromInt 15021, sp_rest = []\<rparr>,
      \<lparr>sp_Name = ''tls'', sp_Protocol = '''', sp_Port = 15443, sp_TargetPort = FromInt 15443, sp_rest = []\<rparr>,
      \<lparr>sp_Name = ''tls-istiod'', sp_Protocol = '''', sp_Port = 15012, sp_TargetPort = FromInt 15012, sp_rest = []\<rparr>,
      \<lparr>sp_Name = ''tls-webhook'', sp_Protocol = '''', sp_Port = 15017, sp_TargetPort = FromInt 15017, sp_rest = []\<rparr>]"

definition updateServiceSpec_gw :: "ServiceObj \<Rightarrow> HigressGateway \<Rightarrow> ServiceObj res" where
  "updateServiceSpec_gw svc0 g =
    (let svc1 = svc0\<lparr>svc_Spec := (svc_Spec svc0)\<lparr>ss_Selector := crd_SelectorLabels (gw_common g)\<rparr>\<rparr>;
         net = gws_NetWorkGateway (gw_Spec g)
     in bindR (if net \<noteq> ''''
          then bindR (massign ''topology.istio.io/network'' net (om_Labels (svc_Meta svc1))) (\<lambda>labels.
               Inr (svc1\<lparr>svc_Meta := (svc_Meta svc1)\<lparr>om_Labels := labels\<rparr>\<rparr>))
          else Inr svc1) (\<lambda>svc2.
        let spec2 = svc_Spec svc2;
            spec3 = (case crd_Service (gw_common g) of
                None \<Rightarrow> spec2
              | Some s \<Rightarrow>
                  let a = (if sv_LoadBalancerIP s \<noteq> '''' then spec2\<lparr>ss_LoadBalancerIP := sv_LoadBalancerIP s\<rparr> else spec2);
                      b = (if length (sv_LoadBalancerSourceRanges s) > 0
                           then a\<lparr>ss_LoadBalancerSourceRanges := sv_LoadBalancerSourceRanges s\<rparr> else a);
                      c = (if sv_ExternalTrafficPolicy s \<noteq> ''''
                           then b\<lparr>ss_ExternalTrafficPolicy := sv_ExternalTrafficPolicy s\<rparr> else b)
                  in c\<lparr>ss_Type := sv_Type s, ss_Ports := sv_Ports s\<rparr>);
            spec4 = (if net \<noteq> '''' then spec3\<lparr>ss_Ports := networkPorts\<rparr> else spec3)
        in Inr (svc2\<lparr>svc_Spec := spec4\<rparr>)))"

text \<open>
  \<open>Labels: instance.Labels\<close> makes the service and the instance share one map, so the
  network label written into it is seen by both.
\<close>

definition initService_gw :: "HigressGateway \<Rightarrow> (ServiceObj \<times> HigressGateway) res" where
  "initService_gw g =
     bindR (updateServiceSpec_gw
       \<lparr>svc_Meta = zeroMeta\<lparr>om_Name := HigressGatewayServiceName, om_Namespace := gw_Namespace g,
          om_Labels := gw_Labels g, om_Annotations := gw_Annotations g\<rparr>,
        svc_Spec = zeroServiceSpec, svc_rest = []\<rparr> g) (\<lambda>svc.
     Inr (svc, g\<lparr>gw_Meta := (gw_Meta g)\<lparr>om_Labels := om_Labels (svc_Meta svc)\<rparr>\<rparr>))"

definition muteService_gw :: "HigressGateway \<Rightarrow> mutateFn" where
  "muteService_gw g x = (case x of
      OService svc \<Rightarrow> bindR (updateServiceSpec_gw svc g) (\<lambda>svc'. Inr (OService svc'))
    | _ \<Rightarrow> Inl (Panic WrongType))"

section \<open>configmap.go\<close>

definition discoveryAddress :: "HigressGateway \<Rightarrow> string" where
  "discoveryAddress g =
    (if crd_EnableHigressIstio (gw_common g)
     then ''istiod'' @ ''.'' @ gw_Namespace g @ ''.svc:15012''
     else HigressControllerServiceName @ ''.'' @ gw_Namespace g @ ''.svc:15012'')"

text \<open>
  The mesh configuration that is marshalled: a copy of the instance's taken before its
  discovery address is set, with the root namespace and the config sources adjusted.
\<close>

definition effectiveMeshConfig :: "HigressGateway \<Rightarrow> MeshConfig" where
  "effectiveMeshConfig g =
    (let m0 = gws_MeshConfig (gw_Spec g);
         m1 = (if crd_EnableHigressIstio (gw_common g)
               then (if mesh_RootNamespace m0 = ''''
                     then m0\<lparr>mesh_RootNamespace := crd_IstioNamespace (gw_common g)\<rparr> else m0)
               else m0\<lparr>mesh_RootNamespace := gw_Namespace g\<rparr>)
     in (if crd_EnableIstioAPI (gw_common g)
         then m1\<lparr>mesh_ConfigSources := mesh_ConfigSources m1 @ [\<lparr>src_Address = ''k8s://''\<rparr>]\<rparr>
         else m1))"

definition setDiscoveryAddress :: "HigressGateway \<Rightarrow> HigressGateway" where
  "setDiscoveryAddress g =
     g\<lparr>gw_Spec := (gw_Spec g)\<lparr>gws_MeshConfig := (gws_MeshConfig (gw_Spec g))
        \<lparr>mesh_DefaultConfig := (mesh_DefaultConfig (gws_MeshConfig (gw_Spec g)))
           \<lparr>px_DiscoveryAddress := discoveryAddress g\<rparr>\<rparr>\<rparr>\<rparr>"

text \<open>
  The variable \<open>err\<close> is shared by the three calls of \<open>yaml.Marshal\<close>; the last one
  decides whether the function fails.
\<close>

definition updateGatewayConfigMapSpec ::
  "'w lib \<Rightarrow> ConfigMap \<Rightarrow> HigressGateway \<Rightarrow> (ConfigMap \<times> HigressGateway) res" where
  "updateGatewayConfigMapSpec L cm g =
    (let data1 = (case MarshalNetworks L (gws_MeshNetworks (gw_Spec g)) of
             Inl err \<Rightarrow> []
           | Inr networksBytes \<Rightarrow>
               (case MarshalStringMap L [(''networks'', networksBytes)] of
                  Inl err \<Rightarrow> []
                | Inr meshNetworksBytes \<Rightarrow> [(''meshNetworks'', meshNetworksBytes)]));
         meshConfig = effectiveMeshConfig g;
         g' = setDiscoveryAddress g
     in (case MarshalMeshConfig L meshConfig of
           Inl err \<Rightarrow> Inl (Error err)
         | Inr meshConfigBytes \<Rightarrow>
             Inr (cm\<lparr>cm_Data := Some (AList.update ''mesh'' meshConfigBytes data1)\<rparr>, g')))"

definition initGatewayConfigMap ::
  "'w lib \<Rightarrow> HigressGateway \<Rightarrow> (ConfigMap \<times> HigressGateway) res" where
  "initGatewayConfigMap L g =
     updateGatewayConfigMapSpec L
       \<lparr>cm_Meta = zeroMeta\<lparr>om_Name := HigressGatewayConfig, om_Namespace := gw_Namespace g,
          om_Labels := gw_Labels g\<rparr>, cm_Data = None, cm_rest = []\<rparr> g"

definition updateSkywalkingConfigMap ::
  "ConfigMap \<Rightarrow> HigressGateway \<Rightarrow> (ConfigMap \<times> HigressGateway) res" where
  "updateSkywalkingConfigMap cm g =
    (if (case gws_Skywalking (gw_Spec g) of
           None \<Rightarrow> False | Some s \<Rightarrow> sky_Enable s \<and> length (sky_CustomBootStrap s) = 0)
     then Inl (Error (Errorf ''error empty skywalking custom bootstrap scripts''))
     else bindR (deref (gws_Skywalking (gw_Spec g))) (\<lambda>skywalking.
          bindR (massign ''custom_bootstrap.json'' (sky_CustomBootStrap skywalking) (cm_Data cm)) (\<lambda>data.
          Inr (cm\<lparr>cm_Data := data\<rparr>, g))))"

definition initSkywalkingConfigMap :: "HigressGateway \<Rightarrow> (ConfigMap \<times> HigressGateway) res" where
  "initSkywalkingConfigMap g =
     updateSkywalkingConfigMap
       \<lparr>cm_Meta = zeroMeta\<lparr>om_Name := ''skywalking-config'', om_Namespace := gw_Namespace g,
          om_Labels := gw_Labels g\<rparr>, cm_Data = None, cm_rest = []\<rparr> g"

definition muteConfigMap ::
  "HigressGateway \<Rightarrow> (ConfigMap \<Rightarrow> HigressGateway \<Rightarrow> (ConfigMap \<times> HigressGateway) res) \<Rightarrow> mutateFn" where
  "muteConfigMap g fn x = (case x of
      OConfigMap cm \<Rightarrow> bindR (fn cm g) (\<lambda>(cm', g'). Inr (OConfigMap cm'))
    | _ \<Rightarrow> Inl (Panic WrongType))"

section \<open>Facts\<close>

lemma updateServiceSpec_gw_ok_iff:
  "(\<exists>svc'. updateServiceSpec_gw svc g = Inr svc') \<longleftrightarrow>
     gws_NetWorkGateway (gw_Spec g) = '''' \<or> om_Labels (svc_Meta svc) \<noteq> None"
  by (cases "om_Labels (svc_Meta svc)") (auto simp: updateServiceSpec_gw_def Let_def)

lemma updateServiceSpec_gw_panic:
  "gws_NetWorkGateway (gw_Spec g) \<noteq> '''' \<Longrightarrow> om_Labels (svc_Meta svc) = None \<Longrightarrow>
   updateServiceSpec_gw svc g = Inl (Panic NilMapWrite)"
  by (simp add: updateServiceSpec_gw_def Let_def)

lemma updateServiceSpec_gw_meta:
  "updateServiceSpec_gw svc g = Inr svc' \<Longrightarrow> objkey_of (OService svc') = objkey_of (OService svc)"
  "updateServiceSpec_gw svc g = Inr svc' \<Longrightarrow>
   om_Finalizers (svc_Meta svc') = om_Finalizers (svc_Meta svc)"
  by (auto simp: updateServiceSpec_gw_def Let_def ok_simps objkey_of_def ObjectKeyFromObject_def
      split: if_splits)

lemma meta_stable_muteService_gw [simp, intro]: "meta_stable (muteService_gw g)"
  by (auto simp: meta_stable_def muteService_gw_def ok_simps split: kobj.splits
      dest: updateServiceSpec_gw_meta)

lemma initService_gw_key:
  "initService_gw g = Inr (svc, g') \<Longrightarrow>
   objkey_of (OService svc) = (KService, (gw_Namespace g, HigressGatewayServiceName))"
  by (auto simp: initService_gw_def ok_simps dest!: updateServiceSpec_gw_meta(1))
    (simp add: objkey_of_def ObjectKeyFromObject_def nskey_of_meta_def)

lemma initService_gw_instance:
  "initService_gw g = Inr (svc, g') \<Longrightarrow>
   \<exists>labels. g' = g\<lparr>gw_Meta := (gw_Meta g)\<lparr>om_Labels := labels\<rparr>\<rparr>"
  by (auto simp: initService_gw_def ok_simps)

lemma updateServiceSpec_gw_idem:
  assumes "updateServiceSpec_gw svc g = Inr svc'"
  shows "updateServiceSpec_gw svc' g = Inr svc'"
  using assms
  by (cases "crd_Service (gw_common g)"; cases "om_Labels (svc_Meta svc)")
    (auto simp: updateServiceSpec_gw_def Let_def split: if_splits)

lemma setDiscoveryAddress_simps [simp]:
  "gw_Meta (setDiscoveryAddress g) = gw_Meta g"
  "gw_Status (setDiscoveryAddress g) = gw_Status g"
  "gw_common (setDiscoveryAddress g) = gw_common g"
  "gw_container (setDiscoveryAddress g) = gw_container g"
  "gws_Skywalking (gw_Spec (setDiscoveryAddress g)) = gws_Skywalking (gw_Spec g)"
  "gws_NetWorkGateway (gw_Spec (setDiscoveryAddress g)) = gws_NetWorkGateway (gw_Spec g)"
  "gws_MeshNetworks (gw_Spec (setDiscoveryAddress g)) = gws_MeshNetworks (gw_Spec g)"
  by (simp_all add: setDiscoveryAddress_def)

lemma discoveryAddress_setDiscoveryAddress [simp]:
  "discoveryAddress (setDiscoveryAddress g) = discoveryAddress g"
  by (simp add: discoveryAddress_def)

lemma setDiscoveryAddress_idem [simp]:
  "setDiscoveryAddress (setDiscoveryAddress g) = setDiscoveryAddress g"
  by (simp add: setDiscoveryAddress_def discoveryAddress_def)

lemma updateGatewayConfigMapSpec_ok:
  assumes "updateGatewayConfigMapSpec L cm g = Inr (cm', g')"
  shows "cm_Meta cm' = cm_Meta cm" and "g' = setDiscoveryAddress g"
  using assms by (auto simp: updateGatewayConfigMapSpec_def Let_def split: sum.splits)

lemma updateSkywalkingConfigMap_ok:
  "updateSkywalkingConfigMap cm g = Inr (cm', g') \<Longrightarrow> cm_Meta cm' = cm_Meta cm \<and> g' = g"
  by (auto simp: updateSkywalkingConfigMap_def ok_simps split: if_splits)

lemma meta_stable_muteConfigMap [simp, intro]:
  "meta_stable (muteConfigMap g (updateGatewayConfigMapSpec L))"
  "meta_stable (muteConfigMap g updateSkywalkingConfigMap)"
  by (auto simp: meta_stable_def muteConfigMap_def ok_simps updateGatewayConfigMapSpec_ok(1)
      dest: updateSkywalkingConfigMap_ok split: kobj.splits prod.splits)

lemma initGatewayConfigMap_ok:
  assumes "initGatewayConfigMap L g = Inr (cm, g')"
  shows "objkey_of (OConfigMap cm) = (KConfigMap, (gw_Namespace g, HigressGatewayConfig))"
    and "g' = setDiscoveryAddress g"
  using assms updateGatewayConfigMapSpec_ok [of L _ g cm g']
  by (auto simp: initGatewayConfigMap_def objkey_of_def ObjectKeyFromObject_def nskey_of_meta_def)

lemma initSkywalkingConfigMap_fails: "\<exists>e. initSkywalkingConfigMap g = Inl e"
  by (auto simp: initSkywalkingConfigMap_def updateSkywalkingConfigMap_def split: option.split)

lemma mesh_discovery_effective [simp]:
  "mesh_DefaultConfig (effectiveMeshConfig g) = mesh_DefaultConfig (gws_MeshConfig (gw_Spec g))"
  by (simp add: effectiveMeshConfig_def Let_def)

end
