(* ===== verification/Owner.thy ===== *)
theory Owner
  imports Lib RbacCommon
begin

text \<open>
  What the two reconcilers have in common: children that belong to an instance, the
  namespace check, the release of a role binding, and the contract they rest on, the
  locale \<open>owner_env\<close>.
\<close>

type_synonym state = "objkey \<Rightarrow> kobj option"

definition synced ::
  "(kobj option \<Rightarrow> kobj \<Rightarrow> kobj \<Rightarrow> bool) \<Rightarrow> (kobj \<Rightarrow> kobj \<Rightarrow> bool) \<Rightarrow> state \<Rightarrow> objkey \<Rightarrow> mutateFn \<Rightarrow> bool" where
  "synced admits semEq st q f \<longleftrightarrow> (\<exists>x. st q = Some x \<and> in_sync admits semEq f x)"

text \<open>Reads of stored objects are answered: no partition between operator and server.\<close>

definition served_reads :: "('w, 'z) client_scheme \<Rightarrow> ('w \<Rightarrow> objkey \<Rightarrow> kobj option) \<Rightarrow> bool" where
  "served_reads c lookup \<longleftrightarrow>
     (\<forall>w k n x. lookup w (k, n) = Some x \<longrightarrow> fst (Get c k n w) = Inr x)"

definition active_namespace :: "state \<Rightarrow> string \<Rightarrow> bool" where
  "active_namespace st ns \<longleftrightarrow>
     (\<exists>n. st (KNamespace, ('''', ns)) = Some (ONamespace n) \<and> ns_Phase n \<noteq> ''Terminating'')"

section \<open>Releasing a binding\<close>

text \<open>
  The body of both finalizers: read the cluster role binding named after the service
  account, drop the instance's subjects, update it.
\<close>

definition dropBindingSubject :: "('w, 'z) client_scheme \<Rightarrow> string \<Rightarrow> string \<Rightarrow> ('w, unit) io" where
  "dropBindingSubject r name ns =
     bindM (Get r KClusterRoleBinding ('''', name)) (\<lambda>x.
     bindM (liftR (asClusterRoleBinding x)) (\<lambda>crb.
     bindM (Update r (OClusterRoleBinding
       (crb\<lparr>crb_Subjects := dropSubjects name ns (crb_Subjects crb)\<rparr>))) (\<lambda>_. ret ())))"

lemma objkey_crb:
  "objkey_of (OClusterRoleBinding crb) =
     (KClusterRoleBinding, (om_Namespace (crb_Meta crb), om_Name (crb_Meta crb)))"
  by (simp add: objkey_of_def ObjectKeyFromObject_def nskey_of_meta_def)

section \<open>The shared contract\<close>

locale owner_env =
  status_server r lookup admits same_but_rest +
  upserts: upsert "ctrlCreateOrUpdate L (client.truncate r)" lookup admits semEq +
  refs: controller_refs "SetControllerReference L" +
  fins: finalizer_utils "ContainsFinalizer L" "AddFinalizer L" "RemoveFinalizer L"
  for r :: "('w, 'z) client_scheme" and L :: "'w lib"
    and lookup admits same_but_rest semEq
begin

lemma upsertObj_frame [keeps_intro]:
  "meta_stable f \<Longrightarrow> q \<noteq> objkey_of obj \<Longrightarrow> keeps (\<lambda>w. lookup w q) (upsertObj L r n obj f)"
  unfolding upsertObj_def by (rule upserts.CreateOrUpdate_frame)

lemma upsertObj_in_sync:
  "upsertObj L r n obj f w = (Inr u, w') \<Longrightarrow> meta_stable f \<Longrightarrow> lookup w' (objkey_of obj) = Some x \<Longrightarrow>
   in_sync admits semEq f x"
  unfolding upsertObj_def by (rule upserts.CreateOrUpdate_in_sync)

text \<open>
  The shape of every child the instance owns: build it, set the owner, create or update.
\<close>

lemma owned_upsert_frame:
  assumes "\<And>x. ini = Inr x \<Longrightarrow> objkey_of (mk x) = k" and "q \<noteq> k" and "\<And>x. meta_stable (f x)"
  shows "keeps (\<lambda>w. lookup w q) (bindM (liftR ini) (\<lambda>x.
    bindM (liftR (SetControllerReference L owner (mk x))) (\<lambda>obj. upsertObj L r n obj (f x))))"
proof (intro keeps_liftR_bind upsertObj_frame assms(3))
  fix x obj assume "ini = Inr x" and "SetControllerReference L owner (mk x) = Inr obj"
  with assms(1,2) show "q \<noteq> objkey_of obj" by (auto dest: refs.setref_key)
qed

text \<open>A successful call leaves the object in the cluster.\<close>

lemma upsertObj_present:
  assumes run: "upsertObj L r n obj f w = (Inr u, w')" and f: "meta_stable f"
  shows "\<exists>x. lookup w' (objkey_of obj) = Some x"
proof -
  from run obtain rs y where cou: "ctrlCreateOrUpdate L (client.truncate r) obj f w = (Inr (rs, y), w')"
    by (auto simp: upsertObj_def CreateOrUpdate_def ok_simps)
  show ?thesis
  proof (cases "lookup w (objkey_of obj)")
    case None
    from upserts.upsert_create [OF cou f None] show ?thesis by auto
  next
    case (Some old)
    then obtain x where x: "f old = Inr x" and r: "lookup w' = lookup w \<or>
        admits (Some old) x y \<and> lookup w' = (lookup w)(objkey_of obj := if gone y then None else Some y)"
      using upserts.upsert_update [OF cou f Some] by auto
    have "\<not> gone y" if "admits (Some old) x y"
      using that f x stored_alive [OF Some] admits_finalizers [OF that] admits_deletion [OF that]
      by (simp add: gone_def meta_stable_def)
    with r Some show ?thesis by auto
  qed
qed

lemma owned_upsert_ok:
  assumes key: "\<And>x. ini = Inr x \<Longrightarrow> objkey_of (mk x) = k" and f: "\<And>x. meta_stable (f x)"
    and run: "bindM (liftR ini) (\<lambda>x. bindM (liftR (SetControllerReference L owner (mk x)))
        (\<lambda>obj. upsertObj L r n obj (f x))) w = (Inr u, w')"
  shows "\<exists>x y. ini = Inr x \<and> lookup w' k = Some y \<and> in_sync admits semEq (f x) y"
proof -
  from run obtain x obj where x: "ini = Inr x"
    and obj: "SetControllerReference L owner (mk x) = Inr obj"
    and cou: "upsertObj L r n obj (f x) w = (Inr u, w')"
    by (auto simp: ok_simps)
  have k: "objkey_of obj = k" using refs.setref_key [OF obj] key [OF x] by simp
  with upsertObj_present [OF cou f] obtain y where y: "lookup w' k = Some y" by auto
  with cou k have "in_sync admits semEq (f x) y" by (auto intro: upsertObj_in_sync f)
  with x y show ?thesis by blast
qed

lemma upsertObj_synced:
  "upsertObj L r n obj f w = (Inr u, w') \<Longrightarrow> meta_stable f \<Longrightarrow> objkey_of obj = q \<Longrightarrow>
   synced admits semEq (lookup w') q f"
  using upsertObj_present upsertObj_in_sync by (fastforce simp: synced_def)

lemma owned_upsert_synced:
  assumes "\<And>x. ini = Inr x \<Longrightarrow> objkey_of (mk x) = k" and "\<And>x. meta_stable (f x)"
    and "bindM (liftR ini) (\<lambda>x. bindM (liftR (SetControllerReference L owner (mk x)))
        (\<lambda>obj. upsertObj L r n obj (f x))) w = (Inr u, w')"
  shows "\<exists>x. ini = Inr x \<and> synced admits semEq (lookup w') k (f x)"
  using owned_upsert_ok [OF assms] by (auto simp: synced_def)

lemma synced_step:
  "keeps (\<lambda>w. lookup w q) m \<Longrightarrow> m w = (res, w') \<Longrightarrow> synced admits semEq (lookup w) q f \<Longrightarrow>
   synced admits semEq (lookup w') q f"
  by (drule keepsD) (auto simp: synced_def)

lemma removed_step:
  "keeps (\<lambda>w. lookup w q) m \<Longrightarrow> m w = (res, w') \<Longrightarrow> removed (lookup w q) \<Longrightarrow> removed (lookup w' q)"
  by (drule keepsD) auto

lemma CreateIfNotExits_frame:
  "q \<noteq> objkey_of x \<Longrightarrow> keeps (\<lambda>w. lookup w q) (CreateIfNotExits r x)"
  unfolding CreateIfNotExits_def by (intro keeps_intro create_frame)

lemma CreateIfNotExits_ok:
  "CreateIfNotExits r x w = (Inr b, w') \<Longrightarrow> lookup w' (objkey_of x) \<noteq> None"
  by (auto simp: CreateIfNotExits_def ok_simps dest!: create_ok create_exists split: if_splits)

lemma namespaceActive_frame: "keeps (\<lambda>w. lookup w q) (namespaceActive r ns)"
  unfolding namespaceActive_def by (intro keeps_intro get_frame)

lemma namespaceActive_lookup: "namespaceActive r ns w = (b, w1) \<Longrightarrow> lookup w1 = lookup w"
  using keepsD [OF namespaceActive_frame] by blast

lemma namespaceActive_run:
  assumes "served_reads r lookup" and "active_namespace (lookup w) ns"
  shows "\<exists>w1. namespaceActive r ns w = (Inr True, w1) \<and> lookup w1 = lookup w"
proof -
  from assms(2) obtain n where n: "lookup w (KNamespace, ('''', ns)) = Some (ONamespace n)"
    and ph: "ns_Phase n \<noteq> ''Terminating''" by (auto simp: active_namespace_def)
  from assms(1) n have "fst (Get r KNamespace ('''', ns) w) = Inr (ONamespace n)"
    by (simp add: served_reads_def)
  then obtain w1 where get: "Get r KNamespace ('''', ns) w = (Inr (ONamespace n), w1)"
    by (metis prod.collapse)
  have "namespaceActive r ns w = (Inr True, w1)"
    using get ph by (simp add: namespaceActive_def ifErr_run bindM_run asNamespace_def)
  then show ?thesis using get_lookup [OF get] by blast
qed

lemma namespaceActive_ok:
  assumes "namespaceActive r ns w = (Inr b, w1)"
  shows "lookup w1 = lookup w" and "b \<Longrightarrow> active_namespace (lookup w) ns"
proof -
  show "lookup w1 = lookup w"
    using keepsD [OF namespaceActive_frame assms] by blast
  from assms show "active_namespace (lookup w) ns" if b
    using that by (auto simp: namespaceActive_def ok_simps active_namespace_def dest!: get_ok)
qed

lemma dropBindingSubject_frame:
  "q \<noteq> (KClusterRoleBinding, ('''', name)) \<Longrightarrow>
   keeps (\<lambda>w. lookup w q) (dropBindingSubject r name ns)"
  unfolding dropBindingSubject_def
  by (intro keeps_liftR_bind get_bind_frame keeps_bindM update_frame keeps_ret)
    (auto simp: ok_simps objkey_crb)

lemma dropBindingSubject_ok:
  assumes run: "dropBindingSubject r name ns w = (Inr u, w')"
  shows "\<exists>crb y. lookup w (KClusterRoleBinding, ('''', name)) = Some (OClusterRoleBinding crb) \<and>
    admits (Some (OClusterRoleBinding crb)) (OClusterRoleBinding
      (crb\<lparr>crb_Subjects := dropSubjects name ns (crb_Subjects crb)\<rparr>)) y \<and>
    lookup w' (KClusterRoleBinding, ('''', name)) = Some y"
proof -
  let ?k = "(KClusterRoleBinding, ('''', name))"
  from run obtain crb y w1 where
    get: "Get r KClusterRoleBinding ('''', name) w = (Inr (OClusterRoleBinding crb), w1)"
    and upd: "Update r (OClusterRoleBinding
        (crb\<lparr>crb_Subjects := dropSubjects name ns (crb_Subjects crb)\<rparr>)) w1 = (Inr y, w')"
    by (auto simp: dropBindingSubject_def ok_simps)
  have st: "lookup w ?k = Some (OClusterRoleBinding crb)" and w1: "lookup w1 = lookup w"
    using get_ok [OF get] get_lookup [OF get] by auto
  have key: "objkey_of (OClusterRoleBinding
        (crb\<lparr>crb_Subjects := dropSubjects name ns (crb_Subjects crb)\<rparr>)) = ?k"
    using stored_key [OF st] by (simp add: objkey_crb)
  from update_ok [OF upd, unfolded key w1] st have
    adm: "admits (Some (OClusterRoleBinding crb)) (OClusterRoleBinding
        (crb\<lparr>crb_Subjects := dropSubjects name ns (crb_Subjects crb)\<rparr>)) y"
    and w2: "lookup w' = (lookup w)(?k := if gone y then None else Some y)" by auto
  have "\<not> gone y"
    using admits_finalizers [OF adm] admits_deletion [OF adm] stored_alive [OF st] by (simp add: gone_def)
  with st adm w2 show ?thesis by auto
qed

lemma dropBindingSubject_stuck:
  assumes "lookup w (KClusterRoleBinding, ('''', name)) = None"
  shows "\<exists>e w'. dropBindingSubject r name ns w = (Inl e, w') \<and> lookup w' = lookup w"
proof -
  obtain res w1 where get: "Get r KClusterRoleBinding ('''', name) w = (res, w1)"
    by (cases "Get r KClusterRoleBinding ('''', name) w")
  have "\<exists>e. res = Inl e"
    using get_ok [of KClusterRoleBinding "('''', name)" w] get assms by (cases res) auto
  then show ?thesis using get get_lookup [OF get]
    by (auto simp: dropBindingSubject_def bindM_run)
qed

text \<open>Taking the finalizer off: afterwards the stored object is gone or free of it.\<close>

lemma releaseFinalizer_ok:
  assumes "Update r (RemoveFinalizer L x f) w = (Inr z, w')"
  shows "case lookup w' (objkey_of x) of None \<Rightarrow> True | Some y \<Rightarrow> f \<notin> set (om_Finalizers (meta_of y))"
proof -
  have key: "objkey_of (RemoveFinalizer L x f) = objkey_of x" by (simp add: fins.remove_eq)
  from update_ok [OF assms, unfolded key] obtain old where
    a: "admits (Some old) (RemoveFinalizer L x f) z"
    and w': "lookup w' = (lookup w)(objkey_of x := if gone z then None else Some z)" by auto
  have "f \<notin> set (om_Finalizers (meta_of z))"
    using admits_finalizers [OF a] by (simp add: fins.remove_eq)
  with w' show ?thesis by simp
qed

end

end
