(* ===== verification/GwReconciler.thy ===== *)
theory GwReconciler
  imports GwScaling Owner
begin

text \<open>
  The gateway reconciler of \<open>higressgateway_controller.go\<close>: the client it embeds, an event
  recorder and a REST mapper, both of which may be nil.  The contract of everything it
  talks to is the locale \<open>gateway_env\<close>.
\<close>

record 'w gw_reconciler = "'w client" +
  Recorder :: "(kobj \<Rightarrow> string \<Rightarrow> string \<Rightarrow> string \<Rightarrow> 'w \<Rightarrow> 'w) option"
  RESTMapper :: "(GroupVersionKind \<Rightarrow> ('w, unit) io) option"

text \<open>\<open>if r.Recorder != nil { r.Recorder.Event(...) }\<close>.\<close>

definition recordEvent ::
  "('w, 'z) gw_reconciler_scheme \<Rightarrow> kobj \<Rightarrow> string \<Rightarrow> string \<Rightarrow> string \<Rightarrow> ('w, unit) io" where
  "recordEvent r obj eventType reason message = (case Recorder r of
      None \<Rightarrow> ret ()
    | Some event \<Rightarrow> (\<lambda>w. (Inr (), event obj eventType reason message w)))"

text \<open>
  \<open>deleteNativeHPAIfExists\<close> and \<open>deleteKEDAScaledObjectIfExists\<close> are the same text up to
  the kind they read and the event they record: read, delete what was read, record.
\<close>

definition deleteIfExists ::
  "('w, 'z) gw_reconciler_scheme \<Rightarrow> kind \<Rightarrow> HigressGateway \<Rightarrow> string \<Rightarrow> string \<Rightarrow> ('w, unit) io" where
  "deleteIfExists r k g reason message =
     ifErr (Get r k (gw_Namespace g, gw_Name g))
       (\<lambda>err. if is_NotFound err then ret () else fail err)
       (\<lambda>x. ifErr (Delete r x)
          (\<lambda>err. if \<not> is_NotFound err then fail err
                 else recordEvent r (OHigressGateway g) ''Normal'' reason message)
          (\<lambda>_. recordEvent r (OHigressGateway g) ''Normal'' reason message))"

text \<open>\<open>if err != nil && !meta.IsNoMatchError(err) { return err }\<close>.\<close>

definition ignoreNoMatch :: "('w, unit) io \<Rightarrow> ('w, unit) io" where
  "ignoreNoMatch m = ifErr m (\<lambda>err. if \<not> is_NoMatch err then fail err else ret ()) ret"

section \<open>The contract of the environment\<close>

text \<open>
  Two statuses that \<open>equality.Semantic.DeepEqual\<close> identifies agree on everything but the
  rendering of times.
\<close>

definition same_status :: "HigressGatewayStatus \<Rightarrow> HigressGatewayStatus \<Rightarrow> bool" where
  "same_status a b \<longleftrightarrow>
     gst_Deployed a = gst_Deployed b \<and> gst_ObservedGeneration a = gst_ObservedGeneration b \<and>
     gst_EffectiveScaleMode a = gst_EffectiveScaleMode b \<and>
     map untimed (gst_Conditions a) = map untimed (gst_Conditions b)"

lemma same_status_refl [simp]: "same_status a a"
  by (simp add: same_status_def)

locale gateway_env =
  owner_env r L lookup admits same_but_rest semEq +
  conds: status_conditions "SetStatusCondition L"
  for r :: "('w, 'z) gw_reconciler_scheme" and L :: "'w lib"
    and lookup admits same_but_rest semEq +
  assumes event_keeps: "Recorder r = Some event \<Longrightarrow> lookup (event x t rs msg w) = lookup w"
    and mapping_keeps: "RESTMapper r = Some mapping \<Longrightarrow> keeps lookup (mapping gvk)"
    and status_equal: "StatusDeepEqual L a b \<Longrightarrow> same_status a b"
begin

lemma recordEvent_keeps: "keeps lookup (recordEvent r x t rs msg)"
  by (auto simp: recordEvent_def keeps_def event_keeps split: option.split)

lemma recordEvent_lookup: "recordEvent r x t rs msg w = (res, w') \<Longrightarrow> lookup w' = lookup w"
  by (rule keepsD [OF recordEvent_keeps])

lemma recordEvent_frame [keeps_intro]: "keeps (\<lambda>w. lookup w q) (recordEvent r x t rs msg)"
  using recordEvent_keeps by (simp add: keeps_def)

lemma deleteIfExists_frame:
  assumes "q \<noteq> (k, (gw_Namespace g, gw_Name g))"
  shows "keeps (\<lambda>w. lookup w q) (deleteIfExists r k g reason msg)"
  unfolding deleteIfExists_def
  by (intro get_ifErr_frame keeps_intro delete_frame) (use assms in auto)

text \<open>When it returns, the object is gone, or on its way out with finalizers to run.\<close>

lemma deleteIfExists_ok:
  assumes "ignoreNoMatch (deleteIfExists r k g reason msg) w = (Inr u, w')"
  shows "removed (lookup w' (k, (gw_Namespace g, gw_Name g)))"
proof (cases "Get r k (gw_Namespace g, gw_Name g) w")
  case (Pair res w1)
  note get = Pair
  then have w1: "lookup w1 = lookup w" by (rule get_lookup)
  show ?thesis
  proof (cases res)
    case (Inl e)
    with assms get have "w' = w1" and "\<exists>err. e = Error err \<and> (is_NotFound err \<or> is_NoMatch err)"
      by (cases e; auto simp: ignoreNoMatch_def deleteIfExists_def ok_simps ifErr_run split: if_splits)+
    with get Inl w1 show ?thesis by (auto dest!: get_absent)
  next
    case (Inr x)
    with get have key: "objkey_of x = (k, (gw_Namespace g, gw_Name g))"
      by (auto dest!: get_ok stored_key)
    obtain res2 w2 where del: "Delete r x w1 = (res2, w2)" by (cases "Delete r x w1")
    have final: "removed (lookup w2 (objkey_of x)) \<and> lookup w' = lookup w2"
    proof (cases res2)
      case (Inr u2)
      with assms get \<open>res = Inr x\<close> del
      have "lookup w' = lookup w2"
        by (auto simp: ignoreNoMatch_def deleteIfExists_def ok_simps ifErr_run dest: recordEvent_lookup
            split: if_splits)
      with del Inr show ?thesis by (auto dest: delete_ok)
    next
      case (Inl e)
      with assms get \<open>res = Inr x\<close> del
      have "\<exists>err. e = Error err \<and> (is_NotFound err \<or> is_NoMatch err) \<and> lookup w' = lookup w2"
        by (cases e) (auto simp: ignoreNoMatch_def deleteIfExists_def ok_simps ifErr_run
            dest: recordEvent_lookup split: if_splits)
      with del Inl show ?thesis by (auto dest: delete_absent)
    qed
    with key show ?thesis by simp
  qed
qed

lemma deleteIfExists_ok_plain:
  assumes "deleteIfExists r k g reason msg w = (Inr u, w')"
  shows "removed (lookup w' (k, (gw_Namespace g, gw_Name g)))"
proof (rule deleteIfExists_ok)
  show "ignoreNoMatch (deleteIfExists r k g reason msg) w = (Inr u, w')"
    using assms by (simp add: ignoreNoMatch_def ifErr_run)
qed

end

lemma keeps_ignoreNoMatch [keeps_intro]: "keeps obs m \<Longrightarrow> keeps obs (ignoreNoMatch m)"
  unfolding ignoreNoMatch_def by (intro keeps_intro)

end
