(* ===== verification/GwHpa.thy ===== *)
theory GwHpa
  imports GwReconciler
begin

text \<open>\<open>internal/controller/higressgateway/hpa.go\<close>.\<close>

section \<open>The autoscaler object\<close>

definition updateHPAv2Spec :: "HPAv2 \<Rightarrow> HigressGateway \<Rightarrow> HPAv2 res" where
  "updateHPAv2Spec hpa g =
     bindR (deref (crd_AutoScaling (gw_common g))) (\<lambda>as.
     Inr (hpa\<lparr>hpa_Spec :=
       \<lparr>hs_ScaleTargetRef = \<lparr>xr_Kind = ''Deployment'', xr_Name = gw_Name g, xr_APIVersion = ''apps/v1''\<rparr>,
        hs_MinReplicas = as_MinReplicas as,
        hs_MaxReplicas = as_MaxReplicas as,
        hs_Metrics =
          [\<lparr>ms_Type = ''Resource'',
            ms_Resource = Some \<lparr>rm_Name = ''cpu'',
              rm_Target = \<lparr>mt_Type = ''Utilization'', mt_Value = None, mt_AverageValue = None,
                mt_AverageUtilization = as_TargetCPUUtilizationPercentage as\<rparr>\<rparr>,
            ms_rest = []\<rparr>],
        hs_rest = []\<rparr>\<rparr>))"

definition zeroHPASpec :: HPASpec where
  "zeroHPASpec = \<lparr>hs_ScaleTargetRef = \<lparr>xr_Kind = '''', xr_Name = '''', xr_APIVersion = ''''\<rparr>,
     hs_MinReplicas = None, hs_MaxReplicas = 0, hs_Metrics = [], hs_rest = []\<rparr>"

definition initHPAv2 :: "HigressGateway \<Rightarrow> HPAv2 res" where
  "initHPAv2 g =
     updateHPAv2Spec
       \<lparr>hpa_Meta = zeroMeta\<lparr>om_Name := gw_Name g, om_Namespace := gw_Namespace g,
          om_Labels := gw_Labels g, om_Annotations := gw_Annotations g\<rparr>,
        hpa_Spec = zeroHPASpec, hpa_rest = []\<rparr> g"

definition muteHPA :: "HigressGateway \<Rightarrow> mutateFn" where
  "muteHPA g x = (case x of
      OHPA hpa \<Rightarrow>
        bindR (updateHPAv2Spec (hpa\<lparr>hpa_Meta := (hpa_Meta hpa)
            \<lparr>om_Labels := gw_Labels g, om_Annotations := gw_Annotations g\<rparr>\<rparr>) g)
          (\<lambda>hpa'. Inr (OHPA hpa'))
    | _ \<Rightarrow> Inl (Panic WrongType))"

definition reconcileNativeHPA ::
  "'w lib \<Rightarrow> ('w, 'z) gw_reconciler_scheme \<Rightarrow> HigressGateway \<Rightarrow> ('w, unit) io" where
  "reconcileNativeHPA L r g =
     bindM (liftR (initHPAv2 g)) (\<lambda>hpa.
     bindM (liftR (SetControllerReference L (OHigressGateway g) (OHPA hpa))) (\<lambda>obj.
     upsertObj L r ''HorizontalPodAutoscaler'' obj (muteHPA g)))"

definition deleteNativeHPAIfExists ::
  "('w, 'z) gw_reconciler_scheme \<Rightarrow> HigressGateway \<Rightarrow> ('w, unit) io" where
  "deleteNativeHPAIfExists r g =
     deleteIfExists r KHPA g ''NativeHPADeleted'' ''Deleted HorizontalPodAutoscaler''"

section \<open>Conversions between the autoscaling API versions\<close>

text \<open>
  \<open>autoscaling/v2beta2\<close> declares the fields of \<open>v2\<close> under the same names, so the model
  uses one type for both.  A metric without a resource source is a nil dereference.
\<close>

type_synonym HPAv2beta2 = HPAv2

fun metricsToB1 :: "MetricSpec list \<Rightarrow> MetricSpecB1 list res" where
  "metricsToB1 [] = Inr []"
| "metricsToB1 (metric # ms) =
     bindR (deref (ms_Resource metric)) (\<lambda>resource.
     bindR (metricsToB1 ms) (\<lambda>rest.
     Inr (\<lparr>mb1_Type = ms_Type metric,
           mb1_Resource = Some
             \<lparr>rb1_Name = rm_Name resource,
              rb1_TargetAverageUtilization = mt_AverageUtilization (rm_Target resource),
              rb1_TargetAverageValue = mt_AverageValue (rm_Target resource)\<rparr>,
           mb1_rest = []\<rparr> # rest)))"

definition convertV2ToV2beta1 :: "HPAv2 \<Rightarrow> HPAv2beta1 res" where
  "convertV2ToV2beta1 hpa =
     bindR (metricsToB1 (hs_Metrics (hpa_Spec hpa))) (\<lambda>metrics.
     Inr \<lparr>hpb1_Meta = hpa_Meta hpa,
          hpb1_Spec = \<lparr>hb1_ScaleTargetRef = hs_ScaleTargetRef (hpa_Spec hpa),
            hb1_MinReplicas = hs_MinReplicas (hpa_Spec hpa),
            hb1_MaxReplicas = hs_MaxReplicas (hpa_Spec hpa), hb1_Metrics = metrics\<rparr>,
          hpb1_rest = []\<rparr>)"

fun copyMetrics :: "MetricSpec list \<Rightarrow> MetricSpec list res" where
  "copyMetrics [] = Inr []"
| "copyMetrics (metric # ms) =
     bindR (deref (ms_Resource metric)) (\<lambda>resource.
     bindR (copyMetrics ms) (\<lambda>rest.
     Inr (\<lparr>ms_Type = ms_Type metric,
           ms_Resource = Some \<lparr>rm_Name = rm_Name resource,
             rm_Target = \<lparr>mt_Type = mt_Type (rm_Target resource),
               mt_Value = mt_Value (rm_Target resource),
               mt_AverageValue = mt_AverageValue (rm_Target resource),
               mt_AverageUtilization = mt_AverageUtilization (rm_Target resource)\<rparr>\<rparr>,
           ms_rest = []\<rparr> # rest)))"

definition copyHPA :: "HPAv2 \<Rightarrow> HPAv2 res" where
  "copyHPA hpa =
     bindR (copyMetrics (hs_Metrics (hpa_Spec hpa))) (\<lambda>metrics.
     Inr \<lparr>hpa_Meta = hpa_Meta hpa,
          hpa_Spec = \<lparr>hs_ScaleTargetRef = hs_ScaleTargetRef (hpa_Spec hpa),
            hs_MinReplicas = hs_MinReplicas (hpa_Spec hpa),
            hs_MaxReplicas = hs_MaxReplicas (hpa_Spec hpa), hs_Metrics = metrics, hs_rest = []\<rparr>,
          hpa_rest = []\<rparr>)"

definition convertV2ToV2beta2 :: "HPAv2 \<Rightarrow> HPAv2beta2 res" where
  "convertV2ToV2beta2 = copyHPA"

definition convertV2beta2ToV2 :: "HPAv2beta2 \<Rightarrow> HPAv2 res" where
  "convertV2beta2ToV2 = copyHPA"

definition targetOfB1 :: "ResourceMetricSourceB1 \<Rightarrow> MetricTarget" where
  "targetOfB1 resource =
    (let zero = \<lparr>mt_Type = '''', mt_Value = None, mt_AverageValue = None, mt_AverageUtilization = None\<rparr>
     in if rb1_TargetAverageUtilization resource \<noteq> None
        then zero\<lparr>mt_Type := ''Utilization'',
                  mt_AverageUtilization := rb1_TargetAverageUtilization resource\<rparr>
        else if rb1_TargetAverageValue resource \<noteq> None
        then zero\<lparr>mt_Type := ''AverageValue'', mt_AverageValue := rb1_TargetAverageValue resource\<rparr>
        else zero)"

fun metricsOfB1 :: "MetricSpecB1 list \<Rightarrow> MetricSpec list res" where
  "metricsOfB1 [] = Inr []"
| "metricsOfB1 (metric # ms) =
     bindR (deref (mb1_Resource metric)) (\<lambda>resource.
     bindR (metricsOfB1 ms) (\<lambda>rest.
     Inr (\<lparr>ms_Type = mb1_Type metric,
           ms_Resource = Some \<lparr>rm_Name = rb1_Name resource, rm_Target = targetOfB1 resource\<rparr>,
           ms_rest = []\<rparr> # rest)))"

definition convertV2beta1ToV2 :: "HPAv2beta1 \<Rightarrow> HPAv2 res" where
  "convertV2beta1ToV2 hpa =
     bindR (metricsOfB1 (hb1_Metrics (hpb1_Spec hpa))) (\<lambda>metrics.
     Inr \<lparr>hpa_Meta = hpb1_Meta hpa,
          hpa_Spec = \<lparr>hs_ScaleTargetRef = hb1_ScaleTargetRef (hpb1_Spec hpa),
            hs_MinReplicas = hb1_MinReplicas (hpb1_Spec hpa),
            hs_MaxReplicas = hb1_MaxReplicas (hpb1_Spec hpa), hs_Metrics = metrics, hs_rest = []\<rparr>,
          hpa_rest = []\<rparr>)"

section \<open>Facts\<close>

lemma updateHPAv2Spec_meta: "updateHPAv2Spec hpa g = Inr hpa' \<Longrightarrow> hpa_Meta hpa' = hpa_Meta hpa"
  by (auto simp: updateHPAv2Spec_def bindR_ok deref_ok)

lemma initHPAv2_key:
  "initHPAv2 g = Inr hpa \<Longrightarrow> objkey_of (OHPA hpa) = (KHPA, (gw_Namespace g, gw_Name g))"
  by (auto simp: initHPAv2_def objkey_of_def ObjectKeyFromObject_def nskey_of_meta_def
      dest!: updateHPAv2Spec_meta)

lemma meta_stable_muteHPA [simp, intro]: "meta_stable (muteHPA g)"
  by (auto simp: meta_stable_def muteHPA_def bindR_ok split: kobj.splits
      dest!: updateHPAv2Spec_meta)

lemma muteHPA_idem: "muteHPA g x = Inr y \<Longrightarrow> muteHPA g y = Inr y"
  by (auto simp: muteHPA_def updateHPAv2Spec_def bindR_ok deref_ok split: kobj.splits)

text \<open>What the conversions keep: the object without the fields they do not copy.\<close>

definition strippedMetric :: "MetricSpec \<Rightarrow> MetricSpec" where
  "strippedMetric m = m\<lparr>ms_rest := []\<rparr>"

definition strippedHPA :: "HPAv2 \<Rightarrow> HPAv2" where
  "strippedHPA hpa = hpa\<lparr>hpa_rest := [],
     hpa_Spec := (hpa_Spec hpa)\<lparr>hs_rest := [],
       hs_Metrics := map strippedMetric (hs_Metrics (hpa_Spec hpa))\<rparr>\<rparr>"

definition resource_metrics :: "HPAv2 \<Rightarrow> bool" where
  "resource_metrics hpa \<longleftrightarrow> (\<forall>m \<in> set (hs_Metrics (hpa_Spec hpa)). ms_Resource m \<noteq> None)"

text \<open>A target that \<open>v2beta1\<close> can express.\<close>

definition b1_target :: "MetricTarget \<Rightarrow> bool" where
  "b1_target t \<longleftrightarrow>
     (\<exists>u. t = \<lparr>mt_Type = ''Utilization'', mt_Value = None, mt_AverageValue = None,
        mt_AverageUtilization = Some u\<rparr>)
   \<or> (\<exists>q. t = \<lparr>mt_Type = ''AverageValue'', mt_Value = None, mt_AverageValue = Some q,
        mt_AverageUtilization = None\<rparr>)"

definition b1_metrics :: "HPAv2 \<Rightarrow> bool" where
  "b1_metrics hpa \<longleftrightarrow> (\<forall>m \<in> set (hs_Metrics (hpa_Spec hpa)).
     \<exists>res. ms_Resource m = Some res \<and> b1_target (rm_Target res))"

lemma copyMetrics_stripped:
  "copyMetrics ms = (if \<forall>m \<in> set ms. ms_Resource m \<noteq> None then Inr (map strippedMetric ms)
     else Inl (Panic NilDeref))"
proof (induction ms)
  case (Cons m ms)
  then show ?case by (cases "ms_Resource m") (simp_all add: strippedMetric_def)
qed simp

lemma copyHPA_stripped:
  "copyHPA hpa = (if resource_metrics hpa then Inr (strippedHPA hpa) else Inl (Panic NilDeref))"
  by (simp add: copyHPA_def copyMetrics_stripped resource_metrics_def strippedHPA_def)

lemma stripped_resource_metrics [simp]: "resource_metrics (strippedHPA hpa) = resource_metrics hpa"
  by (simp add: resource_metrics_def strippedHPA_def strippedMetric_def)

lemma strippedHPA_idem [simp]: "strippedHPA (strippedHPA hpa) = strippedHPA hpa"
  by (simp add: strippedHPA_def strippedMetric_def)

lemma metricsB1_roundtrip:
  "\<forall>m \<in> set ms. \<exists>res. ms_Resource m = Some res \<and> b1_target (rm_Target res) \<Longrightarrow>
   bindR (metricsToB1 ms) metricsOfB1 = Inr (map strippedMetric ms)"
proof (induction ms)
  case (Cons m ms)
  then obtain res where res: "ms_Resource m = Some res" and t: "b1_target (rm_Target res)"
    by auto
  from Cons obtain ns where ns: "metricsToB1 ms = Inr ns" "metricsOfB1 ns = Inr (map strippedMetric ms)"
    by (auto simp: bindR_ok)
  from t have "rm_Target res = targetOfB1 \<lparr>rb1_Name = rm_Name res,
      rb1_TargetAverageUtilization = mt_AverageUtilization (rm_Target res),
      rb1_TargetAverageValue = mt_AverageValue (rm_Target res)\<rparr>"
    by (auto simp: b1_target_def targetOfB1_def Let_def)
  with res ns show ?case by (simp add: strippedMetric_def)
qed simp

lemma hpaB1_roundtrip:
  assumes "b1_metrics hpa"
  shows "bindR (convertV2ToV2beta1 hpa) convertV2beta1ToV2 = Inr (strippedHPA hpa)"
proof -
  from assms have "\<forall>m \<in> set (hs_Metrics (hpa_Spec hpa)). \<exists>res. ms_Resource m = Some res \<and> b1_target (rm_Target res)"
    by (simp add: b1_metrics_def)
  from metricsB1_roundtrip [OF this] obtain ns where "metricsToB1 (hs_Metrics (hpa_Spec hpa)) = Inr ns"
    and "metricsOfB1 ns = Inr (map strippedMetric (hs_Metrics (hpa_Spec hpa)))"
    by (auto simp: bindR_ok)
  then show ?thesis by (simp add: convertV2ToV2beta1_def convertV2beta1ToV2_def strippedHPA_def)
qed

text \<open>What the operator writes for a valid section can be expressed in every version.\<close>

lemma muteHPA_expressible:
  assumes "validateAutoscalingConfig isZero g = Inr None"
    and "getEffectiveScaleMode g = AutoScalingModeNativeHPA"
    and "muteHPA g x = Inr (OHPA hpa)"
  shows "b1_metrics hpa \<and> strippedHPA hpa = hpa\<lparr>hpa_rest := []\<rparr>"
proof -
  obtain as u where as: "crd_AutoScaling (gw_common g) = Some as"
    and u: "as_TargetCPUUtilizationPercentage as = Some u"
    using validate_ok_native [OF assms(1,2)] by blast
  from assms(3) as obtain hpa0 where hpa: "updateHPAv2Spec hpa0 g = Inr hpa"
    by (auto simp: muteHPA_def bindR_ok split: kobj.splits)
  from hpa as u have "hs_rest (hpa_Spec hpa) = []"
    and "hs_Metrics (hpa_Spec hpa) =
      [\<lparr>ms_Type = ''Resource'', ms_Resource = Some \<lparr>rm_Name = ''cpu'',
          rm_Target = \<lparr>mt_Type = ''Utilization'', mt_Value = None, mt_AverageValue = None,
            mt_AverageUtilization = Some u\<rparr>\<rparr>, ms_rest = []\<rparr>]"
    by (auto simp: updateHPAv2Spec_def)
  then show ?thesis
    by (auto simp: b1_metrics_def b1_target_def strippedHPA_def strippedMetric_def
        intro!: HPAv2.equality HPASpec.equality)
qed

context gateway_env
begin

lemma reconcileNativeHPA_frame:
  "q \<noteq> (KHPA, (gw_Namespace g, gw_Name g)) \<Longrightarrow>
   keeps (\<lambda>w. lookup w q) (reconcileNativeHPA L r g)"
  unfolding reconcileNativeHPA_def
  by (rule owned_upsert_frame) (auto intro: initHPAv2_key)

lemma reconcileNativeHPA_ok:
  assumes "reconcileNativeHPA L r g w = (Inr u, w')"
  shows "\<exists>x. lookup w' (KHPA, (gw_Namespace g, gw_Name g)) = Some x \<and> in_sync admits semEq (muteHPA g) x"
  using owned_upsert_ok [OF initHPAv2_key _ assms [unfolded reconcileNativeHPA_def]] by auto

end

end
