(* ===== verification/GwKeda.thy ===== *)
theory GwKeda
  imports GwReconciler
begin

text \<open>\<open>internal/controller/higressgateway/keda.go\<close>.\<close>

definition kedaScaledObjectGVK :: GroupVersionKind where
  "kedaScaledObjectGVK =
     \<lparr>gvk_Group = ''keda.sh'', gvk_Version = ''v1alpha1'', gvk_Kind = ''ScaledObject''\<rparr>"

text \<open>The Go conversion \<open>int64(x)\<close> of a signed 32-bit integer.\<close>

definition int64_of :: "int32 \<Rightarrow> int64" where
  "int64_of x = signed x"

definition buildTriggerMetadata :: "smap \<Rightarrow> (string \<times> any) list option" where
  "buildTriggerMetadata metadata =
     (if mlen metadata = 0 then None
      else Some (map (\<lambda>(key, val). (key, AString val)) (mentries metadata)))"

fun kedaTriggers :: "KEDAScaleTrigger list \<Rightarrow> any list" where
  "kedaTriggers [] = []"
| "kedaTriggers (trigger # ts) =
     AMap (Some
       ([(''type'', AString (kt_Type trigger)),
         (''metadata'', AMap (buildTriggerMetadata (kt_Metadata trigger)))]
      @ (case kt_AuthenticationRef trigger of
           None \<Rightarrow> []
         | Some name \<Rightarrow> [(''authenticationRef'', AMap (Some [(''name'', AString name)]))])))
     # kedaTriggers ts"

definition buildKEDATriggers :: "KEDAScalingConfig option \<Rightarrow> any list option" where
  "buildKEDATriggers cfg = (case cfg of None \<Rightarrow> None | Some c \<Rightarrow> Some (kedaTriggers (kc_Triggers c)))"

definition optionalField :: "string \<Rightarrow> int32 option \<Rightarrow> (string \<times> any) list" where
  "optionalField key p = (case p of None \<Rightarrow> [] | Some x \<Rightarrow> [(key, AInt64 (int64_of x))])"

definition scaledObjectSpec :: "AutoScaling \<Rightarrow> HigressGateway \<Rightarrow> (string \<times> any) list" where
  "scaledObjectSpec as g =
     [(''scaleTargetRef'', AMap (Some
        [(''name'', AString (gw_Name g)), (''kind'', AString ''Deployment''),
         (''apiVersion'', AString ''apps/v1'')])),
      (''maxReplicaCount'', AInt64 (int64_of (as_MaxReplicas as))),
      (''triggers'', ASlice (buildKEDATriggers (as_KEDA as)))]
   @ optionalField ''minReplicaCount'' (as_MinReplicas as)
   @ (case as_KEDA as of
        None \<Rightarrow> []
      | Some cfg \<Rightarrow> optionalField ''pollingInterval'' (kc_PollingIntervalSeconds cfg)
          @ optionalField ''cooldownPeriod'' (kc_CooldownPeriodSeconds cfg)
          @ optionalField ''idleReplicaCount'' (kc_IdleReplicaCount cfg))"

definition updateScaledObjectSpec :: "Unstructured \<Rightarrow> HigressGateway \<Rightarrow> Unstructured res" where
  "updateScaledObjectSpec obj g =
     bindR (deref (crd_AutoScaling (gw_common g))) (\<lambda>as.
     Inr (obj\<lparr>un_Object := AList.update ''spec'' (AMap (Some (scaledObjectSpec as g))) (un_Object obj)\<rparr>))"

definition buildScaledObject :: "HigressGateway \<Rightarrow> Unstructured res" where
  "buildScaledObject g =
     updateScaledObjectSpec
       \<lparr>un_GVK = kedaScaledObjectGVK,
        un_Meta = zeroMeta\<lparr>om_Name := gw_Name g, om_Namespace := gw_Namespace g,
          om_Labels := gw_Labels g, om_Annotations := gw_Annotations g\<rparr>,
        un_Object = []\<rparr> g"

definition muteScaledObject :: "HigressGateway \<Rightarrow> mutateFn" where
  "muteScaledObject g x = (case x of
      OUnstructured obj \<Rightarrow>
        bindR (updateScaledObjectSpec (obj\<lparr>un_Meta := (un_Meta obj)
            \<lparr>om_Labels := gw_Labels g, om_Annotations := gw_Annotations g\<rparr>\<rparr>) g)
          (\<lambda>obj'. Inr (OUnstructured obj'))
    | _ \<Rightarrow> Inl (Panic WrongType))"

definition reconcileKEDAScaledObject ::
  "'w lib \<Rightarrow> ('w, 'z) gw_reconciler_scheme \<Rightarrow> HigressGateway \<Rightarrow> ('w, unit) io" where
  "reconcileKEDAScaledObject L r g =
     bindM (liftR (buildScaledObject g)) (\<lambda>scaled.
     bindM (liftR (SetControllerReference L (OHigressGateway g) (OUnstructured scaled))) (\<lambda>obj.
     upsertObj L r ''ScaledObject'' obj (muteScaledObject g)))"

definition deleteKEDAScaledObjectIfExists ::
  "('w, 'z) gw_reconciler_scheme \<Rightarrow> HigressGateway \<Rightarrow> ('w, unit) io" where
  "deleteKEDAScaledObjectIfExists r g =
     deleteIfExists r (KUnstructured kedaScaledObjectGVK) g
       ''KEDAScaledObjectDeleted'' ''Deleted KEDA ScaledObject''"

definition isKEDACRDInstalled :: "('w, 'z) gw_reconciler_scheme \<Rightarrow> ('w, bool) io" where
  "isKEDACRDInstalled r = (case RESTMapper r of
      None \<Rightarrow> fail (Errorf ''RESTMapper is not configured'')
    | Some restMapping \<Rightarrow>
        ifErr (restMapping kedaScaledObjectGVK)
          (\<lambda>err. if is_NoMatch err then ret False else fail err)
          (\<lambda>_. ret True))"

section \<open>Facts\<close>

lemma int64_of_sint [simp]: "sint (int64_of x) = sint x"
  by (simp add: int64_of_def sint_up_scast is_up)

lemma kedaTriggers_length [simp]: "length (kedaTriggers ts) = length ts"
  by (induction ts) simp_all

lemma updateScaledObjectSpec_ok:
  "updateScaledObjectSpec obj g = Inr obj' \<Longrightarrow> un_Meta obj' = un_Meta obj \<and> un_GVK obj' = un_GVK obj"
  by (auto simp: updateScaledObjectSpec_def ok_simps)

lemma buildScaledObject_key:
  "buildScaledObject g = Inr obj \<Longrightarrow>
   objkey_of (OUnstructured obj) = (KUnstructured kedaScaledObjectGVK, (gw_Namespace g, gw_Name g))"
  by (auto simp: buildScaledObject_def objkey_of_def ObjectKeyFromObject_def nskey_of_meta_def
      dest!: updateScaledObjectSpec_ok)

lemma meta_stable_muteScaledObject [simp, intro]: "meta_stable (muteScaledObject g)"
  by (auto simp: meta_stable_def muteScaledObject_def ok_simps split: kobj.splits
      dest!: updateScaledObjectSpec_ok)

lemma muteScaledObject_idem: "muteScaledObject g x = Inr y \<Longrightarrow> muteScaledObject g y = Inr y"
  by (auto simp: muteScaledObject_def updateScaledObjectSpec_def ok_simps split: kobj.splits)

context gateway_env
begin

lemma reconcileKEDA_frame:
  "q \<noteq> (KUnstructured kedaScaledObjectGVK, (gw_Namespace g, gw_Name g)) \<Longrightarrow>
   keeps (\<lambda>w. lookup w q) (reconcileKEDAScaledObject L r g)"
  unfolding reconcileKEDAScaledObject_def
  by (rule owned_upsert_frame) (auto intro: buildScaledObject_key)

lemma reconcileKEDA_ok:
  assumes "reconcileKEDAScaledObject L r g w = (Inr u, w')"
  shows "\<exists>x. lookup w' (KUnstructured kedaScaledObjectGVK, (gw_Namespace g, gw_Name g)) = Some x \<and> in_sync admits semEq (muteScaledObject g) x"
  using owned_upsert_ok [OF buildScaledObject_key _ assms [unfolded reconcileKEDAScaledObject_def]] by auto

lemma isKEDACRDInstalled_keeps: "keeps lookup (isKEDACRDInstalled r)"
  unfolding isKEDACRDInstalled_def by (auto intro!: keeps_intro mapping_keeps)

end

end
