(* ===== verification/GwStatus.thy ===== *)
theory GwStatus
  imports GwReconciler
begin

text \<open>
  The status of the gateway resource (\<open>higressgateway_controller.go\<close>): the condition types
  and reasons, what each \<open>mark\<close> function writes, and the patch that publishes it.
\<close>

section \<open>Constants\<close>

definition conditionTypeReady :: string where "conditionTypeReady = ''Ready''"
definition conditionTypeConfigurationValid :: string where
  "conditionTypeConfigurationValid = ''ConfigurationValid''"
definition conditionTypeAutoscalingReady :: string where
  "conditionTypeAutoscalingReady = ''AutoscalingReady''"
definition conditionTypeDependencyReady :: string where
  "conditionTypeDependencyReady = ''DependencyReady''"

definition reasonValidationSucceeded :: string where "reasonValidationSucceeded = ''ValidationSucceeded''"
definition reasonResourcesReady :: string where "reasonResourcesReady = ''ResourcesReady''"
definition reasonConfigurationInvalid :: string where "reasonConfigurationInvalid = ''ConfigurationInvalid''"
definition reasonAutoscalingDisabled :: string where "reasonAutoscalingDisabled = ''AutoscalingDisabled''"
definition reasonAutoscalingReady :: string where "reasonAutoscalingReady = ''AutoscalingReady''"
definition reasonDependencyReady :: string where "reasonDependencyReady = ''DependencyReady''"
definition reasonDependencyNotRequired :: string where
  "reasonDependencyNotRequired = ''NoExternalDependency''"
definition reasonDependencyMissing :: string where "reasonDependencyMissing = ''DependencyMissing''"

definition ConditionTrue :: string where "ConditionTrue = ''True''"
definition ConditionFalse :: string where "ConditionFalse = ''False''"
definition ConditionUnknown :: string where "ConditionUnknown = ''Unknown''"

lemmas condition_type_defs = conditionTypeReady_def conditionTypeConfigurationValid_def
  conditionTypeAutoscalingReady_def conditionTypeDependencyReady_def

lemma condition_types_distinct [simp]:
  "distinct [conditionTypeConfigurationValid, conditionTypeReady, conditionTypeAutoscalingReady,
     conditionTypeDependencyReady]"
  by (simp add: condition_type_defs)

lemma condition_types_neq [simp]:
  "conditionTypeReady \<noteq> conditionTypeConfigurationValid"
  "conditionTypeReady \<noteq> conditionTypeAutoscalingReady"
  "conditionTypeReady \<noteq> conditionTypeDependencyReady"
  "conditionTypeConfigurationValid \<noteq> conditionTypeReady"
  "conditionTypeConfigurationValid \<noteq> conditionTypeAutoscalingReady"
  "conditionTypeConfigurationValid \<noteq> conditionTypeDependencyReady"
  "conditionTypeAutoscalingReady \<noteq> conditionTypeReady"
  "conditionTypeAutoscalingReady \<noteq> conditionTypeConfigurationValid"
  "conditionTypeAutoscalingReady \<noteq> conditionTypeDependencyReady"
  "conditionTypeDependencyReady \<noteq> conditionTypeReady"
  "conditionTypeDependencyReady \<noteq> conditionTypeConfigurationValid"
  "conditionTypeDependencyReady \<noteq> conditionTypeAutoscalingReady"
  by (simp_all add: condition_type_defs)

section \<open>Writing conditions\<close>

definition condition :: "string \<Rightarrow> string \<Rightarrow> string \<Rightarrow> string \<Rightarrow> int64 \<Rightarrow> Condition" where
  "condition t s reason message generation =
     \<lparr>cond_Type = t, cond_Status = s, cond_ObservedGeneration = generation,
      cond_LastTransitionTime = '''', cond_Reason = reason, cond_Message = message\<rparr>"

definition addCondition :: "'w lib \<Rightarrow> Condition \<Rightarrow> HigressGatewayStatus \<Rightarrow> HigressGatewayStatus" where
  "addCondition L x status =
     status\<lparr>gst_Conditions := SetStatusCondition L (gst_Conditions status) x\<rparr>"

definition markConfigurationInvalid ::
  "'w lib \<Rightarrow> HigressGatewayStatus \<Rightarrow> int64 \<Rightarrow> AutoScalingMode \<Rightarrow> validationError \<Rightarrow> HigressGatewayStatus" where
  "markConfigurationInvalid L status generation mode ve =
    (let s0 = status\<lparr>gst_Deployed := False, gst_ObservedGeneration := generation,
                     gst_EffectiveScaleMode := mode\<rparr>;
         s1 = addCondition L (condition conditionTypeConfigurationValid ConditionFalse
                (ve_reason ve) (ve_message ve) generation) s0;
         s2 = addCondition L (condition conditionTypeReady ConditionFalse
                reasonConfigurationInvalid (ve_message ve) generation) s1;
         s3 = addCondition L (condition conditionTypeAutoscalingReady ConditionFalse
                reasonConfigurationInvalid (ve_message ve) generation) s2
     in addCondition L (condition conditionTypeDependencyReady ConditionUnknown
          reasonConfigurationInvalid (ve_message ve) generation) s3)"

definition markResourcesReady ::
  "'w lib \<Rightarrow> HigressGatewayStatus \<Rightarrow> int64 \<Rightarrow> AutoScalingMode \<Rightarrow> HigressGatewayStatus" where
  "markResourcesReady L status generation mode =
    (let s0 = status\<lparr>gst_Deployed := True, gst_ObservedGeneration := generation,
                     gst_EffectiveScaleMode := mode\<rparr>;
         s1 = addCondition L (condition conditionTypeConfigurationValid ConditionTrue
                reasonValidationSucceeded ''HigressGateway configuration is valid'' generation) s0
     in addCondition L (condition conditionTypeReady ConditionTrue reasonResourcesReady
          ''HigressGateway resources reconciled successfully'' generation) s1)"

definition setAutoscalingCondition ::
  "'w lib \<Rightarrow> HigressGatewayStatus \<Rightarrow> int64 \<Rightarrow> string \<Rightarrow> string \<Rightarrow> string \<Rightarrow> HigressGatewayStatus" where
  "setAutoscalingCondition L status generation conditionStatus reason message =
     addCondition L (condition conditionTypeAutoscalingReady conditionStatus reason message generation) status"

definition setDependencyCondition ::
  "'w lib \<Rightarrow> HigressGatewayStatus \<Rightarrow> int64 \<Rightarrow> string \<Rightarrow> string \<Rightarrow> string \<Rightarrow> HigressGatewayStatus" where
  "setDependencyCondition L status generation conditionStatus reason message =
     addCondition L (condition conditionTypeDependencyReady conditionStatus reason message generation) status"

section \<open>Publishing\<close>

text \<open>\<open>base\<close> is a deep copy of the instance taken before its status is changed.\<close>

definition patchStatus ::
  "'w lib \<Rightarrow> ('w, 'z) gw_reconciler_scheme \<Rightarrow> HigressGateway \<Rightarrow>
   (HigressGatewayStatus \<Rightarrow> HigressGatewayStatus) \<Rightarrow> ('w, unit) io" where
  "patchStatus L r g f =
    (let base = g;
         instance' = g\<lparr>gw_Status := f (gw_Status g)\<rparr>
     in if StatusDeepEqual L (gw_Status base) (gw_Status instance') then ret ()
        else bindM (StatusPatch r (OHigressGateway instance') (OHigressGateway base)) (\<lambda>_. ret ()))"

definition recordValidationFailure ::
  "('w, 'z) gw_reconciler_scheme \<Rightarrow> HigressGateway \<Rightarrow> validationError \<Rightarrow> ('w, unit) io" where
  "recordValidationFailure r g ve =
     recordEvent r (OHigressGateway g) ''Warning'' (ve_reason ve) (ve_message ve)"

section \<open>Facts\<close>

text \<open>What a reader of the status finds under a condition type.\<close>

definition condition_is :: "string \<Rightarrow> string \<Rightarrow> string \<Rightarrow> HigressGatewayStatus \<Rightarrow> bool" where
  "condition_is t s reason status \<longleftrightarrow>
     (\<exists>x. findCondition t (gst_Conditions status) = Some x \<and> cond_Status x = s \<and>
        cond_Reason x = reason \<and> cond_ObservedGeneration x = gst_ObservedGeneration status)"

lemma untimed_eq:
  "untimed x = untimed y \<longleftrightarrow> cond_Type x = cond_Type y \<and> cond_Status x = cond_Status y \<and>
     cond_ObservedGeneration x = cond_ObservedGeneration y \<and> cond_Reason x = cond_Reason y \<and>
     cond_Message x = cond_Message y"
  by (cases x; cases y) (auto simp: untimed_def)

lemma find_untimed: "map_option untimed (findCondition t cs) = findCondition t (map untimed cs)"
  by (induction cs) (auto simp: untimed_def)

lemma condition_is_same: "same_status a b \<Longrightarrow> condition_is t s reason a = condition_is t s reason b"
proof -
  assume ab: "same_status a b"
  then have "map_option untimed (findCondition t (gst_Conditions a)) =
      map_option untimed (findCondition t (gst_Conditions b))"
    by (simp add: find_untimed same_status_def)
  with ab show ?thesis
    by (cases "findCondition t (gst_Conditions a)"; cases "findCondition t (gst_Conditions b)")
      (auto simp: condition_is_def same_status_def untimed_eq)
qed

text \<open>The status after a rejected configuration, and after a complete reconcile.\<close>

definition status_rejected :: "int64 \<Rightarrow> AutoScalingMode \<Rightarrow> string \<Rightarrow> HigressGatewayStatus \<Rightarrow> bool" where
  "status_rejected generation mode reason s \<longleftrightarrow>
     \<not> gst_Deployed s \<and> gst_ObservedGeneration s = generation \<and> gst_EffectiveScaleMode s = mode \<and>
     condition_is conditionTypeConfigurationValid ConditionFalse reason s \<and>
     condition_is conditionTypeReady ConditionFalse reasonConfigurationInvalid s \<and>
     condition_is conditionTypeAutoscalingReady ConditionFalse reasonConfigurationInvalid s \<and>
     condition_is conditionTypeDependencyReady ConditionUnknown reasonConfigurationInvalid s"

definition status_ready ::
  "int64 \<Rightarrow> AutoScalingMode \<Rightarrow> string \<times> string \<Rightarrow> string \<times> string \<Rightarrow> HigressGatewayStatus \<Rightarrow> bool" where
  "status_ready generation mode auto dep s \<longleftrightarrow>
     gst_Deployed s \<and> gst_ObservedGeneration s = generation \<and> gst_EffectiveScaleMode s = mode \<and>
     condition_is conditionTypeConfigurationValid ConditionTrue reasonValidationSucceeded s \<and>
     condition_is conditionTypeReady ConditionTrue reasonResourcesReady s \<and>
     condition_is conditionTypeAutoscalingReady (fst auto) (snd auto) s \<and>
     condition_is conditionTypeDependencyReady (fst dep) (snd dep) s"

lemma condition_is_transfer: "same_status a b \<Longrightarrow> condition_is t s reason a \<Longrightarrow> condition_is t s reason b"
  using condition_is_same by blast

lemma status_rejected_same:
  "same_status a b \<Longrightarrow> status_rejected n m rs a \<Longrightarrow> status_rejected n m rs b"
  by (auto simp: status_rejected_def intro: condition_is_transfer) (simp_all add: same_status_def)

lemma status_ready_same:
  "same_status a b \<Longrightarrow> status_ready n m x y a \<Longrightarrow> status_ready n m x y b"
  by (auto simp: status_ready_def intro: condition_is_transfer) (simp_all add: same_status_def)

lemma addCondition_fields [simp]:
  "gst_Deployed (addCondition L x s) = gst_Deployed s"
  "gst_ObservedGeneration (addCondition L x s) = gst_ObservedGeneration s"
  "gst_EffectiveScaleMode (addCondition L x s) = gst_EffectiveScaleMode s"
  by (simp_all add: addCondition_def)

lemma addCondition_is:
  assumes "status_conditions (SetStatusCondition L)"
  shows "condition_is t s reason (addCondition L (condition t' s' reason' m n) st) \<longleftrightarrow>
    (if t = t' then s = s' \<and> reason = reason' \<and> n = gst_ObservedGeneration st
     else condition_is t s reason st)"
proof -
  note status_conditions.set_find [OF assms, of t "gst_Conditions st" "condition t' s' reason' m n"]
  then show ?thesis
    by (auto simp: condition_is_def addCondition_def condition_def untimed_eq
        status_conditions.set_other [OF assms])
qed

lemma markConfigurationInvalid_status:
  assumes "status_conditions (SetStatusCondition L)"
  shows "status_rejected n m (ve_reason ve) (markConfigurationInvalid L s n m ve)"
  by (simp add: status_rejected_def markConfigurationInvalid_def Let_def addCondition_is [OF assms])

lemma readyStatus_status:
  assumes "status_conditions (SetStatusCondition L)"
  shows "status_ready n m (a, ar) (d, dr)
    (setDependencyCondition L (setAutoscalingCondition L (markResourcesReady L s n m) n a ar am) n d dr dm)"
  by (simp add: status_ready_def markResourcesReady_def setAutoscalingCondition_def
      setDependencyCondition_def Let_def addCondition_is [OF assms])

context gateway_env
begin

lemma patchStatus_frame:
  "q \<noteq> objkey_of (OHigressGateway g) \<Longrightarrow> keeps (\<lambda>w. lookup w q) (patchStatus L r g f)"
  unfolding patchStatus_def Let_def
  by (intro keeps_intro patch_frame) (simp add: objkey_of_def ObjectKeyFromObject_def)

text \<open>
  The stored resource after a successful patch: its status is the one asked for, up to
  the rendering of times, provided the instance was read at the stored status.
\<close>

lemma patchStatus_ok:
  assumes run: "patchStatus L r g f w = (Inr u, w')"
    and stored: "lookup w (objkey_of (OHigressGateway g)) = Some (OHigressGateway cur)"
    and fresh: "gw_Status cur = gw_Status g"
  shows "\<exists>cur'. lookup w' (objkey_of (OHigressGateway g)) = Some (OHigressGateway cur') \<and>
    gw_Spec cur' = gw_Spec cur \<and> same_but_rest (gw_Meta cur') (gw_Meta cur) \<and>
    same_status (f (gw_Status g)) (gw_Status cur')"
proof (cases "StatusDeepEqual L (gw_Status g) (f (gw_Status g))")
  case True
  with run have "w' = w" by (simp add: patchStatus_def)
  moreover have "same_status (f (gw_Status g)) (gw_Status cur)"
    using status_equal [OF True] fresh by (simp add: same_status_def)
  ultimately show ?thesis using stored by (auto simp: rest_only)
next
  case False
  let ?g' = "g\<lparr>gw_Status := f (gw_Status g)\<rparr>"
  have key: "objkey_of (OHigressGateway ?g') = objkey_of (OHigressGateway g)"
    by (simp add: objkey_of_def ObjectKeyFromObject_def)
  from run False obtain y where "StatusPatch r (OHigressGateway ?g') (OHigressGateway g) w = (Inr y, w')"
    by (auto simp: patchStatus_def Let_def ok_simps)
  from patch_ok [OF this] key stored fresh show ?thesis by auto
qed

end

end
