(* ===== verification/GwController.thy ===== *)
theory GwController
  imports GwRbac GwDeployment GwService GwHpa GwKeda GwStatus
begin

text \<open>
  \<open>internal/controller/higressgateway/higressgateway_controller.go\<close>: the children of a
  gateway, its finalizer and \<open>Reconcile\<close>.  \<open>ord\<close> and \<open>ord'\<close> are the orders in which Go
  ranges over \<open>spec.env\<close> when the deployment is built and when it is mutated.
\<close>

definition finalizer_gw :: string where
  "finalizer_gw = ''higressgateway.higress.io/finalizer''"

section \<open>Children\<close>

definition createServiceAccount_gw ::
  "'w lib \<Rightarrow> ('w, 'z) gw_reconciler_scheme \<Rightarrow> HigressGateway \<Rightarrow> ('w, unit) io" where
  "createServiceAccount_gw L r g =
     bindM (liftR (initServiceAccount_gw g)) (\<lambda>sa.
     bindM (liftR (SetControllerReference L (OHigressGateway g) (OServiceAccount sa))) (\<lambda>obj.
     bindM (CreateIfNotExits r obj) (\<lambda>exists. ret ())))"

definition createRBAC_gw ::
  "'w lib \<Rightarrow> ('w, 'z) gw_reconciler_scheme \<Rightarrow> HigressGateway \<Rightarrow> ('w, unit) io" where
  "createRBAC_gw L r g =
     bindM (liftR (deref (crd_RBAC (gw_common g)))) (\<lambda>rbac.
     if \<not> rbac_Enable rbac then ret () else
     bindM (liftR (deref (crd_ServiceAccount (gw_common g)))) (\<lambda>sa.
     if \<not> sa_Enable sa then ret () else
     bindM (upsertObj L r ''clusterrole'' (OClusterRole (initClusterRole_gw g)) (muteClusterRole_gw g)) (\<lambda>_.
     bindM (liftR (initClusterRoleBinding_gw g)) (\<lambda>crb.
     bindM (upsertObj L r ''clusterRoleBinding'' (OClusterRoleBinding crb) (muteClusterRoleBinding_gw g)) (\<lambda>_.
     bindM (upsertObj L r ''role'' (ORole (initRole_gw g)) (muteRole_gw g)) (\<lambda>_.
     bindM (liftR (initRoleBinding_gw g)) (\<lambda>rb.
     upsertObj L r ''roleBinding'' (ORoleBinding rb) (muteRoleBinding_gw g))))))))"

text \<open>
  Building the gateway's config map sets the discovery address of the instance, so the
  instance is a result; the mutation would set it to the same value again.
\<close>

definition createConfigMap_gw ::
  "'w lib \<Rightarrow> ('w, 'z) gw_reconciler_scheme \<Rightarrow> HigressGateway \<Rightarrow> ('w, HigressGateway) io" where
  "createConfigMap_gw L r g =
     bindM (liftR (initGatewayConfigMap L g)) (\<lambda>(cm, g1).
     bindM (upsertObj L r ''gatewayConfigMap'' (OConfigMap cm)
       (muteConfigMap g1 (updateGatewayConfigMapSpec L))) (\<lambda>_.
     bindM (liftR (deref (gws_Skywalking (gw_Spec g1)))) (\<lambda>skywalking.
     if sky_Enable skywalking then
       bindM (liftR (initSkywalkingConfigMap g1)) (\<lambda>(sky, g2).
       bindM (liftR (SetControllerReference L (OHigressGateway g2) (OConfigMap sky))) (\<lambda>obj.
       bindM (upsertObj L r ''skywalkingConfigMap'' obj (muteConfigMap g2 updateSkywalkingConfigMap)) (\<lambda>_.
       ret g2)))
     else ret g1)))"

definition createDeployment_gw ::
  "'w lib \<Rightarrow> ('w, 'z) gw_reconciler_scheme \<Rightarrow> rangeOrder \<Rightarrow> rangeOrder \<Rightarrow> HigressGateway \<Rightarrow> ('w, unit) io" where
  "createDeployment_gw L r ord ord' g =
     bindM (liftR (Inr (initDeployment_gw ord g))) (\<lambda>deploy.
     bindM (liftR (SetControllerReference L (OHigressGateway g) (ODeployment deploy))) (\<lambda>obj.
     upsertObj L r ''Deployment'' obj (muteDeployment_gw ord' g)))"

text \<open>The instance shares its label map with the service, so it is a result as well.\<close>

definition createService_gw ::
  "'w lib \<Rightarrow> ('w, 'z) gw_reconciler_scheme \<Rightarrow> HigressGateway \<Rightarrow> ('w, HigressGateway) io" where
  "createService_gw L r g =
     bindM (liftR (initService_gw g)) (\<lambda>(svc, g1).
     bindM (liftR (SetControllerReference L (OHigressGateway g1) (OService svc))) (\<lambda>obj.
     bindM (upsertObj L r ''Service'' obj (muteService_gw g1)) (\<lambda>_. ret g1)))"

section \<open>Finalizer\<close>

definition finalizeHigressGateway ::
  "('w, 'z) gw_reconciler_scheme \<Rightarrow> HigressGateway \<Rightarrow> ('w, unit) io" where
  "finalizeHigressGateway r g =
     bindM (liftR (getServiceAccount_gw g)) (\<lambda>name.
     dropBindingSubject r name (gw_Namespace g))"

definition reconcileDeletion_gw ::
  "'w lib \<Rightarrow> ('w, 'z) gw_reconciler_scheme \<Rightarrow> HigressGateway \<Rightarrow> ('w, unit) io" where
  "reconcileDeletion_gw L r g =
    (if ContainsFinalizer L (OHigressGateway g) finalizer_gw then
       bindM (finalizeHigressGateway r g) (\<lambda>_.
       bindM (Update r (RemoveFinalizer L (OHigressGateway g) finalizer_gw)) (\<lambda>_. ret ()))
     else ret ())"

definition ensureFinalizer_gw ::
  "'w lib \<Rightarrow> ('w, 'z) gw_reconciler_scheme \<Rightarrow> nskey \<Rightarrow> HigressGateway \<Rightarrow> ('w, HigressGateway) io" where
  "ensureFinalizer_gw L r nn g =
    (case AddFinalizer L (OHigressGateway g) finalizer_gw of (x, updated) \<Rightarrow>
       if updated then
         bindM (Update r x) (\<lambda>_.
         bindM (Get r KHigressGateway nn) (\<lambda>y.
         bindM (liftR (asGateway y)) (\<lambda>g'. ret (setDefaultValues_gw g'))))
       else ret g)"

section \<open>Reconcile\<close>

definition rejectInvalid ::
  "'w lib \<Rightarrow> ('w, 'z) gw_reconciler_scheme \<Rightarrow> HigressGateway \<Rightarrow> AutoScalingMode \<Rightarrow> validationError \<Rightarrow>
   ('w, unit) io" where
  "rejectInvalid L r g mode ve =
     bindM (deleteNativeHPAIfExists r g) (\<lambda>_.
     bindM (ignoreNoMatch (deleteKEDAScaledObjectIfExists r g)) (\<lambda>_.
     bindM (recordValidationFailure r g ve) (\<lambda>_.
     patchStatus L r g (\<lambda>status.
       markConfigurationInvalid L status (om_Generation (gw_Meta g)) mode ve))))"

text \<open>What the autoscaling step reports: status, reason and message of two conditions.\<close>

record autoscalingOutcome =
  ao_Status :: string
  ao_Reason :: string
  ao_Message :: string
  ao_DepStatus :: string
  ao_DepReason :: string
  ao_DepMessage :: string

definition initialOutcome :: autoscalingOutcome where
  "initialOutcome = \<lparr>ao_Status = ConditionTrue, ao_Reason = reasonAutoscalingDisabled,
     ao_Message = ''Autoscaling is disabled'', ao_DepStatus = ConditionTrue,
     ao_DepReason = reasonDependencyNotRequired,
     ao_DepMessage = ''No external autoscaling dependency is required''\<rparr>"

definition kedaMissingOutcome :: autoscalingOutcome where
  "kedaMissingOutcome = \<lparr>ao_Status = ConditionFalse, ao_Reason = reasonDependencyMissing,
     ao_Message = ''KEDA ScaledObject cannot be reconciled because the KEDA CRD is not installed'',
     ao_DepStatus = ConditionFalse, ao_DepReason = reasonDependencyMissing,
     ao_DepMessage = ''KEDA CRD is not installed in the cluster''\<rparr>"

definition reconcileAutoscaling ::
  "'w lib \<Rightarrow> ('w, 'z) gw_reconciler_scheme \<Rightarrow> HigressGateway \<Rightarrow> AutoScalingMode \<Rightarrow>
   ('w, autoscalingOutcome) io" where
  "reconcileAutoscaling L r g mode =
    (if mode = AutoScalingModeDisabled then
       bindM (deleteNativeHPAIfExists r g) (\<lambda>_.
       bindM (ignoreNoMatch (deleteKEDAScaledObjectIfExists r g)) (\<lambda>_.
       ret initialOutcome))
     else if mode = AutoScalingModeNativeHPA then
       bindM (ignoreNoMatch (deleteKEDAScaledObjectIfExists r g)) (\<lambda>_.
       bindM (reconcileNativeHPA L r g) (\<lambda>_.
       ret (initialOutcome\<lparr>ao_Reason := reasonAutoscalingReady,
              ao_Message := ''Native HPA reconciled successfully''\<rparr>)))
     else if mode = AutoScalingModeKEDA then
       bindM (deleteNativeHPAIfExists r g) (\<lambda>_.
       bindM (isKEDACRDInstalled r) (\<lambda>installed.
       if \<not> installed then ret kedaMissingOutcome
       else
         bindM (reconcileKEDAScaledObject L r g) (\<lambda>_.
         ret (initialOutcome\<lparr>ao_Reason := reasonAutoscalingReady,
                ao_Message := ''KEDA ScaledObject reconciled successfully'',
                ao_DepReason := reasonDependencyReady,
                ao_DepMessage := ''KEDA CRD is available''\<rparr>))))
     else ret initialOutcome)"

definition publishReady ::
  "'w lib \<Rightarrow> ('w, 'z) gw_reconciler_scheme \<Rightarrow> HigressGateway \<Rightarrow> AutoScalingMode \<Rightarrow> autoscalingOutcome \<Rightarrow>
   ('w, unit) io" where
  "publishReady L r g mode out =
    (let generation = om_Generation (gw_Meta g)
     in patchStatus L r g (\<lambda>status.
       setDependencyCondition L
         (setAutoscalingCondition L (markResourcesReady L status generation mode)
           generation (ao_Status out) (ao_Reason out) (ao_Message out))
         generation (ao_DepStatus out) (ao_DepReason out) (ao_DepMessage out)))"

definition reconcileChildren ::
  "'w lib \<Rightarrow> ('w, 'z) gw_reconciler_scheme \<Rightarrow> rangeOrder \<Rightarrow> rangeOrder \<Rightarrow> HigressGateway \<Rightarrow>
   AutoScalingMode \<Rightarrow> ('w, unit) io" where
  "reconcileChildren L r ord ord' g mode =
     bindM (createServiceAccount_gw L r g) (\<lambda>_.
     bindM (createRBAC_gw L r g) (\<lambda>_.
     bindM (createConfigMap_gw L r g) (\<lambda>g1.
     bindM (createDeployment_gw L r ord ord' g1) (\<lambda>_.
     bindM (reconcileAutoscaling L r g1 mode) (\<lambda>out.
     bindM (createService_gw L r g1) (\<lambda>g2.
     publishReady L r g2 mode out))))))"

definition reconcileLive ::
  "'w lib \<Rightarrow> ('w, 'z) gw_reconciler_scheme \<Rightarrow> rangeOrder \<Rightarrow> rangeOrder \<Rightarrow> nskey \<Rightarrow> HigressGateway \<Rightarrow>
   ('w, unit) io" where
  "reconcileLive L r ord ord' nn g0 =
     bindM (namespaceActive r (gw_Namespace g0)) (\<lambda>active.
     if \<not> active then ret () else
     bindM (ensureFinalizer_gw L r nn g0) (\<lambda>g.
     let mode = getEffectiveScaleMode g in
     bindM (liftR (validateAutoscalingConfig (IsZero L) g)) (\<lambda>validationErr.
     case validationErr of
       Some ve \<Rightarrow> rejectInvalid L r g mode ve
     | None \<Rightarrow> reconcileChildren L r ord ord' g mode)))"

definition Reconcile_gw ::
  "'w lib \<Rightarrow> ('w, 'z) gw_reconciler_scheme \<Rightarrow> rangeOrder \<Rightarrow> rangeOrder \<Rightarrow> nskey \<Rightarrow> ('w, unit) io" where
  "Reconcile_gw L r ord ord' nn =
     ifErr (Get r KHigressGateway nn)
       (\<lambda>err. if is_NotFound err then ret () else fail err)
       (\<lambda>x. bindM (liftR (asGateway x)) (\<lambda>g.
          let g = setDefaultValues_gw g in
          if om_DeletionTimestamp (gw_Meta g) \<noteq> None then reconcileDeletion_gw L r g
          else reconcileLive L r ord ord' nn g))"

end
