(* ===== verification/GwContract.thy ===== *)
theory GwContract
  imports GwController
begin

text \<open>
  What each step of the gateway reconciler changes, whatever its outcome, and what holds
  after it succeeded.  All of it is proved over the contract \<open>gateway_env\<close>.
\<close>

section \<open>Keys\<close>

text \<open>Everything the reconciler of the gateway \<open>nn\<close> may write.\<close>

fun touches :: "nskey \<Rightarrow> objkey \<Rightarrow> bool" where
  "touches nn (KServiceAccount, n) = (fst n = fst nn)"
| "touches nn (KClusterRole, n) = (n = ('''', clusterRole_gw))"
| "touches nn (KClusterRoleBinding, n) = (fst n = '''')"
| "touches nn (KRole, n) = (n = (fst nn, role_gw))"
| "touches nn (KRoleBinding, n) = (n = (fst nn, role_gw))"
| "touches nn (KConfigMap, n) =
     (n = (fst nn, HigressGatewayConfig) \<or> n = (fst nn, ''skywalking-config''))"
| "touches nn (KDeployment, n) = (n = nn)"
| "touches nn (KService, n) = (n = (fst nn, HigressGatewayServiceName))"
| "touches nn (KHPA, n) = (n = nn)"
| "touches nn (KUnstructured gvk, n) = (gvk = kedaScaledObjectGVK \<and> n = nn)"
| "touches nn (KNamespace, n) = False"
| "touches nn (KHigressGateway, n) = (n = nn)"
| "touches nn (KHigressController, n) = False"

abbreviation gw_key :: "HigressGateway \<Rightarrow> nskey" where
  "gw_key g \<equiv> (gw_Namespace g, gw_Name g)"

abbreviation gw_objkey :: "HigressGateway \<Rightarrow> objkey" where
  "gw_objkey g \<equiv> (KHigressGateway, gw_key g)"

lemma objkey_gateway [simp]: "objkey_of (OHigressGateway g) = gw_objkey g"
  by (simp add: objkey_of_def ObjectKeyFromObject_def nskey_of_meta_def)

text \<open>
  What becomes of a stored resource before its children are reconciled: it already carries
  the finalizer and is left alone, or the server admitted it with defaults and finalizer.
\<close>

definition adopted ::
  "(kobj option \<Rightarrow> kobj \<Rightarrow> kobj \<Rightarrow> bool) \<Rightarrow> HigressGateway \<Rightarrow> HigressGateway \<Rightarrow> bool" where
  "adopted admits g0 g1 \<longleftrightarrow>
    (if finalizer_gw \<in> set (om_Finalizers (gw_Meta g0)) then g1 = g0
     else admits (Some (OHigressGateway g0))
       (set_finalizers (om_Finalizers (gw_Meta g0) @ [finalizer_gw]) (OHigressGateway (setDefaultValues_gw g0)))
       (OHigressGateway g1))"

section \<open>Frames of the steps\<close>

lemma initServiceAccount_gw_ns:
  "initServiceAccount_gw g = Inr x \<Longrightarrow>
   \<exists>n. getServiceAccount_gw g = Inr n \<and> objkey_of (OServiceAccount x) = (KServiceAccount, (gw_Namespace g, n))"
  by (auto simp: initServiceAccount_gw_def ok_simps objkey_of_def ObjectKeyFromObject_def nskey_of_meta_def)

lemma initClusterRoleBinding_gw_ns:
  "initClusterRoleBinding_gw g = Inr crb \<Longrightarrow>
   \<exists>n. getServiceAccount_gw g = Inr n \<and>
     objkey_of (OClusterRoleBinding crb) = (KClusterRoleBinding, ('''', n))"
  using initClusterRoleBinding_gw_key by (fastforce simp: initClusterRoleBinding_gw_def ok_simps)

lemma initSkywalkingConfigMap_none: "initSkywalkingConfigMap g = Inr x \<longleftrightarrow> False"
  using initSkywalkingConfigMap_fails [of g] by auto

context gateway_env
begin

lemma createServiceAccount_frame:
  assumes "\<not> (fst q = KServiceAccount \<and> fst (snd q) = gw_Namespace g)"
  shows "keeps (\<lambda>w. lookup w q) (createServiceAccount_gw L r g)"
  unfolding createServiceAccount_gw_def
proof (intro keeps_liftR_bind keeps_bindM keeps_ret CreateIfNotExits_frame)
  fix sa obj
  assume "initServiceAccount_gw g = Inr sa"
    and "SetControllerReference L (OHigressGateway g) (OServiceAccount sa) = Inr obj"
  with assms show "q \<noteq> objkey_of obj"
    by (auto dest!: initServiceAccount_gw_ns refs.setref_key)
qed

lemma createRBAC_frame:
  assumes "q \<noteq> (KClusterRole, ('''', clusterRole_gw))"
    and "\<not> (fst q = KClusterRoleBinding \<and> fst (snd q) = '''')"
    and "q \<noteq> (KRole, (gw_Namespace g, role_gw))"
    and "q \<noteq> (KRoleBinding, (gw_Namespace g, role_gw))"
  shows "keeps (\<lambda>w. lookup w q) (createRBAC_gw L r g)"
  unfolding createRBAC_gw_def
  by (intro keeps_liftR_bind keeps_if keeps_bindM keeps_ret upsertObj_frame meta_stable_rbac_gw)
    (use assms in \<open>auto dest: initClusterRoleBinding_gw_ns initRoleBinding_gw_key\<close>)

lemma createConfigMap_frame:
  assumes "q \<noteq> (KConfigMap, (gw_Namespace g, HigressGatewayConfig))"
  shows "keeps (\<lambda>w. lookup w q) (createConfigMap_gw L r g)"
  unfolding createConfigMap_gw_def
proof (rule keeps_liftR_bind, goal_cases)
  case (1 x)
  obtain cm g1 where x: "x = (cm, g1)" by (cases x)
  with assms 1 have "q \<noteq> objkey_of (OConfigMap cm)" by (auto dest: initGatewayConfigMap_ok(1))
  then show ?case unfolding x prod.case
    by (intro keeps_liftR_bind keeps_if keeps_bindM keeps_ret upsertObj_frame meta_stable_muteConfigMap)
      (auto simp: initSkywalkingConfigMap_none)
qed

lemma createDeployment_frame:
  "q \<noteq> (KDeployment, gw_key g) \<Longrightarrow> keeps (\<lambda>w. lookup w q) (createDeployment_gw L r ord ord' g)"
  unfolding createDeployment_gw_def by (rule owned_upsert_frame) auto

lemma createService_frame:
  assumes "q \<noteq> (KService, (gw_Namespace g, HigressGatewayServiceName))"
  shows "keeps (\<lambda>w. lookup w q) (createService_gw L r g)"
  unfolding createService_gw_def
proof (rule keeps_liftR_bind, goal_cases)
  case (1 x)
  obtain svc g1 where x: "x = (svc, g1)" by (cases x)
  show ?case unfolding x prod.case
  proof (intro keeps_liftR_bind keeps_bindM keeps_ret upsertObj_frame meta_stable_muteService_gw)
    fix obj assume "SetControllerReference L (OHigressGateway g1) (OService svc) = Inr obj"
    then have "objkey_of obj = objkey_of (OService svc)" by (rule refs.setref_key)
    with assms 1 x show "q \<noteq> objkey_of obj" by (auto dest: initService_gw_key)
  qed
qed

lemma deleteNativeHPA_frame:
  "q \<noteq> (KHPA, gw_key g) \<Longrightarrow> keeps (\<lambda>w. lookup w q) (deleteNativeHPAIfExists r g)"
  unfolding deleteNativeHPAIfExists_def by (rule deleteIfExists_frame)

lemma deleteKEDA_frame:
  "q \<noteq> (KUnstructured kedaScaledObjectGVK, gw_key g) \<Longrightarrow>
   keeps (\<lambda>w. lookup w q) (deleteKEDAScaledObjectIfExists r g)"
  unfolding deleteKEDAScaledObjectIfExists_def by (rule deleteIfExists_frame)

lemma isKEDACRDInstalled_frame: "keeps (\<lambda>w. lookup w q) (isKEDACRDInstalled r)"
  using isKEDACRDInstalled_keeps by (simp add: keeps_def)

lemma reconcileAutoscaling_frame:
  assumes "q \<noteq> (KHPA, gw_key g)" and "q \<noteq> (KUnstructured kedaScaledObjectGVK, gw_key g)"
  shows "keeps (\<lambda>w. lookup w q) (reconcileAutoscaling L r g mode)"
  unfolding reconcileAutoscaling_def
  by (intro keeps_if keeps_bindM keeps_ret keeps_ignoreNoMatch isKEDACRDInstalled_frame
      deleteNativeHPA_frame deleteKEDA_frame reconcileNativeHPA_frame reconcileKEDA_frame assms)

lemma publishReady_frame:
  "q \<noteq> gw_objkey g \<Longrightarrow> keeps (\<lambda>w. lookup w q) (publishReady L r g mode out)"
  unfolding publishReady_def Let_def by (rule patchStatus_frame) simp

lemma rejectInvalid_frame:
  assumes "q \<noteq> (KHPA, gw_key g)" and "q \<noteq> (KUnstructured kedaScaledObjectGVK, gw_key g)"
    and "q \<noteq> gw_objkey g"
  shows "keeps (\<lambda>w. lookup w q) (rejectInvalid L r g mode ve)"
  unfolding rejectInvalid_def recordValidationFailure_def
  by (intro keeps_bindM keeps_ignoreNoMatch deleteNativeHPA_frame deleteKEDA_frame recordEvent_frame
      patchStatus_frame assms) (simp add: assms)

section \<open>The instance along the steps\<close>

lemma createConfigMap_instance:
  "createConfigMap_gw L r g w = (Inr g1, w') \<Longrightarrow> g1 = setDiscoveryAddress g"
  by (auto simp: createConfigMap_gw_def ok_simps initSkywalkingConfigMap_none
      dest: initGatewayConfigMap_ok(2) split: if_splits)

lemma createService_instance:
  "createService_gw L r g w = (Inr g1, w') \<Longrightarrow>
   \<exists>labels. g1 = g\<lparr>gw_Meta := (gw_Meta g)\<lparr>om_Labels := labels\<rparr>\<rparr>"
  by (auto simp: createService_gw_def ok_simps dest: initService_gw_instance)

lemma reconcileChildren_frame:
  assumes "\<not> touches (gw_key g) q"
  shows "keeps (\<lambda>w. lookup w q) (reconcileChildren L r ord ord' g mode)"
  unfolding reconcileChildren_def
proof (intro keeps_bindM_run, goal_cases)
  case 1
  show ?case by (rule createServiceAccount_frame) (use assms in \<open>cases q; auto\<close>)
next
  case (2 w x w')
  show ?case by (rule createRBAC_frame) (use assms in \<open>cases q; auto\<close>)+
next
  case (3 w x w' w0 x0 w0')
  show ?case by (rule createConfigMap_frame) (use assms in \<open>cases q; auto\<close>)
next
  case (4 w x w' w0 x0 w0' w1 g1 w1')
  then have "g1 = setDiscoveryAddress g" by (blast dest: createConfigMap_instance)
  with assms show ?case by (auto intro!: createDeployment_frame)
next
  case (5 w x w' w0 x0 w0' w1 g1)
  then have "g1 = setDiscoveryAddress g" by (blast dest: createConfigMap_instance)
  with assms show ?case by (auto intro!: reconcileAutoscaling_frame)
next
  case (6 w x w' w0 x0 w0' w1 g1)
  then have "g1 = setDiscoveryAddress g" by (blast dest: createConfigMap_instance)
  with assms show ?case by (auto intro!: createService_frame)
next
  case (7 w x w' w0 x0 w0' w1 g1 w1' w2 x2 w2' w3 out w3' w4 g2 w4')
  then have "g1 = setDiscoveryAddress g" by (blast dest: createConfigMap_instance)
  with 7 obtain labels where "g2 = (setDiscoveryAddress g)
      \<lparr>gw_Meta := (gw_Meta g)\<lparr>om_Labels := labels\<rparr>\<rparr>"
    using createService_instance by fastforce
  with assms show ?case by (auto intro!: publishReady_frame)
qed

section \<open>Frames of Reconcile\<close>

lemma finalize_frame:
  "\<not> (fst q = KClusterRoleBinding \<and> fst (snd q) = '''') \<Longrightarrow>
   keeps (\<lambda>w. lookup w q) (finalizeHigressGateway r g)"
  unfolding finalizeHigressGateway_def by (intro keeps_liftR_bind dropBindingSubject_frame) auto

lemma reconcileDeletion_frame:
  assumes "\<not> touches (gw_key g) q"
  shows "keeps (\<lambda>w. lookup w q) (reconcileDeletion_gw L r g)"
  unfolding reconcileDeletion_gw_def
proof (intro keeps_if keeps_bindM keeps_ret finalize_frame update_frame, goal_cases)
  case 1
  with assms show ?case by (cases q) auto
next
  case 2
  with assms show ?case by (auto simp: fins.remove_eq)
qed

lemma ensureFinalizer_frame:
  assumes "q \<noteq> gw_objkey g"
  shows "keeps (\<lambda>w. lookup w q) (ensureFinalizer_gw L r nn g)"
proof (cases "finalizer_gw \<in> set (om_Finalizers (gw_Meta g))")
  case True
  then show ?thesis by (simp add: ensureFinalizer_gw_def fins.add_old keeps_ret)
next
  case False
  then show ?thesis using assms
    by (auto simp: ensureFinalizer_gw_def fins.add_new intro!: keeps_bindM keeps_intro update_frame get_frame)
qed

text \<open>The instance the reconcile goes on with is the stored one, defaulted.\<close>

lemma ensureFinalizer_ok:
  assumes run: "ensureFinalizer_gw L r nn (setDefaultValues_gw g0) w = (Inr g, w')"
    and stored: "lookup w (KHigressGateway, nn) = Some (OHigressGateway g0)"
  shows "\<exists>g1. adopted admits g0 g1 \<and> g = setDefaultValues_gw g1 \<and> gw_key g1 = nn \<and>
    lookup w' (KHigressGateway, nn) = Some (OHigressGateway g1) \<and>
    finalizer_gw \<in> set (om_Finalizers (gw_Meta g1)) \<and>
    om_DeletionTimestamp (gw_Meta g1) = om_DeletionTimestamp (gw_Meta g0)"
proof -
  have key: "gw_key g0 = nn" using stored_key [OF stored] by simp
  show ?thesis
  proof (cases "finalizer_gw \<in> set (om_Finalizers (gw_Meta g0))")
    case True
    with run have "g = setDefaultValues_gw g0" and "w' = w"
      by (simp_all add: ensureFinalizer_gw_def fins.add_old ok_simps)
    with True stored key show ?thesis by (auto simp: adopted_def)
  next
    case False
    let ?x = "set_finalizers (om_Finalizers (gw_Meta g0) @ [finalizer_gw])
      (OHigressGateway (setDefaultValues_gw g0))"
    from False run obtain y w1 g1 where upd: "Update r ?x w = (Inr y, w1)"
      and get: "Get r KHigressGateway nn w1 = (Inr (OHigressGateway g1), w')"
      and g: "g = setDefaultValues_gw g1"
      by (auto simp: ensureFinalizer_gw_def fins.add_new ok_simps)
    have x: "objkey_of ?x = (KHigressGateway, nn)" using key by simp
    from update_ok [OF upd, unfolded x] stored
    have adm: "admits (Some (OHigressGateway g0)) ?x y"
      and w1: "lookup w1 = (lookup w)((KHigressGateway, nn) := if gone y then None else Some y)"
      by auto
    from get_ok [OF get] have g1: "lookup w1 (KHigressGateway, nn) = Some (OHigressGateway g1)" .
    with w1 have y: "y = OHigressGateway g1" by (auto split: if_splits)
    have "finalizer_gw \<in> set (om_Finalizers (gw_Meta g1))"
      using admits_finalizers [OF adm] y by simp
    moreover have "om_DeletionTimestamp (gw_Meta g1) = om_DeletionTimestamp (gw_Meta g0)"
      using admits_deletion [OF adm] y by simp
    moreover have "lookup w' (KHigressGateway, nn) = Some (OHigressGateway g1)"
      using g1 get_lookup [OF get] by simp
    moreover have "gw_key g1 = nn" using stored_key [OF g1] by simp
    moreover have "adopted admits g0 g1" using False adm y by (simp add: adopted_def)
    ultimately show ?thesis using g by blast
  qed
qed

lemma ensureFinalizer_key:
  assumes "ensureFinalizer_gw L r (gw_key g) g w = (Inr g', w')"
  shows "gw_key g' = gw_key g"
proof (cases "finalizer_gw \<in> set (om_Finalizers (gw_Meta g))")
  case True
  with assms show ?thesis by (simp add: ensureFinalizer_gw_def fins.add_old ok_simps)
next
  case False
  with assms show ?thesis
    by (auto simp: ensureFinalizer_gw_def fins.add_new ok_simps dest!: get_ok stored_key)
qed

lemma reconcileLive_frame:
  assumes "\<not> touches (gw_key g0) q"
  shows "keeps (\<lambda>w. lookup w q) (reconcileLive L r ord ord' (gw_key g0) g0)"
  unfolding reconcileLive_def
proof (rule keeps_bindM [OF namespaceActive_frame], rule keeps_if [OF keeps_ret], rule keeps_bindM_run)
  show "keeps (\<lambda>w. lookup w q) (ensureFinalizer_gw L r (gw_key g0) g0)"
    by (rule ensureFinalizer_frame) (use assms in auto)
  fix w g w'
  assume "ensureFinalizer_gw L r (gw_key g0) g0 w = (Inr g, w')"
  then have "gw_key g = gw_key g0" by (rule ensureFinalizer_key)
  with assms have "\<not> touches (gw_key g) q" by simp
  then show "keeps (\<lambda>w. lookup w q) (let mode = getEffectiveScaleMode g in
      bindM (liftR (validateAutoscalingConfig (IsZero L) g)) (\<lambda>validationErr. case validationErr of
        None \<Rightarrow> reconcileChildren L r ord ord' g mode | Some ve \<Rightarrow> rejectInvalid L r g mode ve))"
    by (intro keeps_Let keeps_liftR_bind keeps_case_option reconcileChildren_frame rejectInvalid_frame) auto
qed

lemma Reconcile_frame:
  assumes "\<not> touches nn q"
  shows "keeps (\<lambda>w. lookup w q) (Reconcile_gw L r ord ord' nn)"
  unfolding Reconcile_gw_def
proof (intro get_ifErr_frame keeps_if keeps_ret keeps_fail keeps_liftR_bind)
  fix x g
  assume "objkey_of x = (KHigressGateway, nn)" and "asGateway x = Inr g"
  then have g: "gw_key (setDefaultValues_gw g) = nn" by (auto simp: ok_simps)
  then show "keeps (\<lambda>w. lookup w q) (let g = setDefaultValues_gw g in
      if om_DeletionTimestamp (gw_Meta g) \<noteq> None then reconcileDeletion_gw L r g
      else reconcileLive L r ord ord' nn g)"
    using assms reconcileDeletion_frame [of "setDefaultValues_gw g" q]
      reconcileLive_frame [of "setDefaultValues_gw g" q ord ord']
    by (simp only: g Let_def split: if_split) simp
qed

text \<open>With Skywalking enabled the config map step never succeeds, so no later step runs.\<close>

lemma skywalking_config_fails:
  assumes "skywalkingEnabled g"
  shows "\<exists>e w'. createConfigMap_gw L r g w = (Inl e, w')"
proof (cases "createConfigMap_gw L r g w")
  case (Pair res w')
  then show ?thesis
    using assms initSkywalkingConfigMap_none
    by (cases res) (auto simp: createConfigMap_gw_def skywalkingEnabled_def ok_simps
        dest!: initGatewayConfigMap_ok(2) split: if_splits option.splits)
qed

lemma skywalking_blocks:
  assumes "skywalkingEnabled g"
  shows "lookup (snd (reconcileChildren L r ord ord' g mode w)) (KDeployment, nn) =
      lookup w (KDeployment, nn)"
    and "\<exists>e. fst (reconcileChildren L r ord ord' g mode w) = Inl e"
proof -
  have never: "createConfigMap_gw L r g w1 \<noteq> (Inr g1, w2)" for w1 g1 w2
    using skywalking_config_fails [OF assms, of w1] by auto
  have "keeps (\<lambda>w. lookup w (KDeployment, nn)) (reconcileChildren L r ord ord' g mode)"
    unfolding reconcileChildren_def
    by (intro keeps_bindM createServiceAccount_frame createRBAC_frame
        keeps_bindM_run [OF createConfigMap_frame]) (simp_all add: never)
  then show "lookup (snd (reconcileChildren L r ord ord' g mode w)) (KDeployment, nn) =
      lookup w (KDeployment, nn)" by (simp add: keeps_def)
  show "\<exists>e. fst (reconcileChildren L r ord ord' g mode w) = Inl e"
  proof (cases "reconcileChildren L r ord ord' g mode w")
    case (Pair res w')
    then show ?thesis
    proof (cases res)
      case (Inr u)
      with Pair obtain w2 g1 w3 where "createConfigMap_gw L r g w2 = (Inr g1, w3)"
        by (auto simp: reconcileChildren_def ok_simps)
      with skywalking_config_fails [OF assms, of w2] show ?thesis by auto
    qed simp
  qed
qed

end

end
