(* ===== verification/GwOutcome.thy ===== *)
theory GwOutcome
  imports GwContract
begin

text \<open>
  What a gateway reconcile that returned without error has achieved.  The predicates
  below are the abstract specification: they speak of the cluster only through the
  mutations that the stored objects are in sync with.
\<close>

section \<open>Specification\<close>

abbreviation hpa_key :: "HigressGateway \<Rightarrow> objkey" where
  "hpa_key g \<equiv> (KHPA, gw_key g)"

abbreviation scaled_key :: "HigressGateway \<Rightarrow> objkey" where
  "scaled_key g \<equiv> (KUnstructured kedaScaledObjectGVK, gw_key g)"

definition rbacEnabled_gw :: "HigressGateway \<Rightarrow> bool" where
  "rbacEnabled_gw g \<longleftrightarrow>
     (case (crd_RBAC (gw_common g), crd_ServiceAccount (gw_common g)) of
        (Some rb, Some sa) \<Rightarrow> rbac_Enable rb \<and> sa_Enable sa | _ \<Rightarrow> False)"

definition account_settled ::
  "(kobj option \<Rightarrow> kobj \<Rightarrow> kobj \<Rightarrow> bool) \<Rightarrow> (kobj \<Rightarrow> kobj \<Rightarrow> bool) \<Rightarrow> HigressGateway \<Rightarrow> state \<Rightarrow> bool" where
  "account_settled admits semEq g st \<longleftrightarrow>
     (\<exists>n. getServiceAccount_gw g = Inr n \<and> st (KServiceAccount, (gw_Namespace g, n)) \<noteq> None \<and>
       (rbacEnabled_gw g \<longrightarrow>
          synced admits semEq st (KClusterRole, ('''', clusterRole_gw)) (muteClusterRole_gw g) \<and>
          synced admits semEq st (KClusterRoleBinding, ('''', n)) (muteClusterRoleBinding_gw g) \<and>
          synced admits semEq st (KRole, (gw_Namespace g, role_gw)) (muteRole_gw g) \<and>
          synced admits semEq st (KRoleBinding, (gw_Namespace g, role_gw)) (muteRoleBinding_gw g)))"

text \<open>At most one autoscaler is left alive: the one of the mode.\<close>

definition autoscaling_settled ::
  "(kobj option \<Rightarrow> kobj \<Rightarrow> kobj \<Rightarrow> bool) \<Rightarrow> (kobj \<Rightarrow> kobj \<Rightarrow> bool) \<Rightarrow> HigressGateway \<Rightarrow> bool \<Rightarrow>
   state \<Rightarrow> bool" where
  "autoscaling_settled admits semEq g installed st \<longleftrightarrow>
    (let mode = getEffectiveScaleMode g in
     (mode = AutoScalingModeDisabled \<longrightarrow> removed (st (hpa_key g)) \<and> removed (st (scaled_key g))) \<and>
     (mode = AutoScalingModeNativeHPA \<longrightarrow>
        removed (st (scaled_key g)) \<and> synced admits semEq st (hpa_key g) (muteHPA g)) \<and>
     (mode = AutoScalingModeKEDA \<longrightarrow>
        removed (st (hpa_key g)) \<and>
        (installed \<longrightarrow> synced admits semEq st (scaled_key g) (muteScaledObject g))))"

text \<open>What the two autoscaling conditions report: status and reason of each.\<close>

definition reported :: "AutoScalingMode \<Rightarrow> bool \<Rightarrow> (string \<times> string) \<times> (string \<times> string)" where
  "reported mode installed =
    (if mode = AutoScalingModeDisabled then
       ((ConditionTrue, reasonAutoscalingDisabled), (ConditionTrue, reasonDependencyNotRequired))
     else if mode = AutoScalingModeNativeHPA then
       ((ConditionTrue, reasonAutoscalingReady), (ConditionTrue, reasonDependencyNotRequired))
     else if installed then
       ((ConditionTrue, reasonAutoscalingReady), (ConditionTrue, reasonDependencyReady))
     else ((ConditionFalse, reasonDependencyMissing), (ConditionFalse, reasonDependencyMissing)))"

text \<open>All the children of a gateway; \<open>g\<close> is the stored resource with its defaults.\<close>

definition gateway_settled ::
  "'w lib \<Rightarrow> (kobj option \<Rightarrow> kobj \<Rightarrow> kobj \<Rightarrow> bool) \<Rightarrow> (kobj \<Rightarrow> kobj \<Rightarrow> bool) \<Rightarrow> rangeOrder \<Rightarrow>
   HigressGateway \<Rightarrow> bool \<Rightarrow> state \<Rightarrow> bool" where
  "gateway_settled L admits semEq ord g installed st \<longleftrightarrow>
     account_settled admits semEq g st \<and>
     synced admits semEq st (KConfigMap, (gw_Namespace g, HigressGatewayConfig))
       (muteConfigMap (setDiscoveryAddress g) (updateGatewayConfigMapSpec L)) \<and>
     synced admits semEq st (KDeployment, gw_key g) (muteDeployment_gw ord g) \<and>
     autoscaling_settled admits semEq g installed st \<and>
     synced admits semEq st (KService, (gw_Namespace g, HigressGatewayServiceName)) (muteService_gw g)"

section \<open>The mutations do not depend on what the steps change in the instance\<close>

lemma setDiscoveryAddress_more [simp]:
  "gws_Scheduling (gw_Spec (setDiscoveryAddress g)) = gws_Scheduling (gw_Spec g)"
  "gws_VolumeWasmPlugins (gw_Spec (setDiscoveryAddress g)) = gws_VolumeWasmPlugins (gw_Spec g)"
  "gws_HostNetwork (gw_Spec (setDiscoveryAddress g)) = gws_HostNetwork (gw_Spec g)"
  "gws_RollingMaxSurge (gw_Spec (setDiscoveryAddress g)) = gws_RollingMaxSurge (gw_Spec g)"
  "gws_RollingMaxUnavailable (gw_Spec (setDiscoveryAddress g)) = gws_RollingMaxUnavailable (gw_Spec g)"
  by (simp_all add: setDiscoveryAddress_def)

lemma getServiceAccount_discovery [simp]:
  "getServiceAccount_gw (setDiscoveryAddress g) = getServiceAccount_gw g"
  by (simp add: getServiceAccount_gw_def cong: if_cong)

lemma container_discovery [simp]:
  "genVolumes_gw (setDiscoveryAddress g) = genVolumes_gw g"
  "gatewayContainer ord (setDiscoveryAddress g) = gatewayContainer ord g"
  "genSecurityContextForPod (setDiscoveryAddress g) = genSecurityContextForPod g"
  "getSchedulerName (setDiscoveryAddress g) = getSchedulerName g"
  "getPriorityClassName (setDiscoveryAddress g) = getPriorityClassName g"
  "buildPodTemplateLabels (setDiscoveryAddress g) = buildPodTemplateLabels g"
  "buildPodTemplateAnnotations (setDiscoveryAddress g) = buildPodTemplateAnnotations g"
  by (simp_all add: genVolumes_gw_def skywalkingEnabled_def gatewayContainer_def genImage_gw_def
      genArgs_def genPorts_def genEnv_def genVolumeMounts_def genProbe_def
      genSecurityContextForContainer_def genSecurityContextForPod_def getSchedulerName_def
      getPriorityClassName_def buildPodTemplateLabels_def buildPodTemplateAnnotations_def
      cong: if_cong option.case_cong)

lemma gatewayPod_discovery [simp]: "gatewayPod ord (setDiscoveryAddress g) = gatewayPod ord g"
  by (simp add: gatewayPod_def cong: if_cong option.case_cong)

lemma shouldPreserve_discovery [simp]:
  "getEffectiveScaleMode (setDiscoveryAddress g) = getEffectiveScaleMode g"
  "shouldPreserveReplicas (setDiscoveryAddress g) = shouldPreserveReplicas g"
  by (simp_all add: shouldPreserveReplicas_def getEffectiveScaleMode_def)

lemma updateDeploymentSpec_discovery [simp]:
  "updateDeploymentSpec_gw ord d (setDiscoveryAddress g) p = updateDeploymentSpec_gw ord d g p"
  by (simp add: updateDeploymentSpec_gw_def cong: if_cong)

lemma muteDeployment_discovery [simp]:
  "muteDeployment_gw ord (setDiscoveryAddress g) = muteDeployment_gw ord g"
  by (simp add: fun_eq_iff muteDeployment_gw_def split: kobj.split)

lemma muteScalers_discovery [simp]:
  "muteHPA (setDiscoveryAddress g) = muteHPA g"
  "muteScaledObject (setDiscoveryAddress g) = muteScaledObject g"
  by (auto simp: fun_eq_iff muteHPA_def muteScaledObject_def updateHPAv2Spec_def
      updateScaledObjectSpec_def scaledObjectSpec_def split: kobj.split)

lemma muteService_labels [simp]:
  "muteService_gw (g\<lparr>gw_Meta := m\<rparr>) = muteService_gw g"
  "muteService_gw (setDiscoveryAddress g) = muteService_gw g"
  by (auto simp: fun_eq_iff muteService_gw_def updateServiceSpec_gw_def Let_def split: kobj.split)

text \<open>
  Nor on the status or the fields of the metadata that the operator never reads, which
  the status patch changes in the stored resource.
\<close>

definition restamp :: "raw \<Rightarrow> HigressGatewayStatus \<Rightarrow> HigressGateway \<Rightarrow> HigressGateway" where
  "restamp x s g = g\<lparr>gw_Meta := (gw_Meta g)\<lparr>om_rest := x\<rparr>, gw_Status := s\<rparr>"

lemma restamp_simps [simp]:
  "gw_Spec (restamp x s g) = gw_Spec g"
  "gw_Status (restamp x s g) = s"
  "gw_Name (restamp x s g) = gw_Name g"
  "gw_Namespace (restamp x s g) = gw_Namespace g"
  "gw_Labels (restamp x s g) = gw_Labels g"
  "gw_Annotations (restamp x s g) = gw_Annotations g"
  "om_Generation (gw_Meta (restamp x s g)) = om_Generation (gw_Meta g)"
  "om_Finalizers (gw_Meta (restamp x s g)) = om_Finalizers (gw_Meta g)"
  by (simp_all add: restamp_def)

lemma restamp_eq:
  assumes "gw_Spec g' = gw_Spec g" and "(gw_Meta g')\<lparr>om_rest := []\<rparr> = (gw_Meta g)\<lparr>om_rest := []\<rparr>"
  shows "g' = restamp (om_rest (gw_Meta g')) (gw_Status g') g"
proof (rule HigressGateway.equality)
  have "(gw_Meta g')\<lparr>om_rest := [], om_rest := om_rest (gw_Meta g')\<rparr> =
      (gw_Meta g)\<lparr>om_rest := [], om_rest := om_rest (gw_Meta g')\<rparr>"
    using assms(2) by simp
  then show "gw_Meta g' = gw_Meta (restamp (om_rest (gw_Meta g')) (gw_Status g') g)"
    by (simp add: restamp_def)
qed (simp_all add: assms(1))

lemma setDefault_restamp: "setDefaultValues_gw (restamp x s g) = restamp x s (setDefaultValues_gw g)"
  by (simp add: setDefaultValues_gw_def gw_common_upd_def restamp_def Let_def split: option.split)

lemma setDiscovery_restamp: "setDiscoveryAddress (restamp x s g) = restamp x s (setDiscoveryAddress g)"
  by (simp add: setDiscoveryAddress_def discoveryAddress_def restamp_def)

lemma container_restamp [simp]:
  "getServiceAccount_gw (restamp x s g) = getServiceAccount_gw g"
  "getEffectiveScaleMode (restamp x s g) = getEffectiveScaleMode g"
  "genVolumes_gw (restamp x s g) = genVolumes_gw g"
  "gatewayContainer ord (restamp x s g) = gatewayContainer ord g"
  "genSecurityContextForPod (restamp x s g) = genSecurityContextForPod g"
  "getSchedulerName (restamp x s g) = getSchedulerName g"
  "getPriorityClassName (restamp x s g) = getPriorityClassName g"
  "buildPodTemplateLabels (restamp x s g) = buildPodTemplateLabels g"
  "buildPodTemplateAnnotations (restamp x s g) = buildPodTemplateAnnotations g"
  "effectiveMeshConfig (restamp x s g) = effectiveMeshConfig g"
  by (simp_all add: getServiceAccount_gw_def getEffectiveScaleMode_def genVolumes_gw_def
      skywalkingEnabled_def gatewayContainer_def genImage_gw_def
      genArgs_def genPorts_def genEnv_def genVolumeMounts_def genProbe_def
      genSecurityContextForContainer_def genSecurityContextForPod_def getSchedulerName_def
      getPriorityClassName_def buildPodTemplateLabels_def buildPodTemplateAnnotations_def
      effectiveMeshConfig_def cong: if_cong option.case_cong)

lemma validate_restamp [simp]:
  "validateAutoscalingConfig z (restamp x s g) = validateAutoscalingConfig z g"
  by (simp add: validateAutoscalingConfig_def validateMode_def cong: if_cong option.case_cong)

lemma gatewayPod_restamp [simp]: "gatewayPod ord (restamp x s g) = gatewayPod ord g"
  by (simp add: gatewayPod_def cong: if_cong option.case_cong)

lemma updateDeploymentSpec_restamp [simp]:
  "updateDeploymentSpec_gw ord d (restamp x s g) p = updateDeploymentSpec_gw ord d g p"
  by (simp add: updateDeploymentSpec_gw_def cong: if_cong)

lemma mute_restamp [simp]:
  "muteClusterRole_gw (restamp x s g) = muteClusterRole_gw g"
  "muteClusterRoleBinding_gw (restamp x s g) = muteClusterRoleBinding_gw g"
  "muteRole_gw (restamp x s g) = muteRole_gw g"
  "muteRoleBinding_gw (restamp x s g) = muteRoleBinding_gw g"
  "muteDeployment_gw ord (restamp x s g) = muteDeployment_gw ord g"
  "muteHPA (restamp x s g) = muteHPA g"
  "muteScaledObject (restamp x s g) = muteScaledObject g"
  "muteService_gw (restamp x s g) = muteService_gw g"
  by (auto simp: fun_eq_iff muteClusterRole_gw_def muteClusterRoleBinding_gw_def
      updateClusterRoleBinding_gw_def muteRole_gw_def muteRoleBinding_gw_def updateRoleBinding_gw_def
      muteDeployment_gw_def shouldPreserveReplicas_def muteHPA_def updateHPAv2Spec_def
      muteScaledObject_def updateScaledObjectSpec_def scaledObjectSpec_def muteService_gw_def
      updateServiceSpec_gw_def split: kobj.split)

lemma muteConfigMap_restamp [simp]:
  "muteConfigMap (restamp x s g) (updateGatewayConfigMapSpec L) = muteConfigMap g (updateGatewayConfigMapSpec L)"
  by (auto simp: fun_eq_iff muteConfigMap_def updateGatewayConfigMapSpec_def Let_def
      split: kobj.split sum.split)

lemma settled_restamp [simp]:
  "gateway_settled L admits semEq ord (restamp x s g) b st = gateway_settled L admits semEq ord g b st"
  by (simp add: gateway_settled_def account_settled_def autoscaling_settled_def rbacEnabled_gw_def
      setDiscovery_restamp)

section \<open>Results of the steps\<close>

context gateway_env
begin

lemma createServiceAccount_ok:
  assumes "createServiceAccount_gw L r g w = (Inr u, w')"
  shows "\<exists>n. getServiceAccount_gw g = Inr n \<and> lookup w' (KServiceAccount, (gw_Namespace g, n)) \<noteq> None"
proof -
  from assms obtain sa obj b where sa: "initServiceAccount_gw g = Inr sa"
    and obj: "SetControllerReference L (OHigressGateway g) (OServiceAccount sa) = Inr obj"
    and run: "CreateIfNotExits r obj w = (Inr b, w')"
    by (auto simp: createServiceAccount_gw_def ok_simps)
  from CreateIfNotExits_ok [OF run] refs.setref_key [OF obj] initServiceAccount_gw_ns [OF sa]
  show ?thesis by auto
qed

lemma createRBAC_ok:
  assumes run: "createRBAC_gw L r g w = (Inr u, w')" and en: "rbacEnabled_gw g"
    and n: "getServiceAccount_gw g = Inr n"
  shows "synced admits semEq (lookup w') (KClusterRole, ('''', clusterRole_gw)) (muteClusterRole_gw g)"
    and "synced admits semEq (lookup w') (KClusterRoleBinding, ('''', n)) (muteClusterRoleBinding_gw g)"
    and "synced admits semEq (lookup w') (KRole, (gw_Namespace g, role_gw)) (muteRole_gw g)"
    and "synced admits semEq (lookup w') (KRoleBinding, (gw_Namespace g, role_gw)) (muteRoleBinding_gw g)"
proof -
  from run en obtain crb rb w1 w2 w3 where
    s1: "upsertObj L r ''clusterrole'' (OClusterRole (initClusterRole_gw g)) (muteClusterRole_gw g) w = (Inr (), w1)"
    and crb: "initClusterRoleBinding_gw g = Inr crb"
    and s2: "upsertObj L r ''clusterRoleBinding'' (OClusterRoleBinding crb) (muteClusterRoleBinding_gw g) w1 = (Inr (), w2)"
    and s3: "upsertObj L r ''role'' (ORole (initRole_gw g)) (muteRole_gw g) w2 = (Inr (), w3)"
    and rb: "initRoleBinding_gw g = Inr rb"
    and s4: "upsertObj L r ''roleBinding'' (ORoleBinding rb) (muteRoleBinding_gw g) w3 = (Inr (), w')"
    by (auto simp: createRBAC_gw_def rbacEnabled_gw_def ok_simps split: option.splits if_splits)
  note kcrb = initClusterRoleBinding_gw_key [OF crb n] and krb = initRoleBinding_gw_key [OF rb]
  have f2: "keeps (\<lambda>w. lookup w q)
      (upsertObj L r ''clusterRoleBinding'' (OClusterRoleBinding crb) (muteClusterRoleBinding_gw g))"
    if "fst q \<noteq> KClusterRoleBinding" for q
    using that by (intro upsertObj_frame) (auto simp: kcrb)
  have f3: "keeps (\<lambda>w. lookup w q) (upsertObj L r ''role'' (ORole (initRole_gw g)) (muteRole_gw g))"
    if "fst q \<noteq> KRole" for q
    using that by (intro upsertObj_frame) auto
  have f4: "keeps (\<lambda>w. lookup w q) (upsertObj L r ''roleBinding'' (ORoleBinding rb) (muteRoleBinding_gw g))"
    if "fst q \<noteq> KRoleBinding" for q
    using that by (intro upsertObj_frame) (auto simp: krb)
  show "synced admits semEq (lookup w') (KClusterRole, ('''', clusterRole_gw)) (muteClusterRole_gw g)"
    by (rule synced_step [OF f4 s4], simp, rule synced_step [OF f3 s3], simp,
        rule synced_step [OF f2 s2], simp, rule upsertObj_synced [OF s1]) auto
  show "synced admits semEq (lookup w') (KClusterRoleBinding, ('''', n)) (muteClusterRoleBinding_gw g)"
    by (rule synced_step [OF f4 s4], simp, rule synced_step [OF f3 s3], simp,
        rule upsertObj_synced [OF s2]) (auto simp: kcrb)
  show "synced admits semEq (lookup w') (KRole, (gw_Namespace g, role_gw)) (muteRole_gw g)"
    by (rule synced_step [OF f4 s4], simp, rule upsertObj_synced [OF s3]) auto
  show "synced admits semEq (lookup w') (KRoleBinding, (gw_Namespace g, role_gw)) (muteRoleBinding_gw g)"
    by (rule upsertObj_synced [OF s4]) (auto simp: krb)
qed

lemma createConfigMap_ok:
  assumes "createConfigMap_gw L r g w = (Inr g1, w')"
  shows "synced admits semEq (lookup w') (KConfigMap, (gw_Namespace g, HigressGatewayConfig))
    (muteConfigMap (setDiscoveryAddress g) (updateGatewayConfigMapSpec L))"
proof -
  from assms obtain cm w1 where cm: "initGatewayConfigMap L g = Inr (cm, g1)"
    and run: "upsertObj L r ''gatewayConfigMap'' (OConfigMap cm)
      (muteConfigMap g1 (updateGatewayConfigMapSpec L)) w = (Inr (), w1)" and "w' = w1"
    by (auto simp: createConfigMap_gw_def ok_simps initSkywalkingConfigMap_none split: if_splits)
  with initGatewayConfigMap_ok [OF cm] show ?thesis by (auto intro: upsertObj_synced)
qed

lemma createDeployment_ok:
  assumes "createDeployment_gw L r ord ord' g w = (Inr u, w')"
  shows "synced admits semEq (lookup w') (KDeployment, gw_key g) (muteDeployment_gw ord' g)"
  using owned_upsert_synced [OF _ _ assms [unfolded createDeployment_gw_def]] by auto

lemma createService_ok:
  assumes "createService_gw L r g w = (Inr g1, w')"
  shows "synced admits semEq (lookup w') (KService, (gw_Namespace g, HigressGatewayServiceName))
    (muteService_gw g)"
proof -
  from assms obtain svc obj where svc: "initService_gw g = Inr (svc, g1)"
    and obj: "SetControllerReference L (OHigressGateway g1) (OService svc) = Inr obj"
    and run: "upsertObj L r ''Service'' obj (muteService_gw g1) w = (Inr (), w')"
    by (auto simp: createService_gw_def ok_simps)
  have "objkey_of obj = (KService, (gw_Namespace g, HigressGatewayServiceName))"
    using refs.setref_key [OF obj] initService_gw_key [OF svc] by simp
  with run initService_gw_instance [OF svc] show ?thesis by (auto dest!: upsertObj_synced)
qed

lemma deleteNativeHPA_ok:
  "deleteNativeHPAIfExists r g w = (Inr u, w') \<Longrightarrow> removed (lookup w' (hpa_key g))"
  unfolding deleteNativeHPAIfExists_def by (rule deleteIfExists_ok_plain)

lemma deleteKEDA_ok:
  "ignoreNoMatch (deleteKEDAScaledObjectIfExists r g) w = (Inr u, w') \<Longrightarrow>
   removed (lookup w' (scaled_key g))"
  unfolding deleteKEDAScaledObjectIfExists_def by (rule deleteIfExists_ok)

definition out_reports :: "autoscalingOutcome \<Rightarrow> (string \<times> string) \<times> (string \<times> string)" where
  "out_reports out = ((ao_Status out, ao_Reason out), (ao_DepStatus out, ao_DepReason out))"

lemma reconcileAutoscaling_ok:
  assumes run: "reconcileAutoscaling L r g (getEffectiveScaleMode g) w = (Inr out, w')"
    and mode: "getEffectiveScaleMode g \<in>
      {AutoScalingModeDisabled, AutoScalingModeNativeHPA, AutoScalingModeKEDA}"
  shows "\<exists>installed. autoscaling_settled admits semEq g installed (lookup w') \<and>
    out_reports out = reported (getEffectiveScaleMode g) installed"
proof -
  consider (disabled) "getEffectiveScaleMode g = AutoScalingModeDisabled"
    | (native) "getEffectiveScaleMode g = AutoScalingModeNativeHPA"
    | (keda) "getEffectiveScaleMode g = AutoScalingModeKEDA"
    using mode by auto
  then show ?thesis
  proof cases
    case disabled
    with run obtain w1 where h: "deleteNativeHPAIfExists r g w = (Inr (), w1)"
      and k: "ignoreNoMatch (deleteKEDAScaledObjectIfExists r g) w1 = (Inr (), w')"
      and out: "out = initialOutcome"
      by (auto simp: reconcileAutoscaling_def ok_simps)
    have "keeps (\<lambda>w. lookup w (hpa_key g)) (ignoreNoMatch (deleteKEDAScaledObjectIfExists r g))"
      by (intro keeps_ignoreNoMatch deleteKEDA_frame) simp
    from keepsD [OF this k] deleteNativeHPA_ok [OF h] deleteKEDA_ok [OF k] disabled out show ?thesis
      by (auto simp: autoscaling_settled_def reported_def out_reports_def initialOutcome_def)
  next
    case native
    with run obtain w1 where k: "ignoreNoMatch (deleteKEDAScaledObjectIfExists r g) w = (Inr (), w1)"
      and h: "reconcileNativeHPA L r g w1 = (Inr (), w')"
      and out: "out = initialOutcome\<lparr>ao_Reason := reasonAutoscalingReady,
              ao_Message := ''Native HPA reconciled successfully''\<rparr>"
      by (auto simp: reconcileAutoscaling_def ok_simps)
    have "keeps (\<lambda>w. lookup w (scaled_key g)) (reconcileNativeHPA L r g)"
      by (rule reconcileNativeHPA_frame) simp
    from keepsD [OF this h] deleteKEDA_ok [OF k] reconcileNativeHPA_ok [OF h] native out show ?thesis
      by (auto simp: autoscaling_settled_def reported_def out_reports_def initialOutcome_def synced_def)
  next
    case keda
    with run obtain w1 w2 b where h: "deleteNativeHPAIfExists r g w = (Inr (), w1)"
      and i: "isKEDACRDInstalled r w1 = (Inr b, w2)"
      and rest: "if b then reconcileKEDAScaledObject L r g w2 = (Inr (), w') \<and>
             out = initialOutcome\<lparr>ao_Reason := reasonAutoscalingReady,
                ao_Message := ''KEDA ScaledObject reconciled successfully'',
                ao_DepReason := reasonDependencyReady, ao_DepMessage := ''KEDA CRD is available''\<rparr>
           else w' = w2 \<and> out = kedaMissingOutcome"
      by (auto simp: reconcileAutoscaling_def ok_simps split: if_splits)
    have hpa: "removed (lookup w2 (hpa_key g))"
      using deleteNativeHPA_ok [OF h] keepsD [OF isKEDACRDInstalled_keeps i] by simp
    show ?thesis
    proof (cases b)
      case True
      have "keeps (\<lambda>w. lookup w (hpa_key g)) (reconcileKEDAScaledObject L r g)"
        by (rule reconcileKEDA_frame) simp
      with True rest hpa have "removed (lookup w' (hpa_key g))" by (auto dest: keepsD)
      moreover have "synced admits semEq (lookup w') (scaled_key g) (muteScaledObject g)"
        using True rest by (auto simp: synced_def dest: reconcileKEDA_ok)
      ultimately show ?thesis using True rest keda
        by (intro exI [of _ True])
          (simp add: autoscaling_settled_def reported_def out_reports_def initialOutcome_def)
    next
      case False
      with rest hpa keda show ?thesis
        by (intro exI [of _ False])
          (simp add: autoscaling_settled_def reported_def out_reports_def kedaMissingOutcome_def)
    qed
  qed
qed

section \<open>Results of Reconcile\<close>

lemma publishReady_ok:
  assumes run: "publishReady L r g mode out w = (Inr u, w')"
    and stored: "lookup w (gw_objkey g) = Some (OHigressGateway cur)"
    and fresh: "gw_Status cur = gw_Status g"
  shows "\<exists>cur'. lookup w' (gw_objkey g) = Some (OHigressGateway cur') \<and>
    gw_Spec cur' = gw_Spec cur \<and> same_but_rest (gw_Meta cur') (gw_Meta cur) \<and>
    status_ready (om_Generation (gw_Meta g)) mode (ao_Status out, ao_Reason out)
      (ao_DepStatus out, ao_DepReason out) (gw_Status cur')"
proof -
  from patchStatus_ok [OF run [unfolded publishReady_def Let_def]] stored fresh
  obtain cur' where cur': "lookup w' (gw_objkey g) = Some (OHigressGateway cur')"
    "gw_Spec cur' = gw_Spec cur" "same_but_rest (gw_Meta cur') (gw_Meta cur)"
    and st: "same_status (setDependencyCondition L (setAutoscalingCondition L
        (markResourcesReady L (gw_Status g) (om_Generation (gw_Meta g)) mode)
        (om_Generation (gw_Meta g)) (ao_Status out) (ao_Reason out) (ao_Message out))
        (om_Generation (gw_Meta g)) (ao_DepStatus out) (ao_DepReason out) (ao_DepMessage out))
      (gw_Status cur')"
    by auto
  from status_ready_same [OF st readyStatus_status [OF conds.status_conditions_axioms]] cur'
  show ?thesis by blast
qed

lemma rejectInvalid_ok:
  assumes run: "rejectInvalid L r g mode ve w = (Inr u, w')"
    and stored: "lookup w (gw_objkey g) = Some (OHigressGateway cur)"
    and fresh: "gw_Status cur = gw_Status g"
  shows "removed (lookup w' (hpa_key g))" and "removed (lookup w' (scaled_key g))"
    and "\<exists>cur'. lookup w' (gw_objkey g) = Some (OHigressGateway cur') \<and>
      gw_Spec cur' = gw_Spec cur \<and> same_but_rest (gw_Meta cur') (gw_Meta cur) \<and>
      status_rejected (om_Generation (gw_Meta g)) mode (ve_reason ve) (gw_Status cur')"
proof -
  from run obtain w1 w2 w3 where s1: "deleteNativeHPAIfExists r g w = (Inr (), w1)"
    and s2: "ignoreNoMatch (deleteKEDAScaledObjectIfExists r g) w1 = (Inr (), w2)"
    and s3: "recordValidationFailure r g ve w2 = (Inr (), w3)"
    and s4: "patchStatus L r g (\<lambda>status.
       markConfigurationInvalid L status (om_Generation (gw_Meta g)) mode ve) w3 = (Inr (), w')"
    by (auto simp: rejectInvalid_def ok_simps)
  have l1: "lookup w1 q = lookup w q" if "q \<noteq> hpa_key g" for q
    using keepsD [OF deleteNativeHPA_frame [OF that] s1] .
  have l2: "lookup w2 q = lookup w1 q" if "q \<noteq> scaled_key g" for q
    using keepsD [OF keeps_ignoreNoMatch [OF deleteKEDA_frame [OF that]] s2] .
  have l3: "lookup w3 = lookup w2"
    using s3 recordEvent_lookup unfolding recordValidationFailure_def by blast
  have l4: "lookup w' q = lookup w3 q" if "q \<noteq> gw_objkey g" for q
    using keepsD [OF patchStatus_frame s4] that by simp
  show "removed (lookup w' (hpa_key g))"
    using deleteNativeHPA_ok [OF s1] by (simp add: l2 l3 l4)
  show "removed (lookup w' (scaled_key g))"
    using deleteKEDA_ok [OF s2] by (simp add: l3 l4)
  have "lookup w3 (gw_objkey g) = Some (OHigressGateway cur)"
    using stored by (simp add: l1 l2 l3)
  from patchStatus_ok [OF s4] this fresh obtain cur' where
    cur': "lookup w' (gw_objkey g) = Some (OHigressGateway cur')" "gw_Spec cur' = gw_Spec cur"
      "same_but_rest (gw_Meta cur') (gw_Meta cur)"
    and st: "same_status (markConfigurationInvalid L (gw_Status g) (om_Generation (gw_Meta g)) mode ve)
      (gw_Status cur')" by auto
  from status_rejected_same [OF st markConfigurationInvalid_status [OF conds.status_conditions_axioms]] cur'
  show "\<exists>cur'. lookup w' (gw_objkey g) = Some (OHigressGateway cur') \<and>
      gw_Spec cur' = gw_Spec cur \<and> same_but_rest (gw_Meta cur') (gw_Meta cur) \<and>
      status_rejected (om_Generation (gw_Meta g)) mode (ve_reason ve) (gw_Status cur')" by blast
qed

text \<open>A later step that keeps the keys concerned keeps what an earlier step settled.\<close>

lemma account_settled_step:
  assumes "account_settled admits semEq g st"
    and "\<And>k n. k \<in> {KServiceAccount, KClusterRole, KClusterRoleBinding, KRole, KRoleBinding} \<Longrightarrow>
      st' (k, n) = st (k, n)"
  shows "account_settled admits semEq g st'"
  using assms(1) unfolding account_settled_def synced_def by (auto simp: assms(2))

lemma autoscaling_settled_step:
  assumes "autoscaling_settled admits semEq g b st"
    and "st' (hpa_key g) = st (hpa_key g)" and "st' (scaled_key g) = st (scaled_key g)"
  shows "autoscaling_settled admits semEq g b st'"
  using assms by (simp add: autoscaling_settled_def synced_def)

lemma autoscaling_discovery [simp]:
  "autoscaling_settled admits semEq (setDiscoveryAddress g) b st = autoscaling_settled admits semEq g b st"
  by (simp add: autoscaling_settled_def)

lemma createAccount_settled:
  assumes "createServiceAccount_gw L r g w = (Inr u, w1)" and "createRBAC_gw L r g w1 = (Inr v, w2)"
  shows "account_settled admits semEq g (lookup w2)"
proof -
  from createServiceAccount_ok [OF assms(1)] obtain n where n: "getServiceAccount_gw g = Inr n"
    and sa: "lookup w1 (KServiceAccount, (gw_Namespace g, n)) \<noteq> None" by blast
  have "keeps (\<lambda>w. lookup w (KServiceAccount, (gw_Namespace g, n))) (createRBAC_gw L r g)"
    by (rule createRBAC_frame) auto
  from keepsD [OF this assms(2)] sa n createRBAC_ok [OF assms(2) _ n] show ?thesis
    unfolding account_settled_def by auto
qed

lemma reconcileChildren_ok:
  assumes run: "reconcileChildren L r ord ord' g (getEffectiveScaleMode g) w = (Inr u, w')"
    and mode: "getEffectiveScaleMode g \<in>
      {AutoScalingModeDisabled, AutoScalingModeNativeHPA, AutoScalingModeKEDA}"
    and stored: "lookup w (gw_objkey g) = Some (OHigressGateway cur)"
    and fresh: "gw_Status cur = gw_Status g"
  shows "\<exists>installed cur'. gateway_settled L admits semEq ord' g installed (lookup w') \<and>
    lookup w' (gw_objkey g) = Some (OHigressGateway cur') \<and>
    gw_Spec cur' = gw_Spec cur \<and> same_but_rest (gw_Meta cur') (gw_Meta cur) \<and>
    status_ready (om_Generation (gw_Meta g)) (getEffectiveScaleMode g)
      (fst (reported (getEffectiveScaleMode g) installed))
      (snd (reported (getEffectiveScaleMode g) installed)) (gw_Status cur')"
proof -
  let ?g = "setDiscoveryAddress g"
  from run obtain w1 w2 w3 w4 w5 w6 g1 g2 out where
    s1: "createServiceAccount_gw L r g w = (Inr (), w1)" and
    s2: "createRBAC_gw L r g w1 = (Inr (), w2)" and
    s3: "createConfigMap_gw L r g w2 = (Inr g1, w3)" and
    s4: "createDeployment_gw L r ord ord' g1 w3 = (Inr (), w4)" and
    s5: "reconcileAutoscaling L r g1 (getEffectiveScaleMode g) w4 = (Inr out, w5)" and
    s6: "createService_gw L r g1 w5 = (Inr g2, w6)" and
    s7: "publishReady L r g2 (getEffectiveScaleMode g) out w6 = (Inr u, w')"
    by (auto simp: reconcileChildren_def ok_simps)
  have g1: "g1 = ?g" by (rule createConfigMap_instance [OF s3])
  obtain labels where g2: "g2 = ?g\<lparr>gw_Meta := (gw_Meta g)\<lparr>om_Labels := labels\<rparr>\<rparr>"
    using createService_instance [OF s6] g1 by auto
  have l1: "lookup w1 q = lookup w q" if "fst q \<noteq> KServiceAccount" for q
    by (rule keepsD [OF createServiceAccount_frame s1]) (use that in auto)
  have l2: "lookup w2 q = lookup w1 q" if "fst q \<notin> {KClusterRole, KClusterRoleBinding, KRole, KRoleBinding}" for q
    by (rule keepsD [OF createRBAC_frame s2]) (use that in auto)
  have l3: "lookup w3 q = lookup w2 q" if "fst q \<noteq> KConfigMap" for q
    by (rule keepsD [OF createConfigMap_frame s3]) (use that in auto)
  have l4: "lookup w4 q = lookup w3 q" if "fst q \<noteq> KDeployment" for q
    by (rule keepsD [OF createDeployment_frame s4]) (use that in auto)
  have l5: "lookup w5 q = lookup w4 q" if "fst q \<noteq> KHPA" "fst q \<noteq> KUnstructured kedaScaledObjectGVK" for q
    by (rule keepsD [OF reconcileAutoscaling_frame s5]) (use that in auto)
  have l6: "lookup w6 q = lookup w5 q" if "fst q \<noteq> KService" for q
    by (rule keepsD [OF createService_frame s6]) (use that in auto)
  have l7: "lookup w' q = lookup w6 q" if "fst q \<noteq> KHigressGateway" for q
    by (rule keepsD [OF publishReady_frame s7]) (use that in auto)
  note ls = l1 l2 l3 l4 l5 l6 l7
  have account: "account_settled admits semEq g (lookup w')"
    by (rule account_settled_step [OF createAccount_settled [OF s1 s2]]) (auto simp: ls)
  have cm: "synced admits semEq (lookup w') (KConfigMap, (gw_Namespace g, HigressGatewayConfig))
      (muteConfigMap ?g (updateGatewayConfigMapSpec L))"
    using createConfigMap_ok [OF s3] by (simp add: synced_def ls)
  have dep: "synced admits semEq (lookup w') (KDeployment, gw_key g) (muteDeployment_gw ord' g)"
    using createDeployment_ok [OF s4] g1 by (simp add: synced_def ls)
  have svc: "synced admits semEq (lookup w') (KService, (gw_Namespace g, HigressGatewayServiceName))
      (muteService_gw g)"
    using createService_ok [OF s6] g1 by (simp add: synced_def ls)
  from reconcileAutoscaling_ok [of g1 w4 out w5] s5 mode g1 obtain installed where
    auto: "autoscaling_settled admits semEq g installed (lookup w5)"
    and rep: "out_reports out = reported (getEffectiveScaleMode g) installed" by auto
  have auto': "autoscaling_settled admits semEq g installed (lookup w')"
    by (rule autoscaling_settled_step [OF auto]) (simp_all add: ls)
  have "lookup w6 (gw_objkey g2) = Some (OHigressGateway cur)"
    using stored by (simp add: g2 ls)
  from publishReady_ok [OF s7 this] fresh g2 obtain cur' where
    "lookup w' (gw_objkey g) = Some (OHigressGateway cur')"
    "gw_Spec cur' = gw_Spec cur" "same_but_rest (gw_Meta cur') (gw_Meta cur)"
    "status_ready (om_Generation (gw_Meta g)) (getEffectiveScaleMode g) (ao_Status out, ao_Reason out)
      (ao_DepStatus out, ao_DepReason out) (gw_Status cur')" by auto
  moreover have "(ao_Status out, ao_Reason out) = fst (reported (getEffectiveScaleMode g) installed)"
    "(ao_DepStatus out, ao_DepReason out) = snd (reported (getEffectiveScaleMode g) installed)"
    by (simp_all add: rep [symmetric] out_reports_def)
  ultimately show ?thesis
    using account cm dep svc auto' unfolding gateway_settled_def by auto
qed

end

end
