(* ===== verification/GwReconcile.thy ===== *)
theory GwReconcile
  imports GwOutcome
begin

text \<open>
  \<open>Reconcile\<close> of the gateway controller as a whole: what a run that returned without
  error left behind, when a run writes nothing, and how a resource is finalized.
\<close>

text \<open>
  The two ways a live gateway's reconcile completes; \<open>g'\<close> is the resource as stored in
  the end, \<open>st0\<close> and \<open>st\<close> the cluster before and after.
\<close>

definition completed ::
  "'w lib \<Rightarrow> (kobj option \<Rightarrow> kobj \<Rightarrow> kobj \<Rightarrow> bool) \<Rightarrow> (kobj \<Rightarrow> kobj \<Rightarrow> bool) \<Rightarrow> rangeOrder \<Rightarrow>
   HigressGateway \<Rightarrow> state \<Rightarrow> bool" where
  "completed L admits semEq ord g' st \<longleftrightarrow>
    (let g = setDefaultValues_gw g'; mode = getEffectiveScaleMode g' in
     validateAutoscalingConfig (IsZero L) g = Inr None \<and>
     (\<exists>installed. gateway_settled L admits semEq ord g installed st \<and>
        status_ready (om_Generation (gw_Meta g')) mode (fst (reported mode installed))
          (snd (reported mode installed)) (gw_Status g')))"

definition rejected :: "'w lib \<Rightarrow> HigressGateway \<Rightarrow> state \<Rightarrow> state \<Rightarrow> bool" where
  "rejected L g' st0 st \<longleftrightarrow>
     (\<exists>ve. validateAutoscalingConfig (IsZero L) (setDefaultValues_gw g') = Inr (Some ve) \<and>
        removed (st (hpa_key g')) \<and> removed (st (scaled_key g')) \<and>
        (\<forall>q. q \<noteq> hpa_key g' \<longrightarrow> q \<noteq> scaled_key g' \<longrightarrow> q \<noteq> gw_objkey g' \<longrightarrow> st q = st0 q) \<and>
        status_rejected (om_Generation (gw_Meta g')) (getEffectiveScaleMode g') (ve_reason ve)
          (gw_Status g'))"

text \<open>
  A predicate on the metadata of the stored resource, blind to the field that the
  operator never reads; \<open>guarded\<close>: it carries the finalizer; \<open>held\<close>: it does and nobody
  asked for its deletion.
\<close>

definition rest_blind :: "(ObjectMeta \<Rightarrow> bool) \<Rightarrow> bool" where
  "rest_blind P \<longleftrightarrow> (\<forall>m. P m = P (m\<lparr>om_rest := []\<rparr>))"

definition meta_holds :: "(ObjectMeta \<Rightarrow> bool) \<Rightarrow> nskey \<Rightarrow> state \<Rightarrow> bool" where
  "meta_holds P nn st \<longleftrightarrow>
     (\<exists>g'. st (KHigressGateway, nn) = Some (OHigressGateway g') \<and> P (gw_Meta g'))"

definition guarded :: "nskey \<Rightarrow> state \<Rightarrow> bool" where
  "guarded = meta_holds (\<lambda>m. finalizer_gw \<in> set (om_Finalizers m))"

definition held :: "nskey \<Rightarrow> state \<Rightarrow> bool" where
  "held = meta_holds (\<lambda>m. finalizer_gw \<in> set (om_Finalizers m) \<and> om_DeletionTimestamp m = None)"

lemma rest_blind_guards:
  "rest_blind (\<lambda>m. finalizer_gw \<in> set (om_Finalizers m))"
  "rest_blind (\<lambda>m. finalizer_gw \<in> set (om_Finalizers m) \<and> om_DeletionTimestamp m = None)"
  by (simp_all add: rest_blind_def)

context gateway_env
begin

lemma restamped:
  assumes "gw_Spec g' = gw_Spec g" and "same_but_rest (gw_Meta g') (gw_Meta g)"
  shows "g' = restamp (om_rest (gw_Meta g')) (gw_Status g') g"
  using assms by (intro restamp_eq) (simp_all add: rest_only)

lemma completed_restamp:
  assumes "gw_Spec g' = gw_Spec g1" and "same_but_rest (gw_Meta g') (gw_Meta g1)"
    and valid: "validateAutoscalingConfig (IsZero L) (setDefaultValues_gw g1) = Inr None"
    and settled: "gateway_settled L admits semEq ord (setDefaultValues_gw g1) installed st"
    and ready: "status_ready (om_Generation (gw_Meta g1)) (getEffectiveScaleMode g1)
      (fst (reported (getEffectiveScaleMode g1) installed))
      (snd (reported (getEffectiveScaleMode g1) installed)) (gw_Status g')"
  shows "completed L admits semEq ord g' st"
proof -
  obtain x s where g': "g' = restamp x s g1" using restamped [OF assms(1,2)] by blast
  from settled have "gateway_settled L admits semEq ord (setDefaultValues_gw g') installed st"
    by (simp add: g' setDefault_restamp)
  with valid ready show ?thesis
    unfolding completed_def Let_def by (auto simp: g' setDefault_restamp)
qed

text \<open>A run over a live resource is the tail of \<open>Reconcile\<close> on its defaulted copy.\<close>

lemma Reconcile_live:
  assumes run: "Reconcile_gw L r ord ord' nn w = (res, w')"
    and stored: "lookup w (KHigressGateway, nn) = Some (OHigressGateway g0)"
    and live: "om_DeletionTimestamp (gw_Meta g0) = None"
    and reads: "served_reads r lookup"
  obtains w1 where "lookup w1 = lookup w"
    and "reconcileLive L r ord ord' nn (setDefaultValues_gw g0) w1 = (res, w')"
proof -
  from reads stored have "fst (Get r KHigressGateway nn w) = Inr (OHigressGateway g0)"
    by (cases nn) (simp add: served_reads_def)
  then obtain w1 where get: "Get r KHigressGateway nn w = (Inr (OHigressGateway g0), w1)"
    by (metis prod.collapse)
  with run live have "reconcileLive L r ord ord' nn (setDefaultValues_gw g0) w1 = (res, w')"
    by (simp add: Reconcile_gw_def ifErr_run bindM_run asGateway_def)
  with get_lookup [OF get] show ?thesis by (rule that)
qed

lemma reconcileLive_ok:
  assumes run: "reconcileLive L r ord ord' nn (setDefaultValues_gw g0) w = (Inr u, w')"
    and stored: "lookup w (KHigressGateway, nn) = Some (OHigressGateway g0)"
    and ns: "active_namespace (lookup w) (fst nn)" and reads: "served_reads r lookup"
  shows "\<exists>g1 g'. adopted admits g0 g1 \<and> lookup w' (KHigressGateway, nn) = Some (OHigressGateway g') \<and>
    gw_Spec g' = gw_Spec g1 \<and> same_but_rest (gw_Meta g') (gw_Meta g1) \<and>
    finalizer_gw \<in> set (om_Finalizers (gw_Meta g')) \<and>
    (completed L admits semEq ord' g' (lookup w') \<or> rejected L g' (lookup w) (lookup w'))"
proof -
  have nn: "nn = gw_key g0" using stored_key [OF stored] by simp
  from namespaceActive_run [OF reads ns] obtain w1 where
    act: "namespaceActive r (fst nn) w = (Inr True, w1)" and l1: "lookup w1 = lookup w" by blast
  from run act nn obtain g w2 v where
    fin: "ensureFinalizer_gw L r nn (setDefaultValues_gw g0) w1 = (Inr g, w2)"
    and v: "validateAutoscalingConfig (IsZero L) g = Inr v"
    and rest: "(case v of Some ve \<Rightarrow> rejectInvalid L r g (getEffectiveScaleMode g) ve
        | None \<Rightarrow> reconcileChildren L r ord ord' g (getEffectiveScaleMode g)) w2 = (Inr u, w')"
    by (auto simp: reconcileLive_def ok_simps bindM_run Let_def)
  from ensureFinalizer_ok [OF fin] stored l1 obtain g1 where
    ad: "adopted admits g0 g1" and g: "g = setDefaultValues_gw g1" and key: "gw_key g1 = nn"
    and st: "lookup w2 (KHigressGateway, nn) = Some (OHigressGateway g1)"
    and f: "finalizer_gw \<in> set (om_Finalizers (gw_Meta g1))" by auto
  have st2: "lookup w2 (gw_objkey g) = Some (OHigressGateway g1)" using st key g by simp
  have key': "gw_objkey g = (KHigressGateway, nn)" using key g by simp
  have l2: "lookup w2 q = lookup w q" if "q \<noteq> (KHigressGateway, nn)" for q
    using keepsD [OF ensureFinalizer_frame fin] that nn l1 by simp
  show ?thesis
  proof (cases v)
    case None
    from reconcileChildren_ok [of ord ord' g w2 u w' g1] rest None st2 validate_ok_mode [of "IsZero L" g] v g
    obtain installed g' where
      settled: "gateway_settled L admits semEq ord' g installed (lookup w')"
      and g': "lookup w' (gw_objkey g) = Some (OHigressGateway g')"
      and same: "gw_Spec g' = gw_Spec g1" "same_but_rest (gw_Meta g') (gw_Meta g1)"
      and ready: "status_ready (om_Generation (gw_Meta g1)) (getEffectiveScaleMode g1)
        (fst (reported (getEffectiveScaleMode g1) installed))
        (snd (reported (getEffectiveScaleMode g1) installed)) (gw_Status g')"
      by auto
    have "completed L admits semEq ord' g' (lookup w')"
      using completed_restamp [OF same _ _ ready] v None g settled by simp
    moreover obtain x s where "g' = restamp x s g1" using restamped [OF same] by blast
    ultimately show ?thesis using ad same g' key' f by auto
  next
    case (Some ve)
    with rest have rej: "rejectInvalid L r g (getEffectiveScaleMode g) ve w2 = (Inr u, w')" by simp
    note res = rejectInvalid_ok [OF rej st2]
    from res(3) g obtain g' where
      g': "lookup w' (gw_objkey g) = Some (OHigressGateway g')"
      and same: "gw_Spec g' = gw_Spec g1" "same_but_rest (gw_Meta g') (gw_Meta g1)"
      and stat: "status_rejected (om_Generation (gw_Meta g1)) (getEffectiveScaleMode g1) (ve_reason ve) (gw_Status g')"
      by auto
    obtain x s where re: "g' = restamp x s g1" using restamped [OF same] by blast
    have "lookup w' q = lookup w q"
      if "q \<noteq> hpa_key g'" "q \<noteq> scaled_key g'" "q \<noteq> gw_objkey g'" for q
    proof -
      have "lookup w' q = lookup w2 q"
        by (rule keepsD [OF rejectInvalid_frame rej]) (use that g re in auto)
      then show ?thesis using l2 [of q] that key re by auto
    qed
    with res(1,2) v Some stat g re have "rejected L g' (lookup w) (lookup w')"
      unfolding rejected_def by (auto simp: setDefault_restamp)
    then show ?thesis using ad same g' key' f re by auto
  qed
qed

lemma Reconcile_live_ok:
  assumes "Reconcile_gw L r ord ord' nn w = (Inr u, w')"
    and "lookup w (KHigressGateway, nn) = Some (OHigressGateway g0)"
    and "om_DeletionTimestamp (gw_Meta g0) = None"
    and "active_namespace (lookup w) (fst nn)" and "served_reads r lookup"
  shows "\<exists>g1 g'. adopted admits g0 g1 \<and> lookup w' (KHigressGateway, nn) = Some (OHigressGateway g') \<and>
    gw_Spec g' = gw_Spec g1 \<and> same_but_rest (gw_Meta g') (gw_Meta g1) \<and>
    finalizer_gw \<in> set (om_Finalizers (gw_Meta g')) \<and>
    (completed L admits semEq ord' g' (lookup w') \<or> rejected L g' (lookup w) (lookup w'))"
proof -
  from Reconcile_live [OF assms(1,2,3,5)] obtain w1 where l: "lookup w1 = lookup w"
    and run: "reconcileLive L r ord ord' nn (setDefaultValues_gw g0) w1 = (Inr u, w')" by blast
  from reconcileLive_ok [OF run] assms l show ?thesis by simp
qed

text \<open>After any complete run at most one autoscaler is alive.\<close>

lemma one_autoscaler:
  assumes "completed L admits semEq ord' g' st \<or> rejected L g' st0 st"
  shows "removed (st (hpa_key g')) \<or> removed (st (scaled_key g'))"
  using assms
proof
  assume "completed L admits semEq ord' g' st"
  then obtain b where v: "validateAutoscalingConfig (IsZero L) (setDefaultValues_gw g') = Inr None"
    and s: "gateway_settled L admits semEq ord' (setDefaultValues_gw g') b st"
    by (auto simp: completed_def Let_def)
  from validate_ok_mode [OF v] s show ?thesis
    by (auto simp: gateway_settled_def autoscaling_settled_def)
next
  assume "rejected L g' st0 st"
  then show ?thesis by (auto simp: rejected_def)
qed

lemma Reconcile_single_autoscaler:
  assumes "Reconcile_gw L r ord ord' nn w = (Inr u, w')"
    and "lookup w (KHigressGateway, nn) = Some (OHigressGateway g0)"
    and "om_DeletionTimestamp (gw_Meta g0) = None"
    and "active_namespace (lookup w) (fst nn)" and "served_reads r lookup"
  shows "removed (lookup w' (KHPA, nn)) \<or> removed (lookup w' (KUnstructured kedaScaledObjectGVK, nn))"
proof -
  from Reconcile_live_ok [OF assms] obtain g' where
    g': "lookup w' (KHigressGateway, nn) = Some (OHigressGateway g')"
    and c: "completed L admits semEq ord' g' (lookup w') \<or> rejected L g' (lookup w) (lookup w')" by blast
  have "gw_key g' = nn" using stored_key [OF g'] by simp
  with one_autoscaler [OF c] show ?thesis by simp
qed

section \<open>Rejected configurations\<close>

lemma reconcileLive_invalid:
  assumes fin: "finalizer_gw \<in> set (om_Finalizers (gw_Meta g0))"
    and invalid: "validateAutoscalingConfig (IsZero L) (setDefaultValues_gw g0) = Inr (Some ve)"
  shows "reconcileLive L r ord ord' nn (setDefaultValues_gw g0) =
    bindM (namespaceActive r (gw_Namespace g0)) (\<lambda>active. if \<not> active then ret ()
      else rejectInvalid L r (setDefaultValues_gw g0) (getEffectiveScaleMode g0) ve)"
proof -
  have "ensureFinalizer_gw L r nn (setDefaultValues_gw g0) = ret (setDefaultValues_gw g0)"
    using fin by (simp add: ensureFinalizer_gw_def fins.add_old)
  moreover have "bindM (liftR (Inr x)) k = k x" for x :: "validationError option" and k :: "_ \<Rightarrow> ('w, unit) io"
    by (simp add: fun_eq_iff bindM_def)
  ultimately show ?thesis using invalid by (simp add: reconcileLive_def Let_def cong: if_cong)
qed

text \<open>Whatever the outcome, a rejected configuration changes no workload.\<close>

lemma reconcileLive_invalid_frame:
  assumes stored: "lookup w (KHigressGateway, nn) = Some (OHigressGateway g0)"
    and invalid: "\<And>g1. adopted admits g0 g1 \<Longrightarrow>
      \<exists>ve. validateAutoscalingConfig (IsZero L) (setDefaultValues_gw g1) = Inr (Some ve)"
    and q: "q \<noteq> (KHPA, nn)" "q \<noteq> (KUnstructured kedaScaledObjectGVK, nn)" "q \<noteq> (KHigressGateway, nn)"
  shows "lookup (snd (reconcileLive L r ord ord' nn (setDefaultValues_gw g0) w)) q = lookup w q"
proof -
  let ?g = "setDefaultValues_gw g0"
  have nn: "gw_key g0 = nn" using stored_key [OF stored] by simp
  obtain b w1 where act: "namespaceActive r (gw_Namespace ?g) w = (b, w1)" by force
  have l1: "lookup w1 = lookup w" by (rule namespaceActive_lookup [OF act])
  obtain e w2 where fin: "ensureFinalizer_gw L r nn ?g w1 = (e, w2)" by force
  have "lookup w2 q = lookup w1 q"
    by (rule keepsD [OF ensureFinalizer_frame fin]) (use q nn in auto)
  with l1 have l2: "lookup w2 q = lookup w q" by simp
  show ?thesis
  proof (cases "b = Inr True")
    case False
    with act l1 show ?thesis by (cases b) (auto simp: reconcileLive_def bindM_run)
  next
    case b: True
    show ?thesis
    proof (cases e)
      case (Inl err)
      with act b fin l2 show ?thesis by (simp add: reconcileLive_def bindM_run)
    next
      case (Inr g)
      from ensureFinalizer_ok [OF fin [unfolded Inr]] stored l1 obtain g1 where
        g1: "adopted admits g0 g1" "g = setDefaultValues_gw g1" "gw_key g1 = nn" by auto
      from invalid [OF g1(1)] g1(2) obtain ve where
        "validateAutoscalingConfig (IsZero L) g = Inr (Some ve)" by blast
      with act b fin Inr have "reconcileLive L r ord ord' nn ?g w =
          rejectInvalid L r g (getEffectiveScaleMode g) ve w2"
        by (simp add: reconcileLive_def bindM_run Let_def)
      moreover have "keeps (\<lambda>w. lookup w q) (rejectInvalid L r g (getEffectiveScaleMode g) ve)"
        by (rule rejectInvalid_frame) (use q g1 in auto)
      ultimately show ?thesis using l2 by (simp add: keeps_def)
    qed
  qed
qed

lemma Reconcile_invalid_frame:
  assumes stored: "lookup w (KHigressGateway, nn) = Some (OHigressGateway g0)"
    and live: "om_DeletionTimestamp (gw_Meta g0) = None"
    and invalid: "\<And>g1. adopted admits g0 g1 \<Longrightarrow>
      \<exists>ve. validateAutoscalingConfig (IsZero L) (setDefaultValues_gw g1) = Inr (Some ve)"
    and q: "q \<noteq> (KHPA, nn)" "q \<noteq> (KUnstructured kedaScaledObjectGVK, nn)" "q \<noteq> (KHigressGateway, nn)"
  shows "lookup (snd (Reconcile_gw L r ord ord' nn w)) q = lookup w q"
proof -
  obtain gres w1 where get: "Get r KHigressGateway nn w = (gres, w1)"
    by (cases "Get r KHigressGateway nn w")
  note l1 = get_lookup [OF get]
  show ?thesis
  proof (cases gres)
    case (Inl e)
    then show ?thesis using get l1 by (cases e) (auto simp: Reconcile_gw_def ifErr_run)
  next
    case (Inr x)
    with get stored have "x = OHigressGateway g0" by (auto dest: get_ok)
    then have "Reconcile_gw L r ord ord' nn w = reconcileLive L r ord ord' nn (setDefaultValues_gw g0) w1"
      using get Inr live by (simp add: Reconcile_gw_def ifErr_run bindM_run asGateway_def)
    with reconcileLive_invalid_frame [OF _ invalid q, of w1] stored l1 show ?thesis by simp
  qed
qed

lemma Reconcile_invalid_ok:
  assumes run: "Reconcile_gw L r ord ord' nn w = (Inr u, w')"
    and stored: "lookup w (KHigressGateway, nn) = Some (OHigressGateway g0)"
    and live: "om_DeletionTimestamp (gw_Meta g0) = None"
    and fin: "finalizer_gw \<in> set (om_Finalizers (gw_Meta g0))"
    and invalid: "validateAutoscalingConfig (IsZero L) (setDefaultValues_gw g0) = Inr (Some ve)"
    and ns: "active_namespace (lookup w) (fst nn)" and reads: "served_reads r lookup"
  shows "removed (lookup w' (KHPA, nn))" and "removed (lookup w' (KUnstructured kedaScaledObjectGVK, nn))"
    and "\<exists>g'. lookup w' (KHigressGateway, nn) = Some (OHigressGateway g') \<and> gw_Spec g' = gw_Spec g0 \<and>
      status_rejected (om_Generation (gw_Meta g0)) (getEffectiveScaleMode g0) (ve_reason ve) (gw_Status g')"
proof -
  have nn: "nn = gw_key g0" using stored_key [OF stored] by simp
  from Reconcile_live [OF run stored live reads] obtain w1 where l1: "lookup w1 = lookup w"
    and run1: "reconcileLive L r ord ord' nn (setDefaultValues_gw g0) w1 = (Inr u, w')" by blast
  have "active_namespace (lookup w1) (gw_Namespace g0)" using ns l1 nn by simp
  from namespaceActive_run [OF reads this] obtain w2 where
    act: "namespaceActive r (gw_Namespace g0) w1 = (Inr True, w2)" and l2: "lookup w2 = lookup w1" by blast
  from run1 act have rej: "rejectInvalid L r (setDefaultValues_gw g0) (getEffectiveScaleMode g0) ve w2 = (Inr u, w')"
    unfolding reconcileLive_invalid [OF fin invalid] by (simp add: bindM_run)
  have st: "lookup w2 (gw_objkey (setDefaultValues_gw g0)) = Some (OHigressGateway g0)"
    using stored l1 l2 nn by simp
  from rejectInvalid_ok [OF rej st]
  show "removed (lookup w' (KHPA, nn))" and "removed (lookup w' (KUnstructured kedaScaledObjectGVK, nn))"
    and "\<exists>g'. lookup w' (KHigressGateway, nn) = Some (OHigressGateway g') \<and> gw_Spec g' = gw_Spec g0 \<and>
      status_rejected (om_Generation (gw_Meta g0)) (getEffectiveScaleMode g0) (ve_reason ve) (gw_Status g')"
    by (auto simp: nn)
qed

section \<open>Runs that write nothing\<close>

lemma Reconcile_idle:
  assumes "lookup w (KHigressGateway, nn) = None \<or>
      (\<exists>g0. lookup w (KHigressGateway, nn) = Some (OHigressGateway g0) \<and>
         om_DeletionTimestamp (gw_Meta g0) = None \<and> \<not> active_namespace (lookup w) (fst nn)) \<or>
      (\<exists>g0. lookup w (KHigressGateway, nn) = Some (OHigressGateway g0) \<and>
         om_DeletionTimestamp (gw_Meta g0) \<noteq> None \<and>
         finalizer_gw \<notin> set (om_Finalizers (gw_Meta g0)))"
  shows "lookup (snd (Reconcile_gw L r ord ord' nn w)) = lookup w"
proof (cases "Get r KHigressGateway nn w")
  case (Pair res w1)
  note get = Pair
  then have w1: "lookup w1 = lookup w" by (rule get_lookup)
  show ?thesis
  proof (cases res)
    case (Inl e)
    then show ?thesis using get w1 by (cases e) (auto simp: Reconcile_gw_def ifErr_run)
  next
    case (Inr x)
    with get have x: "lookup w (KHigressGateway, nn) = Some x" by (auto dest: get_ok)
    with assms obtain g0 where g0: "x = OHigressGateway g0"
      and c: "om_DeletionTimestamp (gw_Meta g0) = None \<and> \<not> active_namespace (lookup w) (fst nn) \<or>
        om_DeletionTimestamp (gw_Meta g0) \<noteq> None \<and> finalizer_gw \<notin> set (om_Finalizers (gw_Meta g0))"
      by auto
    have nn: "gw_key g0 = nn" using stored_key [OF x] g0 by simp
    from c show ?thesis
    proof
      assume d: "om_DeletionTimestamp (gw_Meta g0) = None \<and> \<not> active_namespace (lookup w) (fst nn)"
      obtain b w2 where act: "namespaceActive r (gw_Namespace g0) w1 = (b, w2)"
        by (cases "namespaceActive r (gw_Namespace g0) w1")
      have w2: "lookup w2 = lookup w1"
        using keepsD [OF namespaceActive_frame act] by blast
      have "b \<noteq> Inr True"
        using namespaceActive_ok(2) [of "gw_Namespace g0" w1 True w2] act d w1 nn by auto
      then have "lookup (snd (reconcileLive L r ord ord' nn (setDefaultValues_gw g0) w1)) = lookup w2"
        using act by (cases b) (auto simp: reconcileLive_def bindM_run)
      then show ?thesis using get Inr g0 d w1 w2
        by (simp add: Reconcile_gw_def ifErr_run bindM_run asGateway_def)
    next
      assume "om_DeletionTimestamp (gw_Meta g0) \<noteq> None \<and> finalizer_gw \<notin> set (om_Finalizers (gw_Meta g0))"
      then show ?thesis using get Inr g0 w1
        by (simp add: Reconcile_gw_def ifErr_run bindM_run asGateway_def reconcileDeletion_gw_def
            fins.has_iff)
    qed
  qed
qed

section \<open>No child without the finalizer\<close>

lemma patchStatus_holds:
  assumes "rest_blind P"
  shows "preserves (\<lambda>w. meta_holds P (gw_key g) (lookup w)) (patchStatus L r g f)"
proof -
  let ?g = "g\<lparr>gw_Status := f (gw_Status g)\<rparr>"
  have "preserves (\<lambda>w. meta_holds P (gw_key g) (lookup w)) (StatusPatch r (OHigressGateway ?g) (OHigressGateway g))"
    unfolding preserves_def
  proof (intro allI impI)
    fix w assume "meta_holds P (gw_key g) (lookup w)"
    then obtain g1 where st: "lookup w (objkey_of (OHigressGateway ?g)) = Some (OHigressGateway g1)"
      and P: "P (gw_Meta g1)" by (auto simp: meta_holds_def)
    from patch_status_only [OF st, of "OHigressGateway g"] obtain g' where
      g': "lookup (snd (StatusPatch r (OHigressGateway ?g) (OHigressGateway g) w)) (gw_objkey g) =
        Some (OHigressGateway g')" "same_but_rest (gw_Meta g') (gw_Meta g1)"
      by auto
    from g'(2) P assms have "P (gw_Meta g')" by (metis rest_only rest_blind_def)
    with g' show "meta_holds P (gw_key g)
        (lookup (snd (StatusPatch r (OHigressGateway ?g) (OHigressGateway g) w)))"
      by (auto simp: meta_holds_def)
  qed
  then show ?thesis unfolding patchStatus_def Let_def by (intro preserves_intro)
qed

lemma preserves_holds:
  "keeps (\<lambda>w. lookup w (KHigressGateway, nn)) m \<Longrightarrow> preserves (\<lambda>w. meta_holds P nn (lookup w)) m"
  by (rule preserves_keeps) (auto simp: meta_holds_def)

lemma rejectInvalid_holds:
  "rest_blind P \<Longrightarrow> preserves (\<lambda>w. meta_holds P (gw_key g) (lookup w)) (rejectInvalid L r g mode ve)"
  unfolding rejectInvalid_def recordValidationFailure_def
  by (intro preserves_bindM patchStatus_holds preserves_holds keeps_ignoreNoMatch
      deleteNativeHPA_frame deleteKEDA_frame recordEvent_frame) simp_all

lemma reconcileChildren_holds:
  assumes "rest_blind P"
  shows "preserves (\<lambda>w. meta_holds P (gw_key g) (lookup w)) (reconcileChildren L r ord ord' g mode)"
  unfolding reconcileChildren_def
proof (intro preserves_bindM_run, goal_cases)
  case 1
  show ?case by (intro preserves_holds createServiceAccount_frame) simp
next
  case 2
  show ?case by (intro preserves_holds createRBAC_frame) simp_all
next
  case 3
  show ?case by (intro preserves_holds createConfigMap_frame) simp
next
  case 4
  show ?case by (intro preserves_holds createDeployment_frame) simp
next
  case 5
  show ?case by (intro preserves_holds reconcileAutoscaling_frame) simp_all
next
  case 6
  show ?case by (intro preserves_holds createService_frame) simp
next
  case (7 w x w' w0 x0 w0' w1 g1 w1' w2 x2 w2' w3 out w3' w4 g2 w4')
  then have "gw_key g2 = gw_key g"
    by (auto dest!: createConfigMap_instance createService_instance)
  then show ?case
    using patchStatus_holds [OF assms, of g2] unfolding publishReady_def Let_def by simp
qed

lemma reconcileLive_guarded:
  assumes run: "reconcileLive L r ord ord' nn (setDefaultValues_gw g0) w = (res, w')"
    and stored: "lookup w (KHigressGateway, nn) = Some (OHigressGateway g0)"
  shows "guarded nn (lookup w') \<or> (\<forall>q. q \<noteq> (KHigressGateway, nn) \<longrightarrow> lookup w' q = lookup w q)"
proof -
  have nn: "nn = gw_key g0" using stored_key [OF stored] by simp
  obtain b w1 where act: "namespaceActive r (gw_Namespace g0) w = (b, w1)"
    by (cases "namespaceActive r (gw_Namespace g0) w")
  have w1: "lookup w1 = lookup w" using keepsD [OF namespaceActive_frame act] by blast
  show ?thesis
  proof (cases "b = Inr True")
    case False
    then have "w' = w1" using run act by (cases b) (auto simp: reconcileLive_def bindM_run)
    then show ?thesis by (simp add: w1)
  next
    case True
    obtain fres w2 where fin: "ensureFinalizer_gw L r nn (setDefaultValues_gw g0) w1 = (fres, w2)"
      by (cases "ensureFinalizer_gw L r nn (setDefaultValues_gw g0) w1")
    have w2: "lookup w2 q = lookup w q" if "q \<noteq> (KHigressGateway, nn)" for q
      using keepsD [OF ensureFinalizer_frame fin] that nn w1 by simp
    show ?thesis
    proof (cases fres)
      case (Inl e)
      then have "w' = w2" using run act fin True by (simp add: reconcileLive_def bindM_run)
      then show ?thesis by (simp add: w2)
    next
      case (Inr g)
      from ensureFinalizer_ok [of nn g0 w1 g w2] fin Inr stored w1 obtain g1 where
        key: "gw_key g = nn" and g2: "guarded (gw_key g) (lookup w2)"
        by (auto simp: guarded_def meta_holds_def)
      obtain v where v: "validateAutoscalingConfig (IsZero L) g = Inr v" using validate_total by blast
      have "(case v of Some ve \<Rightarrow> rejectInvalid L r g (getEffectiveScaleMode g) ve
          | None \<Rightarrow> reconcileChildren L r ord ord' g (getEffectiveScaleMode g)) w2 = (res, w')"
        using run act fin True Inr v by (simp add: reconcileLive_def bindM_run Let_def)
      then have "guarded (gw_key g) (lookup w')"
        using g2 unfolding guarded_def
        by (auto split: option.splits dest: preservesD [OF rejectInvalid_holds [OF rest_blind_guards(1)]]
            preservesD [OF reconcileChildren_holds [OF rest_blind_guards(1)]])
      with key show ?thesis by simp
    qed
  qed
qed

lemma Reconcile_guarded:
  assumes stored: "lookup w (KHigressGateway, nn) = Some (OHigressGateway g0)"
    and live: "om_DeletionTimestamp (gw_Meta g0) = None"
    and run: "Reconcile_gw L r ord ord' nn w = (res, w')"
  shows "guarded nn (lookup w') \<or> (\<forall>q. q \<noteq> (KHigressGateway, nn) \<longrightarrow> lookup w' q = lookup w q)"
proof (cases "Get r KHigressGateway nn w")
  case (Pair gres w1)
  note get = Pair
  then have w1: "lookup w1 = lookup w" by (rule get_lookup)
  show ?thesis
  proof (cases gres)
    case (Inl e)
    with run get w1 have "lookup w' = lookup w"
      by (cases e) (auto simp: Reconcile_gw_def ifErr_run split: if_splits)
    then show ?thesis by simp
  next
    case (Inr x)
    with get stored have "x = OHigressGateway g0" by (auto dest: get_ok)
    with run get Inr live have "reconcileLive L r ord ord' nn (setDefaultValues_gw g0) w1 = (res, w')"
      by (simp add: Reconcile_gw_def ifErr_run bindM_run asGateway_def)
    from reconcileLive_guarded [OF this] stored w1 show ?thesis by simp
  qed
qed

text \<open>A held resource stays held, whatever the outcome of the run.\<close>

lemma Reconcile_held_other:
  assumes "nn' \<noteq> nn" and "held nn (lookup w)"
  shows "held nn (lookup (snd (Reconcile_gw L r ord ord' nn' w)))"
proof -
  have "keeps (\<lambda>w. lookup w (KHigressGateway, nn)) (Reconcile_gw L r ord ord' nn')"
    by (rule Reconcile_frame) (use assms(1) in auto)
  with assms(2) show ?thesis by (simp add: held_def meta_holds_def keeps_def)
qed

lemma Reconcile_held:
  assumes "held nn (lookup w)"
  shows "held nn (lookup (snd (Reconcile_gw L r ord ord' nn w)))"
proof -
  let ?P = "\<lambda>w. held nn (lookup w)"
  from assms obtain g0 where st: "lookup w (KHigressGateway, nn) = Some (OHigressGateway g0)"
    and fin: "finalizer_gw \<in> set (om_Finalizers (gw_Meta g0))"
    and live: "om_DeletionTimestamp (gw_Meta g0) = None"
    by (auto simp: held_def meta_holds_def)
  let ?g = "setDefaultValues_gw g0"
  have key: "gw_key ?g = nn" using stored_key [OF st] by simp
  obtain gres w1 where get: "Get r KHigressGateway nn w = (gres, w1)"
    by (cases "Get r KHigressGateway nn w")
  note w1 = get_lookup [OF get]
  have ens: "ensureFinalizer_gw L r nn ?g = ret ?g"
    using fin by (simp add: ensureFinalizer_gw_def fins.add_old)
  have live': "preserves ?P (reconcileLive L r ord ord' nn ?g)"
    unfolding reconcileLive_def ens bindM_ret Let_def
  proof (intro preserves_bindM preserves_if preserves_basic, goal_cases)
    case 1
    show ?case unfolding held_def by (intro preserves_holds namespaceActive_frame)
  next
    case (2 active v)
    show ?case
      using rejectInvalid_holds [OF rest_blind_guards(2), of ?g]
        reconcileChildren_holds [OF rest_blind_guards(2), of ?g] key
      by (cases v) (simp_all add: held_def)
  qed
  show ?thesis
  proof (cases gres)
    case (Inl e)
    then show ?thesis using get w1 assms
      by (cases e) (auto simp: Reconcile_gw_def ifErr_run)
  next
    case (Inr x)
    with get st have "x = OHigressGateway g0" by (auto dest: get_ok)
    then have "Reconcile_gw L r ord ord' nn w = reconcileLive L r ord ord' nn ?g w1"
      using get Inr live by (simp add: Reconcile_gw_def ifErr_run bindM_run asGateway_def)
    then show ?thesis using live' assms w1 by (simp add: preserves_def)
  qed
qed

section \<open>Deletion\<close>

text \<open>
  A successful finalization: the binding of the service account is updated to one
  without the instance's subject, then the finalizer is taken off the resource.
\<close>

lemma reconcileDeletion_ok:
  assumes run: "reconcileDeletion_gw L r g w = (Inr u, w')"
    and fin: "finalizer_gw \<in> set (om_Finalizers (gw_Meta g))"
    and name: "getServiceAccount_gw g = Inr name"
  shows "\<exists>crb y. lookup w (KClusterRoleBinding, ('''', name)) = Some (OClusterRoleBinding crb) \<and>
      admits (Some (OClusterRoleBinding crb)) (OClusterRoleBinding
        (crb\<lparr>crb_Subjects := dropSubjects name (gw_Namespace g) (crb_Subjects crb)\<rparr>)) y \<and>
      lookup w' (KClusterRoleBinding, ('''', name)) = Some y"
    and "case lookup w' (gw_objkey g) of None \<Rightarrow> True
      | Some x \<Rightarrow> finalizer_gw \<notin> set (om_Finalizers (meta_of x))"
proof -
  let ?x = "RemoveFinalizer L (OHigressGateway g) finalizer_gw"
  from run fin name obtain w2 z where
    drop: "dropBindingSubject r name (gw_Namespace g) w = (Inr (), w2)"
    and rel: "Update r ?x w2 = (Inr z, w')"
    by (auto simp: reconcileDeletion_gw_def finalizeHigressGateway_def fins.has_iff ok_simps split: if_splits)
  have "lookup w' (KClusterRoleBinding, ('''', name)) = lookup w2 (KClusterRoleBinding, ('''', name))"
    by (rule keepsD [OF update_frame rel]) (simp add: fins.remove_eq)
  with dropBindingSubject_ok [OF drop]
  show "\<exists>crb y. lookup w (KClusterRoleBinding, ('''', name)) = Some (OClusterRoleBinding crb) \<and>
      admits (Some (OClusterRoleBinding crb)) (OClusterRoleBinding
        (crb\<lparr>crb_Subjects := dropSubjects name (gw_Namespace g) (crb_Subjects crb)\<rparr>)) y \<and>
      lookup w' (KClusterRoleBinding, ('''', name)) = Some y" by simp
  from releaseFinalizer_ok [OF rel]
  show "case lookup w' (gw_objkey g) of None \<Rightarrow> True
      | Some x \<Rightarrow> finalizer_gw \<notin> set (om_Finalizers (meta_of x))" by simp
qed

text \<open>The same at the level of \<open>Reconcile\<close>, whose copy of the resource carries the defaults.\<close>

lemma Reconcile_deletion_ok:
  assumes run: "Reconcile_gw L r ord ord' nn w = (Inr u, w')"
    and stored: "lookup w (KHigressGateway, nn) = Some (OHigressGateway g0)"
    and del: "om_DeletionTimestamp (gw_Meta g0) \<noteq> None"
    and fin: "finalizer_gw \<in> set (om_Finalizers (gw_Meta g0))"
    and name: "getServiceAccount_gw (setDefaultValues_gw g0) = Inr name"
    and reads: "served_reads r lookup"
  shows "\<exists>crb y. lookup w (KClusterRoleBinding, ('''', name)) = Some (OClusterRoleBinding crb) \<and>
      admits (Some (OClusterRoleBinding crb)) (OClusterRoleBinding
        (crb\<lparr>crb_Subjects := dropSubjects name (fst nn) (crb_Subjects crb)\<rparr>)) y \<and>
      lookup w' (KClusterRoleBinding, ('''', name)) = Some y"
    and "case lookup w' (KHigressGateway, nn) of None \<Rightarrow> True
      | Some x \<Rightarrow> finalizer_gw \<notin> set (om_Finalizers (meta_of x))"
proof -
  let ?g = "setDefaultValues_gw g0"
  have key: "gw_key ?g = nn" using stored_key [OF stored] by simp
  have "fst (Get r KHigressGateway nn w) = Inr (OHigressGateway g0)"
    using reads stored by (cases nn) (simp add: served_reads_def)
  then obtain w1 where get: "Get r KHigressGateway nn w = (Inr (OHigressGateway g0), w1)"
    by (metis prod.collapse)
  with run del have run1: "reconcileDeletion_gw L r ?g w1 = (Inr u, w')"
    by (simp add: Reconcile_gw_def ifErr_run bindM_run asGateway_def)
  have fin': "finalizer_gw \<in> set (om_Finalizers (gw_Meta ?g))" using fin by simp
  note rel = reconcileDeletion_ok [OF run1 fin' name]
  show "\<exists>crb y. lookup w (KClusterRoleBinding, ('''', name)) = Some (OClusterRoleBinding crb) \<and>
      admits (Some (OClusterRoleBinding crb)) (OClusterRoleBinding
        (crb\<lparr>crb_Subjects := dropSubjects name (fst nn) (crb_Subjects crb)\<rparr>)) y \<and>
      lookup w' (KClusterRoleBinding, ('''', name)) = Some y"
    using rel(1) get_lookup [OF get] key by auto
  show "case lookup w' (KHigressGateway, nn) of None \<Rightarrow> True
      | Some x \<Rightarrow> finalizer_gw \<notin> set (om_Finalizers (meta_of x))"
    using rel(2) by (simp only: key)
qed

text \<open>An error while reading the namespace ends the run without an error and without a write.\<close>

lemma Reconcile_namespace_error:
  assumes get: "Get r KHigressGateway nn w = (Inr (OHigressGateway g0), w1)"
    and live: "om_DeletionTimestamp (gw_Meta g0) = None"
    and ns: "Get r KNamespace ('''', fst nn) w1 = (Inl (Error e), w2)"
  shows "Reconcile_gw L r ord ord' nn w = (Inr (), w2)" and "lookup w2 = lookup w"
proof -
  have "gw_Namespace g0 = fst nn" using stored_key [OF get_ok [OF get]] by (cases nn) simp
  with ns have "namespaceActive r (gw_Namespace g0) w1 = (Inr False, w2)"
    by (simp add: namespaceActive_def ifErr_run)
  then have "reconcileLive L r ord ord' nn (setDefaultValues_gw g0) w1 = (Inr (), w2)"
    by (simp add: reconcileLive_def bindM_def)
  with get live show "Reconcile_gw L r ord ord' nn w = (Inr (), w2)"
    by (simp add: Reconcile_gw_def ifErr_run bindM_run asGateway_def)
  show "lookup w2 = lookup w" using get_lookup [OF get] get_lookup [OF ns] by simp
qed

text \<open>Without the binding the resource can not be released: every run fails and writes nothing.\<close>

lemma Reconcile_deletion_stuck:
  assumes stored: "lookup w (KHigressGateway, nn) = Some (OHigressGateway g0)"
    and del: "om_DeletionTimestamp (gw_Meta g0) \<noteq> None"
    and fin: "finalizer_gw \<in> set (om_Finalizers (gw_Meta g0))"
    and absent: "\<And>name. getServiceAccount_gw (setDefaultValues_gw g0) = Inr name \<Longrightarrow>
      lookup w (KClusterRoleBinding, ('''', name)) = None"
  shows "lookup (snd (Reconcile_gw L r ord ord' nn w)) = lookup w"
    and "served_reads r lookup \<Longrightarrow> \<exists>e. fst (Reconcile_gw L r ord ord' nn w) = Inl e"
proof -
  let ?g = "setDefaultValues_gw g0"
  have stop: "lookup (snd (reconcileDeletion_gw L r ?g w1)) = lookup w \<and>
      (\<exists>e. fst (reconcileDeletion_gw L r ?g w1) = Inl e)" if w1: "lookup w1 = lookup w" for w1
  proof (cases "getServiceAccount_gw ?g")
    case (Inl e)
    then show ?thesis using fin w1
      by (simp add: reconcileDeletion_gw_def fins.has_iff finalizeHigressGateway_def bindM_run)
  next
    case (Inr name)
    from dropBindingSubject_stuck [of w1 name "gw_Namespace ?g"] absent [OF Inr] w1
    obtain e w2 where "dropBindingSubject r name (gw_Namespace ?g) w1 = (Inl e, w2)"
      and "lookup w2 = lookup w" by auto
    then show ?thesis using Inr fin
      by (simp add: reconcileDeletion_gw_def fins.has_iff finalizeHigressGateway_def bindM_run)
  qed
  obtain gres w1 where get: "Get r KHigressGateway nn w = (gres, w1)"
    by (cases "Get r KHigressGateway nn w")
  note w1 = get_lookup [OF get]
  have step: "Reconcile_gw L r ord ord' nn w = reconcileDeletion_gw L r ?g w1" if "gres = Inr x" for x
  proof -
    have "x = OHigressGateway g0" using that get get_ok [of KHigressGateway nn w x w1] stored by simp
    then show ?thesis using that get del
      by (simp add: Reconcile_gw_def ifErr_run bindM_run asGateway_def)
  qed
  show "lookup (snd (Reconcile_gw L r ord ord' nn w)) = lookup w"
  proof (cases gres)
    case (Inl e)
    then show ?thesis using get w1 by (cases e) (auto simp: Reconcile_gw_def ifErr_run)
  next
    case (Inr x)
    with step stop [OF w1] show ?thesis by simp
  qed
  show "\<exists>e. fst (Reconcile_gw L r ord ord' nn w) = Inl e" if "served_reads r lookup"
  proof -
    have "gres = Inr (OHigressGateway g0)"
      using that stored get unfolding served_reads_def by (metis fst_conv)
    with step stop [OF w1] show ?thesis by simp
  qed
qed

end

end
