(* ===== verification/Steady.thy ===== *)
theory Steady
  imports Owner
begin

text \<open>
  What the steady states of the two reconcilers share: objects that are fixed points of
  their mutations, objects that an update leaves as they are although the server fills in
  what it is not sent, and runs that leave such a state alone.
\<close>

section \<open>Fixed points\<close>

definition fixed :: "state \<Rightarrow> objkey \<Rightarrow> mutateFn \<Rightarrow> bool" where
  "fixed st q f \<longleftrightarrow> (\<exists>x. st q = Some x \<and> f x = Inr x)"

text \<open>
  The stored object is at rest: what the mutation makes of it is semantically equal, so nothing
  is sent, or sending it is an update that changes nothing.
\<close>

definition stable ::
  "(kobj option \<Rightarrow> kobj \<Rightarrow> kobj \<Rightarrow> bool) \<Rightarrow> (kobj \<Rightarrow> kobj \<Rightarrow> bool) \<Rightarrow> state \<Rightarrow> objkey \<Rightarrow> mutateFn \<Rightarrow> bool"
where
  "stable admits semEq st q f \<longleftrightarrow>
     (\<exists>x y. st q = Some x \<and> f x = Inr y \<and> (semEq x y \<or> (\<forall>z. admits (Some x) y z \<longrightarrow> z = x)))"

lemma fixed_stable: "(\<And>x. semEq x x) \<Longrightarrow> fixed st q f \<Longrightarrow> stable admits semEq st q f"
  by (auto simp: fixed_def stable_def)

text \<open>Over the state \<open>st\<close>, a run that returns leaves it as it is.\<close>

definition settled_run :: "('w \<Rightarrow> state) \<Rightarrow> state \<Rightarrow> ('w, 'a) io \<Rightarrow> bool" where
  "settled_run lookup st m \<longleftrightarrow>
     (\<forall>w r w'. lookup w = st \<longrightarrow> m w = (Inr r, w') \<longrightarrow> lookup w' = st)"

lemma settled_runD:
  "settled_run lookup st m \<Longrightarrow> m w = (Inr r, w') \<Longrightarrow> lookup w = st \<Longrightarrow> lookup w' = st"
  unfolding settled_run_def by blast

lemma settled_bindM:
  assumes "settled_run lookup st m"
    and "\<And>w x w'. m w = (Inr x, w') \<Longrightarrow> settled_run lookup st (k x)"
  shows "settled_run lookup st (bindM m k)"
  unfolding settled_run_def
proof (intro allI impI)
  fix w r w' assume w: "lookup w = st" and "bindM m k w = (Inr r, w')"
  then obtain x w1 where m: "m w = (Inr x, w1)" and k: "k x w1 = (Inr r, w')"
    by (auto simp: ok_simps)
  from assms(1) w m have "lookup w1 = st" by (auto simp: settled_run_def)
  with assms(2) [OF m] k show "lookup w' = st" by (auto simp: settled_run_def)
qed

lemma settled_liftR:
  "(\<And>x. t = Inr x \<Longrightarrow> settled_run lookup st (k x)) \<Longrightarrow> settled_run lookup st (bindM (liftR t) k)"
  by (rule settled_bindM) (auto simp: settled_run_def ok_simps)

lemma settled_ret: "settled_run lookup st (ret x)"
  by (simp add: settled_run_def)

lemma settled_if:
  "(b \<Longrightarrow> settled_run lookup st m) \<Longrightarrow> (\<not> b \<Longrightarrow> settled_run lookup st n) \<Longrightarrow>
   settled_run lookup st (if b then m else n)"
  by simp

lemma settled_keeps: "keeps lookup m \<Longrightarrow> settled_run lookup st m"
  by (auto simp: settled_run_def dest: keepsD)

context owner_env
begin

lemma upsert_settled:
  assumes f: "meta_stable f" and at_rest: "stable admits semEq st (objkey_of obj) f"
  shows "settled_run lookup st (upsertObj L r n obj f)"
  unfolding settled_run_def
proof (intro allI impI)
  fix w u w' assume w: "lookup w = st" and run: "upsertObj L r n obj f w = (Inr u, w')"
  from run obtain rs y where cou: "ctrlCreateOrUpdate L (client.truncate r) obj f w = (Inr (rs, y), w')"
    by (auto simp: upsertObj_def CreateOrUpdate_def ok_simps)
  from at_rest obtain x x' where x: "st (objkey_of obj) = Some x" "f x = Inr x'"
    and how: "semEq x x' \<or> (\<forall>z. admits (Some x) x' z \<longrightarrow> z = x)" by (auto simp: stable_def)
  from upserts.upsert_update [OF cou f] x w have "lookup w' = lookup w \<or>
      \<not> semEq x x' \<and> admits (Some x) x' y \<and>
      lookup w' = (lookup w)(objkey_of obj := if gone y then None else Some y)" by auto
  moreover have "\<not> gone x" using stored_alive [of w "objkey_of obj" x] x w by simp
  moreover have "(lookup w)(objkey_of obj \<mapsto> x) = lookup w"
    using x w by (auto simp: fun_eq_iff)
  ultimately show "lookup w' = st" using how w by metis
qed

lemma owned_settled:
  assumes "\<And>x. ini = Inr x \<Longrightarrow> objkey_of (mk x) = k" and "\<And>x. meta_stable (f x)"
    and "\<And>x. ini = Inr x \<Longrightarrow> stable admits semEq st k (f x)"
  shows "settled_run lookup st (bindM (liftR ini) (\<lambda>x.
    bindM (liftR (SetControllerReference L owner (mk x))) (\<lambda>obj. upsertObj L r n obj (f x))))"
proof (intro settled_liftR upsert_settled assms(2))
  fix x obj assume "ini = Inr x" and "SetControllerReference L owner (mk x) = Inr obj"
  with assms(1,3) show "stable admits semEq st (objkey_of obj) (f x)" by (auto dest: refs.setref_key)
qed

lemma CreateIfNotExits_settled:
  "st (objkey_of x) \<noteq> None \<Longrightarrow> settled_run lookup st (CreateIfNotExits r x)"
  unfolding settled_run_def CreateIfNotExits_def
  by (auto simp: ok_simps dest!: create_ok create_exists split: if_splits)

end

section \<open>Mutations that settle\<close>

text \<open>
  The fields of an object's metadata that belong to the server: the deletion timestamp, and
  what the operator never reads (resource version, uid, ...).
\<close>

definition stamped :: "kobj \<Rightarrow> kobj \<Rightarrow> bool" where
  "stamped x y \<longleftrightarrow>
     (\<exists>t s. y = map_meta (\<lambda>m. m\<lparr>om_DeletionTimestamp := t, om_rest := s\<rparr>) x)"

text \<open>A mutation that leaves its own results alone, whatever the server stamps on them.\<close>

definition settles :: "mutateFn \<Rightarrow> bool" where
  "settles f \<longleftrightarrow> (\<forall>x y z. f x = Inr y \<longrightarrow> stamped y z \<longrightarrow> f z = Inr z)"

lemma stamped_cases:
  "stamped (OClusterRole x) z \<longleftrightarrow> (\<exists>t s. z = OClusterRole (x\<lparr>cr_Meta := (cr_Meta x)\<lparr>om_DeletionTimestamp := t, om_rest := s\<rparr>\<rparr>))"
  "stamped (OClusterRoleBinding x1) z \<longleftrightarrow> (\<exists>t s. z = OClusterRoleBinding (x1\<lparr>crb_Meta := (crb_Meta x1)\<lparr>om_DeletionTimestamp := t, om_rest := s\<rparr>\<rparr>))"
  "stamped (ORole x2) z \<longleftrightarrow> (\<exists>t s. z = ORole (x2\<lparr>role_Meta := (role_Meta x2)\<lparr>om_DeletionTimestamp := t, om_rest := s\<rparr>\<rparr>))"
  "stamped (ORoleBinding x3) z \<longleftrightarrow> (\<exists>t s. z = ORoleBinding (x3\<lparr>rb_Meta := (rb_Meta x3)\<lparr>om_DeletionTimestamp := t, om_rest := s\<rparr>\<rparr>))"
  "stamped (OConfigMap x4) z \<longleftrightarrow> (\<exists>t s. z = OConfigMap (x4\<lparr>cm_Meta := (cm_Meta x4)\<lparr>om_DeletionTimestamp := t, om_rest := s\<rparr>\<rparr>))"
  "stamped (ODeployment x5) z \<longleftrightarrow> (\<exists>t s. z = ODeployment (x5\<lparr>dep_Meta := (dep_Meta x5)\<lparr>om_DeletionTimestamp := t, om_rest := s\<rparr>\<rparr>))"
  "stamped (OService x6) z \<longleftrightarrow> (\<exists>t s. z = OService (x6\<lparr>svc_Meta := (svc_Meta x6)\<lparr>om_DeletionTimestamp := t, om_rest := s\<rparr>\<rparr>))"
  "stamped (OHPA x7) z \<longleftrightarrow> (\<exists>t s. z = OHPA (x7\<lparr>hpa_Meta := (hpa_Meta x7)\<lparr>om_DeletionTimestamp := t, om_rest := s\<rparr>\<rparr>))"
  "stamped (OUnstructured x8) z \<longleftrightarrow> (\<exists>t s. z = OUnstructured (x8\<lparr>un_Meta := (un_Meta x8)\<lparr>om_DeletionTimestamp := t, om_rest := s\<rparr>\<rparr>))"
  by (simp_all add: stamped_def)

lemma stamped_refl: "stamped x x"
  unfolding stamped_def by (intro exI [of _ "om_DeletionTimestamp (meta_of x)"] exI [of _ "om_rest (meta_of x)"])
    (cases x; simp)

section \<open>A server that fills in defaults\<close>

text \<open>
  What the server keeps of a child it is sent.  Roles, bindings and config maps have no defaulted
  fields.  Of the other kinds it fills in the fields that are not set and leaves those that are;
  listed here are the ones the mutations read back: a replica count that is set, the labels of
  a service, the names of containers and ports.
\<close>

fun keeps_sent :: "kobj \<Rightarrow> kobj \<Rightarrow> bool" where
  "keeps_sent (ODeployment a) y = (case y of
      ODeployment b \<Rightarrow>
        (ds_Replicas (dep_Spec a) \<noteq> None \<longrightarrow> ds_Replicas (dep_Spec b) = ds_Replicas (dep_Spec a)) \<and>
        map ct_Name (ps_Containers (pt_Spec (ds_Template (dep_Spec b)))) =
          map ct_Name (ps_Containers (pt_Spec (ds_Template (dep_Spec a))))
    | _ \<Rightarrow> False)"
| "keeps_sent (OService a) y = (case y of
      OService b \<Rightarrow> om_Labels (svc_Meta b) = om_Labels (svc_Meta a) \<and>
        map sp_Name (ss_Ports (svc_Spec b)) = map sp_Name (ss_Ports (svc_Spec a))
    | _ \<Rightarrow> False)"
| "keeps_sent (OHPA a) y = (case y of OHPA b \<Rightarrow> True | _ \<Rightarrow> False)"
| "keeps_sent (OUnstructured a) y = (case y of OUnstructured b \<Rightarrow> un_GVK b = un_GVK a | _ \<Rightarrow> False)"
| "keeps_sent x y = stamped x y"

text \<open>
  \<open>c\<close> has, field by field, what was sent (\<open>a\<close>) or what the server stores (\<open>b\<close>).
\<close>

definition either :: "('a \<Rightarrow> 'b) \<Rightarrow> 'a \<Rightarrow> 'a \<Rightarrow> 'a \<Rightarrow> bool" where
  "either sel a b c \<longleftrightarrow> sel c = sel a \<or> sel c = sel b"

definition blend_meta :: "ObjectMeta \<Rightarrow> ObjectMeta \<Rightarrow> ObjectMeta \<Rightarrow> bool" where
  "blend_meta a b c \<longleftrightarrow> c = b\<lparr>om_Labels := om_Labels c, om_Annotations := om_Annotations c\<rparr> \<and>
     either om_Labels a b c \<and> either om_Annotations a b c"

definition blend_template_meta :: "ObjectMeta \<Rightarrow> ObjectMeta \<Rightarrow> ObjectMeta \<Rightarrow> bool" where
  "blend_template_meta a b c \<longleftrightarrow> either om_Name a b c \<and> either om_Namespace a b c \<and>
     either om_Labels a b c \<and> either om_Annotations a b c \<and> either om_Finalizers a b c \<and>
     either om_DeletionTimestamp a b c \<and> either om_Generation a b c \<and>
     either om_OwnerReferences a b c \<and> either om_rest a b c"

definition blend_pod :: "PodSpec \<Rightarrow> PodSpec \<Rightarrow> PodSpec \<Rightarrow> bool" where
  "blend_pod a b c \<longleftrightarrow> either ps_ImagePullSecrets a b c \<and> either ps_SecurityContext a b c \<and>
     either ps_NodeSelector a b c \<and> either ps_Affinity a b c \<and> either ps_Tolerations a b c \<and>
     either ps_SchedulerName a b c \<and> either ps_PriorityClassName a b c \<and>
     either ps_Containers a b c \<and> either ps_Volumes a b c \<and> either ps_HostNetwork a b c \<and>
     either ps_DNSPolicy a b c \<and> either ps_ServiceAccountName a b c \<and> either ps_rest a b c"

definition blend_deployment :: "DeploymentSpec \<Rightarrow> DeploymentSpec \<Rightarrow> DeploymentSpec \<Rightarrow> bool" where
  "blend_deployment a b c \<longleftrightarrow> either ds_Replicas a b c \<and> either ds_Selector a b c \<and>
     either ds_RollingUpdate a b c \<and> either ds_rest a b c \<and>
     blend_template_meta (pt_Meta (ds_Template a)) (pt_Meta (ds_Template b)) (pt_Meta (ds_Template c)) \<and>
     blend_pod (pt_Spec (ds_Template a)) (pt_Spec (ds_Template b)) (pt_Spec (ds_Template c))"

definition blend_service :: "ServiceSpec \<Rightarrow> ServiceSpec \<Rightarrow> ServiceSpec \<Rightarrow> bool" where
  "blend_service a b c \<longleftrightarrow> either ss_Selector a b c \<and> either ss_Type a b c \<and> either ss_Ports a b c \<and>
     either ss_LoadBalancerIP a b c \<and> either ss_LoadBalancerSourceRanges a b c \<and>
     either ss_ExternalTrafficPolicy a b c \<and> either ss_rest a b c"

definition blend_hpa :: "HPASpec \<Rightarrow> HPASpec \<Rightarrow> HPASpec \<Rightarrow> bool" where
  "blend_hpa a b c \<longleftrightarrow> either hs_ScaleTargetRef a b c \<and> either hs_MinReplicas a b c \<and>
     either hs_MaxReplicas a b c \<and> either hs_Metrics a b c \<and> either hs_rest a b c"

definition blend_entries ::
  "(string \<times> any) list \<Rightarrow> (string \<times> any) list \<Rightarrow> (string \<times> any) list \<Rightarrow> bool" where
  "blend_entries a b c \<longleftrightarrow> c = b \<or> (\<exists>k v. map_of a k = Some v \<and> c = AList.update k v b)"

fun blended :: "kobj \<Rightarrow> kobj \<Rightarrow> kobj \<Rightarrow> bool" where
  "blended (ODeployment a) (ODeployment b) c = (case c of
      ODeployment d \<Rightarrow> blend_meta (dep_Meta a) (dep_Meta b) (dep_Meta d) \<and>
        blend_deployment (dep_Spec a) (dep_Spec b) (dep_Spec d) \<and> dep_rest d = dep_rest b
    | _ \<Rightarrow> False)"
| "blended (OService a) (OService b) c = (case c of
      OService d \<Rightarrow> blend_meta (svc_Meta a) (svc_Meta b) (svc_Meta d) \<and>
        blend_service (svc_Spec a) (svc_Spec b) (svc_Spec d) \<and> svc_rest d = svc_rest b
    | _ \<Rightarrow> False)"
| "blended (OHPA a) (OHPA b) c = (case c of
      OHPA d \<Rightarrow> blend_meta (hpa_Meta a) (hpa_Meta b) (hpa_Meta d) \<and>
        blend_hpa (hpa_Spec a) (hpa_Spec b) (hpa_Spec d) \<and> hpa_rest d = hpa_rest b
    | _ \<Rightarrow> False)"
| "blended (OUnstructured a) (OUnstructured b) c = (case c of
      OUnstructured d \<Rightarrow> un_GVK d = un_GVK b \<and> blend_meta (un_Meta a) (un_Meta b) (un_Meta d) \<and>
        blend_entries (un_Object a) (un_Object b) (un_Object d)
    | _ \<Rightarrow> False)"
| "blended a b c = (c = b)"

text \<open>
  Defaulting as the Kubernetes API has it: the server fills in unset fields, each by a value that
  is determined, so that an update with what was sent or with what is stored, field by field,
  gives the stored object again, and such an update changes nothing (not even the resource
  version).
\<close>

definition defaulting :: "(kobj option \<Rightarrow> kobj \<Rightarrow> kobj \<Rightarrow> bool) \<Rightarrow> bool" where
  "defaulting admits \<longleftrightarrow> (\<forall>old x y. kind_of x \<notin> {KHigressGateway, KHigressController} \<longrightarrow>
     admits old x y \<longrightarrow> keeps_sent x y \<and>
       (\<forall>x' z. blended x y x' \<longrightarrow> admits (Some y) x' z \<longrightarrow> z = y))"

text \<open>Applied to what the server made of its own result, the mutation asks for nothing new.\<close>

definition resubmits :: "mutateFn \<Rightarrow> bool" where
  "resubmits f \<longleftrightarrow>
     (\<forall>base y x. f base = Inr y \<longrightarrow> keeps_sent y x \<longrightarrow> (\<exists>x'. f x = Inr x' \<and> blended y x x'))"

lemma settles_resubmits:
  assumes "settles f"
    and "\<And>x y. f x = Inr y \<Longrightarrow>
      kind_of y \<in> {KClusterRole, KClusterRoleBinding, KRole, KRoleBinding, KConfigMap}"
  shows "resubmits f"
  unfolding resubmits_def
proof (intro allI impI)
  fix base y x assume f: "f base = Inr y" and k: "keeps_sent y x"
  from assms(2) [OF f] k have "stamped y x" and "blended y x x" by (cases y; simp)+
  moreover from this(1) f assms(1) have "f x = Inr x" by (auto simp: settles_def)
  ultimately show "\<exists>x'. f x = Inr x' \<and> blended y x x'" by blast
qed

text \<open>What a successful create-or-update leaves is then at rest.\<close>

lemma synced_stable:
  assumes server: "defaulting admits" and f: "resubmits f"
    and synced: "synced admits semEq st q f" and kind: "fst q \<notin> {KHigressGateway, KHigressController}"
    and key: "\<And>x. st q = Some x \<Longrightarrow> objkey_of x = q"
    and admits_key: "\<And>old x y. admits old x y \<Longrightarrow> objkey_of y = objkey_of x"
  shows "stable admits semEq st q f"
proof -
  from synced obtain x old base y where x: "st q = Some x" and y: "f base = Inr y"
    and how: "admits old y x \<or> (x = base \<and> semEq base y)"
    by (auto simp: synced_def in_sync_def)
  show ?thesis
  proof (cases "x = base \<and> semEq base y")
    case True
    with x y show ?thesis by (auto simp: stable_def)
  next
    case False
    with how have ad: "admits old y x" by blast
    then have "kind_of y = fst q"
      using admits_key [OF ad] key [OF x] by (metis fst_conv objkey_of_def)
    with kind have "kind_of y \<notin> {KHigressGateway, KHigressController}" by simp
    from server [unfolded defaulting_def, rule_format, OF this ad] have sent: "keeps_sent y x"
      and again: "\<And>x' z. blended y x x' \<Longrightarrow> admits (Some x) x' z \<Longrightarrow> z = x"
      by blast+
    from f y sent obtain x' where "f x = Inr x'" "blended y x x'" unfolding resubmits_def by blast
    with again x show ?thesis by (auto simp: stable_def)
  qed
qed

end
