(* ===== verification/GwSteady.thy ===== *)
theory GwSteady
  imports GwReconcile Steady
begin

text \<open>
  The steady state of a gateway: when every child already is what its mutation would make
  of it, a reconcile writes no child.
\<close>

text \<open>The account and the absent autoscaler are as they should be, and \<open>fx\<close> holds of every child
  and its mutation.\<close>

definition at_rest ::
  "(objkey \<Rightarrow> mutateFn \<Rightarrow> bool) \<Rightarrow> 'w lib \<Rightarrow> rangeOrder \<Rightarrow> HigressGateway \<Rightarrow> state \<Rightarrow> bool"
where
  "at_rest fx L ord g st \<longleftrightarrow>
     (\<exists>n. getServiceAccount_gw g = Inr n \<and> st (KServiceAccount, (gw_Namespace g, n)) \<noteq> None \<and>
       (rbacEnabled_gw g \<longrightarrow>
          fx (KClusterRole, ('''', clusterRole_gw)) (muteClusterRole_gw g) \<and>
          fx (KClusterRoleBinding, ('''', n)) (muteClusterRoleBinding_gw g) \<and>
          fx (KRole, (gw_Namespace g, role_gw)) (muteRole_gw g) \<and>
          fx (KRoleBinding, (gw_Namespace g, role_gw)) (muteRoleBinding_gw g))) \<and>
     fx (KConfigMap, (gw_Namespace g, HigressGatewayConfig))
       (muteConfigMap (setDiscoveryAddress g) (updateGatewayConfigMapSpec L)) \<and>
     fx (KDeployment, gw_key g) (muteDeployment_gw ord g) \<and>
     (getEffectiveScaleMode g = AutoScalingModeNativeHPA \<longrightarrow>
        st (scaled_key g) = None \<and> fx (hpa_key g) (muteHPA g)) \<and>
     (getEffectiveScaleMode g = AutoScalingModeKEDA \<longrightarrow>
        st (hpa_key g) = None \<and> fx (scaled_key g) (muteScaledObject g)) \<and>
     (getEffectiveScaleMode g = AutoScalingModeDisabled \<longrightarrow>
        st (hpa_key g) = None \<and> st (scaled_key g) = None) \<and>
     fx (KService, (gw_Namespace g, HigressGatewayServiceName)) (muteService_gw g)"

definition steady :: "'w lib \<Rightarrow> rangeOrder \<Rightarrow> HigressGateway \<Rightarrow> state \<Rightarrow> bool" where
  "steady L ord g st \<longleftrightarrow> at_rest (fixed st) L ord g st"

lemma at_rest_mono: "(\<And>q f. P q f \<Longrightarrow> Q q f) \<Longrightarrow> at_rest P L ord g st \<Longrightarrow> at_rest Q L ord g st"
  unfolding at_rest_def by blast

lemma settled_ignoreNoMatch: "settled_run lookup st (ignoreNoMatch m)"
  if "\<And>w r w'. lookup w = st \<Longrightarrow> m w = (r, w') \<Longrightarrow> lookup w' = st"
  using that unfolding settled_run_def ignoreNoMatch_def
  by (auto simp: ok_simps split: if_splits)

context gateway_env
begin

lemma deleteIfExists_settled:
  assumes "lookup w = st" and "st (k, gw_key g) = None"
    and "deleteIfExists r k g reason msg w = (res, w')"
  shows "lookup w' = st"
proof -
  obtain gres w1 where get: "Get r k (gw_key g) w = (gres, w1)" by (cases "Get r k (gw_key g) w")
  have "gres \<noteq> Inr x" for x
    using get_ok [of k "gw_key g" w x w1] get assms(1,2) by auto
  then obtain e where "gres = Inl e" by (cases gres) auto
  with get assms(3) have "w' = w1" by (cases e) (auto simp: deleteIfExists_def ifErr_run split: if_splits)
  with get_lookup [OF get] assms(1) show ?thesis by simp
qed

lemma createServiceAccount_settled:
  assumes "getServiceAccount_gw g = Inr n" and "st (KServiceAccount, (gw_Namespace g, n)) \<noteq> None"
  shows "settled_run lookup st (createServiceAccount_gw L r g)"
  unfolding createServiceAccount_gw_def
proof (intro settled_liftR settled_bindM settled_ret CreateIfNotExits_settled)
  fix sa obj assume "initServiceAccount_gw g = Inr sa"
    and "SetControllerReference L (OHigressGateway g) (OServiceAccount sa) = Inr obj"
  with assms show "st (objkey_of obj) \<noteq> None"
    by (auto dest!: initServiceAccount_gw_ns refs.setref_key)
qed

lemma createRBAC_settled:
  assumes n: "getServiceAccount_gw g = Inr n"
    and "rbacEnabled_gw g \<Longrightarrow>
          stable admits semEq st (KClusterRole, ('''', clusterRole_gw)) (muteClusterRole_gw g) \<and>
          stable admits semEq st (KClusterRoleBinding, ('''', n)) (muteClusterRoleBinding_gw g) \<and>
          stable admits semEq st (KRole, (gw_Namespace g, role_gw)) (muteRole_gw g) \<and>
          stable admits semEq st (KRoleBinding, (gw_Namespace g, role_gw)) (muteRoleBinding_gw g)"
  shows "settled_run lookup st (createRBAC_gw L r g)"
proof -
  have en: "rbacEnabled_gw g"
    if "deref (crd_RBAC (gw_common g)) = Inr rb" "\<not> \<not> rbac_Enable rb"
      "deref (crd_ServiceAccount (gw_common g)) = Inr sa" "\<not> \<not> sa_Enable sa" for rb sa
    using that by (simp add: rbacEnabled_gw_def ok_simps)
  have key: "objkey_of (OClusterRoleBinding crb) = (KClusterRoleBinding, ('''', n))"
    if "initClusterRoleBinding_gw g = Inr crb" for crb
    using initClusterRoleBinding_gw_key [OF that n] .
  show ?thesis unfolding createRBAC_gw_def
    by (intro settled_liftR settled_if settled_bindM settled_ret upsert_settled meta_stable_rbac_gw)
      (use en assms(2) in \<open>auto simp: key initRoleBinding_gw_key\<close>)
qed

lemma createConfigMap_settled:
  assumes "stable admits semEq st (KConfigMap, (gw_Namespace g, HigressGatewayConfig))
       (muteConfigMap (setDiscoveryAddress g) (updateGatewayConfigMapSpec L))"
  shows "settled_run lookup st (createConfigMap_gw L r g)"
  unfolding createConfigMap_gw_def
proof (rule settled_liftR)
  fix x assume "initGatewayConfigMap L g = Inr x"
  moreover obtain cm g1 where x: "x = (cm, g1)" by (cases x)
  ultimately have "objkey_of (OConfigMap cm) = (KConfigMap, (gw_Namespace g, HigressGatewayConfig))"
    and "g1 = setDiscoveryAddress g" using initGatewayConfigMap_ok by blast+
  then show "settled_run lookup st (case x of (cm, g1) \<Rightarrow>
     bindM (upsertObj L r ''gatewayConfigMap'' (OConfigMap cm)
       (muteConfigMap g1 (updateGatewayConfigMapSpec L))) (\<lambda>_.
     bindM (liftR (deref (gws_Skywalking (gw_Spec g1)))) (\<lambda>skywalking.
     if sky_Enable skywalking then
       bindM (liftR (initSkywalkingConfigMap g1)) (\<lambda>(sky, g2).
       bindM (liftR (SetControllerReference L (OHigressGateway g2) (OConfigMap sky))) (\<lambda>obj.
       bindM (upsertObj L r ''skywalkingConfigMap'' obj (muteConfigMap g2 updateSkywalkingConfigMap)) (\<lambda>_.
       ret g2)))
     else ret g1)))"
    unfolding x prod.case
    by (intro settled_liftR settled_if settled_bindM settled_ret upsert_settled
        meta_stable_muteConfigMap) (use assms in \<open>auto simp: initSkywalkingConfigMap_none\<close>)
qed

lemma createService_settled:
  assumes "stable admits semEq st (KService, (gw_Namespace g, HigressGatewayServiceName)) (muteService_gw g)"
  shows "settled_run lookup st (createService_gw L r g)"
  unfolding createService_gw_def
proof (rule settled_liftR)
  fix x assume init: "initService_gw g = Inr x"
  obtain svc g1 where x: "x = (svc, g1)" by (cases x)
  have key: "objkey_of (OService svc) = (KService, (gw_Namespace g, HigressGatewayServiceName))"
    using initService_gw_key init x by blast
  have mute: "muteService_gw g1 = muteService_gw g" using initService_gw_instance [of g svc g1] init x by auto
  show "settled_run lookup st (case x of (svc, g1) \<Rightarrow>
     bindM (liftR (SetControllerReference L (OHigressGateway g1) (OService svc))) (\<lambda>obj.
     bindM (upsertObj L r ''Service'' obj (muteService_gw g1)) (\<lambda>_. ret g1)))"
    unfolding x prod.case
  proof (intro settled_liftR settled_bindM settled_ret upsert_settled meta_stable_muteService_gw)
    fix obj assume "SetControllerReference L (OHigressGateway g1) (OService svc) = Inr obj"
    then have "objkey_of obj = objkey_of (OService svc)" by (rule refs.setref_key)
    with key mute assms show "stable admits semEq st (objkey_of obj) (muteService_gw g1)" by simp
  qed
qed

lemma deletes_settled:
  "st (hpa_key g) = None \<Longrightarrow> settled_run lookup st (deleteNativeHPAIfExists r g)"
  "st (scaled_key g) = None \<Longrightarrow> settled_run lookup st (ignoreNoMatch (deleteKEDAScaledObjectIfExists r g))"
proof -
  show "settled_run lookup st (deleteNativeHPAIfExists r g)" if "st (hpa_key g) = None"
    using deleteIfExists_settled that unfolding settled_run_def deleteNativeHPAIfExists_def by blast
  show "settled_run lookup st (ignoreNoMatch (deleteKEDAScaledObjectIfExists r g))"
    if "st (scaled_key g) = None"
    using deleteIfExists_settled that unfolding deleteKEDAScaledObjectIfExists_def
    by (intro settled_ignoreNoMatch) blast
qed

lemma reconcileAutoscaling_settled:
  assumes "mode = getEffectiveScaleMode g"
    and "mode = AutoScalingModeNativeHPA \<Longrightarrow> st (scaled_key g) = None \<and> stable admits semEq st (hpa_key g) (muteHPA g)"
    and "mode = AutoScalingModeKEDA \<Longrightarrow> st (hpa_key g) = None \<and> stable admits semEq st (scaled_key g) (muteScaledObject g)"
    and "mode = AutoScalingModeDisabled \<Longrightarrow> st (hpa_key g) = None \<and> st (scaled_key g) = None"
  shows "settled_run lookup st (reconcileAutoscaling L r g mode)"
proof -
  have native: "settled_run lookup st (reconcileNativeHPA L r g)" if "stable admits semEq st (hpa_key g) (muteHPA g)"
    unfolding reconcileNativeHPA_def
    by (rule owned_settled [where k = "hpa_key g"]) (use that initHPAv2_key in auto)
  have keda: "settled_run lookup st (reconcileKEDAScaledObject L r g)"
    if "stable admits semEq st (scaled_key g) (muteScaledObject g)"
    unfolding reconcileKEDAScaledObject_def
    by (rule owned_settled [where k = "scaled_key g"]) (use that buildScaledObject_key in auto)
  show ?thesis unfolding reconcileAutoscaling_def
    by (intro settled_if settled_bindM settled_ret deletes_settled native keda
        settled_keeps [OF isKEDACRDInstalled_keeps]) (use assms(2-4) in auto)
qed

text \<open>All writes of a steady reconcile go to the status of the resource.\<close>

lemma reconcileChildren_at_rest:
  assumes st: "at_rest (stable admits semEq (lookup w)) L ord' g (lookup w)"
    and run: "reconcileChildren L r ord ord' g (getEffectiveScaleMode g) w = (Inr u, w')"
    and q: "q \<noteq> gw_objkey g"
  shows "lookup w' q = lookup w q"
proof -
  from run obtain w1 w2 w3 w4 w5 w6 g1 g2 out where
    s1: "createServiceAccount_gw L r g w = (Inr (), w1)" and
    s2: "createRBAC_gw L r g w1 = (Inr (), w2)" and
    s3: "createConfigMap_gw L r g w2 = (Inr g1, w3)" and
    s4: "createDeployment_gw L r ord ord' g1 w3 = (Inr (), w4)" and
    s5: "reconcileAutoscaling L r g1 (getEffectiveScaleMode g) w4 = (Inr out, w5)" and
    s6: "createService_gw L r g1 w5 = (Inr g2, w6)" and
    s7: "publishReady L r g2 (getEffectiveScaleMode g) out w6 = (Inr u, w')"
    by (auto simp: reconcileChildren_def ok_simps)
  have g1: "g1 = setDiscoveryAddress g" by (rule createConfigMap_instance [OF s3])
  obtain labels where g2: "g2 = (setDiscoveryAddress g)\<lparr>gw_Meta := (gw_Meta g)\<lparr>om_Labels := labels\<rparr>\<rparr>"
    using createService_instance [OF s6] g1 by auto
  from st obtain n where n: "getServiceAccount_gw g = Inr n"
    and sa: "lookup w (KServiceAccount, (gw_Namespace g, n)) \<noteq> None"
    and rbac: "rbacEnabled_gw g \<Longrightarrow>
          stable admits semEq (lookup w) (KClusterRole, ('''', clusterRole_gw)) (muteClusterRole_gw g) \<and>
          stable admits semEq (lookup w) (KClusterRoleBinding, ('''', n)) (muteClusterRoleBinding_gw g) \<and>
          stable admits semEq (lookup w) (KRole, (gw_Namespace g, role_gw)) (muteRole_gw g) \<and>
          stable admits semEq (lookup w) (KRoleBinding, (gw_Namespace g, role_gw)) (muteRoleBinding_gw g)"
    unfolding at_rest_def by auto
  have "settled_run lookup (lookup w) (createServiceAccount_gw L r g)"
    by (rule createServiceAccount_settled [of g n "lookup w"]) (rule n, rule sa)
  from settled_runD [OF this s1] have l1: "lookup w1 = lookup w" by simp
  have "settled_run lookup (lookup w) (createRBAC_gw L r g)"
    by (rule createRBAC_settled [of g n]) (rule n, rule rbac)
  from settled_runD [OF this s2 l1] have l2: "lookup w2 = lookup w" .
  have "settled_run lookup (lookup w) (createConfigMap_gw L r g)"
    by (rule createConfigMap_settled) (use st in \<open>simp add: at_rest_def\<close>)
  from settled_runD [OF this s3 l2] have l3: "lookup w3 = lookup w" .
  have "settled_run lookup (lookup w) (createDeployment_gw L r ord ord' g1)"
    unfolding createDeployment_gw_def
    by (rule owned_settled [where k = "(KDeployment, gw_key g)"])
      (use st g1 in \<open>auto simp: at_rest_def\<close>)
  from settled_runD [OF this s4 l3] have l4: "lookup w4 = lookup w" .
  have "settled_run lookup (lookup w) (reconcileAutoscaling L r g1 (getEffectiveScaleMode g))"
    by (rule reconcileAutoscaling_settled) (use st g1 in \<open>auto simp: at_rest_def\<close>)
  from settled_runD [OF this s5 l4] have l5: "lookup w5 = lookup w" .
  have "settled_run lookup (lookup w) (createService_gw L r g1)"
    by (rule createService_settled) (use st g1 in \<open>auto simp: at_rest_def\<close>)
  from settled_runD [OF this s6 l5] have l6: "lookup w6 = lookup w" .
  have "lookup w' q = lookup w6 q"
    by (rule keepsD [OF publishReady_frame s7]) (use q g2 in auto)
  with l6 show ?thesis by simp
qed

lemma Reconcile_at_rest:
  assumes reads: "served_reads r lookup"
    and run: "Reconcile_gw L r ord ord' nn w = (Inr u, w')"
    and stored: "lookup w (KHigressGateway, nn) = Some (OHigressGateway g0)"
    and live: "om_DeletionTimestamp (gw_Meta g0) = None"
    and fin: "finalizer_gw \<in> set (om_Finalizers (gw_Meta g0))"
    and valid: "validateAutoscalingConfig (IsZero L) (setDefaultValues_gw g0) = Inr None"
    and st: "at_rest (stable admits semEq (lookup w)) L ord' (setDefaultValues_gw g0) (lookup w)"
    and q: "q \<noteq> (KHigressGateway, nn)"
  shows "lookup w' q = lookup w q"
proof -
  let ?g = "setDefaultValues_gw g0"
  have nn: "nn = gw_key g0" using stored_key [OF stored] by simp
  from Reconcile_live [OF run stored live reads] obtain w1 where l1: "lookup w1 = lookup w"
    and run1: "reconcileLive L r ord ord' nn ?g w1 = (Inr u, w')" by blast
  obtain b w2 where act: "namespaceActive r (gw_Namespace g0) w1 = (b, w2)"
    by (cases "namespaceActive r (gw_Namespace g0) w1")
  have l2: "lookup w2 = lookup w" using namespaceActive_lookup [OF act] l1 by simp
  from run1 act obtain active where b: "b = Inr active"
    by (cases b) (auto simp: reconcileLive_def bindM_run)
  show ?thesis
  proof (cases active)
    case False
    with run1 act b have "w' = w2" by (simp add: reconcileLive_def bindM_run)
    with l2 show ?thesis by simp
  next
    case True
    have "ensureFinalizer_gw L r nn ?g = ret ?g"
      using fin by (simp add: ensureFinalizer_gw_def fins.add_old)
    with run1 act b True valid
    have "reconcileChildren L r ord ord' ?g (getEffectiveScaleMode ?g) w2 = (Inr u, w')"
      by (simp add: reconcileLive_def bindM_run Let_def)
    from reconcileChildren_at_rest [OF _ this] st l2 q nn show ?thesis by simp
  qed
qed

lemma Reconcile_steady:
  assumes refl: "\<And>x. semEq x x" and "served_reads r lookup"
    and "Reconcile_gw L r ord ord' nn w = (Inr u, w')"
    and "lookup w (KHigressGateway, nn) = Some (OHigressGateway g0)"
    and "om_DeletionTimestamp (gw_Meta g0) = None"
    and "finalizer_gw \<in> set (om_Finalizers (gw_Meta g0))"
    and "validateAutoscalingConfig (IsZero L) (setDefaultValues_gw g0) = Inr None"
    and "steady L ord' (setDefaultValues_gw g0) (lookup w)"
    and "q \<noteq> (KHigressGateway, nn)"
  shows "lookup w' q = lookup w q"
proof -
  have "at_rest (stable admits semEq (lookup w)) L ord' (setDefaultValues_gw g0) (lookup w)"
    using assms(8) unfolding steady_def
    by (rule at_rest_mono [rotated]) (rule fixed_stable [OF refl])
  then show ?thesis by (rule Reconcile_at_rest [OF assms(2-7) _ assms(9)])
qed

end

end
