(* ===== verification/CtlRbac.thy ===== *)
theory CtlRbac
  imports Lib RbacCommon
begin

text \<open>
  \<open>internal/controller/higresscontroller\<close>: \<open>serviceAccount.go\<close> and \<open>rbac.go\<close>.  A name the two
  controller packages both use carries the suffix \<open>_ctl\<close> here.
\<close>

section \<open>serviceAccount.go\<close>

definition getServiceAccount_ctl :: "HigressController \<Rightarrow> string res" where
  "getServiceAccount_ctl h =
     bindR (deref (crd_ServiceAccount (hc_common h))) (\<lambda>sa.
     if sa_Name sa \<noteq> '''' then Inr (sa_Name sa) else Inr (hc_Name h))"

definition initServiceAccount_ctl :: "HigressController \<Rightarrow> ServiceAccountObj res" where
  "initServiceAccount_ctl h =
     bindR (getServiceAccount_ctl h) (\<lambda>name.
     bindR (deref (crd_ServiceAccount (hc_common h))) (\<lambda>sa.
     Inr \<lparr>sao_Meta = zeroMeta\<lparr>om_Namespace := hc_Namespace h, om_Name := name,
            om_Labels := hc_Labels h, om_Annotations := sa_Annotations sa\<rparr>, sao_rest = []\<rparr>))"

section \<open>rbac.go\<close>

definition role_ctl :: string where "role_ctl = ''higress-controller''"

definition clusterRole_ctl :: string where "clusterRole_ctl = ''higress-controller''"

definition rule :: "string list \<Rightarrow> string list \<Rightarrow> string list \<Rightarrow> PolicyRule" where
  "rule verbs groups resources =
     \<lparr>rule_Verbs = verbs, rule_APIGroups = groups, rule_Resources = resources, rule_ResourceNames = []\<rparr>"

definition defaultRules_ctl :: "PolicyRule list" where
  "defaultRules_ctl =
     [rule [''get'', ''list'', ''watch''] [''networking.k8s.io'', ''extensions'']
        [''ingresses'', ''ingressclasses''],
      rule [''*''] [''networking.k8s.io'', ''extensions''] [''ingresses/status''],
      rule [''get'', ''list'', ''watch'', ''create'', ''update''] [''''] [''secrets''],
      rule [''get'', ''list'', ''watch'', ''update'', ''create''] [''''] [''configmaps''],
      rule [''get'', ''watch'', ''list'', ''update'']
        [''networking.x-k8s.io'', ''gateway.networking.k8s.io''] [''*''],
      rule [''list'', ''watch'', ''get''] ['''']
        [''pods'', ''nodes'', ''namespaces'', ''services'', ''endpoints''],
      rule [''get'', ''watch'', ''list''] [''discovery.k8s.io''] [''endpointslices''],
      rule [''create'', ''patch''] [''''] [''events''],
      rule [''update'', ''create'', ''get'', ''delete'', ''watch''] [''certificates.k8s.io'']
        [''certificatesigningrequests'', ''certificatesigningrequests/approval'',
         ''certificatesigningrequests/status''],
      (rule [''approve''] [''certificates.k8s.io''] [''signers''])
        \<lparr>rule_ResourceNames := [''kubernetes.io/legacy-unknown'']\<rparr>,
      rule [''create''] [''authentication.k8s.io''] [''tokenreviews''],
      rule [''create''] [''authorization.k8s.io''] [''subjectaccessreviews''],
      rule [''get'', ''watch'', ''list'', ''create'', ''delete''] [''multicluster.x-k8s.io'']
        [''serviceexports''],
      rule [''get'', ''watch'', ''list''] [''multicluster.x-k8s.io''] [''serviceimports''],
      rule [''get'', ''list'', ''watch'', ''update'', ''patch''] [''admissionregistration.k8s.io'']
        [''mutatingwebhookconfigurations''],
      rule [''get'', ''list'', ''watch'', ''update''] [''admissionregistration.k8s.io'']
        [''validatingwebhookconfigurations''],
      rule [''get'', ''list'', ''watch'']
        [''config.istio.io'', ''security.istio.io'', ''networking.istio.io'',
         ''authentication.istio.io'', ''rbac.istio.io'', ''telemetry.istio.io'', ''extensions.istio.io'']
        [''*''],
      rule [''get'', ''create'', ''watch'', ''list'', ''update'', ''patch''] [''extensions.higress.io'']
        [''wasmplugins''],
      rule [''get'', ''create'', ''watch'', ''list'', ''update'', ''patch''] [''networking.higress.io'']
        [''http2rpcs'', ''mcpbridges''],
      rule [''get'', ''watch'', ''list''] [''apiextensions.k8s.io''] [''customresourcedefinitions'']]"

definition initClusterRole_ctl :: "HigressController \<Rightarrow> ClusterRole" where
  "initClusterRole_ctl h =
     \<lparr>cr_Meta = zeroMeta\<lparr>om_Name := clusterRole_ctl\<rparr>, cr_Rules = defaultRules_ctl, cr_rest = []\<rparr>"

definition muteClusterRole_ctl :: "HigressController \<Rightarrow> mutateFn" where
  "muteClusterRole_ctl h x = (case x of
      OClusterRole cr \<Rightarrow> Inr (OClusterRole (cr\<lparr>cr_Rules := defaultRules_ctl\<rparr>))
    | _ \<Rightarrow> Inl (Panic WrongType))"

definition updateClusterRoleBinding_ctl ::
  "ClusterRoleBinding \<Rightarrow> HigressController \<Rightarrow> ClusterRoleBinding res" where
  "updateClusterRoleBinding_ctl crb h =
     bindR (getServiceAccount_ctl h) (\<lambda>name.
     Inr (crb\<lparr>crb_RoleRef := \<lparr>rref_APIGroup = ''rbac.authorization.k8s.io'',
                rref_Kind = ''ClusterRole'', rref_Name = clusterRole_ctl\<rparr>,
              crb_Subjects := ensureSubject (serviceAccountSubject name (hc_Namespace h))
                (crb_Subjects crb)\<rparr>))"

definition initClusterRoleBinding_ctl :: "HigressController \<Rightarrow> ClusterRoleBinding res" where
  "initClusterRoleBinding_ctl h =
     bindR (getServiceAccount_ctl h) (\<lambda>name.
     updateClusterRoleBinding_ctl
       \<lparr>crb_Meta = zeroMeta\<lparr>om_Name := name\<rparr>, crb_Subjects = [], crb_RoleRef = zeroRoleRef\<rparr> h)"

definition muteClusterRoleBinding_ctl :: "HigressController \<Rightarrow> mutateFn" where
  "muteClusterRoleBinding_ctl h x = (case x of
      OClusterRoleBinding crb \<Rightarrow>
        bindR (updateClusterRoleBinding_ctl crb h) (\<lambda>crb'. Inr (OClusterRoleBinding crb'))
    | _ \<Rightarrow> Inl (Panic WrongType))"

definition updateRoleBinding_ctl :: "RoleBinding \<Rightarrow> HigressController \<Rightarrow> RoleBinding res" where
  "updateRoleBinding_ctl rb h =
     bindR (getServiceAccount_ctl h) (\<lambda>name.
     Inr (rb\<lparr>rb_RoleRef := \<lparr>rref_APIGroup = ''rbac.authorization.k8s.io'',
               rref_Kind = ''Role'', rref_Name = role_ctl\<rparr>,
             rb_Subjects := ensureSubject (serviceAccountSubject name (hc_Namespace h))
               (rb_Subjects rb)\<rparr>))"

definition initRoleBinding_ctl :: "HigressController \<Rightarrow> RoleBinding res" where
  "initRoleBinding_ctl h =
     bindR (getServiceAccount_ctl h) (\<lambda>name.
     updateRoleBinding_ctl
       \<lparr>rb_Meta = zeroMeta\<lparr>om_Name := name, om_Namespace := hc_Namespace h\<rparr>,
        rb_Subjects = [], rb_RoleRef = zeroRoleRef\<rparr> h)"

definition muteRoleBinding_ctl :: "HigressController \<Rightarrow> mutateFn" where
  "muteRoleBinding_ctl h x = (case x of
      ORoleBinding rb \<Rightarrow> bindR (updateRoleBinding_ctl rb h) (\<lambda>rb'. Inr (ORoleBinding rb'))
    | _ \<Rightarrow> Inl (Panic WrongType))"

definition initRole_ctl :: "HigressController \<Rightarrow> Role" where
  "initRole_ctl h =
     \<lparr>role_Meta = zeroMeta\<lparr>om_Name := role_ctl, om_Namespace := hc_Namespace h\<rparr>,
      role_Rules = defaultRules_ctl\<rparr>"

definition muteRole_ctl :: "HigressController \<Rightarrow> mutateFn" where
  "muteRole_ctl h x = (case x of
      ORole ro \<Rightarrow> Inr (ORole (ro\<lparr>role_Rules := defaultRules_ctl\<rparr>))
    | _ \<Rightarrow> Inl (Panic WrongType))"

section \<open>Facts\<close>

lemma updateBinding_ctl_meta:
  "updateClusterRoleBinding_ctl crb h = Inr crb' \<Longrightarrow> crb_Meta crb' = crb_Meta crb"
  "updateRoleBinding_ctl rb h = Inr rb' \<Longrightarrow> rb_Meta rb' = rb_Meta rb"
  by (auto simp: updateClusterRoleBinding_ctl_def updateRoleBinding_ctl_def ok_simps)

lemma meta_stable_rbac_ctl [simp, intro]:
  "meta_stable (muteClusterRole_ctl h)"
  "meta_stable (muteClusterRoleBinding_ctl h)"
  "meta_stable (muteRoleBinding_ctl h)"
  "meta_stable (muteRole_ctl h)"
  by (auto simp: meta_stable_def muteClusterRole_ctl_def muteClusterRoleBinding_ctl_def
      muteRoleBinding_ctl_def muteRole_ctl_def ok_simps updateBinding_ctl_meta split: kobj.splits)

lemma initClusterRole_ctl_key [simp]:
  "objkey_of (OClusterRole (initClusterRole_ctl h)) = (KClusterRole, ('''', clusterRole_ctl))"
  by (simp add: objkey_of_def ObjectKeyFromObject_def nskey_of_meta_def initClusterRole_ctl_def zeroMeta_def)

lemma initRole_ctl_key [simp]:
  "objkey_of (ORole (initRole_ctl h)) = (KRole, (hc_Namespace h, role_ctl))"
  by (simp add: objkey_of_def ObjectKeyFromObject_def nskey_of_meta_def initRole_ctl_def)

lemma initClusterRoleBinding_ctl_key:
  "initClusterRoleBinding_ctl h = Inr crb \<Longrightarrow> \<exists>n. getServiceAccount_ctl h = Inr n \<and>
   objkey_of (OClusterRoleBinding crb) = (KClusterRoleBinding, ('''', n))"
  by (auto simp: objkey_of_def ObjectKeyFromObject_def nskey_of_meta_def zeroMeta_def ok_simps
      initClusterRoleBinding_ctl_def updateClusterRoleBinding_ctl_def)

lemma initRoleBinding_ctl_key:
  "initRoleBinding_ctl h = Inr rb \<Longrightarrow> \<exists>n. getServiceAccount_ctl h = Inr n \<and>
   objkey_of (ORoleBinding rb) = (KRoleBinding, (hc_Namespace h, n))"
  by (auto simp: objkey_of_def ObjectKeyFromObject_def nskey_of_meta_def zeroMeta_def ok_simps
      initRoleBinding_ctl_def updateRoleBinding_ctl_def)

lemma initServiceAccount_ctl_key:
  "initServiceAccount_ctl h = Inr x \<Longrightarrow> \<exists>n. getServiceAccount_ctl h = Inr n \<and>
   objkey_of (OServiceAccount x) = (KServiceAccount, (hc_Namespace h, n))"
  by (auto simp: objkey_of_def ObjectKeyFromObject_def nskey_of_meta_def zeroMeta_def
      initServiceAccount_ctl_def ok_simps)

lemma muteClusterRoleBinding_ctl_idem:
  "muteClusterRoleBinding_ctl h x = Inr y \<Longrightarrow> muteClusterRoleBinding_ctl h y = Inr y"
  by (auto simp: muteClusterRoleBinding_ctl_def updateClusterRoleBinding_ctl_def ok_simps
      split: kobj.splits)

lemma muteRoleBinding_ctl_idem:
  "muteRoleBinding_ctl h x = Inr y \<Longrightarrow> muteRoleBinding_ctl h y = Inr y"
  by (auto simp: muteRoleBinding_ctl_def updateRoleBinding_ctl_def ok_simps split: kobj.splits)

end
