(* ===== verification/CtlDeployment.thy ===== *)
theory CtlDeployment
  imports CtlRbac Workload
begin

text \<open>\<open>internal/controller/higresscontroller/deployment.go\<close>.\<close>

definition HigressCoreName :: string where "HigressCoreName = ''higress-core''"

definition DiscoveryName :: string where "DiscoveryName = ''discovery''"

definition formatBool :: "bool \<Rightarrow> string" where
  "formatBool b = (if b then ''true'' else ''false'')"

text \<open>\<open>strings.Join\<close>.\<close>

fun joinWith :: "string \<Rightarrow> string list \<Rightarrow> string" where
  "joinWith sep [] = ''''"
| "joinWith sep [x] = x"
| "joinWith sep (x # y # ys) = x @ sep @ joinWith sep (y # ys)"

definition genImage_ctl :: "string \<Rightarrow> string \<Rightarrow> string" where
  "genImage_ctl repository tag = repository @ '':'' @ tag"

abbreviation hc_controller :: "HigressController \<Rightarrow> ContainerCommonFields" where
  "hc_controller h \<equiv> cs_Container (hcs_Controller (hc_Spec h))"

abbreviation hc_pilot :: "HigressController \<Rightarrow> ContainerCommonFields" where
  "hc_pilot h \<equiv> pl_Container (hcs_Pilot (hc_Spec h))"

section \<open>The pilot container\<close>

definition genPilotName :: "HigressController \<Rightarrow> string" where
  "genPilotName h = (if con_Name (hc_pilot h) \<noteq> '''' then con_Name (hc_pilot h) else DiscoveryName)"

definition genPilotProbe :: "HigressController \<Rightarrow> Probe option" where
  "genPilotProbe h = (case con_ReadinessProbe (hc_pilot h) of
      Some p \<Rightarrow> Some p
    | None \<Rightarrow> Some \<lparr>pr_HTTPGet = Some \<lparr>hg_Path = ''/ready'', hg_Port = FromInt 8080, hg_Scheme = ''''\<rparr>,
        pr_InitialDelaySeconds = 1, pr_TimeoutSeconds = 5, pr_PeriodSeconds = 3,
        pr_SuccessThreshold = 0, pr_FailureThreshold = 0, pr_rest = []\<rparr>)"

definition genPilotEnv :: "rangeOrder \<Rightarrow> HigressController \<Rightarrow> EnvVar list" where
  "genPilotEnv ord h =
    (let pilot = hcs_Pilot (hc_Spec h);
         istioAddr = (if crd_Revision (hc_common h) \<noteq> ''''
           then ''istiod-'' @ crd_Revision (hc_common h) @ ''.'' @ hc_Namespace h @ ''.svc:15012''
           else ''istiod.'' @ hc_Namespace h @ ''.svc:15012'');
         clusterId = (case crd_MultiCluster (hc_common h) of
             Some mc \<Rightarrow> if mc_Enable mc then mc_ClusterName mc else ''Kubernetes''
           | None \<Rightarrow> ''Kubernetes'')
     in [envValue ''HIGRESS_CONTROLLER_SVC'' ''127.0.0.1'',
         envValue ''HIGRESS_CONTROLLER_PORT'' ''15051'',
         envValue ''REVISION'' ''default'',
         envValue ''JWT_POLICY'' (crd_JwtPolicy (hc_common h)),
         envValue ''PILOT_CERT_PROVIDER'' ''istiod'',
         envField ''POD_NAMESPACE'' '''' ''metadata.namespace'',
         envField ''POD_NAME'' '''' ''metadata.name'',
         envField ''SERVICE_ACCOUNT'' '''' ''spec.serviceAccountName'',
         envValue ''KUBECONFIG'' ''/var/run/secrets/remote/config'',
         envValue ''PRIORITIZED_LEADER_ELECTION'' ''false'',
         envValue ''INJECT_ENABLE'' ''false'',
         envValue ''PILOT_ENABLE_PROTOCOL_SNIFFING_FOR_OUTBOUND''
           (formatBool (pl_EnableProtocolSniffingForOutbound pilot)),
         envValue ''PILOT_ENABLE_PROTOCOL_SNIFFING_FOR_INBOUND''
           (formatBool (pl_EnableProtocolSniffingForInbound pilot))]
      @ (if pl_TraceSampling pilot \<noteq> ''''
         then [envValue ''PILOT_TRACE_SAMPLING'' (pl_TraceSampling pilot)] else [])
      @ [envValue ''ISTIOD_ADDR'' istioAddr]
      @ (case crd_Istiod (hc_common h) of
           None \<Rightarrow> []
         | Some istiod \<Rightarrow> [envValue ''PILOT_ENABLE_ANALYSIS'' (formatBool (istio_EnableAnalysis istiod))])
      @ [envValue ''CLUSTER_ID'' clusterId]
      @ [envValue ''HIGRESS_ENABLE_ISTIO_API'' (formatBool (crd_EnableIstioAPI (hc_common h)))]
      @ (if \<not> crd_EnableHigressIstio (hc_common h)
         then [envValue ''CUSTOM_CA_CERT_NAME'' ''higress-ca-root-cert''] else [])
      @ envOfMap ord (con_Env (hc_pilot h)))"

definition genPilotSecurityContext :: "HigressController \<Rightarrow> SecurityContext option" where
  "genPilotSecurityContext h = (case con_SecurityContext (hc_pilot h) of
      Some s \<Rightarrow> Some s
    | None \<Rightarrow> Some \<lparr>sc_CapabilitiesDrop = Some [''ALL''], sc_RunAsUser = Some 1337,
        sc_RunAsGroup = Some 1337, sc_RunAsNonRoot = Some True,
        sc_ReadOnlyRootFilesystem = Some True, sc_rest = []\<rparr>)"

definition genPilotPorts :: "HigressController \<Rightarrow> ContainerPort list" where
  "genPilotPorts h =
    (if length (con_Ports (hc_pilot h)) \<noteq> 0 then con_Ports (hc_pilot h)
     else [\<lparr>cp_Name = '''', cp_HostPort = 0, cp_ContainerPort = 8080, cp_Protocol = ''TCP''\<rparr>,
           \<lparr>cp_Name = '''', cp_HostPort = 0, cp_ContainerPort = 15017, cp_Protocol = ''TCP''\<rparr>,
           \<lparr>cp_Name = '''', cp_HostPort = 0, cp_ContainerPort = 15010, cp_Protocol = ''TCP''\<rparr>])"

definition genPilotArgs :: "HigressController \<Rightarrow> string list" where
  "genPilotArgs h =
    (let pilot = hcs_Pilot (hc_Spec h)
     in [''discovery'', ''--monitoringAddr=:15014'', ''--domain='' @ pl_ClusterDomain pilot,
         ''--keepaliveMaxServerConnectionAge='' @ pl_KeepaliveMaxServerConnectionAge pilot]
      @ (if con_LogLevel (hc_pilot h) \<noteq> '''' then [''--log_output_level='' @ con_LogLevel (hc_pilot h)] else [])
      @ (if con_LogAsJson (hc_pilot h) then [''--log_as_json''] else [])
      @ (if pl_OneNamespace pilot then [''-a='' @ hc_Namespace h] else [])
      @ (if length (pl_Plugins pilot) > 0 then [''--plugins='' @ joinWith '','' (pl_Plugins pilot)] else []))"

definition genPilotVolumeMounts :: "HigressController \<Rightarrow> VolumeMount list" where
  "genPilotVolumeMounts h =
     [mount ''config'' ''/etc/istio/config'' False,
      mount ''local-certs'' ''/var/run/secrets/istio-dns'' False,
      mount ''cacerts'' ''/etc/cacerts'' True,
      mount ''istio-kubeconfig'' ''/var/run/secrets/remote'' True]
   @ (if crd_JwtPolicy (hc_common h) = ''third-party-jwt''
      then [mount ''istio-token'' ''/var/run/secrets/tokens'' True] else [])
   @ (if pl_JwksResolveExtraRootCA (hcs_Pilot (hc_Spec h)) \<noteq> ''''
      then [mount ''extracacerts'' ''/cacerts'' False] else [])"

section \<open>The controller container\<close>

definition genControllerName :: "HigressController \<Rightarrow> string" where
  "genControllerName h =
     (if con_Name (hc_controller h) \<noteq> '''' then con_Name (hc_controller h) else HigressCoreName)"

definition genControllerArgs :: "HigressController \<Rightarrow> string list" where
  "genControllerArgs h =
    (let c = hcs_Controller (hc_Spec h)
     in [''serve'', ''--gatewaySelectorKey=higress'',
         ''--gatewaySelectorValue='' @ hc_Namespace h @ ''-'' @ cs_GatewayName c,
         ''--ingressClass='' @ cs_IngressClass c]
      @ (if \<not> crd_EnableStatus (hc_common h)
         then [''--enableStatus='' @ formatBool (crd_EnableStatus (hc_common h))] else [])
      @ (if cs_WatchNamespace c \<noteq> '''' then [''--watchNamespace='' @ cs_WatchNamespace c] else []))"

definition genControllerSecurityContext :: "HigressController \<Rightarrow> SecurityContext option" where
  "genControllerSecurityContext h = (case con_SecurityContext (hc_controller h) of
      Some s \<Rightarrow> Some s
    | None \<Rightarrow> Some \<lparr>sc_CapabilitiesDrop = None, sc_RunAsUser = None, sc_RunAsGroup = None,
        sc_RunAsNonRoot = None, sc_ReadOnlyRootFilesystem = None, sc_rest = []\<rparr>)"

definition genControllerEnv :: "rangeOrder \<Rightarrow> HigressController \<Rightarrow> EnvVar list" where
  "genControllerEnv ord h =
     [envField ''POD_NAMESPACE'' '''' ''metadata.namespace'', envField ''POD_NAME'' '''' ''metadata.name'']
   @ envOfMap ord (con_Env (hc_controller h))"

definition genControllerPorts :: "HigressController \<Rightarrow> ContainerPort list" where
  "genControllerPorts h =
    (if length (con_Ports (hc_controller h)) \<noteq> 0 then con_Ports (hc_controller h)
     else [\<lparr>cp_Name = ''http'', cp_HostPort = 0, cp_ContainerPort = 8888, cp_Protocol = ''TCP''\<rparr>,
           \<lparr>cp_Name = ''grpc'', cp_HostPort = 0, cp_ContainerPort = 15051, cp_Protocol = ''TCP''\<rparr>])"

definition genControllerVolumeMounts :: "HigressController \<Rightarrow> VolumeMount list" where
  "genControllerVolumeMounts h = [mount ''log'' ''/var/log'' False]"

definition genVolumes_ctl :: "HigressController \<Rightarrow> Volume list" where
  "genVolumes_ctl h =
    (let optional = Some True; defaultMode = Some 420
     in [volume ''log'' (VEmptyDir ''''),
         volume ''local-certs'' (VEmptyDir ''Memory''),
         volume ''cacerts'' (VSecret ''cacerts'' defaultMode optional),
         volume ''istio-kubeconfig'' (VSecret ''istio-kubeconfig'' defaultMode optional)]
      @ (if \<not> crd_EnableHigressIstio (hc_common h)
         then [volume ''config'' (VConfigMap HigressGatewayConfig None)] else [])
      @ (if crd_JwtPolicy (hc_common h) = ''third-party-jwt''
         then [volume ''istio-token'' (VTokenProjection (cs_SDSTokenAud (hcs_Controller (hc_Spec h)))
                (Some 43200) ''istio-token'')] else [])
      @ (if pl_JwksResolveExtraRootCA (hcs_Pilot (hc_Spec h)) \<noteq> ''''
         then [volume ''extracacerts''
                (VConfigMap (''pilot-jwks-extra-cacerts'' @ crd_Revision (hc_common h)) None)] else []))"

section \<open>The deployment\<close>

definition controllerContainer :: "rangeOrder \<Rightarrow> HigressController \<Rightarrow> Container" where
  "controllerContainer ord h = \<lparr>ct_Name = genControllerName h,
     ct_Image = genImage_ctl (img_Repository (con_Image (hc_controller h))) (img_Tag (con_Image (hc_controller h))),
     ct_ImagePullPolicy = img_ImagePullPolicy (con_Image (hc_controller h)),
     ct_Args = genControllerArgs h, ct_Ports = genControllerPorts h, ct_Env = genControllerEnv ord h,
     ct_Resources = zeroResources, ct_VolumeMounts = genControllerVolumeMounts h,
     ct_ReadinessProbe = None, ct_SecurityContext = genControllerSecurityContext h, ct_rest = []\<rparr>"

definition pilotContainer :: "rangeOrder \<Rightarrow> HigressController \<Rightarrow> Container" where
  "pilotContainer ord h = \<lparr>ct_Name = genPilotName h,
     ct_Image = genImage_ctl (img_Repository (con_Image (hc_pilot h))) (img_Tag (con_Image (hc_pilot h))),
     ct_ImagePullPolicy = '''', ct_Args = genPilotArgs h, ct_Ports = genPilotPorts h,
     ct_Env = genPilotEnv ord h, ct_Resources = zeroResources,
     ct_VolumeMounts = genPilotVolumeMounts h, ct_ReadinessProbe = genPilotProbe h,
     ct_SecurityContext = genPilotSecurityContext h, ct_rest = []\<rparr>"

text \<open>
  The loop \<open>for _, c := range Containers { if c.Name == ... { exist = true; break } }\<close>,
  then \<open>append\<close>: a container that exists by name is left as it is.
\<close>

fun containerExists :: "string \<Rightarrow> Container list \<Rightarrow> bool" where
  "containerExists n [] = False"
| "containerExists n (c # cs) = (if ct_Name c = n then True else containerExists n cs)"

definition ensureContainer :: "Container \<Rightarrow> Container list \<Rightarrow> Container list" where
  "ensureContainer c cs = (if \<not> containerExists (ct_Name c) cs then cs @ [c] else cs)"

definition updatePod_ctl :: "rangeOrder \<Rightarrow> rangeOrder \<Rightarrow> string \<Rightarrow> PodSpec \<Rightarrow> HigressController \<Rightarrow> PodSpec" where
  "updatePod_ctl ord ord' sa pod h =
    (let pod1 = pod\<lparr>ps_ServiceAccountName := sa,
           ps_Containers := ensureContainer (controllerContainer ord h) (ps_Containers pod),
           ps_Volumes := genVolumes_ctl h\<rparr>
     in (if \<not> crd_EnableHigressIstio (hc_common h)
         then pod1\<lparr>ps_Containers := ensureContainer (pilotContainer ord' h) (ps_Containers pod1)\<rparr>
         else pod1))"

definition updateDeploymentSpec_ctl ::
  "rangeOrder \<Rightarrow> rangeOrder \<Rightarrow> Deployment \<Rightarrow> HigressController \<Rightarrow> Deployment res" where
  "updateDeploymentSpec_ctl ord ord' deploy h =
     bindR (getServiceAccount_ctl h) (\<lambda>sa.
     let spec = dep_Spec deploy; template = ds_Template spec
     in Inr (deploy\<lparr>dep_Spec := spec
          \<lparr>ds_Selector := Some (crd_SelectorLabels (hc_common h)),
           ds_Replicas := crd_Replicas (hc_common h),
           ds_Template := template
             \<lparr>pt_Meta := UpdateObjectMeta (pt_Meta template) (hc_Meta h) (crd_SelectorLabels (hc_common h)),
              pt_Spec := updatePod_ctl ord ord' sa (pt_Spec template) h\<rparr>\<rparr>\<rparr>))"

definition initDeployment_ctl ::
  "rangeOrder \<Rightarrow> rangeOrder \<Rightarrow> HigressController \<Rightarrow> Deployment res" where
  "initDeployment_ctl ord ord' h =
     updateDeploymentSpec_ctl ord ord'
       \<lparr>dep_Meta = zeroMeta\<lparr>om_Name := hc_Name h, om_Namespace := hc_Namespace h,
          om_Labels := hc_Labels h\<rparr>,
        dep_Spec = zeroDeploymentSpec, dep_rest = []\<rparr> h"

definition muteDeployment_ctl :: "rangeOrder \<Rightarrow> rangeOrder \<Rightarrow> HigressController \<Rightarrow> mutateFn" where
  "muteDeployment_ctl ord ord' h x = (case x of
      ODeployment d \<Rightarrow> bindR (updateDeploymentSpec_ctl ord ord' d h) (\<lambda>d'. Inr (ODeployment d'))
    | _ \<Rightarrow> Inl (Panic WrongType))"

section \<open>Facts\<close>

lemma containerExists_iff: "containerExists n cs \<longleftrightarrow> n \<in> ct_Name ` set cs"
  by (induction cs) auto

lemma ensureContainer_names:
  "ct_Name ` set (ensureContainer c cs) = insert (ct_Name c) (ct_Name ` set cs)"
  by (auto simp: ensureContainer_def containerExists_iff)

lemma ensureContainer_keeps: "set cs \<subseteq> set (ensureContainer c cs)"
  by (auto simp: ensureContainer_def)

lemma ensureContainer_same: "ct_Name c \<in> ct_Name ` set cs \<Longrightarrow> ensureContainer c cs = cs"
  by (simp add: ensureContainer_def containerExists_iff)

lemma distinct_ensureContainer:
  "distinct (map ct_Name cs) \<Longrightarrow> distinct (map ct_Name (ensureContainer c cs))"
  by (auto simp: ensureContainer_def containerExists_iff)

lemma container_names_ctl [simp]:
  "ct_Name (controllerContainer ord h) = genControllerName h"
  "ct_Name (pilotContainer ord h) = genPilotName h"
  by (simp_all add: controllerContainer_def pilotContainer_def)

lemma updatePod_ctl_fields:
  "ps_Volumes (updatePod_ctl ord ord' sa pod h) = genVolumes_ctl h"
  "ps_ServiceAccountName (updatePod_ctl ord ord' sa pod h) = sa"
  "ps_Containers (updatePod_ctl ord ord' sa pod h) =
     (if crd_EnableHigressIstio (hc_common h)
      then ensureContainer (controllerContainer ord h) (ps_Containers pod)
      else ensureContainer (pilotContainer ord' h)
             (ensureContainer (controllerContainer ord h) (ps_Containers pod)))"
  by (simp_all add: updatePod_ctl_def Let_def)

text \<open>Whatever the orders of the second mutation, it changes nothing.\<close>

lemma updatePod_ctl_idem:
  "updatePod_ctl o1 o2 sa (updatePod_ctl o3 o4 sa pod h) h = updatePod_ctl o3 o4 sa pod h"
proof (rule PodSpec.equality)
  show "ps_Containers (updatePod_ctl o1 o2 sa (updatePod_ctl o3 o4 sa pod h) h) =
      ps_Containers (updatePod_ctl o3 o4 sa pod h)"
    by (simp add: updatePod_ctl_fields ensureContainer_same ensureContainer_names)
qed (simp_all add: updatePod_ctl_def Let_def)

lemma updateDeploymentSpec_ctl_idem:
  "updateDeploymentSpec_ctl o3 o4 d h = Inr d' \<Longrightarrow> updateDeploymentSpec_ctl o1 o2 d' h = Inr d'"
  by (auto simp: updateDeploymentSpec_ctl_def ok_simps Let_def updatePod_ctl_idem UpdateObjectMeta_def)

lemma updateDeploymentSpec_ctl_meta:
  "updateDeploymentSpec_ctl o3 o4 d h = Inr d' \<Longrightarrow> dep_Meta d' = dep_Meta d"
  by (auto simp: updateDeploymentSpec_ctl_def ok_simps Let_def)

lemma meta_stable_muteDeployment_ctl [simp, intro]: "meta_stable (muteDeployment_ctl ord ord' h)"
  by (auto simp: meta_stable_def muteDeployment_ctl_def ok_simps split: kobj.splits
      dest!: updateDeploymentSpec_ctl_meta)

lemma initDeployment_ctl_key:
  "initDeployment_ctl ord ord' h = Inr d \<Longrightarrow>
   objkey_of (ODeployment d) = (KDeployment, (hc_Namespace h, hc_Name h))"
  by (auto simp: initDeployment_ctl_def objkey_of_def ObjectKeyFromObject_def nskey_of_meta_def
      dest!: updateDeploymentSpec_ctl_meta)

lemma ctl_volume_names:
  "map vol_Name (genVolumes_ctl h) =
     [''log'', ''local-certs'', ''cacerts'', ''istio-kubeconfig'']
   @ (if crd_EnableHigressIstio (hc_common h) then [] else [''config''])
   @ (if crd_JwtPolicy (hc_common h) = ''third-party-jwt'' then [''istio-token''] else [])
   @ (if pl_JwksResolveExtraRootCA (hcs_Pilot (hc_Spec h)) \<noteq> '''' then [''extracacerts''] else [])"
  by (simp add: genVolumes_ctl_def Let_def)

lemma ctl_mount_names:
  "map vm_Name (genPilotVolumeMounts h) =
     [''config'', ''local-certs'', ''cacerts'', ''istio-kubeconfig'']
   @ (if crd_JwtPolicy (hc_common h) = ''third-party-jwt'' then [''istio-token''] else [])
   @ (if pl_JwksResolveExtraRootCA (hcs_Pilot (hc_Spec h)) \<noteq> '''' then [''extracacerts''] else [])"
  "map vm_Name (genControllerVolumeMounts h) = [''log'']"
  by (simp_all add: genPilotVolumeMounts_def genControllerVolumeMounts_def)

lemma joinWith_concat: "joinWith sep xs = concat (butlast (map (\<lambda>x. x @ sep) xs)) @ (if xs = [] then [] else last xs)"
  by (induction sep xs rule: joinWith.induct) auto

text \<open>The containers of a deployment that is built from nothing.\<close>

lemma initDeployment_ctl_containers:
  assumes "initDeployment_ctl ord ord' h = Inr d"
  shows "ps_Containers (pt_Spec (ds_Template (dep_Spec d))) =
    controllerContainer ord h #
      (if crd_EnableHigressIstio (hc_common h) \<or> genControllerName h = genPilotName h then []
       else [pilotContainer ord' h])"
  using assms
  by (auto simp: initDeployment_ctl_def updateDeploymentSpec_ctl_def ok_simps Let_def
      updatePod_ctl_fields zeroDeploymentSpec_def zeroPodSpec_def ensureContainer_def)

lemma initDeployment_ctl_names:
  assumes "initDeployment_ctl ord ord' h = Inr d"
  shows "genControllerName h \<in> ct_Name ` set (ps_Containers (pt_Spec (ds_Template (dep_Spec d))))"
    and "\<not> crd_EnableHigressIstio (hc_common h) \<Longrightarrow>
      genPilotName h \<in> ct_Name ` set (ps_Containers (pt_Spec (ds_Template (dep_Spec d))))"
  by (auto simp: initDeployment_ctl_containers [OF assms])

lemma ctl_mounts_declared:
  "set (map vm_Name (genControllerVolumeMounts h)) \<subseteq> set (map vol_Name (genVolumes_ctl h))"
  "\<not> crd_EnableHigressIstio (hc_common h) \<Longrightarrow>
   set (map vm_Name (genPilotVolumeMounts h)) \<subseteq> set (map vol_Name (genVolumes_ctl h))"
  unfolding ctl_volume_names ctl_mount_names by auto

lemma initDeployment_ctl_wellformed:
  assumes "initDeployment_ctl ord ord' h = Inr d"
  shows "pod_wellformed (pt_Spec (ds_Template (dep_Spec d)))"
proof -
  note containers = initDeployment_ctl_containers [OF assms]
  have volumes: "ps_Volumes (pt_Spec (ds_Template (dep_Spec d))) = genVolumes_ctl h"
    using assms by (auto simp: initDeployment_ctl_def updateDeploymentSpec_ctl_def ok_simps Let_def
        updatePod_ctl_fields)
  have "distinct (map vol_Name (genVolumes_ctl h))" unfolding ctl_volume_names by simp
  moreover have "distinct (map vm_MountPath (genPilotVolumeMounts h))"
    and "distinct (map vm_MountPath (genControllerVolumeMounts h))"
    by (simp_all add: genPilotVolumeMounts_def genControllerVolumeMounts_def)
  moreover have "mounts_fit (pt_Spec (ds_Template (dep_Spec d)))"
    using ctl_mounts_declared [of h]
    by (auto simp: mounts_fit_def containers volumes controllerContainer_def pilotContainer_def)
  ultimately show ?thesis
    by (simp add: pod_wellformed_def containers volumes)
      (simp add: controllerContainer_def pilotContainer_def)
qed

text \<open>The Istio mode removes the volume that a pilot container mounts.\<close>

lemma pilot_without_config:
  assumes pilot: "pilotContainer ord h0 \<in> set (ps_Containers (pt_Spec (ds_Template (dep_Spec d))))"
    and istio: "crd_EnableHigressIstio (hc_common h)"
    and mute: "muteDeployment_ctl ord1 ord2 h (ODeployment d) = Inr (ODeployment d')"
  shows "\<not> mounts_fit (pt_Spec (ds_Template (dep_Spec d')))"
proof -
  let ?p = "pt_Spec (ds_Template (dep_Spec d'))"
  have "ps_Volumes ?p = genVolumes_ctl h"
    and cs: "ps_Containers ?p = ensureContainer (controllerContainer ord1 h)
      (ps_Containers (pt_Spec (ds_Template (dep_Spec d))))"
    using mute istio by (auto simp: muteDeployment_ctl_def updateDeploymentSpec_ctl_def ok_simps Let_def
        updatePod_ctl_fields)
  then have "''config'' \<notin> vol_Name ` set (ps_Volumes ?p)"
    using istio arg_cong [OF ctl_volume_names [of h], of set] by (auto split: if_splits)
  moreover have "pilotContainer ord h0 \<in> set (ps_Containers ?p)"
    unfolding cs using pilot ensureContainer_keeps by blast
  moreover have "\<exists>m \<in> set (ct_VolumeMounts (pilotContainer ord h0)). vm_Name m = ''config''"
    by (simp add: pilotContainer_def genPilotVolumeMounts_def)
  ultimately show ?thesis unfolding mounts_fit_def by metis
qed

end
