(* ===== verification/CtlCrds.thy ===== *)
theory CtlCrds
  imports Owner
begin

text \<open>
  The controller reconciler's record, and how it installs the custom resource definitions:
  \<open>internal/controller/higresscontroller/crds.go\<close> and \<open>createCRDs\<close> of
  \<open>higresscontroller_controller.go\<close>.  The operating system, the YAML decoder and the
  API-extensions client are parameters.
\<close>

section \<open>The reconciler\<close>

record CustomResourceDefinition =
  crdef_Meta :: ObjectMeta
  crdef_Spec :: raw
  crdef_rest :: raw

abbreviation crdef_Name :: "CustomResourceDefinition \<Rightarrow> string" where
  "crdef_Name crd \<equiv> om_Name (crdef_Meta crd)"

text \<open>
  An open file with what the successive calls of \<open>Decode\<close> on it return before \<open>io.EOF\<close>:
  a document or an error.  A file is finite, so the list is.
\<close>

record openFile =
  of_Path :: string
  of_Documents :: "(goerr + CustomResourceDefinition) list"

record 'w os_lib =
  ReadDir :: "string \<Rightarrow> ('w, string list) io"
  OpenFile :: "string \<Rightarrow> ('w, openFile) io"
  CloseFile :: "openFile \<Rightarrow> ('w, unit) io"

record 'w crd_client =
  CRDGet :: "string \<Rightarrow> ('w, CustomResourceDefinition) io"
  CRDCreate :: "CustomResourceDefinition \<Rightarrow> ('w, CustomResourceDefinition) io"
  CRDUpdate :: "CustomResourceDefinition \<Rightarrow> ('w, CustomResourceDefinition) io"

record 'w ctl_reconciler = "'w client" +
  OS :: "'w os_lib"
  NewForConfig :: "'w crd_client res"
  SpecDeepEqual :: "raw \<Rightarrow> raw \<Rightarrow> bool"

section \<open>crds.go\<close>

definition crdsPath :: string where "crdsPath = ''./config/crd/higress''"

definition getCRDsManifests :: "'w os_lib \<Rightarrow> ('w, string list) io" where
  "getCRDsManifests os =
     bindM (ReadDir os crdsPath) (\<lambda>files. ret (map (\<lambda>name. crdsPath @ ''/'' @ name) files))"

text \<open>The decoding loop; the variable \<open>crds\<close> is captured from the caller.\<close>

fun decodeLoop ::
  "string \<Rightarrow> (goerr + CustomResourceDefinition) list \<Rightarrow> CustomResourceDefinition list \<Rightarrow>
   CustomResourceDefinition list res" where
  "decodeLoop path [] crds = Inr crds"
| "decodeLoop path (Inl err # ds) crds =
     Inl (Error (Errorf (''failed to parse the CRD manifest '' @ path)))"
| "decodeLoop path (Inr crd # ds) crds = decodeLoop path ds (crds @ [crd])"

text \<open>\<open>(*os.File).Close\<close>: on the nil file it returns \<open>os.ErrInvalid\<close>.\<close>

definition ErrInvalid :: goerr where "ErrInvalid = OtherError ''invalid argument''"

definition closeFile :: "'w os_lib \<Rightarrow> openFile option \<Rightarrow> ('w, unit) io" where
  "closeFile os p = (case p of None \<Rightarrow> fail ErrInvalid | Some f \<Rightarrow> CloseFile os f)"

text \<open>
  The deferred function runs last: an error of \<open>Close\<close> replaces the result of the body,
  and when the file could not be opened it closes the nil file.
\<close>

definition deferClose :: "('w, unit) io \<Rightarrow> 'a res \<Rightarrow> ('w, 'a) io" where
  "deferClose close result = ifErr close (\<lambda>err. fail err) (\<lambda>_. liftR result)"

definition resolveManifest ::
  "'w os_lib \<Rightarrow> string \<Rightarrow> CustomResourceDefinition list \<Rightarrow> ('w, CustomResourceDefinition list) io" where
  "resolveManifest os path crds =
     ifErr (OpenFile os path)
       (\<lambda>err. deferClose (closeFile os None)
          (Inl (Error (Errorf (''failed to open the CRD manifest '' @ path)))))
       (\<lambda>f. deferClose (closeFile os (Some f)) (decodeLoop path (of_Documents f) crds))"

fun resolveAll ::
  "'w os_lib \<Rightarrow> string list \<Rightarrow> CustomResourceDefinition list \<Rightarrow> ('w, CustomResourceDefinition list) io" where
  "resolveAll os [] crds = ret crds"
| "resolveAll os (path # paths) crds =
     bindM (resolveManifest os path crds) (\<lambda>crds'. resolveAll os paths crds')"

definition getCRDs :: "'w os_lib \<Rightarrow> ('w, CustomResourceDefinition list) io" where
  "getCRDs os = bindM (getCRDsManifests os) (\<lambda>manifests. resolveAll os manifests [])"

section \<open>createCRDs\<close>

definition applyCRD ::
  "(raw \<Rightarrow> raw \<Rightarrow> bool) \<Rightarrow> 'w crd_client \<Rightarrow> CustomResourceDefinition \<Rightarrow> ('w, unit) io" where
  "applyCRD specEq cli crd =
     ifErr (CRDGet cli (crdef_Name crd))
       (\<lambda>err. if \<not> is_NotFound err then fail err
              else bindM (CRDCreate cli crd) (\<lambda>_. ret ()))
       (\<lambda>existing. if \<not> specEq (crdef_Spec existing) (crdef_Spec crd)
          then bindM (CRDUpdate cli (existing\<lparr>crdef_Spec := crdef_Spec crd\<rparr>)) (\<lambda>_. ret ())
          else ret ())"

fun applyCRDs ::
  "(raw \<Rightarrow> raw \<Rightarrow> bool) \<Rightarrow> 'w crd_client \<Rightarrow> CustomResourceDefinition list \<Rightarrow> ('w, unit) io" where
  "applyCRDs specEq cli [] = ret ()"
| "applyCRDs specEq cli (crd # crds) = bindM (applyCRD specEq cli crd) (\<lambda>_. applyCRDs specEq cli crds)"

definition createCRDs :: "('w, 'z) ctl_reconciler_scheme \<Rightarrow> ('w, unit) io" where
  "createCRDs r =
     bindM (liftR (NewForConfig r)) (\<lambda>cli.
     bindM (getCRDs (OS r)) (\<lambda>crds.
     applyCRDs (SpecDeepEqual r) cli crds))"

section \<open>Reading the manifests\<close>

lemma decodeLoop_ok:
  "decodeLoop path ds crds = Inr crds' \<longleftrightarrow> (\<exists>xs. ds = map Inr xs \<and> crds' = crds @ xs)"
proof (induction path ds crds rule: decodeLoop.induct)
  case (3 path crd ds crds)
  then show ?case by (auto simp: Cons_eq_map_conv)
qed auto

lemma decodeLoop_error:
  "decodeLoop path ds crds = Inl e \<Longrightarrow> e = Error (Errorf (''failed to parse the CRD manifest '' @ path))"
  by (induction path ds crds rule: decodeLoop.induct) auto

text \<open>
  The operating system as far as it matters: opening and closing leave an observation of
  the world alone.
\<close>

locale os_quiet =
  fixes os :: "'w os_lib" and obs :: "'w \<Rightarrow> 'v"
  assumes readdir_keeps: "keeps obs (ReadDir os p)"
    and open_keeps: "keeps obs (OpenFile os p)"
    and close_keeps: "keeps obs (CloseFile os f)"
begin

lemma resolveManifest_keeps: "keeps obs (resolveManifest os path crds)"
  unfolding resolveManifest_def deferClose_def closeFile_def
  by (intro keeps_intro open_keeps close_keeps)

lemma resolveAll_keeps: "keeps obs (resolveAll os paths crds)"
  by (induction paths arbitrary: crds) (auto intro!: keeps_intro resolveManifest_keeps)

lemma getCRDs_keeps: "keeps obs (getCRDs os)"
  unfolding getCRDs_def getCRDsManifests_def
  by (intro keeps_intro readdir_keeps resolveAll_keeps)

end

section \<open>The definitions in the cluster\<close>

text \<open>The definition is there, with the manifest's spec or what the server made of it.\<close>

definition installed ::
  "(raw \<Rightarrow> raw \<Rightarrow> bool) \<Rightarrow> (raw \<Rightarrow> raw \<Rightarrow> bool) \<Rightarrow> (string \<Rightarrow> CustomResourceDefinition option) \<Rightarrow>
   CustomResourceDefinition \<Rightarrow> bool" where
  "installed stores specEq ds crd \<longleftrightarrow> (\<exists>y. ds (crdef_Name crd) = Some y \<and>
     (specEq (crdef_Spec y) (crdef_Spec crd) \<or> stores (crdef_Spec crd) (crdef_Spec y)))"

text \<open>
  The contract of the API-extensions client; \<open>defs\<close> is the view of the installed
  definitions and \<open>stores\<close> tells which specs the server may store for a submitted one.
\<close>

locale crd_server =
  fixes cli :: "'w crd_client"
    and defs :: "'w \<Rightarrow> string \<Rightarrow> CustomResourceDefinition option"
    and stores :: "raw \<Rightarrow> raw \<Rightarrow> bool"
  assumes def_name: "defs w n = Some crd \<Longrightarrow> crdef_Name crd = n"
    and crdget_keeps: "keeps defs (CRDGet cli n)"
    and crdget_ok: "CRDGet cli n w = (Inr crd, w') \<Longrightarrow> defs w n = Some crd"
    and crdcreate_frame: "n \<noteq> crdef_Name crd \<Longrightarrow> keeps (\<lambda>w. defs w n) (CRDCreate cli crd)"
    and crdcreate_ok: "CRDCreate cli crd w = (Inr y, w') \<Longrightarrow>
      defs w' = (defs w)(crdef_Name crd \<mapsto> y) \<and> stores (crdef_Spec crd) (crdef_Spec y)"
    and crdupdate_frame: "n \<noteq> crdef_Name crd \<Longrightarrow> keeps (\<lambda>w. defs w n) (CRDUpdate cli crd)"
    and crdupdate_ok: "CRDUpdate cli crd w = (Inr y, w') \<Longrightarrow>
      defs w' = (defs w)(crdef_Name crd \<mapsto> y) \<and> stores (crdef_Spec crd) (crdef_Spec y)"
begin

lemma crdget_frame: "keeps (\<lambda>w. defs w n) (CRDGet cli m)"
  using crdget_keeps by (simp add: keeps_def)

lemma applyCRD_frame:
  assumes "n \<noteq> crdef_Name crd"
  shows "keeps (\<lambda>w. defs w n) (applyCRD specEq cli crd)"
  unfolding applyCRD_def
proof (rule keeps_ifErr_run [OF crdget_frame])
  fix e
  show "keeps (\<lambda>w. defs w n) (if \<not> is_NotFound e then fail e
      else bindM (CRDCreate cli crd) (\<lambda>_. ret ()))"
    by (intro keeps_intro crdcreate_frame assms)
next
  fix w ex w' assume "CRDGet cli (crdef_Name crd) w = (Inr ex, w')"
  then have "crdef_Name ex = crdef_Name crd" by (auto dest: crdget_ok def_name)
  with assms show "keeps (\<lambda>w. defs w n) (if \<not> specEq (crdef_Spec ex) (crdef_Spec crd)
      then bindM (CRDUpdate cli (ex\<lparr>crdef_Spec := crdef_Spec crd\<rparr>)) (\<lambda>_. ret ()) else ret ())"
    by (intro keeps_intro crdupdate_frame) simp
qed

lemma applyCRD_ok:
  assumes run: "applyCRD specEq cli crd w = (Inr u, w')"
  shows "installed stores specEq (defs w') crd"
proof (cases "CRDGet cli (crdef_Name crd) w")
  case (Pair res w1)
  note get = Pair
  have w1: "defs w1 = defs w" by (rule keepsD [OF crdget_keeps get])
  show ?thesis
  proof (cases res)
    case (Inl e)
    with run get obtain y where "CRDCreate cli crd w1 = (Inr y, w')"
      by (cases e) (auto simp: applyCRD_def ifErr_run ok_simps split: if_splits)
    from crdcreate_ok [OF this] show ?thesis by (simp add: installed_def)
  next
    case (Inr ex)
    with get have ex: "defs w (crdef_Name crd) = Some ex" by (auto dest: crdget_ok)
    then have name: "crdef_Name ex = crdef_Name crd" by (rule def_name)
    show ?thesis
    proof (cases "specEq (crdef_Spec ex) (crdef_Spec crd)")
      case True
      with run get Inr have "w' = w1" by (simp add: applyCRD_def ifErr_run)
      with ex w1 True show ?thesis by (simp add: installed_def)
    next
      case False
      with run get Inr obtain y where "CRDUpdate cli (ex\<lparr>crdef_Spec := crdef_Spec crd\<rparr>) w1 = (Inr y, w')"
        by (auto simp: applyCRD_def ifErr_run ok_simps)
      from crdupdate_ok [OF this] name show ?thesis by (simp add: installed_def)
    qed
  qed
qed

lemma applyCRDs_frame:
  "n \<notin> crdef_Name ` set crds \<Longrightarrow> keeps (\<lambda>w. defs w n) (applyCRDs specEq cli crds)"
  by (induction crds) (auto intro!: keeps_intro applyCRD_frame)

text \<open>With distinct names, every definition of the list is installed in the end.\<close>

lemma applyCRDs_ok:
  "applyCRDs specEq cli crds w = (Inr u, w') \<Longrightarrow> distinct (map crdef_Name crds) \<Longrightarrow>
   crd \<in> set crds \<Longrightarrow> installed stores specEq (defs w') crd"
proof (induction crds arbitrary: w)
  case (Cons c cs)
  from Cons.prems(1) obtain w1 where s1: "applyCRD specEq cli c w = (Inr (), w1)"
    and s2: "applyCRDs specEq cli cs w1 = (Inr u, w')" by (auto simp: ok_simps)
  show ?case
  proof (cases "crd = c")
    case True
    have "keeps (\<lambda>w. defs w (crdef_Name c)) (applyCRDs specEq cli cs)"
      using Cons.prems(2) by (intro applyCRDs_frame) auto
    from keepsD [OF this s2] applyCRD_ok [OF s1] True show ?thesis by (simp add: installed_def)
  next
    case False
    with Cons.prems(2,3) Cons.IH [OF s2] show ?thesis by auto
  qed
qed simp

end

end
