(* ===== verification/CtlController.thy ===== *)
theory CtlController
  imports CtlDeployment CtlService CtlCrds
begin

text \<open>
  \<open>internal/controller/higresscontroller/higresscontroller_controller.go\<close>: defaults, the
  children of a controller resource, its finalizer and \<open>Reconcile\<close>.
\<close>

definition finalizer_ctl :: string where
  "finalizer_ctl = ''higresscontroller.higress.io/finalizer''"

section \<open>setDefaultValues\<close>

definition setDefaultCommon_ctl :: "CRDCommonFields \<Rightarrow> CRDCommonFields" where
  "setDefaultCommon_ctl c0 =
    (let c1 = (case crd_RBAC c0 of None \<Rightarrow> c0\<lparr>crd_RBAC := Some \<lparr>rbac_Enable = True\<rparr>\<rparr> | Some _ \<Rightarrow> c0);
         c2 = (case crd_ServiceAccount c1 of
                 None \<Rightarrow> c1\<lparr>crd_ServiceAccount := Some
                   \<lparr>sa_Enable = True, sa_Name = ''higress-controller'', sa_Annotations = None\<rparr>\<rparr>
               | Some _ \<Rightarrow> c1)
     in (if mlen (crd_SelectorLabels c2) = 0
         then c2\<lparr>crd_SelectorLabels := Some [(''app'', ''higress-controller'')]\<rparr> else c2))"

definition setDefaultValues_ctl :: "HigressController \<Rightarrow> HigressController" where
  "setDefaultValues_ctl = hc_common_upd setDefaultCommon_ctl"

section \<open>Children\<close>

definition createServiceAccount_ctl ::
  "'w lib \<Rightarrow> ('w, 'z) ctl_reconciler_scheme \<Rightarrow> HigressController \<Rightarrow> ('w, unit) io" where
  "createServiceAccount_ctl L r h =
     bindM (liftR (deref (crd_ServiceAccount (hc_common h)))) (\<lambda>account.
     if \<not> sa_Enable account then ret () else
     bindM (liftR (initServiceAccount_ctl h)) (\<lambda>sa.
     bindM (liftR (SetControllerReference L (OHigressController h) (OServiceAccount sa))) (\<lambda>obj.
     bindM (CreateIfNotExits r obj) (\<lambda>exists. ret ()))))"

text \<open>
  \<open>createRBAC\<close> fills in the two sections when they are missing, with a service account
  that has no name, so the instance is a result.
\<close>

definition fillRBAC :: "HigressController \<Rightarrow> HigressController" where
  "fillRBAC = hc_common_upd (\<lambda>c0.
    (let c1 = (case crd_RBAC c0 of None \<Rightarrow> c0\<lparr>crd_RBAC := Some \<lparr>rbac_Enable = True\<rparr>\<rparr> | Some _ \<Rightarrow> c0)
     in (case crd_ServiceAccount c1 of
           None \<Rightarrow> c1\<lparr>crd_ServiceAccount := Some
             \<lparr>sa_Enable = True, sa_Name = '''', sa_Annotations = None\<rparr>\<rparr>
         | Some _ \<Rightarrow> c1)))"

definition rbacEnabled_ctl :: "HigressController \<Rightarrow> bool res" where
  "rbacEnabled_ctl h =
     bindR (deref (crd_RBAC (hc_common h))) (\<lambda>rbac.
     if \<not> rbac_Enable rbac then Inr False
     else bindR (deref (crd_ServiceAccount (hc_common h))) (\<lambda>sa. Inr (sa_Enable sa)))"

definition createRBAC_ctl ::
  "'w lib \<Rightarrow> ('w, 'z) ctl_reconciler_scheme \<Rightarrow> HigressController \<Rightarrow> ('w, HigressController) io" where
  "createRBAC_ctl L r h0 =
    (let h = fillRBAC h0 in
     bindM (liftR (rbacEnabled_ctl h)) (\<lambda>enabled.
     if \<not> enabled then ret h else
     bindM (upsertObj L r ''ClusterRole'' (OClusterRole (initClusterRole_ctl h)) (muteClusterRole_ctl h)) (\<lambda>_.
     bindM (liftR (initClusterRoleBinding_ctl h)) (\<lambda>crb.
     bindM (upsertObj L r ''ClusterRoleBinding'' (OClusterRoleBinding crb) (muteClusterRoleBinding_ctl h)) (\<lambda>_.
     bindM (upsertObj L r ''role'' (ORole (initRole_ctl h)) (muteRole_ctl h)) (\<lambda>_.
     bindM (liftR (initRoleBinding_ctl h)) (\<lambda>rb.
     bindM (upsertObj L r ''roleBinding'' (ORoleBinding rb) (muteRoleBinding_ctl h)) (\<lambda>_.
     ret h))))))))"

text \<open>
  Each deployment mutation ranges over two maps, the environments of the two
  containers; building and mutating take four orders in all.
\<close>

definition createDeployment_ctl ::
  "'w lib \<Rightarrow> ('w, 'z) ctl_reconciler_scheme \<Rightarrow> rangeOrder \<times> rangeOrder \<Rightarrow> rangeOrder \<times> rangeOrder \<Rightarrow>
   HigressController \<Rightarrow> ('w, unit) io" where
  "createDeployment_ctl L r ords ords' h =
     bindM (liftR (initDeployment_ctl (fst ords) (snd ords) h)) (\<lambda>deploy.
     bindM (liftR (SetControllerReference L (OHigressController h) (ODeployment deploy))) (\<lambda>obj.
     upsertObj L r ''Deployment'' obj (muteDeployment_ctl (fst ords') (snd ords') h)))"

definition createService_ctl ::
  "'w lib \<Rightarrow> ('w, 'z) ctl_reconciler_scheme \<Rightarrow> HigressController \<Rightarrow> ('w, unit) io" where
  "createService_ctl L r h =
     bindM (liftR (Inr (initService_ctl h))) (\<lambda>svc.
     bindM (liftR (SetControllerReference L (OHigressController h) (OService svc))) (\<lambda>obj.
     upsertObj L r ''Service'' obj (muteService_ctl h)))"

section \<open>Finalizer\<close>

definition finalizeHigressController ::
  "('w, 'z) ctl_reconciler_scheme \<Rightarrow> HigressController \<Rightarrow> ('w, unit) io" where
  "finalizeHigressController r h =
     bindM (liftR (rbacEnabled_ctl h)) (\<lambda>enabled.
     if \<not> enabled then ret () else
     bindM (liftR (getServiceAccount_ctl h)) (\<lambda>name.
     dropBindingSubject r name (hc_Namespace h)))"

definition reconcileDeletion_ctl ::
  "'w lib \<Rightarrow> ('w, 'z) ctl_reconciler_scheme \<Rightarrow> HigressController \<Rightarrow> ('w, unit) io" where
  "reconcileDeletion_ctl L r h =
    (if ContainsFinalizer L (OHigressController h) finalizer_ctl then
       bindM (finalizeHigressController r h) (\<lambda>_.
       bindM (Update r (RemoveFinalizer L (OHigressController h) finalizer_ctl)) (\<lambda>_. ret ()))
     else ret ())"

text \<open>The response of \<open>Update\<close> is written back into the instance; it is not read again.\<close>

definition ensureFinalizer_ctl ::
  "'w lib \<Rightarrow> ('w, 'z) ctl_reconciler_scheme \<Rightarrow> HigressController \<Rightarrow> ('w, HigressController) io" where
  "ensureFinalizer_ctl L r h =
    (case AddFinalizer L (OHigressController h) finalizer_ctl of (x, updated) \<Rightarrow>
       if updated then bindM (Update r x) (\<lambda>y. liftR (asController y)) else ret h)"

section \<open>Reconcile\<close>

definition publishDeployed ::
  "('w, 'z) ctl_reconciler_scheme \<Rightarrow> HigressController \<Rightarrow> ('w, unit) io" where
  "publishDeployed r h =
    (if \<not> hcst_Deployed (hc_Status h) then
       bindM (StatusUpdate r (OHigressController
         (h\<lparr>hc_Status := (hc_Status h)\<lparr>hcst_Deployed := True\<rparr>\<rparr>))) (\<lambda>_. ret ())
     else ret ())"

definition reconcileLive_ctl ::
  "'w lib \<Rightarrow> ('w, 'z) ctl_reconciler_scheme \<Rightarrow> rangeOrder \<times> rangeOrder \<Rightarrow> rangeOrder \<times> rangeOrder \<Rightarrow>
   HigressController \<Rightarrow> ('w, unit) io" where
  "reconcileLive_ctl L r ords ords' h0 =
     bindM (namespaceActive r (hc_Namespace h0)) (\<lambda>active.
     if \<not> active then ret () else
     bindM (ensureFinalizer_ctl L r h0) (\<lambda>h.
     bindM (createCRDs r) (\<lambda>_.
     bindM (createServiceAccount_ctl L r h) (\<lambda>_.
     bindM (createRBAC_ctl L r h) (\<lambda>h1.
     bindM (createDeployment_ctl L r ords ords' h1) (\<lambda>_.
     bindM (createService_ctl L r h1) (\<lambda>_.
     publishDeployed r h1)))))))"

definition Reconcile_ctl ::
  "'w lib \<Rightarrow> ('w, 'z) ctl_reconciler_scheme \<Rightarrow> rangeOrder \<times> rangeOrder \<Rightarrow> rangeOrder \<times> rangeOrder \<Rightarrow>
   nskey \<Rightarrow> ('w, unit) io" where
  "Reconcile_ctl L r ords ords' nn =
     ifErr (Get r KHigressController nn)
       (\<lambda>err. if is_NotFound err then ret () else fail err)
       (\<lambda>x. bindM (liftR (asController x)) (\<lambda>h.
          let h = setDefaultValues_ctl h in
          if om_DeletionTimestamp (hc_Meta h) \<noteq> None then reconcileDeletion_ctl L r h
          else reconcileLive_ctl L r ords ords' h))"

section \<open>Facts\<close>

lemma setDefaultCommon_ctl_other [simp]:
  "crd_AutoScaling (setDefaultCommon_ctl c) = crd_AutoScaling c"
  "crd_Local (setDefaultCommon_ctl c) = crd_Local c"
  "crd_JwtPolicy (setDefaultCommon_ctl c) = crd_JwtPolicy c"
  "crd_EnableHigressIstio (setDefaultCommon_ctl c) = crd_EnableHigressIstio c"
  "crd_NodeSelector (setDefaultCommon_ctl c) = crd_NodeSelector c"
  "crd_Affinity (setDefaultCommon_ctl c) = crd_Affinity c"
  "crd_Toleration (setDefaultCommon_ctl c) = crd_Toleration c"
  "crd_PodSecurityContext (setDefaultCommon_ctl c) = crd_PodSecurityContext c"
  "crd_EnableStatus (setDefaultCommon_ctl c) = crd_EnableStatus c"
  "crd_EnableIstioAPI (setDefaultCommon_ctl c) = crd_EnableIstioAPI c"
  "crd_IstioNamespace (setDefaultCommon_ctl c) = crd_IstioNamespace c"
  "crd_Revision (setDefaultCommon_ctl c) = crd_Revision c"
  "crd_Istiod (setDefaultCommon_ctl c) = crd_Istiod c"
  "crd_MultiCluster (setDefaultCommon_ctl c) = crd_MultiCluster c"
  "crd_Replicas (setDefaultCommon_ctl c) = crd_Replicas c"
  "crd_Service (setDefaultCommon_ctl c) = crd_Service c"
  by (simp_all add: setDefaultCommon_ctl_def Let_def split: option.split)

lemma setDefaultCommon_ctl_fields:
  "crd_RBAC (setDefaultCommon_ctl c) =
     Some (case crd_RBAC c of None \<Rightarrow> \<lparr>rbac_Enable = True\<rparr> | Some rb \<Rightarrow> rb)"
  "crd_ServiceAccount (setDefaultCommon_ctl c) = Some (case crd_ServiceAccount c of
     None \<Rightarrow> \<lparr>sa_Enable = True, sa_Name = ''higress-controller'', sa_Annotations = None\<rparr> | Some s \<Rightarrow> s)"
  "crd_SelectorLabels (setDefaultCommon_ctl c) =
     (if mlen (crd_SelectorLabels c) = 0 then Some [(''app'', ''higress-controller'')]
      else crd_SelectorLabels c)"
  by (simp_all add: setDefaultCommon_ctl_def Let_def split: option.split)

lemma setDefaultCommon_ctl_idem [simp]:
  "setDefaultCommon_ctl (setDefaultCommon_ctl c) = setDefaultCommon_ctl c"
  by (rule CRDCommonFields.equality)
    (simp_all add: setDefaultCommon_ctl_fields split: option.split)

lemma setDefaultValues_ctl_simps [simp]:
  "hc_Meta (setDefaultValues_ctl h) = hc_Meta h"
  "hc_Status (setDefaultValues_ctl h) = hc_Status h"
  "hc_common (setDefaultValues_ctl h) = setDefaultCommon_ctl (hc_common h)"
  by (simp_all add: setDefaultValues_ctl_def)

lemma fillRBAC_simps [simp]:
  "hc_Meta (fillRBAC h) = hc_Meta h"
  "hc_Status (fillRBAC h) = hc_Status h"
  by (simp_all add: fillRBAC_def)

lemma fillRBAC_id:
  "crd_RBAC (hc_common h) \<noteq> None \<Longrightarrow> crd_ServiceAccount (hc_common h) \<noteq> None \<Longrightarrow> fillRBAC h = h"
  by (auto simp: fillRBAC_def hc_common_upd_def)

lemma createRBAC_ctl_instance: "createRBAC_ctl L r h w = (Inr h1, w') \<Longrightarrow> h1 = fillRBAC h"
  by (auto simp: createRBAC_ctl_def Let_def ok_simps split: if_splits)

end
