(* ===== verification/CtlContract.thy ===== *)
theory CtlContract
  imports CtlController
begin

text \<open>
  What the controller reconciler changes, whatever its outcome, and what a run that
  returned without error has achieved, over the contract \<open>controller_env\<close>.
\<close>

section \<open>Keys\<close>

text \<open>Everything the reconciler of the controller resource \<open>nn\<close> may write in the cluster.\<close>

fun touches_ctl :: "nskey \<Rightarrow> objkey \<Rightarrow> bool" where
  "touches_ctl nn (KServiceAccount, n) = (fst n = fst nn)"
| "touches_ctl nn (KClusterRole, n) = (n = ('''', clusterRole_ctl))"
| "touches_ctl nn (KClusterRoleBinding, n) = (fst n = '''')"
| "touches_ctl nn (KRole, n) = (n = (fst nn, role_ctl))"
| "touches_ctl nn (KRoleBinding, n) = (fst n = fst nn)"
| "touches_ctl nn (KDeployment, n) = (n = nn)"
| "touches_ctl nn (KService, n) = (n = (fst nn, HigressControllerServiceName))"
| "touches_ctl nn (KHigressController, n) = (n = nn)"
| "touches_ctl nn (_, n) = False"

abbreviation hc_key :: "HigressController \<Rightarrow> nskey" where
  "hc_key h \<equiv> (hc_Namespace h, hc_Name h)"

abbreviation hc_objkey :: "HigressController \<Rightarrow> objkey" where
  "hc_objkey h \<equiv> (KHigressController, hc_key h)"

lemma objkey_controller [simp]: "objkey_of (OHigressController h) = hc_objkey h"
  by (simp add: objkey_of_def ObjectKeyFromObject_def nskey_of_meta_def)

text \<open>
  What becomes of a stored resource before its children are reconciled: it already carries
  the finalizer and is left alone, or the server admitted it with defaults and finalizer.
\<close>

definition adopted_ctl ::
  "(kobj option \<Rightarrow> kobj \<Rightarrow> kobj \<Rightarrow> bool) \<Rightarrow> HigressController \<Rightarrow> HigressController \<Rightarrow> bool" where
  "adopted_ctl admits h0 h1 \<longleftrightarrow>
    (if finalizer_ctl \<in> set (om_Finalizers (hc_Meta h0)) then h1 = h0
     else admits (Some (OHigressController h0))
       (set_finalizers (om_Finalizers (hc_Meta h0) @ [finalizer_ctl])
         (OHigressController (setDefaultValues_ctl h0)))
       (OHigressController h1))"

section \<open>Specification\<close>

definition controller_settled ::
  "(kobj option \<Rightarrow> kobj \<Rightarrow> kobj \<Rightarrow> bool) \<Rightarrow> (kobj \<Rightarrow> kobj \<Rightarrow> bool) \<Rightarrow> rangeOrder \<times> rangeOrder \<Rightarrow>
   HigressController \<Rightarrow> state \<Rightarrow> bool" where
  "controller_settled admits semEq ords h st \<longleftrightarrow>
     (\<exists>n sa. getServiceAccount_ctl h = Inr n \<and> crd_ServiceAccount (hc_common h) = Some sa \<and>
       (sa_Enable sa \<longrightarrow> st (KServiceAccount, (hc_Namespace h, n)) \<noteq> None) \<and>
       (rbacEnabled_ctl h = Inr True \<longrightarrow>
          synced admits semEq st (KClusterRole, ('''', clusterRole_ctl)) (muteClusterRole_ctl h) \<and>
          synced admits semEq st (KClusterRoleBinding, ('''', n)) (muteClusterRoleBinding_ctl h) \<and>
          synced admits semEq st (KRole, (hc_Namespace h, role_ctl)) (muteRole_ctl h) \<and>
          synced admits semEq st (KRoleBinding, (hc_Namespace h, n)) (muteRoleBinding_ctl h))) \<and>
     synced admits semEq st (KDeployment, hc_key h) (muteDeployment_ctl (fst ords) (snd ords) h) \<and>
     synced admits semEq st (KService, (hc_Namespace h, HigressControllerServiceName)) (muteService_ctl h)"

section \<open>The contract\<close>

locale controller_env =
  owner_env r L lookup admits same_but_rest semEq +
  files: os_quiet "OS r" lookup +
  deffiles: os_quiet "OS r" defs +
  crds: crd_server cli defs stores
  for r :: "('w, 'z) ctl_reconciler_scheme" and L :: "'w lib"
    and lookup admits same_but_rest semEq
    and cli :: "'w crd_client"
    and defs :: "'w \<Rightarrow> string \<Rightarrow> CustomResourceDefinition option" and stores +
  assumes new_client: "NewForConfig r = Inr c \<Longrightarrow> c = cli"
    and crd_quiet: "keeps lookup (CRDGet cli n)" "keeps lookup (CRDCreate cli d)"
      "keeps lookup (CRDUpdate cli d)"
    and cluster_quiet: "keeps defs (Get r k nn)" "keeps defs (Create r x)" "keeps defs (Update r x)"
      "keeps defs (StatusUpdate r x)" "keeps defs (ctrlCreateOrUpdate L (client.truncate r) x f)"
begin

lemma applyCRDs_keeps: "keeps lookup (applyCRDs specEq cli ds)"
  by (induction ds)
    (simp_all only: applyCRDs.simps applyCRD_def, (intro keeps_intro crd_quiet | assumption)+)

lemma createCRDs_keeps: "keeps lookup (createCRDs r)"
  unfolding createCRDs_def
proof (rule keeps_liftR_bind, rule keeps_bindM [OF files.getCRDs_keeps])
  fix c ds assume "NewForConfig r = Inr c"
  then have "c = cli" by (rule new_client)
  then show "keeps lookup (applyCRDs (SpecDeepEqual r) c ds)" by (simp add: applyCRDs_keeps)
qed

lemma createCRDs_frame: "keeps (\<lambda>w. lookup w q) (createCRDs r)"
  using createCRDs_keeps by (simp add: keeps_def)

lemma createCRDs_ok:
  assumes "createCRDs r w = (Inr u, w')"
  shows "\<exists>ds w1. getCRDs (OS r) w = (Inr ds, w1) \<and>
    (distinct (map crdef_Name ds) \<longrightarrow> (\<forall>d \<in> set ds. installed stores (SpecDeepEqual r) (defs w') d))"
proof -
  from assms obtain c ds w1 where c: "NewForConfig r = Inr c"
    and ds: "getCRDs (OS r) w = (Inr ds, w1)"
    and run: "applyCRDs (SpecDeepEqual r) c ds w1 = (Inr u, w')"
    by (auto simp: createCRDs_def ok_simps)
  from run new_client [OF c] have "applyCRDs (SpecDeepEqual r) cli ds w1 = (Inr u, w')" by simp
  with ds show ?thesis by (auto dest: crds.applyCRDs_ok)
qed

section \<open>Frames\<close>

lemma createServiceAccount_ctl_frame:
  assumes "\<not> (fst q = KServiceAccount \<and> fst (snd q) = hc_Namespace h)"
  shows "keeps (\<lambda>w. lookup w q) (createServiceAccount_ctl L r h)"
  unfolding createServiceAccount_ctl_def
proof (intro keeps_liftR_bind keeps_if keeps_bindM keeps_ret CreateIfNotExits_frame)
  fix sa obj
  assume "initServiceAccount_ctl h = Inr sa"
    and "SetControllerReference L (OHigressController h) (OServiceAccount sa) = Inr obj"
  with assms show "q \<noteq> objkey_of obj"
    by (auto dest!: initServiceAccount_ctl_key refs.setref_key)
qed

lemma createRBAC_ctl_frame:
  assumes "q \<noteq> (KClusterRole, ('''', clusterRole_ctl))"
    and "\<not> (fst q = KClusterRoleBinding \<and> fst (snd q) = '''')"
    and "q \<noteq> (KRole, (hc_Namespace h, role_ctl))"
    and "\<not> (fst q = KRoleBinding \<and> fst (snd q) = hc_Namespace h)"
  shows "keeps (\<lambda>w. lookup w q) (createRBAC_ctl L r h)"
  unfolding createRBAC_ctl_def Let_def
  by (intro keeps_liftR_bind keeps_if keeps_bindM keeps_ret upsertObj_frame meta_stable_rbac_ctl)
    (use assms in \<open>auto dest: initClusterRoleBinding_ctl_key initRoleBinding_ctl_key\<close>)

lemma createDeployment_ctl_frame:
  "q \<noteq> (KDeployment, hc_key h) \<Longrightarrow> keeps (\<lambda>w. lookup w q) (createDeployment_ctl L r ords ords' h)"
  unfolding createDeployment_ctl_def
  by (rule owned_upsert_frame) (auto intro: initDeployment_ctl_key)

lemma createService_ctl_frame:
  "q \<noteq> (KService, (hc_Namespace h, HigressControllerServiceName)) \<Longrightarrow>
   keeps (\<lambda>w. lookup w q) (createService_ctl L r h)"
  unfolding createService_ctl_def by (rule owned_upsert_frame) auto

lemma publishDeployed_frame:
  "q \<noteq> hc_objkey h \<Longrightarrow> keeps (\<lambda>w. lookup w q) (publishDeployed r h)"
  unfolding publishDeployed_def by (intro keeps_intro supdate_frame) simp

lemma ensureFinalizer_ctl_frame:
  assumes "q \<noteq> hc_objkey h"
  shows "keeps (\<lambda>w. lookup w q) (ensureFinalizer_ctl L r h)"
proof (cases "finalizer_ctl \<in> set (om_Finalizers (hc_Meta h))")
  case True
  then show ?thesis by (simp add: ensureFinalizer_ctl_def fins.add_old keeps_ret)
next
  case False
  have "keeps (\<lambda>w. lookup w q) (Update r
      (set_finalizers (om_Finalizers (hc_Meta h) @ [finalizer_ctl]) (OHigressController h)))"
    using assms by (intro update_frame) simp
  with False show ?thesis
    by (auto simp: ensureFinalizer_ctl_def fins.add_new intro!: keeps_bindM keeps_liftR)
qed

lemma ensureFinalizer_ctl_ok:
  assumes run: "ensureFinalizer_ctl L r (setDefaultValues_ctl h0) w = (Inr h, w')"
    and stored: "lookup w (KHigressController, nn) = Some (OHigressController h0)"
  shows "\<exists>hs. adopted_ctl admits h0 hs \<and> (h = setDefaultValues_ctl hs \<or> h = hs) \<and> hc_key hs = nn \<and>
    lookup w' (KHigressController, nn) = Some (OHigressController hs) \<and>
    finalizer_ctl \<in> set (om_Finalizers (hc_Meta hs)) \<and>
    om_DeletionTimestamp (hc_Meta hs) = om_DeletionTimestamp (hc_Meta h0)"
proof -
  have key: "hc_key h0 = nn" using stored_key [OF stored] by simp
  show ?thesis
  proof (cases "finalizer_ctl \<in> set (om_Finalizers (hc_Meta h0))")
    case True
    with run have "h = setDefaultValues_ctl h0" and "w' = w"
      by (simp_all add: ensureFinalizer_ctl_def fins.add_old ok_simps)
    with True stored key show ?thesis by (auto simp: adopted_ctl_def)
  next
    case False
    let ?x = "set_finalizers (om_Finalizers (hc_Meta h0) @ [finalizer_ctl])
      (OHigressController (setDefaultValues_ctl h0))"
    from False run have upd: "Update r ?x w = (Inr (OHigressController h), w')"
      by (auto simp: ensureFinalizer_ctl_def fins.add_new ok_simps)
    have x: "objkey_of ?x = (KHigressController, nn)" using key by simp
    from update_ok [OF upd, unfolded x] stored
    have adm: "admits (Some (OHigressController h0)) ?x (OHigressController h)"
      and w1: "lookup w' = (lookup w)((KHigressController, nn) :=
        if gone (OHigressController h) then None else Some (OHigressController h))"
      by auto
    have fin: "finalizer_ctl \<in> set (om_Finalizers (hc_Meta h))"
      using admits_finalizers [OF adm] by simp
    then have "\<not> gone (OHigressController h)" by (auto simp: gone_def)
    with w1 have "lookup w' (KHigressController, nn) = Some (OHigressController h)" by simp
    moreover have "om_DeletionTimestamp (hc_Meta h) = om_DeletionTimestamp (hc_Meta h0)"
      using admits_deletion [OF adm] by simp
    moreover have "hc_key h = nn" using admits_key [OF adm] x by simp
    moreover have "adopted_ctl admits h0 h" using False adm by (simp add: adopted_ctl_def)
    ultimately show ?thesis using fin by blast
  qed
qed

lemma ensureFinalizer_ctl_key:
  assumes "ensureFinalizer_ctl L r h w = (Inr h', w')"
  shows "hc_key h' = hc_key h"
proof (cases "finalizer_ctl \<in> set (om_Finalizers (hc_Meta h))")
  case True
  with assms show ?thesis by (simp add: ensureFinalizer_ctl_def fins.add_old ok_simps)
next
  case False
  with assms have "Update r (set_finalizers (om_Finalizers (hc_Meta h) @ [finalizer_ctl])
      (OHigressController h)) w = (Inr (OHigressController h'), w')"
    by (auto simp: ensureFinalizer_ctl_def fins.add_new ok_simps)
  then obtain old where "admits old (set_finalizers (om_Finalizers (hc_Meta h) @ [finalizer_ctl])
      (OHigressController h)) (OHigressController h')"
    using update_ok by blast
  from admits_key [OF this] show ?thesis by simp
qed

lemma reconcileLive_ctl_frame:
  assumes "\<not> touches_ctl (hc_key h0) q"
  shows "keeps (\<lambda>w. lookup w q) (reconcileLive_ctl L r ords ords' h0)"
  unfolding reconcileLive_ctl_def
proof (rule keeps_bindM [OF namespaceActive_frame], rule keeps_if [OF keeps_ret], rule keeps_bindM_run)
  show "keeps (\<lambda>w. lookup w q) (ensureFinalizer_ctl L r h0)"
    by (rule ensureFinalizer_ctl_frame) (use assms in auto)
  fix w h w'
  assume "ensureFinalizer_ctl L r h0 w = (Inr h, w')"
  then have "hc_key h = hc_key h0" by (rule ensureFinalizer_ctl_key)
  with assms have q: "\<not> touches_ctl (hc_key h) q" by simp
  show "keeps (\<lambda>w. lookup w q) (bindM (createCRDs r) (\<lambda>_.
     bindM (createServiceAccount_ctl L r h) (\<lambda>_.
     bindM (createRBAC_ctl L r h) (\<lambda>h1.
     bindM (createDeployment_ctl L r ords ords' h1) (\<lambda>_.
     bindM (createService_ctl L r h1) (\<lambda>_. publishDeployed r h1))))))"
  proof (rule keeps_bindM [OF createCRDs_frame], rule keeps_bindM, goal_cases)
    case 1
    show ?case by (rule createServiceAccount_ctl_frame) (use q in \<open>cases q; auto\<close>)
  next
    case 2
    show ?case
    proof (rule keeps_bindM_run)
      show "keeps (\<lambda>w. lookup w q) (createRBAC_ctl L r h)"
        by (rule createRBAC_ctl_frame) (use q in \<open>cases q; auto\<close>)+
      fix w h1 w' assume "createRBAC_ctl L r h w = (Inr h1, w')"
      then have h1: "h1 = fillRBAC h" by (rule createRBAC_ctl_instance)
      show "keeps (\<lambda>w. lookup w q) (bindM (createDeployment_ctl L r ords ords' h1) (\<lambda>_.
          bindM (createService_ctl L r h1) (\<lambda>_. publishDeployed r h1)))"
        by (intro keeps_bindM createDeployment_ctl_frame createService_ctl_frame publishDeployed_frame)
          (use q in \<open>auto simp: h1\<close>)
    qed
  qed
qed

lemma finalizeController_frame:
  "\<not> (fst q = KClusterRoleBinding \<and> fst (snd q) = '''') \<Longrightarrow>
   keeps (\<lambda>w. lookup w q) (finalizeHigressController r h)"
  unfolding finalizeHigressController_def
  by (intro keeps_liftR_bind keeps_if keeps_ret dropBindingSubject_frame) auto

lemma reconcileDeletion_ctl_frame:
  assumes "\<not> touches_ctl (hc_key h) q"
  shows "keeps (\<lambda>w. lookup w q) (reconcileDeletion_ctl L r h)"
  unfolding reconcileDeletion_ctl_def
proof (intro keeps_if keeps_bindM keeps_ret finalizeController_frame update_frame, goal_cases)
  case 1
  with assms show ?case by (cases q) auto
next
  case 2
  with assms show ?case by (auto simp: fins.remove_eq)
qed

lemma Reconcile_ctl_frame:
  assumes "\<not> touches_ctl nn q"
  shows "keeps (\<lambda>w. lookup w q) (Reconcile_ctl L r ords ords' nn)"
  unfolding Reconcile_ctl_def
proof (intro get_ifErr_frame keeps_if keeps_ret keeps_fail keeps_liftR_bind)
  fix x h
  assume "objkey_of x = (KHigressController, nn)" and "asController x = Inr h"
  then have h: "hc_key (setDefaultValues_ctl h) = nn" by (auto simp: ok_simps)
  then show "keeps (\<lambda>w. lookup w q) (let h = setDefaultValues_ctl h in
      if om_DeletionTimestamp (hc_Meta h) \<noteq> None then reconcileDeletion_ctl L r h
      else reconcileLive_ctl L r ords ords' h)"
    using assms reconcileDeletion_ctl_frame [of "setDefaultValues_ctl h" q]
      reconcileLive_ctl_frame [of "setDefaultValues_ctl h" q ords ords']
    by (simp only: h Let_def split: if_split) simp
qed

end

end
