(* ===== verification/CtlOutcome.thy ===== *)
theory CtlOutcome
  imports CtlContract
begin

text \<open>
  What a reconcile of the controller resource that returned without error has achieved,
  and how the resource is finalized.
\<close>

text \<open>
  The resource is recorded as deployed and \<open>h\<close>, the instance the children were built
  from, is the stored resource with defaults: those of \<open>setDefaultValues\<close>, or, in the run
  that adds the finalizer, those of \<open>createRBAC\<close> over the server's response.
\<close>

definition deployed_as ::
  "HigressController \<Rightarrow> HigressController \<Rightarrow> HigressController \<Rightarrow> HigressController \<Rightarrow> bool" where
  "deployed_as h0 hs h h' \<longleftrightarrow> (h = setDefaultValues_ctl hs \<or> h = fillRBAC hs) \<and>
     (finalizer_ctl \<in> set (om_Finalizers (hc_Meta h0)) \<longrightarrow> h = setDefaultValues_ctl hs) \<and>
     finalizer_ctl \<in> set (om_Finalizers (hc_Meta h')) \<and>
     hc_Spec h' = hc_Spec hs \<and> (hc_Meta h')\<lparr>om_rest := []\<rparr> = (hc_Meta hs)\<lparr>om_rest := []\<rparr> \<and>
     hcst_Deployed (hc_Status h')"

context controller_env
begin

lemma createServiceAccount_ctl_ok:
  assumes "createServiceAccount_ctl L r h w = (Inr u, w')"
  shows "\<exists>sa n. crd_ServiceAccount (hc_common h) = Some sa \<and> getServiceAccount_ctl h = Inr n \<and>
    (sa_Enable sa \<longrightarrow> lookup w' (KServiceAccount, (hc_Namespace h, n)) \<noteq> None)"
proof -
  from assms obtain sa where sa: "crd_ServiceAccount (hc_common h) = Some sa"
    by (auto simp: createServiceAccount_ctl_def ok_simps)
  then obtain n where n: "getServiceAccount_ctl h = Inr n"
    by (cases "sa_Name sa = ''''") (auto simp: getServiceAccount_ctl_def)
  have "lookup w' (KServiceAccount, (hc_Namespace h, n)) \<noteq> None" if "sa_Enable sa"
  proof -
    from assms sa that obtain x obj b where x: "initServiceAccount_ctl h = Inr x"
      and obj: "SetControllerReference L (OHigressController h) (OServiceAccount x) = Inr obj"
      and run: "CreateIfNotExits r obj w = (Inr b, w')"
      by (auto simp: createServiceAccount_ctl_def ok_simps)
    from CreateIfNotExits_ok [OF run] refs.setref_key [OF obj] initServiceAccount_ctl_key [OF x] n
    show ?thesis by auto
  qed
  with sa n show ?thesis by blast
qed

lemma createRBAC_ctl_ok:
  assumes run: "createRBAC_ctl L r h0 w = (Inr h, w')" and en: "rbacEnabled_ctl h = Inr True"
    and n: "getServiceAccount_ctl h = Inr n"
  shows "synced admits semEq (lookup w') (KClusterRole, ('''', clusterRole_ctl)) (muteClusterRole_ctl h)"
    and "synced admits semEq (lookup w') (KClusterRoleBinding, ('''', n)) (muteClusterRoleBinding_ctl h)"
    and "synced admits semEq (lookup w') (KRole, (hc_Namespace h, role_ctl)) (muteRole_ctl h)"
    and "synced admits semEq (lookup w') (KRoleBinding, (hc_Namespace h, n)) (muteRoleBinding_ctl h)"
proof -
  have h: "h = fillRBAC h0" by (rule createRBAC_ctl_instance [OF run])
  from run en obtain crb rb w1 w2 w3 where
    s1: "upsertObj L r ''ClusterRole'' (OClusterRole (initClusterRole_ctl h)) (muteClusterRole_ctl h) w = (Inr (), w1)"
    and crb: "initClusterRoleBinding_ctl h = Inr crb"
    and s2: "upsertObj L r ''ClusterRoleBinding'' (OClusterRoleBinding crb) (muteClusterRoleBinding_ctl h) w1 = (Inr (), w2)"
    and s3: "upsertObj L r ''role'' (ORole (initRole_ctl h)) (muteRole_ctl h) w2 = (Inr (), w3)"
    and rb: "initRoleBinding_ctl h = Inr rb"
    and s4: "upsertObj L r ''roleBinding'' (ORoleBinding rb) (muteRoleBinding_ctl h) w3 = (Inr (), w')"
    by (auto simp: createRBAC_ctl_def Let_def h [symmetric] ok_simps)
  have kcrb: "objkey_of (OClusterRoleBinding crb) = (KClusterRoleBinding, ('''', n))"
    and krb: "objkey_of (ORoleBinding rb) = (KRoleBinding, (hc_Namespace h, n))"
    using initClusterRoleBinding_ctl_key [OF crb] initRoleBinding_ctl_key [OF rb] n by auto
  have f2: "keeps (\<lambda>w. lookup w q)
      (upsertObj L r ''ClusterRoleBinding'' (OClusterRoleBinding crb) (muteClusterRoleBinding_ctl h))"
    if "fst q \<noteq> KClusterRoleBinding" for q
    using that by (intro upsertObj_frame) (auto simp: kcrb)
  have f3: "keeps (\<lambda>w. lookup w q) (upsertObj L r ''role'' (ORole (initRole_ctl h)) (muteRole_ctl h))"
    if "fst q \<noteq> KRole" for q
    using that by (intro upsertObj_frame) auto
  have f4: "keeps (\<lambda>w. lookup w q) (upsertObj L r ''roleBinding'' (ORoleBinding rb) (muteRoleBinding_ctl h))"
    if "fst q \<noteq> KRoleBinding" for q
    using that by (intro upsertObj_frame) (auto simp: krb)
  show "synced admits semEq (lookup w') (KClusterRole, ('''', clusterRole_ctl)) (muteClusterRole_ctl h)"
    by (rule synced_step [OF f4 s4], simp, rule synced_step [OF f3 s3], simp,
        rule synced_step [OF f2 s2], simp, rule upsertObj_synced [OF s1]) auto
  show "synced admits semEq (lookup w') (KClusterRoleBinding, ('''', n)) (muteClusterRoleBinding_ctl h)"
    by (rule synced_step [OF f4 s4], simp, rule synced_step [OF f3 s3], simp,
        rule upsertObj_synced [OF s2]) (auto simp: kcrb)
  show "synced admits semEq (lookup w') (KRole, (hc_Namespace h, role_ctl)) (muteRole_ctl h)"
    by (rule synced_step [OF f4 s4], simp, rule upsertObj_synced [OF s3]) auto
  show "synced admits semEq (lookup w') (KRoleBinding, (hc_Namespace h, n)) (muteRoleBinding_ctl h)"
    by (rule upsertObj_synced [OF s4]) (auto simp: krb)
qed

lemma createDeployment_ctl_ok:
  assumes "createDeployment_ctl L r ords ords' h w = (Inr u, w')"
  shows "synced admits semEq (lookup w') (KDeployment, hc_key h)
    (muteDeployment_ctl (fst ords') (snd ords') h)"
  using owned_upsert_synced [OF initDeployment_ctl_key _ assms [unfolded createDeployment_ctl_def]] by auto

lemma createService_ctl_ok:
  assumes "createService_ctl L r h w = (Inr u, w')"
  shows "synced admits semEq (lookup w') (KService, (hc_Namespace h, HigressControllerServiceName))
    (muteService_ctl h)"
  using owned_upsert_synced [OF _ _ assms [unfolded createService_ctl_def]] by auto

lemma publishDeployed_ok:
  assumes run: "publishDeployed r h w = (Inr u, w')"
    and stored: "lookup w (hc_objkey h) = Some (OHigressController hs)"
    and status: "hc_Status h = hc_Status hs"
  shows "\<exists>h'. lookup w' (hc_objkey h) = Some (OHigressController h') \<and>
    hc_Spec h' = hc_Spec hs \<and> same_but_rest (hc_Meta h') (hc_Meta hs) \<and> hcst_Deployed (hc_Status h')"
proof (cases "hcst_Deployed (hc_Status h)")
  case True
  with run have "w' = w" by (simp add: publishDeployed_def)
  with stored True status show ?thesis by (auto simp: rest_only)
next
  case False
  with run obtain y where "StatusUpdate r (OHigressController
      (h\<lparr>hc_Status := (hc_Status h)\<lparr>hcst_Deployed := True\<rparr>\<rparr>)) w = (Inr y, w')"
    by (auto simp: publishDeployed_def ok_simps)
  from supdate_ok [OF this] stored show ?thesis by auto
qed

lemma reconcileLive_ctl_ok:
  assumes run: "reconcileLive_ctl L r ords ords' (setDefaultValues_ctl h0) w = (Inr u, w')"
    and stored: "lookup w (KHigressController, nn) = Some (OHigressController h0)"
    and ns: "active_namespace (lookup w) (fst nn)" and reads: "served_reads r lookup"
  shows "\<exists>hs h h'. adopted_ctl admits h0 hs \<and>
    lookup w' (KHigressController, nn) = Some (OHigressController h') \<and>
    deployed_as h0 hs h h' \<and> controller_settled admits semEq ords' h (lookup w')"
proof -
  have nn: "nn = hc_key h0" using stored_key [OF stored] by simp
  from namespaceActive_run [OF reads ns] obtain w0 where
    act: "namespaceActive r (fst nn) w = (Inr True, w0)" and l0: "lookup w0 = lookup w" by blast
  from run act nn obtain g w1 w2 w3 w4 w5 w6 h where
    s1: "ensureFinalizer_ctl L r (setDefaultValues_ctl h0) w0 = (Inr g, w1)" and
    s2: "createCRDs r w1 = (Inr (), w2)" and
    s3: "createServiceAccount_ctl L r g w2 = (Inr (), w3)" and
    s4: "createRBAC_ctl L r g w3 = (Inr h, w4)" and
    s5: "createDeployment_ctl L r ords ords' h w4 = (Inr (), w5)" and
    s6: "createService_ctl L r h w5 = (Inr (), w6)" and
    s7: "publishDeployed r h w6 = (Inr u, w')"
    by (auto simp: reconcileLive_ctl_def ok_simps bindM_run)
  have "lookup w0 (KHigressController, nn) = Some (OHigressController h0)" using stored l0 by simp
  from ensureFinalizer_ctl_ok [OF s1 this] obtain hs where
    ad: "adopted_ctl admits h0 hs" and g: "g = setDefaultValues_ctl hs \<or> g = hs" and key: "hc_key hs = nn"
    and st: "lookup w1 (KHigressController, nn) = Some (OHigressController hs)"
    and fin: "finalizer_ctl \<in> set (om_Finalizers (hc_Meta hs))" by auto
  have h: "h = fillRBAC g" by (rule createRBAC_ctl_instance [OF s4])
  have meta: "hc_Meta h = hc_Meta hs" "hc_Status h = hc_Status hs" "hc_Meta g = hc_Meta hs"
    using g h by auto
  from createServiceAccount_ctl_ok [OF s3] obtain sa n where
    sa: "crd_ServiceAccount (hc_common g) = Some sa" and n: "getServiceAccount_ctl g = Inr n"
    and acc: "sa_Enable sa \<longrightarrow> lookup w3 (KServiceAccount, (hc_Namespace g, n)) \<noteq> None" by blast
  have sa': "crd_ServiceAccount (hc_common h) = Some sa"
    using sa by (simp add: h fillRBAC_def Let_def split: option.split)
  have n': "getServiceAccount_ctl h = Inr n"
    using n sa sa' by (simp add: getServiceAccount_ctl_def h split: if_splits)
  have h': "h = setDefaultValues_ctl hs \<or> h = fillRBAC hs"
    using g h by (auto simp: fillRBAC_id setDefaultCommon_ctl_fields)
  have l2: "lookup w2 = lookup w1" by (rule keepsD [OF createCRDs_keeps s2])
  have l3: "lookup w3 q = lookup w2 q" if "fst q \<noteq> KServiceAccount" for q
    by (rule keepsD [OF createServiceAccount_ctl_frame s3]) (use that in auto)
  have l4: "lookup w4 q = lookup w3 q" if "fst q \<notin> {KClusterRole, KClusterRoleBinding, KRole, KRoleBinding}" for q
    by (rule keepsD [OF createRBAC_ctl_frame s4]) (use that in auto)
  have l5: "lookup w5 q = lookup w4 q" if "fst q \<noteq> KDeployment" for q
    by (rule keepsD [OF createDeployment_ctl_frame s5]) (use that in auto)
  have l6: "lookup w6 q = lookup w5 q" if "fst q \<noteq> KService" for q
    by (rule keepsD [OF createService_ctl_frame s6]) (use that in auto)
  have l7: "lookup w' q = lookup w6 q" if "fst q \<noteq> KHigressController" for q
    by (rule keepsD [OF publishDeployed_frame s7]) (use that in auto)
  note ls = l3 l4 l5 l6 l7
  have rbac: "synced admits semEq (lookup w') (KClusterRole, ('''', clusterRole_ctl)) (muteClusterRole_ctl h) \<and>
      synced admits semEq (lookup w') (KClusterRoleBinding, ('''', n)) (muteClusterRoleBinding_ctl h) \<and>
      synced admits semEq (lookup w') (KRole, (hc_Namespace h, role_ctl)) (muteRole_ctl h) \<and>
      synced admits semEq (lookup w') (KRoleBinding, (hc_Namespace h, n)) (muteRoleBinding_ctl h)"
    if "rbacEnabled_ctl h = Inr True"
    using createRBAC_ctl_ok [OF s4 that n'] by (simp add: synced_def ls)
  have "lookup w6 (hc_objkey h) = Some (OHigressController hs)"
    using st key by (simp add: ls l2 meta)
  from publishDeployed_ok [OF s7 this meta(2)] obtain h2 where
    h2: "lookup w' (hc_objkey h) = Some (OHigressController h2)" "hc_Spec h2 = hc_Spec hs"
      "same_but_rest (hc_Meta h2) (hc_Meta hs)" "hcst_Deployed (hc_Status h2)" by auto
  from h2(3) have m: "(hc_Meta h2)\<lparr>om_rest := []\<rparr> = (hc_Meta hs)\<lparr>om_rest := []\<rparr>"
    by (simp add: rest_only)
  have "om_Finalizers ((hc_Meta h2)\<lparr>om_rest := []\<rparr>) = om_Finalizers ((hc_Meta hs)\<lparr>om_rest := []\<rparr>)"
    by (simp only: m)
  with fin have "finalizer_ctl \<in> set (om_Finalizers (hc_Meta h2))" by simp
  moreover have "h = setDefaultValues_ctl hs" if old: "finalizer_ctl \<in> set (om_Finalizers (hc_Meta h0))"
  proof -
    have "g = setDefaultValues_ctl h0" using s1 old by (simp add: ensureFinalizer_ctl_def fins.add_old)
    with ad old show ?thesis by (simp add: h adopted_ctl_def fillRBAC_id setDefaultCommon_ctl_fields)
  qed
  ultimately have "deployed_as h0 hs h h2" using h' h2 m by (simp add: deployed_as_def)
  moreover have "controller_settled admits semEq ords' h (lookup w')"
    unfolding controller_settled_def
    using createDeployment_ctl_ok [OF s5] createService_ctl_ok [OF s6] acc rbac sa' n' meta
    by (auto simp: synced_def ls)
  ultimately show ?thesis using ad h2(1) key meta by auto
qed

lemma Reconcile_ctl_live_ok:
  assumes run: "Reconcile_ctl L r ords ords' nn w = (Inr u, w')"
    and stored: "lookup w (KHigressController, nn) = Some (OHigressController h0)"
    and live: "om_DeletionTimestamp (hc_Meta h0) = None"
    and ns: "active_namespace (lookup w) (fst nn)" and reads: "served_reads r lookup"
  shows "\<exists>hs h h'. adopted_ctl admits h0 hs \<and>
    lookup w' (KHigressController, nn) = Some (OHigressController h') \<and>
    deployed_as h0 hs h h' \<and> controller_settled admits semEq ords' h (lookup w')"
proof -
  have "fst (Get r KHigressController nn w) = Inr (OHigressController h0)"
    using reads stored by (cases nn) (simp add: served_reads_def)
  then obtain w1 where get: "Get r KHigressController nn w = (Inr (OHigressController h0), w1)"
    by (metis prod.collapse)
  with run live have "reconcileLive_ctl L r ords ords' (setDefaultValues_ctl h0) w1 = (Inr u, w')"
    by (simp add: Reconcile_ctl_def ifErr_run bindM_run asController_def)
  from reconcileLive_ctl_ok [OF this] stored ns reads get_lookup [OF get] show ?thesis by simp
qed

section \<open>Deletion\<close>

text \<open>
  Unlike the gateway's, this finalizer asks first whether RBAC was ever enabled, and a
  resource without it is released at once.
\<close>

lemma reconcileDeletion_ctl_ok:
  assumes run: "reconcileDeletion_ctl L r h w = (Inr u, w')"
    and fin: "finalizer_ctl \<in> set (om_Finalizers (hc_Meta h))"
  shows "case lookup w' (hc_objkey h) of None \<Rightarrow> True
      | Some x \<Rightarrow> finalizer_ctl \<notin> set (om_Finalizers (meta_of x))"
    and "rbacEnabled_ctl h = Inr True \<Longrightarrow> getServiceAccount_ctl h = Inr name \<Longrightarrow>
      \<exists>crb y. lookup w (KClusterRoleBinding, ('''', name)) = Some (OClusterRoleBinding crb) \<and>
        admits (Some (OClusterRoleBinding crb)) (OClusterRoleBinding
          (crb\<lparr>crb_Subjects := dropSubjects name (hc_Namespace h) (crb_Subjects crb)\<rparr>)) y \<and>
        lookup w' (KClusterRoleBinding, ('''', name)) = Some y"
proof -
  let ?x = "RemoveFinalizer L (OHigressController h) finalizer_ctl"
  from run fin obtain w2 z where
    f: "finalizeHigressController r h w = (Inr (), w2)" and rel: "Update r ?x w2 = (Inr z, w')"
    by (auto simp: reconcileDeletion_ctl_def fins.has_iff ok_simps split: if_splits)
  from releaseFinalizer_ok [OF rel]
  show "case lookup w' (hc_objkey h) of None \<Rightarrow> True
      | Some x \<Rightarrow> finalizer_ctl \<notin> set (om_Finalizers (meta_of x))" by simp
  assume en: "rbacEnabled_ctl h = Inr True" and name: "getServiceAccount_ctl h = Inr name"
  from f en name have drop: "dropBindingSubject r name (hc_Namespace h) w = (Inr (), w2)"
    by (simp add: finalizeHigressController_def bindM_def)
  have "lookup w' (KClusterRoleBinding, ('''', name)) = lookup w2 (KClusterRoleBinding, ('''', name))"
    by (rule keepsD [OF update_frame rel]) (simp add: fins.remove_eq)
  with dropBindingSubject_ok [OF drop]
  show "\<exists>crb y. lookup w (KClusterRoleBinding, ('''', name)) = Some (OClusterRoleBinding crb) \<and>
        admits (Some (OClusterRoleBinding crb)) (OClusterRoleBinding
          (crb\<lparr>crb_Subjects := dropSubjects name (hc_Namespace h) (crb_Subjects crb)\<rparr>)) y \<and>
        lookup w' (KClusterRoleBinding, ('''', name)) = Some y" by simp
qed

lemma Reconcile_ctl_deletion_ok:
  assumes run: "Reconcile_ctl L r ords ords' nn w = (Inr u, w')"
    and stored: "lookup w (KHigressController, nn) = Some (OHigressController h0)"
    and del: "om_DeletionTimestamp (hc_Meta h0) \<noteq> None"
    and fin: "finalizer_ctl \<in> set (om_Finalizers (hc_Meta h0))"
    and reads: "served_reads r lookup"
  shows "case lookup w' (KHigressController, nn) of None \<Rightarrow> True
      | Some x \<Rightarrow> finalizer_ctl \<notin> set (om_Finalizers (meta_of x))"
    and "rbacEnabled_ctl (setDefaultValues_ctl h0) = Inr True \<Longrightarrow>
      getServiceAccount_ctl (setDefaultValues_ctl h0) = Inr name \<Longrightarrow>
      \<exists>crb y. lookup w (KClusterRoleBinding, ('''', name)) = Some (OClusterRoleBinding crb) \<and>
        admits (Some (OClusterRoleBinding crb)) (OClusterRoleBinding
          (crb\<lparr>crb_Subjects := dropSubjects name (fst nn) (crb_Subjects crb)\<rparr>)) y \<and>
        lookup w' (KClusterRoleBinding, ('''', name)) = Some y"
proof -
  let ?h = "setDefaultValues_ctl h0"
  have key: "hc_key ?h = nn" using stored_key [OF stored] by simp
  have "fst (Get r KHigressController nn w) = Inr (OHigressController h0)"
    using reads stored by (cases nn) (simp add: served_reads_def)
  then obtain w1 where get: "Get r KHigressController nn w = (Inr (OHigressController h0), w1)"
    by (metis prod.collapse)
  with run del have run1: "reconcileDeletion_ctl L r ?h w1 = (Inr u, w')"
    by (simp add: Reconcile_ctl_def ifErr_run bindM_run asController_def)
  have fin': "finalizer_ctl \<in> set (om_Finalizers (hc_Meta ?h))" using fin by simp
  note rel = reconcileDeletion_ctl_ok [OF run1 fin']
  show "case lookup w' (KHigressController, nn) of None \<Rightarrow> True
      | Some x \<Rightarrow> finalizer_ctl \<notin> set (om_Finalizers (meta_of x))"
    using rel(1) by (simp only: key)
  assume "rbacEnabled_ctl ?h = Inr True" and "getServiceAccount_ctl ?h = Inr name"
  from rel(2) [OF this] show "\<exists>crb y. lookup w (KClusterRoleBinding, ('''', name)) = Some (OClusterRoleBinding crb) \<and>
        admits (Some (OClusterRoleBinding crb)) (OClusterRoleBinding
          (crb\<lparr>crb_Subjects := dropSubjects name (fst nn) (crb_Subjects crb)\<rparr>)) y \<and>
        lookup w' (KClusterRoleBinding, ('''', name)) = Some y"
    using get_lookup [OF get] key by auto
qed

end

end
