(* ===== verification/System.thy ===== *)
theory System
  imports GwSteady CtlOutcome
begin

text \<open>
  The operator as a whole: both reconcilers over one cluster, their runs in any order, for
  the resources of a set \<open>N\<close> and with any outcome, and between the runs the steps of other
  actors, a relation \<open>E\<close> on worlds.
\<close>

inductive sys_step ::
  "'w lib \<Rightarrow> 'w gw_reconciler \<Rightarrow> 'w ctl_reconciler \<Rightarrow> nskey set \<Rightarrow> ('w \<Rightarrow> 'w \<Rightarrow> bool) \<Rightarrow>
   'w \<Rightarrow> 'w \<Rightarrow> bool"
  for L gr cr N E where
  gateway: "nn \<in> N \<Longrightarrow> sys_step L gr cr N E w (snd (Reconcile_gw L gr ord ord' nn w))"
| controller: "nn \<in> N \<Longrightarrow> sys_step L gr cr N E w (snd (Reconcile_ctl L cr ords ords' nn w))"
| other: "E w w' \<Longrightarrow> sys_step L gr cr N E w w'"

inductive reachable ::
  "'w lib \<Rightarrow> 'w gw_reconciler \<Rightarrow> 'w ctl_reconciler \<Rightarrow> nskey set \<Rightarrow> ('w \<Rightarrow> 'w \<Rightarrow> bool) \<Rightarrow>
   'w \<Rightarrow> 'w \<Rightarrow> bool"
  for L gr cr N E w0 where
  start: "reachable L gr cr N E w0 w0"
| step: "reachable L gr cr N E w0 w \<Longrightarrow> sys_step L gr cr N E w w' \<Longrightarrow> reachable L gr cr N E w0 w'"

inductive_cases sys_stepE: "sys_step L gr cr N E w w'"

inductive_simps sys_step_simps: "sys_step L gr cr N E w w'"

text \<open>What every kind of step preserves, every sequence of steps preserves.\<close>

lemma reachable_invariant:
  assumes "reachable L gr cr N E w0 w" and "P w0"
    and "\<And>nn ord ord' w. nn \<in> N \<Longrightarrow> P w \<Longrightarrow> P (snd (Reconcile_gw L gr ord ord' nn w))"
    and "\<And>nn ords ords' w. nn \<in> N \<Longrightarrow> P w \<Longrightarrow> P (snd (Reconcile_ctl L cr ords ords' nn w))"
    and "\<And>w w'. E w w' \<Longrightarrow> P w \<Longrightarrow> P w'"
  shows "P w"
  using assms(1) by induction (auto simp: sys_step_simps intro: assms(2-))

text \<open>The namespaced objects a reconcile touches are in the namespace of its resource.\<close>

lemma touches_namespace:
  "touches nn (k, (ns, n)) \<Longrightarrow> ns \<noteq> '''' \<Longrightarrow> ns = fst nn"
  "touches_ctl nn (k, (ns, n)) \<Longrightarrow> ns \<noteq> '''' \<Longrightarrow> ns = fst nn"
  by (cases k; auto)+

locale operator_env =
  g: gateway_env gr L lookup admits same_but_rest semEq +
  c: controller_env cr L lookup admits same_but_rest semEq cli defs stores
  for gr :: "'w gw_reconciler" and cr :: "'w ctl_reconciler" and L :: "'w lib"
    and lookup admits same_but_rest semEq cli defs stores
begin

lemma reachable_frame:
  assumes "reachable L gr cr N E w0 w"
    and "\<And>nn. nn \<in> N \<Longrightarrow> \<not> touches nn q \<and> \<not> touches_ctl nn q"
    and "\<And>w w'. E w w' \<Longrightarrow> lookup w' q = lookup w q"
  shows "lookup w q = lookup w0 q"
  by (rule reachable_invariant [OF assms(1), where P = "\<lambda>w. lookup w q = lookup w0 q"])
    (use assms(2,3) g.Reconcile_frame c.Reconcile_ctl_frame in \<open>auto simp: keeps_def\<close>)

lemma controller_held:
  assumes "held nn (lookup w)"
  shows "held nn (lookup (snd (Reconcile_ctl L cr ords ords' nn' w)))"
proof -
  have "keeps (\<lambda>w. lookup w (KHigressGateway, nn)) (Reconcile_ctl L cr ords ords' nn')"
    by (rule c.Reconcile_ctl_frame) simp
  with assms show ?thesis by (simp add: held_def meta_holds_def keeps_def)
qed

lemma gateway_held:
  assumes "held nn (lookup w)"
  shows "held nn (lookup (snd (Reconcile_gw L gr ord ord' nn' w)))"
  using g.Reconcile_held g.Reconcile_held_other assms by (cases "nn' = nn") auto

lemma reachable_held:
  assumes "reachable L gr cr N E w0 w" and "held nn (lookup w0)"
    and "\<And>w w'. E w w' \<Longrightarrow> held nn (lookup w) \<Longrightarrow> held nn (lookup w')"
  shows "held nn (lookup w)"
  by (rule reachable_invariant [OF assms(1), where P = "\<lambda>w. held nn (lookup w)"])
    (use assms(2,3) controller_held gateway_held in auto)

end

end
