(* ===== verification/Manager.thy ===== *)
theory Manager
  imports Lib
begin

text \<open>
  The controller-runtime manager as \<open>cmd/main.go\<close> uses it: its calls, and their contract in
  terms of a log of what has been registered.  Events of watched objects become requests
  as the documentation of \<open>For\<close> and \<open>Owns\<close> says.
\<close>

section \<open>The manager\<close>

text \<open>The watches of a controller: the kind it is for and the kinds it owns.\<close>

record watch =
  w_For :: kind
  w_Owns :: "kind list"

record 'w manager =
  GetClient :: "'w client"
  GetEventRecorderFor :: "string \<Rightarrow> kobj \<Rightarrow> string \<Rightarrow> string \<Rightarrow> string \<Rightarrow> 'w \<Rightarrow> 'w"
  GetRESTMapper :: "GroupVersionKind \<Rightarrow> ('w, unit) io"
  Complete :: "watch \<Rightarrow> (nskey \<Rightarrow> ('w, unit) io) \<Rightarrow> ('w, unit) io"
  AddHealthzCheck :: "string \<Rightarrow> ('w, unit) io"
  AddReadyzCheck :: "string \<Rightarrow> ('w, unit) io"
  Start :: "('w, unit) io"

section \<open>The order of the start\<close>

datatype setupEvent = Registered watch | Checked string | Ran

text \<open>
  The manager by its log: a call that succeeds adds its event, one that fails adds none.
  \<open>Start\<close> returns without error when the manager has run until it was told to stop.
\<close>

locale manager_log =
  fixes mgr :: "'w manager" and log :: "'w \<Rightarrow> setupEvent list"
  assumes complete_log: "Complete mgr v rec w = (res, w') \<Longrightarrow>
      (case res of Inr _ \<Rightarrow> log w' = log w @ [Registered v]
       | Inl e \<Rightarrow> (\<exists>err. e = Error err) \<and> log w' = log w)"
    and healthz_log: "AddHealthzCheck mgr n w = (res, w') \<Longrightarrow>
      (case res of Inr _ \<Rightarrow> log w' = log w @ [Checked n]
       | Inl e \<Rightarrow> (\<exists>err. e = Error err) \<and> log w' = log w)"
    and readyz_log: "AddReadyzCheck mgr n w = (res, w') \<Longrightarrow>
      (case res of Inr _ \<Rightarrow> log w' = log w @ [Checked n]
       | Inl e \<Rightarrow> (\<exists>err. e = Error err) \<and> log w' = log w)"
    and start_log: "Start mgr w = (res, w') \<Longrightarrow>
      (case res of Inr _ \<Rightarrow> log w' = log w @ [Ran]
       | Inl e \<Rightarrow> (\<exists>err. e = Error err) \<and> log w' = log w)"

text \<open>\<open>if err := m; err != nil { os.Exit(1) }\<close>.\<close>

definition orExit :: "('w, 'a) io \<Rightarrow> ('a \<Rightarrow> ('w, nat) io) \<Rightarrow> ('w, nat) io" where
  "orExit m k = ifErr m (\<lambda>err. ret 1) k"

text \<open>A run from the world \<open>w\<close> that has \<open>k\<close> of the events behind it.\<close>

definition starts :: "('w \<Rightarrow> setupEvent list) \<Rightarrow> setupEvent list \<Rightarrow> setupEvent list \<Rightarrow> ('w, nat) io \<Rightarrow> bool" where
  "starts log pre todo m \<longleftrightarrow> (\<forall>w. log w = pre \<longrightarrow> (\<exists>c w' n. m w = (Inr c, w') \<and>
     n \<le> length todo \<and> log w' = pre @ take n todo \<and> (c = 0 \<longleftrightarrow> n = length todo) \<and> c \<le> 1))"

lemma starts_done: "starts log pre [] (ret 0)"
  by (simp add: starts_def)

lemma starts_orExit:
  assumes step: "\<And>w res w'. m w = (res, w') \<Longrightarrow>
      (case res of Inr _ \<Rightarrow> log w' = log w @ [e] | Inl x \<Rightarrow> (\<exists>err. x = Error err) \<and> log w' = log w)"
    and rest: "\<And>x. starts log (pre @ [e]) todo (k x)"
  shows "starts log pre (e # todo) (orExit m k)"
  unfolding starts_def
proof (intro allI impI)
  fix w assume w: "log w = pre"
  obtain res w1 where m: "m w = (res, w1)" by (cases "m w")
  show "\<exists>c w' n. orExit m k w = (Inr c, w') \<and> n \<le> length (e # todo) \<and>
      log w' = pre @ take n (e # todo) \<and> (c = 0 \<longleftrightarrow> n = length (e # todo)) \<and> c \<le> 1"
  proof (cases res)
    case (Inl x)
    with step [OF m] obtain err where "x = Error err" and "log w1 = pre" using w by auto
    with m Inl show ?thesis
      by (intro exI [of _ 1] exI [of _ w1] exI [of _ 0]) (simp add: orExit_def ifErr_run)
  next
    case (Inr x)
    with step [OF m] w have "log w1 = pre @ [e]" by simp
    with rest [of x] obtain c w' n where "k x w1 = (Inr c, w')" "n \<le> length todo"
      "log w' = (pre @ [e]) @ take n todo" "c = 0 \<longleftrightarrow> n = length todo" "c \<le> 1"
      unfolding starts_def by blast
    with m Inr show ?thesis
      by (intro exI [of _ c] exI [of _ w'] exI [of _ "Suc n"]) (simp add: orExit_def ifErr_run)
  qed
qed

section \<open>Events\<close>

fun kindName :: "kind \<Rightarrow> string" where
  "kindName KHigressGateway = ''HigressGateway''"
| "kindName KHigressController = ''HigressController''"
| "kindName _ = ''''"

text \<open>The reference of the controlling owner, if it is of the kind a controller is for.\<close>

definition ownerRefs :: "watch \<Rightarrow> kobj \<Rightarrow> OwnerReference list" where
  "ownerRefs v x = filter (\<lambda>ref. or_Controller ref \<and> or_Kind ref = kindName (w_For v))
     (om_OwnerReferences (meta_of x))"

text \<open>
  \<open>For\<close> enqueues the object's own key; \<open>Owns\<close> enqueues, for an event on an object of an owned
  kind, the owner named by a controller reference, in the object's namespace; no other
  kind is watched.
\<close>

locale event_handlers =
  fixes enqueue :: "watch \<Rightarrow> kobj \<Rightarrow> nskey set"
  assumes for_event: "kind_of x = w_For v \<Longrightarrow> ObjectKeyFromObject x \<in> enqueue v x"
    and owner_event: "kind_of x \<in> set (w_Owns v) \<Longrightarrow> ref \<in> set (ownerRefs v x) \<Longrightarrow>
      (om_Namespace (meta_of x), or_Name ref) \<in> enqueue v x"
    and unowned_event: "kind_of x \<noteq> w_For v \<Longrightarrow> ownerRefs v x = [] \<Longrightarrow> enqueue v x = {}"
    and unwatched_event: "kind_of x \<noteq> w_For v \<Longrightarrow> kind_of x \<notin> set (w_Owns v) \<Longrightarrow> enqueue v x = {}"

definition requests :: "watch \<Rightarrow> kobj \<Rightarrow> nskey list" where
  "requests v x =
     (if kind_of x = w_For v then [ObjectKeyFromObject x] else []) @
     (if kind_of x \<in> set (w_Owns v)
      then map (\<lambda>ref. (om_Namespace (meta_of x), or_Name ref)) (ownerRefs v x) else [])"

interpretation handlers: event_handlers "\<lambda>v x. set (requests v x)"
  by unfold_locales (auto simp: requests_def)

text \<open>\<open>SetControllerReference\<close> adds a controller reference to the owner.\<close>

locale owner_references = controller_refs setref
  for setref :: "kobj \<Rightarrow> kobj \<Rightarrow> kobj res" +
  assumes setref_adds: "setref owner x = Inr y \<Longrightarrow>
      kind_of owner \<in> {KHigressGateway, KHigressController} \<Longrightarrow> \<exists>ref \<in> set (om_OwnerReferences (meta_of y)).
      or_Controller ref \<and> or_Kind ref = kindName (kind_of owner) \<and> or_Name ref = om_Name (meta_of owner)"

interpretation owning: owner_references addOwner
proof (unfold_locales, goal_cases)
  case (1 owner x y)
  then show ?case by (cases x; cases owner) (auto simp: addOwner_def split: if_splits)
qed

end
