(* ===== verification/Memory.thy ===== *)
theory Memory
  imports CtlCrds Manager
begin

text \<open>
  An executable cluster: a store of objects, the events recorded, whether KEDA's
  resource is registered, the installed resource definitions, the manifest files and the
  log of the process.  It satisfies the contracts of \<open>Server\<close> and is the concrete
  world in which the theorems of the development are exercised.
\<close>

section \<open>The store\<close>

record memory =
  mem_Store :: "objkey \<Rightarrow> kobj option"
  mem_Events :: "(string \<times> string) list"
  mem_KEDA :: bool
  mem_Defs :: "string \<Rightarrow> CustomResourceDefinition option"
  mem_Files :: "(string \<times> (goerr + CustomResourceDefinition) list) list"
  mem_Log :: "setupEvent list"

fun registered :: "memory \<Rightarrow> kind \<Rightarrow> bool" where
  "registered w (KUnstructured gvk) = mem_KEDA w"
| "registered w _ = True"

text \<open>An entry under a key that is not its own, or of an unknown kind, is not visible.\<close>

definition memLookup :: "memory \<Rightarrow> objkey \<Rightarrow> kobj option" where
  "memLookup w q = (case mem_Store w q of
      None \<Rightarrow> None
    | Some x \<Rightarrow> if objkey_of x = q \<and> \<not> gone x \<and> registered w (fst q) then Some x else None)"

definition memPut :: "objkey \<Rightarrow> kobj option \<Rightarrow> memory \<Rightarrow> memory" where
  "memPut q ob w = w\<lparr>mem_Store := (mem_Store w)(q := ob)\<rparr>"

definition set_deletion :: "string option \<Rightarrow> kobj \<Rightarrow> kobj" where
  "set_deletion t = map_meta (\<lambda>m. m\<lparr>om_DeletionTimestamp := t\<rparr>)"

text \<open>The main endpoint of a custom resource leaves the stored status alone.\<close>

fun keepStatus :: "kobj option \<Rightarrow> kobj \<Rightarrow> kobj" where
  "keepStatus (Some (OHigressGateway old)) (OHigressGateway g) =
     OHigressGateway (g\<lparr>gw_Status := gw_Status old\<rparr>)"
| "keepStatus (Some (OHigressController old)) (OHigressController h) =
     OHigressController (h\<lparr>hc_Status := hc_Status old\<rparr>)"
| "keepStatus _ x = x"

definition admitted :: "kobj option \<Rightarrow> kobj \<Rightarrow> kobj" where
  "admitted old x = keepStatus old
     (set_deletion (case old of None \<Rightarrow> None | Some z \<Rightarrow> om_DeletionTimestamp (meta_of z)) x)"

definition memAdmits :: "kobj option \<Rightarrow> kobj \<Rightarrow> kobj \<Rightarrow> bool" where
  "memAdmits old x y \<longleftrightarrow> y = admitted old x"

section \<open>The operations\<close>

definition notFound :: "fault" where "notFound = Error (NotFound ''not found'')"

definition noMatch :: "fault" where "noMatch = Error (NoMatch ''no matches for kind'')"

definition memGet :: "kind \<Rightarrow> nskey \<Rightarrow> (memory, kobj) io" where
  "memGet k n w =
     (if \<not> registered w k then (Inl noMatch, w)
      else case memLookup w (k, n) of None \<Rightarrow> (Inl notFound, w) | Some x \<Rightarrow> (Inr x, w))"

definition memCreate :: "kobj \<Rightarrow> (memory, kobj) io" where
  "memCreate x w =
     (if \<not> registered w (kind_of x) then (Inl noMatch, w)
      else case memLookup w (objkey_of x) of
          Some _ \<Rightarrow> (Inl (Error (AlreadyExists ''already exists'')), w)
        | None \<Rightarrow> (Inr (admitted None x), memPut (objkey_of x) (Some (admitted None x)) w))"

definition memUpdate :: "kobj \<Rightarrow> (memory, kobj) io" where
  "memUpdate x w = (case memLookup w (objkey_of x) of
      None \<Rightarrow> (Inl notFound, w)
    | Some old \<Rightarrow> let y = admitted (Some old) x in
        (Inr y, memPut (objkey_of x) (if gone y then None else Some y) w))"

definition memDelete :: "kobj \<Rightarrow> (memory, unit) io" where
  "memDelete x w = (case memLookup w (objkey_of x) of
      None \<Rightarrow> (Inl notFound, w)
    | Some old \<Rightarrow> (Inr (), memPut (objkey_of x)
        (if om_Finalizers (meta_of old) = [] then None
         else Some (set_deletion (Some ''now'') old)) w))"

fun withStatus :: "kobj \<Rightarrow> kobj \<Rightarrow> kobj option" where
  "withStatus (OHigressGateway g) (OHigressGateway cur) =
     Some (OHigressGateway (cur\<lparr>gw_Status := gw_Status g\<rparr>))"
| "withStatus (OHigressController h) (OHigressController cur) =
     Some (OHigressController (cur\<lparr>hc_Status := hc_Status h\<rparr>))"
| "withStatus _ _ = None"

definition memStatus :: "kobj \<Rightarrow> (memory, kobj) io" where
  "memStatus x w = (case memLookup w (objkey_of x) of
      None \<Rightarrow> (Inl notFound, w)
    | Some cur \<Rightarrow> (case withStatus x cur of
          None \<Rightarrow> (Inl notFound, w)
        | Some y \<Rightarrow> (Inr y, memPut (objkey_of x) (Some y) w)))"

definition memClient :: "'z \<Rightarrow> (memory, 'z) client_scheme" where
  "memClient z = \<lparr>Get = memGet, Create = memCreate, Update = memUpdate, Delete = memDelete,
     StatusUpdate = memStatus, StatusPatch = (\<lambda>x base. memStatus x), \<dots> = z\<rparr>"

definition memSame :: "ObjectMeta \<Rightarrow> ObjectMeta \<Rightarrow> bool" where
  "memSame m m' \<longleftrightarrow> m\<lparr>om_rest := []\<rparr> = m'\<lparr>om_rest := []\<rparr>"

section \<open>The contract\<close>

lemma keepStatus_simps [simp]:
  "kind_of (keepStatus old x) = kind_of x"
  "meta_of (keepStatus old x) = meta_of x"
  by (induction old x rule: keepStatus.induct) simp_all

lemma set_deletion_simps [simp]:
  "kind_of (set_deletion t x) = kind_of x"
  "meta_of (set_deletion t x) = (meta_of x)\<lparr>om_DeletionTimestamp := t\<rparr>"
  "objkey_of (set_deletion t x) = objkey_of x"
  by (simp_all add: set_deletion_def objkey_of_def ObjectKeyFromObject_def nskey_of_meta_def)

lemma admitted_simps [simp]:
  "objkey_of (admitted old x) = objkey_of x"
  "om_Finalizers (meta_of (admitted old x)) = om_Finalizers (meta_of x)"
  "om_DeletionTimestamp (meta_of (admitted old x)) =
     (case old of None \<Rightarrow> None | Some z \<Rightarrow> om_DeletionTimestamp (meta_of z))"
  by (simp_all add: admitted_def objkey_of_def ObjectKeyFromObject_def nskey_of_meta_def)

lemma registered_memPut [simp]: "registered (memPut q ob w) k = registered w k"
  by (cases k) (simp_all add: memPut_def)

lemma mem_Store_memPut [simp]: "mem_Store (memPut q ob w) = (mem_Store w)(q := ob)"
  by (simp add: memPut_def)

lemma memLookup_memPut:
  "memLookup (memPut q ob w) q' =
     (if q' = q then (case ob of None \<Rightarrow> None
        | Some x \<Rightarrow> if objkey_of x = q \<and> \<not> gone x \<and> registered w (fst q) then Some x else None)
      else memLookup w q')"
  by (auto simp: memLookup_def split: option.splits)

lemma memLookup_Some:
  "memLookup w q = Some x \<Longrightarrow> objkey_of x = q \<and> \<not> gone x \<and> registered w (fst q)"
  by (auto simp: memLookup_def split: option.splits if_splits)

lemma fst_objkey_of [simp]: "fst (objkey_of x) = kind_of x"
  by (simp add: objkey_of_def)

lemma memClient_sel [simp]:
  "Get (memClient z) = memGet" "Create (memClient z) = memCreate" "Update (memClient z) = memUpdate"
  "Delete (memClient z) = memDelete" "StatusUpdate (memClient z) = memStatus"
  "StatusPatch (memClient z) x base = memStatus x" "client.truncate (memClient z) = memClient ()"
  by (simp_all add: memClient_def client.defs)

lemmas mem_defs = memGet_def memCreate_def memUpdate_def memDelete_def memStatus_def

lemma withStatus_Some:
  "withStatus x cur = Some y \<Longrightarrow> meta_of y = meta_of cur \<and> kind_of y = kind_of cur"
  by (induction x cur rule: withStatus.induct) auto

interpretation mem_server: api_server "memClient z" memLookup memAdmits for z
proof (unfold_locales, unfold memClient_sel memAdmits_def keeps_def, goal_cases)
  case 1 then show ?case by (blast dest: memLookup_Some)
next
  case 2 then show ?case by (blast dest: memLookup_Some)
next
  case 3 then show ?case by (auto simp: memGet_def split: option.splits)
next
  case 4 then show ?case by (auto simp: memGet_def split: option.splits if_splits)
next
  case 5
  then show ?case
    by (auto simp: memGet_def notFound_def noMatch_def memLookup_def split: option.splits if_splits)
next
  case 9 then show ?case by (auto simp: memCreate_def memLookup_memPut split: option.splits)
next
  case 10
  then show ?case
    by (auto simp: memCreate_def memLookup_memPut fun_eq_iff gone_def split: option.splits if_splits)
next
  case 11
  then show ?case by (auto simp: memCreate_def noMatch_def split: option.splits if_splits)
next
  case 12 then show ?case by (auto simp: memUpdate_def memLookup_memPut Let_def split: option.splits)
next
  case 13
  then show ?case
    by (auto simp: memUpdate_def memLookup_memPut fun_eq_iff Let_def dest: memLookup_Some
        split: option.splits if_splits)
next
  case 14 then show ?case by (auto simp: memDelete_def memLookup_memPut split: option.splits)
next
  case 15 then show ?case by (auto simp: memDelete_def memLookup_memPut split: option.splits)
next
  case 16
  then show ?case
    by (auto simp: memDelete_def memLookup_memPut notFound_def split: option.splits)
qed simp_all

lemma memStatus_lookup:
  assumes "memLookup w (objkey_of x) = Some cur" and "withStatus x cur = Some y"
  shows "memStatus x w = (Inr y, memPut (objkey_of x) (Some y) w)"
    and "memLookup (memPut (objkey_of x) (Some y) w) = (memLookup w)(objkey_of x \<mapsto> y)"
proof -
  show "memStatus x w = (Inr y, memPut (objkey_of x) (Some y) w)"
    using assms by (simp add: memStatus_def)
  from memLookup_Some [OF assms(1)] withStatus_Some [OF assms(2)]
  show "memLookup (memPut (objkey_of x) (Some y) w) = (memLookup w)(objkey_of x \<mapsto> y)"
    by (auto simp: fun_eq_iff memLookup_memPut objkey_of_def ObjectKeyFromObject_def gone_def)
qed

lemma memStatus_frame: "q \<noteq> objkey_of x \<Longrightarrow> memLookup (snd (memStatus x w)) q = memLookup w q"
  by (auto simp: memStatus_def memLookup_memPut split: option.splits)

lemma memStatus_ok:
  "memStatus x w = (Inr y, w') \<Longrightarrow>
   \<exists>cur. memLookup w (objkey_of x) = Some cur \<and> withStatus x cur = Some y \<and>
     memLookup w' = (memLookup w)(objkey_of x \<mapsto> y)"
  using memStatus_lookup(2) by (fastforce simp: memStatus_def split: option.splits)

lemma withStatus_cases:
  "withStatus (OHigressGateway g) cur = Some y \<Longrightarrow>
     \<exists>c. cur = OHigressGateway c \<and> y = OHigressGateway (c\<lparr>gw_Status := gw_Status g\<rparr>)"
  "withStatus (OHigressController h) cur = Some y \<Longrightarrow>
     \<exists>c. cur = OHigressController c \<and> y = OHigressController (c\<lparr>hc_Status := hc_Status h\<rparr>)"
  by (cases cur; simp)+

interpretation mem_status: status_server "memClient z" memLookup memAdmits memSame for z
proof (unfold_locales, unfold memClient_sel keeps_def, goal_cases)
  case (1 m m') show ?case by (simp add: memSame_def)
next
  case (2 q x base) then show ?case by (simp add: memStatus_frame)
next
  case (3 w g cur base)
  then have "withStatus (OHigressGateway g) (OHigressGateway cur) =
      Some (OHigressGateway (cur\<lparr>gw_Status := gw_Status g\<rparr>))" by simp
  from memStatus_lookup [OF 3 this] show ?case by (simp add: memSame_def)
next
  case (4 g b w y w')
  from memStatus_ok [OF 4] withStatus_cases(1) [of g] show ?case by (fastforce simp: memSame_def)
next
  case (5 q x) then show ?case by (simp add: memStatus_frame)
next
  case (6 h w y w')
  from memStatus_ok [OF 6] withStatus_cases(2) [of h] show ?case by (fastforce simp: memSame_def)
qed

section \<open>The libraries\<close>

text \<open>
  The libraries of the examples: the algorithms of \<open>Lib\<close>, the repository's own
  \<open>createOrUpdate\<close> in the place of \<open>controllerutil.CreateOrUpdate\<close>, and encoders that
  keep the part of their input the examples look at.
\<close>

definition memLib :: "memory lib" where
  "memLib = \<lparr>SetControllerReference = addOwner,
     ctrlCreateOrUpdate = createOrUpdate (=),
     ContainsFinalizer = hasFinalizer, AddFinalizer = addFinalizer, RemoveFinalizer = removeFinalizer,
     SetStatusCondition = setCondition ''now'',
     StatusDeepEqual = (=),
     MarshalNetworks = (\<lambda>m. case m of None \<Rightarrow> Inr ''{}'' | Some xs \<Rightarrow> Inr (concat (map fst xs))),
     MarshalStringMap = (\<lambda>m. Inr (concat (map snd m))),
     MarshalMeshConfig = (\<lambda>m. Inr (px_DiscoveryAddress (mesh_DefaultConfig m))),
     IsZero = (\<lambda>q. q = MustParse ''0'')\<rparr>"

lemma memLib_sel [simp]:
  "SetControllerReference memLib = addOwner" "ctrlCreateOrUpdate memLib = createOrUpdate (=)"
  "ContainsFinalizer memLib = hasFinalizer" "AddFinalizer memLib = addFinalizer"
  "RemoveFinalizer memLib = removeFinalizer" "SetStatusCondition memLib = setCondition ''now''"
  "StatusDeepEqual memLib = (=)"
  by (simp_all add: memLib_def)

lemma mem_upsert: "upsert (createOrUpdate (=) (memClient ())) memLookup memAdmits (=)"
  by (rule mem_server.cou.upsert_axioms)

lemma mem_served: "memLookup w (k, n) = Some x \<Longrightarrow> fst (memGet k n w) = Inr x"
  using memLookup_Some [of w "(k, n)" x] by (simp add: memGet_def)

section \<open>Files and resource definitions\<close>

definition memDefs :: "memory \<Rightarrow> string \<Rightarrow> CustomResourceDefinition option" where
  "memDefs w n = (case mem_Defs w n of None \<Rightarrow> None
    | Some d \<Rightarrow> if crdef_Name d = n then Some d else None)"

definition memPutDef :: "CustomResourceDefinition \<Rightarrow> memory \<Rightarrow> memory" where
  "memPutDef d w = w\<lparr>mem_Defs := (mem_Defs w)(crdef_Name d \<mapsto> d)\<rparr>"

definition memCRDs :: "memory crd_client" where
  "memCRDs = \<lparr>
     CRDGet = (\<lambda>n w. case memDefs w n of None \<Rightarrow> (Inl notFound, w) | Some d \<Rightarrow> (Inr d, w)),
     CRDCreate = (\<lambda>d w. (Inr d, memPutDef d w)),
     CRDUpdate = (\<lambda>d w. (Inr d, memPutDef d w))\<rparr>"

definition memOS :: "memory os_lib" where
  "memOS = \<lparr>
     ReadDir = (\<lambda>p w. (Inr (map fst (mem_Files w)), w)),
     OpenFile = (\<lambda>p w. case find (\<lambda>f. crdsPath @ ''/'' @ fst f = p) (mem_Files w) of
         None \<Rightarrow> (Inl (Error (OtherError ''no such file'')), w)
       | Some f \<Rightarrow> (Inr \<lparr>of_Path = p, of_Documents = snd f\<rparr>, w)),
     CloseFile = (\<lambda>f w. (Inr (), w))\<rparr>"

lemma memLookup_putDef [simp]: "memLookup (memPutDef d w) = memLookup w"
proof -
  have "registered (memPutDef d w) k = registered w k" for k
    by (cases k) (simp_all add: memPutDef_def)
  then show ?thesis by (intro ext) (simp add: memLookup_def memPutDef_def split: option.split)
qed

lemma memDefs_put [simp]: "memDefs (memPut q ob w) = memDefs w"
  by (simp add: fun_eq_iff memDefs_def memPut_def)

lemma memDefs_putDef: "memDefs (memPutDef d w) = (memDefs w)(crdef_Name d \<mapsto> d)"
  by (simp add: fun_eq_iff memDefs_def memPutDef_def)

lemma memDefs_Some: "memDefs w n = Some d \<Longrightarrow> crdef_Name d = n"
  by (auto simp: memDefs_def split: option.splits if_splits)

interpretation mem_crds: crd_server memCRDs memDefs "(=)"
  by unfold_locales
    (auto simp: memCRDs_def keeps_def memDefs_putDef dest: memDefs_Some split: option.splits)

interpretation mem_os: os_quiet memOS obs for obs :: "memory \<Rightarrow> 'v"
  by unfold_locales (auto simp: memOS_def keeps_def split: option.split)

lemma mem_ops_defs:
  "keeps memDefs (memGet k n)" "keeps memDefs (memCreate x)" "keeps memDefs (memUpdate x)"
  "keeps memDefs (memStatus x)"
  by (auto simp: keeps_def mem_defs Let_def split: option.split)

end
