(* ===== verification/GwMemory.thy ===== *)
theory GwMemory
  imports GwSteady Memory
begin

text \<open>
  The gateway reconciler over the executable cluster: the contract \<open>gateway_env\<close> holds of
  it, and concrete reconciles run on it.
\<close>

definition memEvent :: "kobj \<Rightarrow> string \<Rightarrow> string \<Rightarrow> string \<Rightarrow> memory \<Rightarrow> memory" where
  "memEvent x t reason message w = w\<lparr>mem_Events := mem_Events w @ [(t, reason)]\<rparr>"

definition memMapping :: "GroupVersionKind \<Rightarrow> (memory, unit) io" where
  "memMapping gvk w = (if mem_KEDA w then Inr () else Inl noMatch, w)"

definition memReconciler :: "memory gw_reconciler" where
  "memReconciler = memClient \<lparr>Recorder = Some memEvent, RESTMapper = Some memMapping\<rparr>"

lemma memLookup_events [simp]: "memLookup (w\<lparr>mem_Events := es\<rparr>) = memLookup w"
proof -
  have "registered (w\<lparr>mem_Events := es\<rparr>) k = registered w k" for k
    by (cases k) simp_all
  then show ?thesis by (intro ext) (simp add: memLookup_def split: option.split)
qed

lemma memReconciler_sel [simp]:
  "Get memReconciler = memGet" "client.truncate memReconciler = memClient ()"
  "Recorder memReconciler = Some memEvent" "RESTMapper memReconciler = Some memMapping"
  by (simp_all add: memReconciler_def memClient_def client.defs)

interpretation gw: gateway_env memReconciler memLib memLookup memAdmits memSame "(=)"
proof (intro gateway_env.intro owner_env.intro)
  show "status_server memReconciler memLookup memAdmits memSame"
    unfolding memReconciler_def by (rule mem_status.status_server_axioms)
  show "upsert (ctrlCreateOrUpdate memLib (client.truncate memReconciler)) memLookup memAdmits (=)"
    by (simp add: mem_upsert)
  show "status_conditions (SetStatusCondition memLib)"
    by (simp add: documented.status_conditions_axioms)
  show "controller_refs (SetControllerReference memLib)"
    by (simp add: owned.controller_refs_axioms)
  show "finalizer_utils (ContainsFinalizer memLib) (AddFinalizer memLib) (RemoveFinalizer memLib)"
    by (simp add: finalizing.finalizer_utils_axioms)
  show "gateway_env_axioms memReconciler memLib memLookup"
    by unfold_locales (auto simp: memEvent_def memMapping_def keeps_def)
qed

lemma memReads: "served_reads memReconciler memLookup"
  using mem_served by (auto simp: served_reads_def)

section \<open>A cluster with one gateway\<close>

definition demoCommon :: CRDCommonFields where
  "demoCommon = \<lparr>crd_Replicas = None, crd_SelectorLabels = None, crd_NodeSelector = None,
     crd_Affinity = None, crd_Toleration = [], crd_Service = None, crd_RBAC = None,
     crd_ServiceAccount = None, crd_AutoScaling = None, crd_PodSecurityContext = None,
     crd_EnableStatus = False, crd_EnableHigressIstio = False, crd_EnableIstioAPI = False,
     crd_IstioNamespace = '''', crd_Revision = '''', crd_Istiod = None, crd_MultiCluster = None,
     crd_Local = False, crd_JwtPolicy = ''''\<rparr>"

definition demoContainer :: ContainerCommonFields where
  "demoContainer = \<lparr>con_Name = '''', con_Annotations = None,
     con_Image = \<lparr>img_Repository = ''r'', img_Tag = ''t'', img_ImagePullPolicy = ''''\<rparr>,
     con_ImagePullSecrets = [], con_Env = None, con_ReadinessProbe = None, con_Ports = [],
     con_Resources = Some \<lparr>rr_Limits = None, rr_Requests = Some [(''cpu'', MustParse ''1'')]\<rparr>,
     con_SecurityContext = None, con_LogLevel = '''', con_LogAsJson = False\<rparr>"

definition demoMesh :: MeshConfig where
  "demoMesh = \<lparr>mesh_TrustDomain = '''', mesh_AccessLogEncoding = '''', mesh_AccessLogFile = '''',
     mesh_IngressControllerMode = '''', mesh_AccessLogFormat = '''', mesh_DnsRefreshRate = '''',
     mesh_EnableAutoMtls = False, mesh_EnablePrometheusMerge = False,
     mesh_ProtocolDetectionTimeout = '''', mesh_ConfigSources = [],
     mesh_DefaultConfig = \<lparr>px_DisableAlpnH2 = False, px_MeshId = '''', px_Tracing = None,
       px_DiscoveryAddress = '''', px_ProxyStatsMatcher = None\<rparr>,
     mesh_RootNamespace = ''''\<rparr>"

definition demoScaling :: "AutoScalingMode \<Rightarrow> AutoScaling" where
  "demoScaling mode = \<lparr>as_Mode = mode, as_Enable = True, as_MinReplicas = Some 1, as_MaxReplicas = 3,
     as_TargetCPUUtilizationPercentage = Some 80,
     as_KEDA = Some \<lparr>kc_PollingIntervalSeconds = None, kc_CooldownPeriodSeconds = None,
       kc_IdleReplicaCount = None,
       kc_Triggers = [\<lparr>kt_Type = ''cron'', kt_Metadata = None, kt_AuthenticationRef = None\<rparr>]\<rparr>\<rparr>"

definition demoGateway :: "string list \<Rightarrow> string option \<Rightarrow> AutoScaling option \<Rightarrow> HigressGateway" where
  "demoGateway finalizers deletion scaling =
     \<lparr>gw_Meta = zeroMeta\<lparr>om_Name := ''g'', om_Namespace := ''n'', om_Finalizers := finalizers,
        om_DeletionTimestamp := deletion, om_Generation := 1\<rparr>,
      gw_Spec = \<lparr>gws_Common = demoCommon\<lparr>crd_AutoScaling := scaling\<rparr>, gws_Container = demoContainer,
        gws_NetWorkGateway = '''', gws_Skywalking = None, gws_RollingMaxSurge = FromInt 1,
        gws_RollingMaxUnavailable = FromInt 0, gws_MeshConfig = demoMesh, gws_MeshNetworks = None,
        gws_VolumeWasmPlugins = [], gws_HostNetwork = False, gws_Scheduling = None\<rparr>,
      gw_Status = \<lparr>gst_Deployed = False, gst_ObservedGeneration = 0, gst_EffectiveScaleMode = '''',
        gst_Conditions = []\<rparr>\<rparr>"

definition demoNamespace :: "string \<Rightarrow> Namespace" where
  "demoNamespace phase = \<lparr>ns_Meta = zeroMeta\<lparr>om_Name := ''n''\<rparr>, ns_Phase = phase\<rparr>"

definition demoCluster :: "kobj list \<Rightarrow> bool \<Rightarrow> memory" where
  "demoCluster objs keda =
     \<lparr>mem_Store = map_of (map (\<lambda>x. (objkey_of x, x)) objs), mem_Events = [],
      mem_KEDA = keda, mem_Defs = (\<lambda>_. None), mem_Files = [], mem_Log = []\<rparr>"

text \<open>A live gateway that carries the finalizer, in an active namespace.\<close>

definition demoWorld :: "AutoScaling option \<Rightarrow> memory" where
  "demoWorld scaling = demoCluster
     [OHigressGateway (demoGateway [finalizer_gw] None scaling), ONamespace (demoNamespace '''')] False"

definition demoReconcile :: "(memory, unit) io" where
  "demoReconcile = Reconcile_gw memLib memReconciler (\<lambda>xs. xs) (\<lambda>xs. xs) (''n'', ''g'')"

lemma zeroMeta_simps [simp]:
  "om_Name zeroMeta = ''''" "om_Namespace zeroMeta = ''''" "om_Finalizers zeroMeta = []"
  "om_DeletionTimestamp zeroMeta = None" "om_Labels zeroMeta = None"
  by (simp_all add: zeroMeta_def)

lemma demoGateway_meta [simp]:
  "gw_Name (demoGateway fs d s) = ''g''" "gw_Namespace (demoGateway fs d s) = ''n''"
  "om_Finalizers (gw_Meta (demoGateway fs d s)) = fs"
  "om_DeletionTimestamp (gw_Meta (demoGateway fs d s)) = d"
  by (simp_all add: demoGateway_def)

lemma demoNamespace_simps [simp]:
  "objkey_of (ONamespace (demoNamespace p)) = (KNamespace, ('''', ''n''))"
  "ns_Phase (demoNamespace p) = p"
  "om_DeletionTimestamp (ns_Meta (demoNamespace p)) = None"
  by (simp_all add: demoNamespace_def objkey_of_def ObjectKeyFromObject_def nskey_of_meta_def)

lemma demo_lookup [simp]:
  "memLookup (demoWorld s) (KHigressGateway, (''n'', ''g'')) =
     Some (OHigressGateway (demoGateway [finalizer_gw] None s))"
  by (simp add: demoWorld_def demoCluster_def memLookup_def gone_def)

lemma demo_active [simp]: "active_namespace (memLookup (demoWorld s)) ''n''"
  by (simp add: active_namespace_def demoWorld_def demoCluster_def memLookup_def gone_def)

lemma demo_key [simp]: "gw_Meta (demoGateway fs d s) = zeroMeta\<lparr>om_Name := ''g'', om_Namespace := ''n'',
    om_Finalizers := fs, om_DeletionTimestamp := d, om_Generation := 1\<rparr>"
  by (simp add: demoGateway_def)

lemma run_ok: "fst m = Inr () \<Longrightarrow> \<exists>w'. m = (Inr (), w')"
  by (metis prod.collapse)

lemma demo_native_run:
  "\<exists>w'. demoReconcile (demoWorld (Some (demoScaling ''NativeHPA''))) = (Inr (), w')"
proof (rule run_ok)
  show "fst (demoReconcile (demoWorld (Some (demoScaling ''NativeHPA'')))) = Inr ()" by code_simp
qed

lemma demo_rejected_run: "\<exists>w'. demoReconcile (demoWorld (Some (demoScaling ''Bad''))) = (Inr (), w')"
proof (rule run_ok)
  show "fst (demoReconcile (demoWorld (Some (demoScaling ''Bad'')))) = Inr ()" by code_simp
qed

lemma demo_invalid:
  "validateAutoscalingConfig (IsZero memLib) (setDefaultValues_gw
     (demoGateway [finalizer_gw] None (Some (demoScaling ''Bad'')))) =
   Inr (Some \<lparr>ve_reason = ''UnsupportedAutoscalingMode'', ve_message =
     ''unsupported autoscaling mode '' @ [CHR 0x22] @ ''Bad'' @ [CHR 0x22]\<rparr>)"
  by code_simp

text \<open>A new gateway, without the finalizer, and one in a namespace of a given phase.\<close>

definition freshWorld :: memory where
  "freshWorld = demoCluster [OHigressGateway (demoGateway [] None None), ONamespace (demoNamespace '''')] False"

definition terminatingWorld :: memory where
  "terminatingWorld = demoCluster
     [OHigressGateway (demoGateway [finalizer_gw] None None), ONamespace (demoNamespace ''Terminating'')] False"

lemma terminating_inactive:
  "memLookup terminatingWorld (KHigressGateway, (''n'', ''g'')) =
     Some (OHigressGateway (demoGateway [finalizer_gw] None None))"
  "\<not> active_namespace (memLookup terminatingWorld) ''n''"
  by (simp_all add: terminatingWorld_def demoCluster_def memLookup_def gone_def active_namespace_def)

lemma fresh_lookup:
  "memLookup freshWorld (KHigressGateway, (''n'', ''g'')) = Some (OHigressGateway (demoGateway [] None None))"
  by (simp add: freshWorld_def demoCluster_def memLookup_def gone_def)

lemma fresh_writes:
  "Option.is_none (memLookup freshWorld (KDeployment, (''n'', ''g'')))"
  "\<not> Option.is_none (memLookup (snd (demoReconcile freshWorld)) (KDeployment, (''n'', ''g'')))"
  by code_simp+

text \<open>A gateway whose namespace is not there, and one with Skywalking enabled.\<close>

definition lostWorld :: memory where
  "lostWorld = demoCluster [OHigressGateway (demoGateway [finalizer_gw] None None)] False"

lemma lost_lookup:
  "memLookup lostWorld (KHigressGateway, (''n'', ''g'')) =
     Some (OHigressGateway (demoGateway [finalizer_gw] None None))"
  "memLookup lostWorld (KNamespace, ('''', ''n'')) = None"
  by (simp_all add: lostWorld_def demoCluster_def memLookup_def gone_def)

definition skywalkingGateway :: HigressGateway where
  "skywalkingGateway = (demoGateway [finalizer_gw] None None)\<lparr>gw_Spec :=
     (gw_Spec (demoGateway [finalizer_gw] None None))\<lparr>gws_Skywalking := Some
       \<lparr>sky_Enable = True, sky_Port = None, sky_Address = '''', sky_CustomBootStrap = ''{}''\<rparr>\<rparr>\<rparr>"

text \<open>Gateways with a given environment, or a service account of a given name.\<close>

definition envGateway :: "(string \<times> string) list \<Rightarrow> HigressGateway" where
  "envGateway env = (demoGateway [finalizer_gw] None None)\<lparr>gw_Spec :=
     (gw_Spec (demoGateway [finalizer_gw] None None))\<lparr>gws_Container := demoContainer\<lparr>con_Env := Some env\<rparr>\<rparr>\<rparr>"

definition accountGateway :: "string \<Rightarrow> HigressGateway" where
  "accountGateway name = gw_common_upd (\<lambda>c. c\<lparr>crd_ServiceAccount := Some
     \<lparr>sa_Enable = True, sa_Name = name, sa_Annotations = None\<rparr>\<rparr>) (demoGateway [finalizer_gw] None None)"

text \<open>A gateway marked for deletion, with or without the binding of its service account.\<close>

definition demoBinding :: ClusterRoleBinding where
  "demoBinding = \<lparr>crb_Meta = zeroMeta\<lparr>om_Name := ''higress-gateway''\<rparr>,
     crb_Subjects = [serviceAccountSubject ''higress-gateway'' ''n'', serviceAccountSubject ''other'' ''n''],
     crb_RoleRef = zeroRoleRef\<rparr>"

definition deletedWorld :: "bool \<Rightarrow> memory" where
  "deletedWorld bound = demoCluster
     (OHigressGateway (demoGateway [finalizer_gw] (Some ''t'') None)
      # (if bound then [OClusterRoleBinding demoBinding] else [])) False"

lemma deleted_lookup [simp]:
  "memLookup (deletedWorld b) (KHigressGateway, (''n'', ''g'')) =
     Some (OHigressGateway (demoGateway [finalizer_gw] (Some ''t'') None))"
  by (simp add: deletedWorld_def demoCluster_def memLookup_def gone_def)

lemma deleted_run: "\<exists>w'. demoReconcile (deletedWorld True) = (Inr (), w')"
proof (rule run_ok)
  show "fst (demoReconcile (deletedWorld True)) = Inr ()" by code_simp
qed

lemma deleted_account:
  "getServiceAccount_gw (setDefaultValues_gw (demoGateway fs d s)) = Inr ''higress-gateway''"
  by (simp add: getServiceAccount_gw_def setDefaultCommon_gw_fields demoGateway_def demoCommon_def)

section \<open>A cluster in its steady state\<close>

text \<open>The children are what building them from the defaulted resource gives; RBAC is off.\<close>

definition okR :: "'a res \<Rightarrow> 'a list" where
  "okR r = (case r of Inl e \<Rightarrow> [] | Inr x \<Rightarrow> [x])"

definition steadyGateway :: HigressGateway where
  "steadyGateway = gw_common_upd (\<lambda>c. c\<lparr>crd_RBAC := Some \<lparr>rbac_Enable = False\<rparr>\<rparr>)
     (demoGateway [finalizer_gw] None None)"

definition steadyWorld :: memory where
  "steadyWorld = (let g = setDefaultValues_gw steadyGateway in demoCluster
     ([OHigressGateway steadyGateway, ONamespace (demoNamespace ''''),
       ODeployment (initDeployment_gw (\<lambda>xs. xs) g)]
      @ map OServiceAccount (okR (initServiceAccount_gw g))
      @ map (OConfigMap \<circ> fst) (okR (initGatewayConfigMap memLib (setDiscoveryAddress g)))
      @ map (OService \<circ> fst) (okR (initService_gw g))) False)"

definition fixed_at :: "state \<Rightarrow> objkey \<Rightarrow> mutateFn \<Rightarrow> bool" where
  "fixed_at st q f = (case st q of None \<Rightarrow> False | Some x \<Rightarrow> f x = Inr x)"

lemma fixed_at_iff: "fixed_at st q f \<longleftrightarrow> fixed st q f"
  by (cases "st q") (auto simp: fixed_at_def fixed_def)

lemma steady_children:
  "fixed_at (memLookup steadyWorld) (KConfigMap, (''n'', HigressGatewayConfig))
     (muteConfigMap (setDiscoveryAddress (setDefaultValues_gw steadyGateway))
       (updateGatewayConfigMapSpec memLib))"
  "fixed_at (memLookup steadyWorld) (KDeployment, (''n'', ''g''))
     (muteDeployment_gw (\<lambda>xs. xs) (setDefaultValues_gw steadyGateway))"
  "fixed_at (memLookup steadyWorld) (KService, (''n'', HigressGatewayServiceName))
     (muteService_gw (setDefaultValues_gw steadyGateway))"
  by code_simp+

lemma steady_facts:
  "gw_Namespace steadyGateway = ''n''" "gw_Name steadyGateway = ''g''"
  "om_DeletionTimestamp (gw_Meta steadyGateway) = None"
  "om_Finalizers (gw_Meta steadyGateway) = [finalizer_gw]"
  "\<not> rbacEnabled_gw (setDefaultValues_gw steadyGateway)"
  "getEffectiveScaleMode steadyGateway = AutoScalingModeDisabled"
  "getServiceAccount_gw (setDefaultValues_gw steadyGateway) = Inr ''higress-gateway''"
  "validateAutoscalingConfig (IsZero memLib) (setDefaultValues_gw steadyGateway) = Inr None"
  by code_simp+

lemma steady_absent:
  "Option.is_none (memLookup steadyWorld (KHPA, (''n'', ''g'')))"
  "Option.is_none (memLookup steadyWorld (KUnstructured kedaScaledObjectGVK, (''n'', ''g'')))"
  "\<not> Option.is_none (memLookup steadyWorld (KServiceAccount, (''n'', ''higress-gateway'')))"
  by code_simp+

lemma steady_stored:
  "memLookup steadyWorld (KHigressGateway, (''n'', ''g'')) = Some (OHigressGateway steadyGateway)"
  by code_simp

lemma steady_demo:
  "steady memLib (\<lambda>xs. xs) (setDefaultValues_gw steadyGateway) (memLookup steadyWorld)"
  using steady_children steady_absent
  by (simp add: steady_def at_rest_def steady_facts fixed_at_iff Option.is_none_def)

lemma steady_run: "\<exists>w'. demoReconcile steadyWorld = (Inr (), w')"
proof (rule run_ok)
  show "fst (demoReconcile steadyWorld) = Inr ()" by code_simp
qed

end
