(* ===== verification/CtlMemory.thy ===== *)
theory CtlMemory
  imports CtlOutcome Memory
begin

text \<open>
  The controller reconciler over the executable cluster: the contract \<open>controller_env\<close>
  holds of it, and a concrete reconcile runs on it.
\<close>

definition memController :: "memory ctl_reconciler" where
  "memController = memClient \<lparr>OS = memOS, NewForConfig = Inr memCRDs, SpecDeepEqual = (=)\<rparr>"

lemma memController_sel [simp]:
  "Get memController = memGet" "Create memController = memCreate" "Update memController = memUpdate"
  "StatusUpdate memController = memStatus"
  "client.truncate memController = memClient ()" "OS memController = memOS"
  "SpecDeepEqual memController = (=)"
  "NewForConfig memController = Inr memCRDs"
  by (simp_all add: memController_def memClient_def client.defs)

lemma createOrUpdate_defs: "keeps memDefs (createOrUpdate (=) (memClient ()) x f)"
  unfolding createOrUpdate_def Let_def memClient_sel
  by (intro keeps_intro mem_ops_defs)

interpretation ctl: controller_env memController memLib memLookup memAdmits memSame "(=)"
  memCRDs memDefs "(=)"
proof (intro controller_env.intro owner_env.intro)
  show "status_server memController memLookup memAdmits memSame"
    unfolding memController_def by (rule mem_status.status_server_axioms)
  show "upsert (ctrlCreateOrUpdate memLib (client.truncate memController)) memLookup memAdmits (=)"
    by (simp add: mem_upsert)
  show "controller_refs (SetControllerReference memLib)"
    by (simp add: owned.controller_refs_axioms)
  show "finalizer_utils (ContainsFinalizer memLib) (AddFinalizer memLib) (RemoveFinalizer memLib)"
    by (simp add: finalizing.finalizer_utils_axioms)
  show "os_quiet (OS memController) memLookup" "os_quiet (OS memController) memDefs"
    by (simp_all add: mem_os.os_quiet_axioms)
  show "crd_server memCRDs memDefs (=)" by (rule mem_crds.crd_server_axioms)
  show "controller_env_axioms memController memLib memLookup memCRDs memDefs"
    by unfold_locales
      (simp_all add: mem_ops_defs createOrUpdate_defs, auto simp: memCRDs_def keeps_def split: option.split)
qed

lemma memControllerReads: "served_reads memController memLookup"
  using mem_served by (auto simp: served_reads_def)

section \<open>A cluster with one controller resource\<close>

definition emptyCommon :: CRDCommonFields where
  "emptyCommon = \<lparr>crd_Replicas = Some 1, crd_SelectorLabels = None, crd_NodeSelector = None,
     crd_Affinity = None, crd_Toleration = [], crd_Service = None, crd_RBAC = None,
     crd_ServiceAccount = None, crd_AutoScaling = None, crd_PodSecurityContext = None,
     crd_EnableStatus = True, crd_EnableHigressIstio = False, crd_EnableIstioAPI = False,
     crd_IstioNamespace = '''', crd_Revision = '''', crd_Istiod = None, crd_MultiCluster = None,
     crd_Local = False, crd_JwtPolicy = ''''\<rparr>"

definition emptyContainer :: ContainerCommonFields where
  "emptyContainer = \<lparr>con_Name = '''', con_Annotations = None,
     con_Image = \<lparr>img_Repository = ''r'', img_Tag = ''t'', img_ImagePullPolicy = ''''\<rparr>,
     con_ImagePullSecrets = [], con_Env = None, con_ReadinessProbe = None, con_Ports = [],
     con_Resources = None, con_SecurityContext = None, con_LogLevel = '''', con_LogAsJson = False\<rparr>"

definition demoController :: "string list \<Rightarrow> string option \<Rightarrow> HigressController" where
  "demoController finalizers deletion =
     \<lparr>hc_Meta = zeroMeta\<lparr>om_Name := ''c'', om_Namespace := ''n'', om_Finalizers := finalizers,
        om_DeletionTimestamp := deletion\<rparr>,
      hc_Spec = \<lparr>hcs_Common = emptyCommon,
        hcs_Controller = \<lparr>cs_Container = emptyContainer, cs_GatewayName = ''g'', cs_IngressClass = '''',
          cs_WatchNamespace = '''', cs_SDSTokenAud = ''''\<rparr>,
        hcs_Pilot = \<lparr>pl_Container = emptyContainer, pl_TraceSampling = '''',
          pl_JwksResolveExtraRootCA = '''', pl_Plugins = [], pl_KeepaliveMaxServerConnectionAge = '''',
          pl_ClusterDomain = '''', pl_OneNamespace = False,
          pl_EnableProtocolSniffingForOutbound = False, pl_EnableProtocolSniffingForInbound = False\<rparr>\<rparr>,
      hc_Status = \<lparr>hcst_Deployed = False\<rparr>\<rparr>"

definition demoDefinition :: CustomResourceDefinition where
  "demoDefinition = \<lparr>crdef_Meta = zeroMeta\<lparr>om_Name := ''d''\<rparr>, crdef_Spec = ''s'', crdef_rest = ''''\<rparr>"

definition controllerCluster :: "kobj list \<Rightarrow> memory" where
  "controllerCluster objs =
     \<lparr>mem_Store = map_of (map (\<lambda>x. (objkey_of x, x)) objs), mem_Events = [], mem_KEDA = False,
      mem_Defs = (\<lambda>_. None), mem_Files = [(''f'', [Inr demoDefinition])], mem_Log = []\<rparr>"

definition controllerRun :: "kobj list \<Rightarrow> unit res \<times> memory" where
  "controllerRun objs = Reconcile_ctl memLib memController ((\<lambda>xs. xs), (\<lambda>xs. xs))
     ((\<lambda>xs. xs), (\<lambda>xs. xs)) (''n'', ''c'') (controllerCluster objs)"

definition liveController :: "kobj list" where
  "liveController = [OHigressController (demoController [finalizer_ctl] None),
     ONamespace \<lparr>ns_Meta = zeroMeta\<lparr>om_Name := ''n''\<rparr>, ns_Phase = ''Active''\<rparr>]"

lemma live_run: "\<exists>w'. controllerRun liveController = (Inr (), w')"
proof -
  have "fst (controllerRun liveController) = Inr ()" by code_simp
  then show ?thesis by (metis prod.collapse)
qed

lemma demoController_meta [simp]:
  "hc_Name (demoController fs t) = ''c''" "hc_Namespace (demoController fs t) = ''n''"
  "om_Finalizers (hc_Meta (demoController fs t)) = fs"
  "om_DeletionTimestamp (hc_Meta (demoController fs t)) = t"
  by (simp_all add: demoController_def)

lemma live_lookup:
  "memLookup (controllerCluster liveController) (KHigressController, (''n'', ''c'')) =
     Some (OHigressController (demoController [finalizer_ctl] None))"
  by (simp add: liveController_def controllerCluster_def memLookup_def gone_def)

lemma live_active [simp]: "active_namespace (memLookup (controllerCluster liveController)) ''n''"
  by (simp add: active_namespace_def liveController_def controllerCluster_def memLookup_def gone_def
      objkey_of_def ObjectKeyFromObject_def nskey_of_meta_def zeroMeta_def)

text \<open>A resource marked for deletion whose RBAC is off.\<close>

definition deletedController :: "kobj list" where
  "deletedController = [OHigressController (hc_common_upd (\<lambda>c. c\<lparr>crd_RBAC := Some \<lparr>rbac_Enable = False\<rparr>\<rparr>)
     (demoController [finalizer_ctl] (Some ''t'')))]"

lemma deleted_controller_run: "\<exists>w'. controllerRun deletedController = (Inr (), w')"
proof -
  have "fst (controllerRun deletedController) = Inr ()" by code_simp
  then show ?thesis by (metis prod.collapse)
qed

lemma deleted_controller_lookup:
  "memLookup (controllerCluster deletedController) (KHigressController, (''n'', ''c'')) =
     Some (OHigressController (hc_common_upd (\<lambda>c. c\<lparr>crd_RBAC := Some \<lparr>rbac_Enable = False\<rparr>\<rparr>)
       (demoController [finalizer_ctl] (Some ''t''))))"
  by (simp add: deletedController_def controllerCluster_def memLookup_def gone_def)

lemma definitions_run: "\<exists>w'. createCRDs memController (controllerCluster []) = (Inr (), w')"
proof -
  have "fst (createCRDs memController (controllerCluster [])) = Inr ()" by code_simp
  then show ?thesis by (metis prod.collapse)
qed

lemma definitions_read: "fst (getCRDs memOS (controllerCluster [])) = Inr [demoDefinition]"
  by code_simp

text \<open>Variants of the resource: another image, the Istio mode.\<close>

definition upgraded :: "HigressController \<Rightarrow> HigressController" where
  "upgraded h = h\<lparr>hc_Spec := (hc_Spec h)\<lparr>hcs_Controller := (hcs_Controller (hc_Spec h))
     \<lparr>cs_Container := (hc_controller h)\<lparr>con_Image := (con_Image (hc_controller h))\<lparr>img_Tag := ''t2''\<rparr>\<rparr>\<rparr>\<rparr>\<rparr>"

definition withIstio :: "HigressController \<Rightarrow> HigressController" where
  "withIstio = hc_common_upd (\<lambda>c. c\<lparr>crd_EnableHigressIstio := True\<rparr>)"

definition emptyDeployment :: Deployment where
  "emptyDeployment = \<lparr>dep_Meta = zeroMeta, dep_Spec = zeroDeploymentSpec, dep_rest = []\<rparr>"

lemma demo_account_ctl:
  "getServiceAccount_ctl (setDefaultValues_ctl (demoController fs t)) = Inr ''higress-controller''"
  "getServiceAccount_ctl (upgraded (setDefaultValues_ctl (demoController fs t))) = Inr ''higress-controller''"
  "getServiceAccount_ctl (withIstio (setDefaultValues_ctl (demoController fs t))) = Inr ''higress-controller''"
  by (simp_all add: getServiceAccount_ctl_def upgraded_def withIstio_def setDefaultCommon_ctl_fields
      demoController_def emptyCommon_def)

lemma demo_deployment:
  "\<exists>d. initDeployment_ctl ord ord' (setDefaultValues_ctl (demoController fs t)) = Inr d"
  by (simp add: initDeployment_ctl_def updateDeploymentSpec_ctl_def demo_account_ctl Let_def)

lemma demo_mutation:
  "\<exists>y. muteDeployment_ctl ord ord' (setDefaultValues_ctl (demoController fs t)) (ODeployment d) = Inr y"
  by (simp add: muteDeployment_ctl_def updateDeploymentSpec_ctl_def demo_account_ctl Let_def)

lemma upgraded_mutation:
  "\<exists>d'. muteDeployment_ctl ord ord' (upgraded (setDefaultValues_ctl (demoController fs t))) (ODeployment d) =
     Inr (ODeployment d')"
  by (simp add: muteDeployment_ctl_def updateDeploymentSpec_ctl_def demo_account_ctl Let_def)

lemma istio_mutation:
  "\<exists>d'. muteDeployment_ctl ord ord' (withIstio (setDefaultValues_ctl (demoController fs t))) (ODeployment d) =
     Inr (ODeployment d')"
  by (simp add: muteDeployment_ctl_def updateDeploymentSpec_ctl_def demo_account_ctl Let_def)

lemma demo_istio [simp]:
  "\<not> crd_EnableHigressIstio (hc_common (demoController fs t))"
  by (simp add: demoController_def emptyCommon_def)

lemma demo_service [simp]: "crd_Service (hc_common (demoController fs t)) = None"
  by (simp add: demoController_def emptyCommon_def)

lemma upgraded_names [simp]:
  "genControllerName (upgraded h) = genControllerName h" "genPilotName (upgraded h) = genPilotName h"
  by (simp_all add: upgraded_def genControllerName_def genPilotName_def)

lemma demo_pilot:
  assumes "initDeployment_ctl ord ord' (setDefaultValues_ctl (demoController fs t)) = Inr d"
  shows "pilotContainer ord' (setDefaultValues_ctl (demoController fs t))
    \<in> set (ps_Containers (pt_Spec (ds_Template (dep_Spec d))))"
proof -
  let ?h = "setDefaultValues_ctl (demoController fs t)"
  have "genControllerName ?h \<noteq> genPilotName ?h"
    by (simp add: genControllerName_def genPilotName_def setDefaultValues_ctl_def hc_common_upd_def
        demoController_def emptyContainer_def HigressCoreName_def DiscoveryName_def)
  with initDeployment_ctl_containers [OF assms] show ?thesis by simp
qed

end
