(* ===== verification/SysMemory.thy ===== *)
theory SysMemory
  imports System GwMemory CtlMemory
begin

text \<open>Both reconcilers over the executable cluster: the contract \<open>operator_env\<close> holds of it.\<close>

interpretation op: operator_env memReconciler memController memLib memLookup memAdmits memSame
  "(=)" memCRDs memDefs "(=)"
  by (intro operator_env.intro gw.gateway_env_axioms ctl.controller_env_axioms)

text \<open>Other actors: someone empties the list of recorded events.\<close>

definition pruneEvents :: "memory \<Rightarrow> memory \<Rightarrow> bool" where
  "pruneEvents w w' \<longleftrightarrow> w' = w\<lparr>mem_Events := []\<rparr>"

lemma pruneEvents_lookup: "pruneEvents w w' \<Longrightarrow> memLookup w' = memLookup w"
  by (simp add: pruneEvents_def)

lemma reach_gateway:
  "reachable memLib memReconciler memController {(''n'', ''g'')} pruneEvents w
     ((snd (demoReconcile w))\<lparr>mem_Events := []\<rparr>)"
proof (rule reachable.step [OF reachable.step [OF reachable.start]])
  show "sys_step memLib memReconciler memController {(''n'', ''g'')} pruneEvents w (snd (demoReconcile w))"
    unfolding demoReconcile_def by (rule sys_step.gateway) simp
  show "sys_step memLib memReconciler memController {(''n'', ''g'')} pruneEvents (snd (demoReconcile w))
      ((snd (demoReconcile w))\<lparr>mem_Events := []\<rparr>)"
    by (rule sys_step.other) (simp add: pruneEvents_def)
qed

end
