(* ===== verification/GwProperties.thy ===== *)
theory GwProperties
  imports GwSteady GwMemory
begin

text \<open>
  The properties of the gateway reconciler, over any environment that satisfies the
  contract \<open>gateway_env\<close>; each is followed by a run on the executable cluster.
\<close>

section \<open>What a successful reconcile achieves\<close>

text \<open>C1: A reconcile of a live gateway in an active namespace that returns without error leaves
  the stored gateway with the finalizer and, up to its status, as it was found or as the server
  admitted it with defaults; and either every child is in sync with what the code builds
  from the gateway and the status reports it ready, or the autoscaling section is invalid,
  both autoscalers are gone, nothing else changed and the status reports the reason.\<close>
theorem gateway_reconcile_settles:
  assumes "gateway_env r L lookup admits same_but_rest semEq"
    and "Reconcile_gw L r ord ord' nn w = (Inr u, w')"
    and "lookup w (KHigressGateway, nn) = Some (OHigressGateway g0)"
    and "om_DeletionTimestamp (gw_Meta g0) = None"
    and "active_namespace (lookup w) (fst nn)" and "served_reads r lookup"
  shows "\<exists>g1 g'. adopted admits g0 g1 \<and> lookup w' (KHigressGateway, nn) = Some (OHigressGateway g') \<and>
    gw_Spec g' = gw_Spec g1 \<and> same_but_rest (gw_Meta g') (gw_Meta g1) \<and>
    finalizer_gw \<in> set (om_Finalizers (gw_Meta g')) \<and>
    (completed L admits semEq ord' g' (lookup w') \<or> rejected L g' (lookup w) (lookup w'))"
  by (rule gateway_env.Reconcile_live_ok [OF assms])

lemma gateway_reconcile_settles_demo:
  "\<exists>w' g'. demoReconcile (demoWorld (Some (demoScaling ''NativeHPA''))) = (Inr (), w') \<and>
    memLookup w' (KHigressGateway, (''n'', ''g'')) = Some (OHigressGateway g') \<and>
    gw_Spec g' = gw_Spec (demoGateway [finalizer_gw] None (Some (demoScaling ''NativeHPA''))) \<and>
    (completed memLib memAdmits (=) (\<lambda>xs. xs) g' (memLookup w') \<or>
     rejected memLib g' (memLookup (demoWorld (Some (demoScaling ''NativeHPA'')))) (memLookup w'))"
proof -
  obtain w' where run: "demoReconcile (demoWorld (Some (demoScaling ''NativeHPA''))) = (Inr (), w')"
    using demo_native_run by blast
  from gateway_reconcile_settles [OF gw.gateway_env_axioms run [unfolded demoReconcile_def] demo_lookup _ _ memReads]
  show ?thesis using run by (auto simp: adopted_def)
qed

text \<open>C6: After any such run at most one autoscaler is alive: the HorizontalPodAutoscaler or the
  KEDA ScaledObject of the gateway is gone or marked for deletion.\<close>
theorem single_autoscaler:
  assumes "gateway_env r L lookup admits same_but_rest semEq"
    and "Reconcile_gw L r ord ord' nn w = (Inr u, w')"
    and "lookup w (KHigressGateway, nn) = Some (OHigressGateway g0)"
    and "om_DeletionTimestamp (gw_Meta g0) = None"
    and "active_namespace (lookup w) (fst nn)" and "served_reads r lookup"
  shows "removed (lookup w' (KHPA, nn)) \<or> removed (lookup w' (KUnstructured kedaScaledObjectGVK, nn))"
  by (rule gateway_env.Reconcile_single_autoscaler [OF assms])

lemma single_autoscaler_demo:
  "\<exists>w'. demoReconcile (demoWorld (Some (demoScaling ''NativeHPA''))) = (Inr (), w') \<and>
    (removed (memLookup w' (KHPA, (''n'', ''g''))) \<or>
     removed (memLookup w' (KUnstructured kedaScaledObjectGVK, (''n'', ''g''))))"
proof -
  obtain w' where run: "demoReconcile (demoWorld (Some (demoScaling ''NativeHPA''))) = (Inr (), w')"
    using demo_native_run by blast
  from single_autoscaler [OF gw.gateway_env_axioms run [unfolded demoReconcile_def] demo_lookup _ _ memReads]
  show ?thesis using run by simp
qed

text \<open>Whatever the outcome of a reconcile, errors and panics included, nothing in the cluster
  changes outside the objects that belong to the gateway: its own kinds in its own namespace
  under their fixed names, the shared cluster role, and cluster role bindings.\<close>
theorem gateway_footprint:
  assumes "gateway_env r L lookup admits same_but_rest semEq" and "\<not> touches nn q"
  shows "lookup (snd (Reconcile_gw L r ord ord' nn w)) q = lookup w q"
  using gateway_env.Reconcile_frame [OF assms] by (simp add: keeps_def)

lemma gateway_footprint_demo:
  "memLookup (snd (demoReconcile (demoWorld (Some (demoScaling ''NativeHPA''))))) (KDeployment, (''n'', ''h'')) =
   memLookup (demoWorld (Some (demoScaling ''NativeHPA''))) (KDeployment, (''n'', ''h''))"
  unfolding demoReconcile_def
  by (rule gateway_footprint [OF gw.gateway_env_axioms]) simp

text \<open>C9: No child without the finalizer: whatever the outcome of the reconcile of a live gateway,
  either the stored gateway carries the finalizer afterwards or no other object changed.\<close>
theorem finalizer_guards_children:
  assumes "gateway_env r L lookup admits same_but_rest semEq"
    and "lookup w (KHigressGateway, nn) = Some (OHigressGateway g0)"
    and "om_DeletionTimestamp (gw_Meta g0) = None"
    and "Reconcile_gw L r ord ord' nn w = (res, w')"
    and "lookup w' q \<noteq> lookup w q" and "q \<noteq> (KHigressGateway, nn)"
  shows "guarded nn (lookup w')"
  using gateway_env.Reconcile_guarded [OF assms(1-4)] assms(5,6) by blast

lemma finalizer_guards_children_demo:
  "guarded (''n'', ''g'') (memLookup (snd (demoReconcile freshWorld)))"
proof (rule finalizer_guards_children [OF gw.gateway_env_axioms fresh_lookup])
  show "Reconcile_gw memLib memReconciler (\<lambda>xs. xs) (\<lambda>xs. xs) (''n'', ''g'') freshWorld =
      (fst (demoReconcile freshWorld), snd (demoReconcile freshWorld))"
    by (simp add: demoReconcile_def)
  show "memLookup (snd (demoReconcile freshWorld)) (KDeployment, (''n'', ''g'')) \<noteq>
      memLookup freshWorld (KDeployment, (''n'', ''g''))"
    using fresh_writes by (auto simp: Option.is_none_def)
qed simp_all

section \<open>Rejected configurations\<close>

text \<open>C24: A live gateway whose autoscaling section is invalid has no workload touched, whatever the
  outcome: besides the two autoscalers and the gateway itself no object changes.  The section is
  the one the reconcile goes on with: of the stored gateway when it carries the finalizer, and
  otherwise of every gateway the server may admit when the finalizer is added.\<close>
theorem invalid_config_touches_no_workload:
  assumes "gateway_env r L lookup admits same_but_rest semEq"
    and "lookup w (KHigressGateway, nn) = Some (OHigressGateway g0)"
    and "om_DeletionTimestamp (gw_Meta g0) = None"
    and "\<And>g1. adopted admits g0 g1 \<Longrightarrow>
      \<exists>ve. validateAutoscalingConfig (IsZero L) (setDefaultValues_gw g1) = Inr (Some ve)"
    and "q \<noteq> (KHPA, nn)" and "q \<noteq> (KUnstructured kedaScaledObjectGVK, nn)"
    and "q \<noteq> (KHigressGateway, nn)"
  shows "lookup (snd (Reconcile_gw L r ord ord' nn w)) q = lookup w q"
  by (rule gateway_env.Reconcile_invalid_frame [OF assms])

lemma invalid_config_touches_no_workload_demo:
  "memLookup (snd (demoReconcile (demoWorld (Some (demoScaling ''Bad''))))) (KDeployment, (''n'', ''g'')) =
   memLookup (demoWorld (Some (demoScaling ''Bad''))) (KDeployment, (''n'', ''g''))"
  unfolding demoReconcile_def
  by (rule invalid_config_touches_no_workload [OF gw.gateway_env_axioms demo_lookup])
    (use demo_invalid in \<open>auto simp: adopted_def\<close>)

text \<open>When the reconcile of an invalid gateway returns, both autoscalers are removed, the
  spec is untouched and the status reports: not deployed, this generation and mode, the
  configuration condition false with the reason of the validation error, and the other three
  conditions false, false and unknown with reason ConfigurationInvalid.\<close>
theorem invalid_config_reported:
  assumes "gateway_env r L lookup admits same_but_rest semEq"
    and "Reconcile_gw L r ord ord' nn w = (Inr u, w')"
    and "lookup w (KHigressGateway, nn) = Some (OHigressGateway g0)"
    and "om_DeletionTimestamp (gw_Meta g0) = None"
    and "finalizer_gw \<in> set (om_Finalizers (gw_Meta g0))"
    and "validateAutoscalingConfig (IsZero L) (setDefaultValues_gw g0) = Inr (Some ve)"
    and "active_namespace (lookup w) (fst nn)" and "served_reads r lookup"
  shows "removed (lookup w' (KHPA, nn)) \<and> removed (lookup w' (KUnstructured kedaScaledObjectGVK, nn)) \<and>
    (\<exists>g'. lookup w' (KHigressGateway, nn) = Some (OHigressGateway g') \<and> gw_Spec g' = gw_Spec g0 \<and>
       status_rejected (om_Generation (gw_Meta g0)) (getEffectiveScaleMode g0) (ve_reason ve) (gw_Status g'))"
  using gateway_env.Reconcile_invalid_ok [OF assms] by blast

lemma invalid_config_reported_demo:
  "\<exists>w' g'. demoReconcile (demoWorld (Some (demoScaling ''Bad''))) = (Inr (), w') \<and>
     memLookup w' (KHigressGateway, (''n'', ''g'')) = Some (OHigressGateway g') \<and>
     status_rejected 1 ''Bad'' ''UnsupportedAutoscalingMode'' (gw_Status g')"
proof -
  obtain w' where run: "demoReconcile (demoWorld (Some (demoScaling ''Bad''))) = (Inr (), w')"
    using demo_rejected_run by blast
  have "getEffectiveScaleMode (demoGateway [finalizer_gw] None (Some (demoScaling ''Bad''))) = ''Bad''"
    by code_simp
  with invalid_config_reported [OF gw.gateway_env_axioms run [unfolded demoReconcile_def] demo_lookup _ _
      demo_invalid _ memReads] run
  show ?thesis by auto
qed

section \<open>Runs that write nothing\<close>

text \<open>A reconcile changes nothing, whatever its outcome, when the gateway is absent, or live in
  a namespace that is absent or terminating, or marked for deletion without the finalizer.\<close>
theorem idle_reconcile_writes_nothing:
  assumes "gateway_env r L lookup admits same_but_rest semEq"
    and "lookup w (KHigressGateway, nn) = None \<or>
      (\<exists>g0. lookup w (KHigressGateway, nn) = Some (OHigressGateway g0) \<and>
         om_DeletionTimestamp (gw_Meta g0) = None \<and> \<not> active_namespace (lookup w) (fst nn)) \<or>
      (\<exists>g0. lookup w (KHigressGateway, nn) = Some (OHigressGateway g0) \<and>
         om_DeletionTimestamp (gw_Meta g0) \<noteq> None \<and>
         finalizer_gw \<notin> set (om_Finalizers (gw_Meta g0)))"
  shows "lookup (snd (Reconcile_gw L r ord ord' nn w)) = lookup w"
  by (rule gateway_env.Reconcile_idle [OF assms])

lemma idle_reconcile_writes_nothing_demo:
  "memLookup (snd (demoReconcile terminatingWorld)) = memLookup terminatingWorld"
  unfolding demoReconcile_def
  by (rule idle_reconcile_writes_nothing [OF gw.gateway_env_axioms]) (simp add: terminating_inactive)

text \<open>In the steady state, where every child is what its mutation makes of it and no other
  autoscaler is left, a reconcile that returns writes no object but the gateway's status.\<close>
theorem steady_reconcile_writes_no_child:
  assumes "gateway_env r L lookup admits same_but_rest semEq"
    and "\<And>x. semEq x x" and "served_reads r lookup"
    and "Reconcile_gw L r ord ord' nn w = (Inr u, w')"
    and "lookup w (KHigressGateway, nn) = Some (OHigressGateway g0)"
    and "om_DeletionTimestamp (gw_Meta g0) = None"
    and "finalizer_gw \<in> set (om_Finalizers (gw_Meta g0))"
    and "validateAutoscalingConfig (IsZero L) (setDefaultValues_gw g0) = Inr None"
    and "steady L ord' (setDefaultValues_gw g0) (lookup w)"
    and "q \<noteq> (KHigressGateway, nn)"
  shows "lookup w' q = lookup w q"
  by (rule gateway_env.Reconcile_steady [OF assms])

lemma steady_reconcile_writes_no_child_demo:
  "\<exists>w'. demoReconcile steadyWorld = (Inr (), w') \<and>
     memLookup w' (KDeployment, (''n'', ''g'')) = memLookup steadyWorld (KDeployment, (''n'', ''g''))"
proof -
  obtain w' where run: "demoReconcile steadyWorld = (Inr (), w')" using steady_run by blast
  have "memLookup w' (KDeployment, (''n'', ''g'')) = memLookup steadyWorld (KDeployment, (''n'', ''g''))"
    by (rule steady_reconcile_writes_no_child [OF gw.gateway_env_axioms refl memReads
          run [unfolded demoReconcile_def] steady_stored])
      (simp_all add: steady_facts steady_demo)
  with run show ?thesis by blast
qed

section \<open>Deletion\<close>

text \<open>C12: When the reconcile of a gateway marked for deletion returns, the cluster role binding of
  its service account has been stored without the subjects of that account in the gateway's
  namespace, and the gateway is gone or free of the operator's finalizer.\<close>
theorem deletion_releases_gateway:
  assumes "gateway_env r L lookup admits same_but_rest semEq"
    and "Reconcile_gw L r ord ord' nn w = (Inr u, w')"
    and "lookup w (KHigressGateway, nn) = Some (OHigressGateway g0)"
    and "om_DeletionTimestamp (gw_Meta g0) \<noteq> None"
    and "finalizer_gw \<in> set (om_Finalizers (gw_Meta g0))"
    and "getServiceAccount_gw (setDefaultValues_gw g0) = Inr name"
    and "served_reads r lookup"
  shows "(\<exists>crb y. lookup w (KClusterRoleBinding, ('''', name)) = Some (OClusterRoleBinding crb) \<and>
      admits (Some (OClusterRoleBinding crb)) (OClusterRoleBinding
        (crb\<lparr>crb_Subjects := dropSubjects name (fst nn) (crb_Subjects crb)\<rparr>)) y \<and>
      lookup w' (KClusterRoleBinding, ('''', name)) = Some y) \<and>
    (case lookup w' (KHigressGateway, nn) of None \<Rightarrow> True
      | Some x \<Rightarrow> finalizer_gw \<notin> set (om_Finalizers (meta_of x)))"
  using gateway_env.Reconcile_deletion_ok [OF assms] by (rule conjI)

lemma deletion_releases_gateway_demo:
  "\<exists>w' y. demoReconcile (deletedWorld True) = (Inr (), w') \<and>
     memLookup w' (KClusterRoleBinding, ('''', ''higress-gateway'')) = Some y \<and>
     (case memLookup w' (KHigressGateway, (''n'', ''g'')) of None \<Rightarrow> True
      | Some x \<Rightarrow> finalizer_gw \<notin> set (om_Finalizers (meta_of x)))"
proof -
  obtain w' where run: "demoReconcile (deletedWorld True) = (Inr (), w')" using deleted_run by blast
  from deletion_releases_gateway [OF gw.gateway_env_axioms run [unfolded demoReconcile_def] deleted_lookup
      _ _ deleted_account memReads] run
  show ?thesis by auto
qed

text \<open>C34: The finalizer reads the cluster role binding even when the gateway's RBAC is off: while
  there is no such binding every reconcile of the deleted gateway fails and writes nothing, so
  the gateway can never be released.\<close>
theorem deletion_stuck_without_binding:
  assumes "gateway_env r L lookup admits same_but_rest semEq"
    and "lookup w (KHigressGateway, nn) = Some (OHigressGateway g0)"
    and "om_DeletionTimestamp (gw_Meta g0) \<noteq> None"
    and "finalizer_gw \<in> set (om_Finalizers (gw_Meta g0))"
    and "\<And>name. getServiceAccount_gw (setDefaultValues_gw g0) = Inr name \<Longrightarrow>
      lookup w (KClusterRoleBinding, ('''', name)) = None"
    and "served_reads r lookup"
  shows "lookup (snd (Reconcile_gw L r ord ord' nn w)) = lookup w \<and>
    (\<exists>e. fst (Reconcile_gw L r ord ord' nn w) = Inl e)"
  using gateway_env.Reconcile_deletion_stuck [OF assms(1-5)] assms(6) by blast

lemma deletion_stuck_without_binding_demo:
  "memLookup (snd (demoReconcile (deletedWorld False))) = memLookup (deletedWorld False) \<and>
   (\<exists>e. fst (demoReconcile (deletedWorld False)) = Inl e)"
  unfolding demoReconcile_def
  by (rule deletion_stuck_without_binding [OF gw.gateway_env_axioms deleted_lookup _ _ _ memReads])
    (simp_all add: deleted_account deletedWorld_def demoCluster_def memLookup_def)

section \<open>Errors that are dropped\<close>

text \<open>C38: Any error of the read of the gateway's namespace, a failure of the API server included, is
  dropped: the reconcile returns without error, so it is not retried, and nothing is written.\<close>
theorem namespace_error_dropped:
  assumes "gateway_env r L lookup admits same_but_rest semEq"
    and "Get r KHigressGateway nn w = (Inr (OHigressGateway g0), w1)"
    and "om_DeletionTimestamp (gw_Meta g0) = None"
    and "Get r KNamespace ('''', fst nn) w1 = (Inl (Error e), w2)"
  shows "Reconcile_gw L r ord ord' nn w = (Inr (), w2) \<and> lookup w2 = lookup w"
  using gateway_env.Reconcile_namespace_error [OF assms] by blast

lemma namespace_error_dropped_demo:
  "demoReconcile lostWorld = (Inr (), lostWorld)"
proof -
  have "Get memReconciler KHigressGateway (''n'', ''g'') lostWorld =
      (Inr (OHigressGateway (demoGateway [finalizer_gw] None None)), lostWorld)"
    by (simp add: memGet_def lost_lookup)
  moreover have "Get memReconciler KNamespace ('''', fst (''n'', ''g'')) lostWorld =
      (Inl (Error (NotFound ''not found'')), lostWorld)"
    by (simp add: memGet_def lost_lookup notFound_def)
  ultimately show ?thesis
    unfolding demoReconcile_def
    by (intro conjunct1 [OF namespace_error_dropped [OF gw.gateway_env_axioms]]) auto
qed

section \<open>Unusable configurations\<close>

text \<open>C37: A gateway with Skywalking enabled is never deployed: building its bootstrap config map
  writes into a map that does not exist, so its deployment is never written and the reconcile of
  its children never returns without a fault.\<close>
theorem skywalking_never_deploys:
  assumes "gateway_env r L lookup admits same_but_rest semEq" and "skywalkingEnabled g"
  shows "lookup (snd (reconcileChildren L r ord ord' g mode w)) (KDeployment, nn) =
      lookup w (KDeployment, nn) \<and>
    (\<exists>e. fst (reconcileChildren L r ord ord' g mode w) = Inl e)"
  using gateway_env.skywalking_blocks [OF assms] by blast

lemma skywalking_never_deploys_demo:
  "\<exists>e. fst (reconcileChildren memLib memReconciler (\<lambda>xs. xs) (\<lambda>xs. xs) skywalkingGateway
     AutoScalingModeDisabled (demoWorld None)) = Inl e"
proof -
  have "skywalkingEnabled skywalkingGateway" by (simp add: skywalkingEnabled_def skywalkingGateway_def)
  from skywalking_never_deploys [OF gw.gateway_env_axioms this] show ?thesis by blast
qed

end
