(* ===== verification/GwObjects.thy ===== *)
theory GwObjects
  imports GwOutcome GwMemory
begin

text \<open>
  The properties of the objects the gateway reconciler builds and mutates: defaults,
  validation, deployment, service, config maps, autoscalers and role bindings.
\<close>

section \<open>Defaults and validation\<close>

text \<open>C32: Defaulting is idempotent, leaves metadata, status and the autoscaling section alone, and fills
  every pointer the children dereference: RBAC, service account, replicas, service and Skywalking
  are not nil and the selector is not empty.\<close>
theorem defaults_complete_and_idempotent:
  "setDefaultValues_gw (setDefaultValues_gw g) = setDefaultValues_gw g \<and>
   gw_Meta (setDefaultValues_gw g) = gw_Meta g \<and> gw_Status (setDefaultValues_gw g) = gw_Status g \<and>
   crd_AutoScaling (gw_common (setDefaultValues_gw g)) = crd_AutoScaling (gw_common g) \<and>
   (\<exists>rbac sa n svc sky. crd_RBAC (gw_common (setDefaultValues_gw g)) = Some rbac \<and>
      crd_ServiceAccount (gw_common (setDefaultValues_gw g)) = Some sa \<and>
      crd_Replicas (gw_common (setDefaultValues_gw g)) = Some n \<and>
      crd_Service (gw_common (setDefaultValues_gw g)) = Some svc \<and>
      gws_Skywalking (gw_Spec (setDefaultValues_gw g)) = Some sky) \<and>
   0 < mlen (crd_SelectorLabels (gw_common (setDefaultValues_gw g)))"
proof -
  have "setDefaultValues_gw (setDefaultValues_gw g) = setDefaultValues_gw g"
    by (rule setDefaultValues_gw_idem)
  then show ?thesis
    by (simp add: setDefaultCommon_gw_fields setDefaultValues_gw_skywalking defaultSelector_gw_def)
qed

text \<open>
  The autoscaling sections the operator accepts, read off the field descriptions of
  \<open>common.go\<close>: a mode it knows, bounds in order, and what the mode needs.
\<close>

definition acceptable :: "(quantity \<Rightarrow> bool) \<Rightarrow> HigressGateway \<Rightarrow> bool" where
  "acceptable isZero g \<longleftrightarrow>
     getEffectiveScaleMode g = AutoScalingModeDisabled \<or>
     (\<not> crd_Local (gw_common g) \<and>
      (\<exists>as. crd_AutoScaling (gw_common g) = Some as \<and>
        (\<forall>mn. as_MinReplicas as = Some mn \<longrightarrow> sint mn \<le> sint (as_MaxReplicas as)) \<and>
        (getEffectiveScaleMode g = AutoScalingModeNativeHPA \<and>
           as_TargetCPUUtilizationPercentage as \<noteq> None \<and>
           (\<exists>res reqs q. con_Resources (gw_container g) = Some res \<and> rr_Requests res = Some reqs \<and>
              map_of reqs ''cpu'' = Some q \<and> \<not> isZero q)
       \<or> getEffectiveScaleMode g = AutoScalingModeKEDA \<and>
           (\<exists>keda. as_KEDA as = Some keda \<and> kc_Triggers keda \<noteq> [] \<and>
              (\<forall>t \<in> set (kc_Triggers keda). kt_Type t \<noteq> '''')))))"

text \<open>C23: Validation never panics and accepts exactly the acceptable autoscaling sections.\<close>
theorem validation_characterised:
  "validateAutoscalingConfig isZero g \<noteq> Inl e \<and>
   (validateAutoscalingConfig isZero g = Inr None \<longleftrightarrow> acceptable isZero g)"
proof
  show "validateAutoscalingConfig isZero g \<noteq> Inl e" using validate_total [of isZero g] by auto
  show "validateAutoscalingConfig isZero g = Inr None \<longleftrightarrow> acceptable isZero g"
  proof (cases "getEffectiveScaleMode g = AutoScalingModeDisabled")
    case True
    then show ?thesis by (simp add: validateAutoscalingConfig_def acceptable_def)
  next
    case False
    then obtain as where as: "crd_AutoScaling (gw_common g) = Some as"
      using mode_not_disabled_Some by blast
    have mode: "validateMode isZero g as = None \<longleftrightarrow>
        getEffectiveScaleMode g = AutoScalingModeNativeHPA \<and>
           as_TargetCPUUtilizationPercentage as \<noteq> None \<and>
           (\<exists>res reqs q. con_Resources (gw_container g) = Some res \<and> rr_Requests res = Some reqs \<and>
              map_of reqs ''cpu'' = Some q \<and> \<not> isZero q)
       \<or> getEffectiveScaleMode g = AutoScalingModeKEDA \<and>
           (\<exists>keda. as_KEDA as = Some keda \<and> kc_Triggers keda \<noteq> [] \<and>
              (\<forall>t \<in> set (kc_Triggers keda). kt_Type t \<noteq> ''''))"
      by (auto simp: validateMode_def validateTriggers_None split: option.splits)
    show ?thesis using False as
      by (auto simp: validateAutoscalingConfig_def acceptable_def mode not_less split: option.splits)
  qed
qed

section \<open>Autoscalers\<close>

text \<open>An accepted native section yields a HorizontalPodAutoscaler for the gateway's deployment
  with ordered bounds and a CPU utilisation target, without a nil dereference.\<close>
theorem accepted_native_builds_hpa:
  assumes "validateAutoscalingConfig isZero g = Inr None"
    and "getEffectiveScaleMode g = AutoScalingModeNativeHPA"
  shows "\<exists>hpa u. initHPAv2 g = Inr hpa \<and> xr_Name (hs_ScaleTargetRef (hpa_Spec hpa)) = gw_Name g \<and>
    (case hs_MinReplicas (hpa_Spec hpa) of None \<Rightarrow> True
      | Some mn \<Rightarrow> sint mn \<le> sint (hs_MaxReplicas (hpa_Spec hpa))) \<and>
    map ms_Resource (hs_Metrics (hpa_Spec hpa)) = [Some \<lparr>rm_Name = ''cpu'',
      rm_Target = \<lparr>mt_Type = ''Utilization'', mt_Value = None, mt_AverageValue = None,
        mt_AverageUtilization = Some u\<rparr>\<rparr>]"
proof -
  obtain as where "crd_AutoScaling (gw_common g) = Some as"
    and "as_TargetCPUUtilizationPercentage as \<noteq> None"
    and "\<And>mn. as_MinReplicas as = Some mn \<Longrightarrow> sint mn \<le> sint (as_MaxReplicas as)"
    using validate_ok_native [OF assms] by metis
  then show ?thesis by (auto simp: initHPAv2_def updateHPAv2Spec_def split: option.split)
qed

lemma accepted_native_builds_hpa_demo:
  "\<exists>hpa. initHPAv2 (demoGateway [] None (Some (demoScaling ''NativeHPA''))) = Inr hpa \<and>
    (case hs_MinReplicas (hpa_Spec hpa) of None \<Rightarrow> True
      | Some mn \<Rightarrow> sint mn \<le> sint (hs_MaxReplicas (hpa_Spec hpa)))"
proof -
  have "validateAutoscalingConfig (IsZero memLib) (demoGateway [] None (Some (demoScaling ''NativeHPA''))) = Inr None"
    and "getEffectiveScaleMode (demoGateway [] None (Some (demoScaling ''NativeHPA''))) = AutoScalingModeNativeHPA"
    by code_simp+
  from accepted_native_builds_hpa [OF this] show ?thesis by blast
qed

text \<open>Converting a HorizontalPodAutoscaler to v2beta2 and back loses only what the converters never
  copy, the status and the fields of a metric other than its resource; a metric without a resource
  is a nil dereference, and no other failure occurs.\<close>
theorem hpa_v2beta2_roundtrip:
  "bindR (convertV2ToV2beta2 hpa) convertV2beta2ToV2 =
     (if resource_metrics hpa then Inr (strippedHPA hpa) else Inl (Panic NilDeref))"
  by (simp add: convertV2ToV2beta2_def convertV2beta2ToV2_def copyHPA_stripped)

text \<open>C30: The HPA that the operator writes for a gateway with a valid section in the mode NativeHPA, over
  whatever object is stored, survives the conversion to v2beta1, which has no target type, and
  back: metadata and spec are the same, only the status is not carried over.\<close>
theorem hpa_v2beta1_roundtrip:
  assumes "validateAutoscalingConfig isZero g = Inr None"
    and "getEffectiveScaleMode g = AutoScalingModeNativeHPA"
    and "muteHPA g x = Inr (OHPA hpa)"
  shows "bindR (convertV2ToV2beta1 hpa) convertV2beta1ToV2 = Inr (hpa\<lparr>hpa_rest := []\<rparr>)"
proof -
  have "b1_metrics hpa" and "strippedHPA hpa = hpa\<lparr>hpa_rest := []\<rparr>"
    using muteHPA_expressible [OF assms] by simp_all
  then show ?thesis by (simp add: hpaB1_roundtrip)
qed

lemma hpa_v2beta1_roundtrip_demo:
  "\<exists>hpa. initHPAv2 (demoGateway [] None (Some (demoScaling ''NativeHPA''))) = Inr hpa \<and>
    bindR (convertV2ToV2beta1 hpa) convertV2beta1ToV2 = Inr hpa"
proof -
  let ?g = "demoGateway [] None (Some (demoScaling ''NativeHPA''))"
  have valid: "validateAutoscalingConfig (IsZero memLib) ?g = Inr None"
    and mode: "getEffectiveScaleMode ?g = AutoScalingModeNativeHPA"
    by code_simp+
  obtain hpa where hpa: "initHPAv2 ?g = Inr hpa" and "hpa\<lparr>hpa_rest := []\<rparr> = hpa"
    and "muteHPA ?g (OHPA hpa) = Inr (OHPA hpa)"
    by (simp add: initHPAv2_def muteHPA_def updateHPAv2Spec_def demoGateway_def demoCommon_def demoScaling_def)
  with hpa_v2beta1_roundtrip [OF valid mode, of "OHPA hpa" hpa] show ?thesis by simp
qed

text \<open>C33: The ScaledObject carries the replica bounds of the section as 64-bit integers of the same
  value, the optional numbers exactly when they are set, and one trigger per trigger in order.\<close>
theorem scaled_object_values:
  "map_of (scaledObjectSpec as g) ''maxReplicaCount'' = Some (AInt64 (int64_of (as_MaxReplicas as))) \<and>
   map_of (scaledObjectSpec as g) ''minReplicaCount'' =
     map_option (\<lambda>n. AInt64 (int64_of n)) (as_MinReplicas as) \<and>
   map_of (scaledObjectSpec as g) ''pollingInterval'' =
     map_option (\<lambda>n. AInt64 (int64_of n)) (Option.bind (as_KEDA as) kc_PollingIntervalSeconds) \<and>
   map_of (scaledObjectSpec as g) ''cooldownPeriod'' =
     map_option (\<lambda>n. AInt64 (int64_of n)) (Option.bind (as_KEDA as) kc_CooldownPeriodSeconds) \<and>
   map_of (scaledObjectSpec as g) ''idleReplicaCount'' =
     map_option (\<lambda>n. AInt64 (int64_of n)) (Option.bind (as_KEDA as) kc_IdleReplicaCount) \<and>
   map_of (scaledObjectSpec as g) ''triggers'' =
     Some (ASlice (map_option (\<lambda>keda. kedaTriggers (kc_Triggers keda)) (as_KEDA as))) \<and>
   length (kedaTriggers ts) = length ts \<and> sint (int64_of n) = sint n"
  by (cases "as_KEDA as")
    (auto simp: scaledObjectSpec_def optionalField_def buildKEDATriggers_def split: option.split)

section \<open>The deployment\<close>

text \<open>C26: The gateway's pod is well formed for every gateway: every mount names a declared volume, and
  volumes, containers and mount paths are distinct.\<close>
theorem gateway_pod_wellformed: "pod_wellformed (gatewayPod ord g)"
  by (rule gatewayPod_wellformed)

text \<open>The labels that a selector requires.\<close>

definition selects :: "smap \<Rightarrow> smap \<Rightarrow> bool" where
  "selects sel labels \<longleftrightarrow> (\<forall>k v. mlookup sel k = Some v \<longrightarrow> mlookup labels k = Some v)"

text \<open>C25: The deployment selects the pods it creates: the pod template carries every label of the
  selector, whatever labels the scheduling section adds.\<close>
theorem deployment_selects_its_pods:
  assumes "mwf (crd_SelectorLabels (gw_common g))"
    and "muteDeployment_gw ord g x = Inr (ODeployment d)"
  shows "\<exists>sel. ds_Selector (dep_Spec d) = Some sel \<and>
    selects sel (om_Labels (pt_Meta (ds_Template (dep_Spec d))))"
  using assms(2) mlookup_buildPodTemplateLabels [OF assms(1)]
  by (auto simp: muteDeployment_gw_def selects_def split: kobj.splits)

lemma deployment_selects_its_pods_demo:
  "\<exists>d sel. muteDeployment_gw (\<lambda>xs. xs) (setDefaultValues_gw steadyGateway)
      (ODeployment (initDeployment_gw (\<lambda>xs. xs) (setDefaultValues_gw steadyGateway))) = Inr (ODeployment d) \<and>
    ds_Selector (dep_Spec d) = Some sel \<and>
    selects sel (om_Labels (pt_Meta (ds_Template (dep_Spec d))))"
proof -
  let ?g = "setDefaultValues_gw steadyGateway"
  have "mwf (crd_SelectorLabels (gw_common ?g))" by code_simp
  moreover obtain d where "muteDeployment_gw (\<lambda>xs. xs) ?g
      (ODeployment (initDeployment_gw (\<lambda>xs. xs) ?g)) = Inr (ODeployment d)"
    by (simp add: muteDeployment_gw_def)
  ultimately show ?thesis using deployment_selects_its_pods by blast
qed

text \<open>C28: Updating a deployment keeps its metadata and hands the replica count over to an active
  autoscaler: a count that is set is kept exactly when the mode is not Disabled, otherwise the
  count of the gateway is written.\<close>
theorem replicas_preserved_under_autoscaling:
  "\<exists>d'. muteDeployment_gw ord g (ODeployment d) = Inr (ODeployment d') \<and> dep_Meta d' = dep_Meta d \<and>
     ds_Replicas (dep_Spec d') =
       (if getEffectiveScaleMode g \<noteq> AutoScalingModeDisabled \<and> ds_Replicas (dep_Spec d) \<noteq> None
        then ds_Replicas (dep_Spec d) else crd_Replicas (gw_common g))"
  by (simp add: muteDeployment_gw_def shouldPreserveReplicas_def)

text \<open>C39: The order in which Go ranges over the environment map does not change which variables the
  container has but does change the deployment: with two different entries there is a deployment
  that one order leaves alone and another rewrites, so a reconcile without any change of the
  gateway can roll its pods.\<close>
theorem env_order_churn:
  assumes "rev (mentries (con_Env (gw_container g))) \<noteq> mentries (con_Env (gw_container g))"
  shows "\<exists>ord ord' x. range_order ord \<and> range_order ord' \<and>
    mset (genEnv ord g) = mset (genEnv ord' g) \<and>
    muteDeployment_gw ord g x = Inr x \<and> muteDeployment_gw ord' g x \<noteq> Inr x"
proof (intro exI conjI)
  let ?x = "ODeployment (initDeployment_gw (\<lambda>xs. xs) g)"
  show "range_order (\<lambda>xs. xs)" and "range_order rev" by (rule range_order_id, rule range_order_rev)
  then show "mset (genEnv (\<lambda>xs. xs) g) = mset (genEnv rev g)" by (rule genEnv_orders)
  show "muteDeployment_gw (\<lambda>xs. xs) g ?x = Inr ?x"
    by (simp add: muteDeployment_gw_def initDeployment_gw_def updateDeploymentSpec_gw_idem)
  show "muteDeployment_gw rev g ?x \<noteq> Inr ?x"
    using env_order_visible [OF assms] by (simp add: muteDeployment_gw_def)
qed

lemma env_order_churn_demo:
  "\<exists>ord ord' x. range_order ord \<and> range_order ord' \<and>
    muteDeployment_gw ord (envGateway [(''A'', ''1''), (''B'', ''2'')]) x = Inr x \<and>
    muteDeployment_gw ord' (envGateway [(''A'', ''1''), (''B'', ''2'')]) x \<noteq> Inr x"
  using env_order_churn [of "envGateway [(''A'', ''1''), (''B'', ''2'')]"]
  by (auto simp: envGateway_def)

text \<open>The mutation replaces the whole spec of the deployment, so what the API server defaulted in
  it is dropped: a stored deployment with defaulted fields is never a fixed point, and each
  reconcile submits an update of it.\<close>
theorem defaulted_deployment_never_fixed:
  assumes "ds_rest (dep_Spec d) \<noteq> []"
  shows "\<exists>y. muteDeployment_gw ord g (ODeployment d) = Inr y \<and> y \<noteq> ODeployment d"
proof -
  let ?d = "updateDeploymentSpec_gw ord d g (shouldPreserveReplicas g)"
  have "ds_rest (dep_Spec ?d) = []" by (simp add: updateDeploymentSpec_gw_def Let_def)
  with assms have "?d \<noteq> d" by metis
  then show ?thesis by (simp add: muteDeployment_gw_def)
qed

lemma defaulted_deployment_never_fixed_demo:
  "\<exists>d y. muteDeployment_gw (\<lambda>xs. xs) steadyGateway (ODeployment d) = Inr y \<and> y \<noteq> ODeployment d"
proof -
  let ?d = "(initDeployment_gw (\<lambda>xs. xs) steadyGateway)
    \<lparr>dep_Spec := zeroDeploymentSpec\<lparr>ds_rest := ''revisionHistoryLimit: 10''\<rparr>\<rparr>"
  have "ds_rest (dep_Spec ?d) \<noteq> []" by simp
  from defaulted_deployment_never_fixed [OF this] show ?thesis by blast
qed

text \<open>A service account section that is enabled without a name gives the account the name of the
  gateway but leaves the name empty in the pod, which then runs under another account.\<close>
theorem unnamed_service_account_mismatch:
  assumes "crd_ServiceAccount (gw_common g) = Some sa" and "sa_Enable sa" and "sa_Name sa = ''''"
  shows "\<exists>account. initServiceAccount_gw g = Inr account \<and> om_Name (sao_Meta account) = gw_Name g \<and>
    ps_ServiceAccountName (gatewayPod ord g) = ''''"
  using assms by (auto simp: initServiceAccount_gw_def getServiceAccount_gw_def gatewayPod_account)

lemma unnamed_service_account_mismatch_demo:
  "\<exists>account. initServiceAccount_gw (accountGateway '''') = Inr account \<and>
    om_Name (sao_Meta account) = ''g'' \<and>
    ps_ServiceAccountName (gatewayPod (\<lambda>xs. xs) (accountGateway '''')) = ''''"
  using unnamed_service_account_mismatch [of "accountGateway ''''"] by (simp add: accountGateway_def)

section \<open>Service and config maps\<close>

text \<open>Building the service of a network gateway panics, by a write into a nil map, exactly when the
  gateway has no labels; no other failure occurs.\<close>
theorem network_gateway_needs_labels:
  "(initService_gw g = Inl e \<longleftrightarrow>
      e = Panic NilMapWrite \<and> gws_NetWorkGateway (gw_Spec g) \<noteq> '''' \<and> gw_Labels g = None)"
  by (auto simp: initService_gw_def updateServiceSpec_gw_def Let_def massign_def
      split: option.splits)

text \<open>The service of a network gateway exposes exactly the four multi-network ports whatever the
  service section asks for, and carries the network label; any other gateway's exposes the ports
  of its section. Its selector is the gateway's, and mutating it again changes nothing.\<close>
theorem service_mutation:
  assumes "muteService_gw g (OService svc) = Inr (OService svc')"
    and "crd_Service (gw_common g) = Some s"
  shows "ss_Ports (svc_Spec svc') =
      (if gws_NetWorkGateway (gw_Spec g) = '''' then sv_Ports s else networkPorts) \<and>
    ss_Selector (svc_Spec svc') = crd_SelectorLabels (gw_common g) \<and>
    ss_Type (svc_Spec svc') = sv_Type s \<and>
    mlookup (om_Labels (svc_Meta svc')) ''topology.istio.io/network'' =
      (if gws_NetWorkGateway (gw_Spec g) = ''''
       then mlookup (om_Labels (svc_Meta svc)) ''topology.istio.io/network''
       else Some (gws_NetWorkGateway (gw_Spec g))) \<and>
    muteService_gw g (OService svc') = Inr (OService svc')"
proof -
  from assms(1) have up: "updateServiceSpec_gw svc g = Inr svc'"
    by (auto simp: muteService_gw_def ok_simps)
  from updateServiceSpec_gw_idem [OF up]
  have "muteService_gw g (OService svc') = Inr (OService svc')" by (simp add: muteService_gw_def)
  with up assms(2) show ?thesis
    by (cases "om_Labels (svc_Meta svc)")
      (auto simp: updateServiceSpec_gw_def Let_def update_conv' split: if_splits)
qed

lemma service_mutation_demo:
  "\<exists>svc svc'. muteService_gw (setDefaultValues_gw steadyGateway) (OService svc) = Inr (OService svc') \<and>
     ss_Ports (svc_Spec svc') = sv_Ports defaultService_gw"
proof -
  let ?g = "setDefaultValues_gw steadyGateway"
  obtain svc g' where "initService_gw ?g = Inr (svc, g')"
    by (simp add: initService_gw_def updateServiceSpec_gw_def steadyGateway_def demoGateway_def Let_def)
  have net: "gws_NetWorkGateway (gw_Spec ?g) = ''''"
    by (simp add: steadyGateway_def demoGateway_def)
  have svc: "crd_Service (gw_common ?g) = Some defaultService_gw"
    by (simp add: setDefaultCommon_gw_fields steadyGateway_def demoGateway_def demoCommon_def)
  obtain svc' where run: "muteService_gw ?g (OService svc) = Inr (OService svc')"
    using net by (auto simp: muteService_gw_def updateServiceSpec_gw_def Let_def)
  from service_mutation [OF run svc] net run show ?thesis by auto
qed

text \<open>The config map the cluster ends up with holds the mesh configuration with the discovery
  address of the control plane in the gateway's namespace, although the copy that building it
  marshals is taken before that address is set: the mutation marshals the updated instance.\<close>
theorem mesh_config_has_discovery_address:
  assumes "initGatewayConfigMap L g = Inr (cm, g1)"
    and "MarshalMeshConfig L (effectiveMeshConfig g1) = Inr bytes"
  shows "\<exists>cm'. muteConfigMap g1 (updateGatewayConfigMapSpec L) (OConfigMap cm) = Inr (OConfigMap cm') \<and>
    mlookup (cm_Data cm') ''mesh'' = Some bytes \<and>
    px_DiscoveryAddress (mesh_DefaultConfig (effectiveMeshConfig g1)) = discoveryAddress g \<and>
    px_DiscoveryAddress (mesh_DefaultConfig (effectiveMeshConfig g)) =
      px_DiscoveryAddress (mesh_DefaultConfig (gws_MeshConfig (gw_Spec g)))"
proof -
  have g1: "g1 = setDiscoveryAddress g" using initGatewayConfigMap_ok(2) [OF assms(1)] .
  have "\<exists>cm'. muteConfigMap g1 (updateGatewayConfigMapSpec L) (OConfigMap cm) = Inr (OConfigMap cm') \<and>
      mlookup (cm_Data cm') ''mesh'' = Some bytes"
    using assms(2) by (simp add: muteConfigMap_def updateGatewayConfigMapSpec_def Let_def update_conv')
  then show ?thesis by (auto simp: g1 setDiscoveryAddress_def)
qed

lemma mesh_config_has_discovery_address_demo:
  "\<exists>cm g1 cm'. initGatewayConfigMap memLib steadyGateway = Inr (cm, g1) \<and>
    muteConfigMap g1 (updateGatewayConfigMapSpec memLib) (OConfigMap cm) = Inr (OConfigMap cm') \<and>
    mlookup (cm_Data cm') ''mesh'' = Some ''higress-controller.n.svc:15012''"
proof -
  obtain cm g1 where init: "initGatewayConfigMap memLib steadyGateway = Inr (cm, g1)"
    by (auto simp: initGatewayConfigMap_def updateGatewayConfigMapSpec_def memLib_def Let_def)
  have g1: "g1 = setDiscoveryAddress steadyGateway" using initGatewayConfigMap_ok(2) [OF init] .
  have "MarshalMeshConfig memLib (effectiveMeshConfig (setDiscoveryAddress steadyGateway)) =
      Inr ''higress-controller.n.svc:15012''" by code_simp
  with mesh_config_has_discovery_address [OF init] init g1 show ?thesis by metis
qed

text \<open>A failure to marshal the mesh networks is dropped: the config map is updated all the same,
  without its meshNetworks entry, and the reconcile goes on.\<close>
theorem mesh_networks_error_dropped:
  assumes "MarshalNetworks L (gws_MeshNetworks (gw_Spec g)) = Inl err"
    and "MarshalMeshConfig L (effectiveMeshConfig g) = Inr bytes"
  shows "\<exists>cm'. muteConfigMap g (updateGatewayConfigMapSpec L) (OConfigMap cm) = Inr (OConfigMap cm') \<and>
    mlookup (cm_Data cm') ''meshNetworks'' = None \<and> mlookup (cm_Data cm') ''mesh'' = Some bytes"
  using assms by (simp add: muteConfigMap_def updateGatewayConfigMapSpec_def Let_def)

lemma mesh_networks_error_dropped_demo:
  "\<exists>cm'. muteConfigMap steadyGateway (updateGatewayConfigMapSpec
      (memLib\<lparr>MarshalNetworks := (\<lambda>m. Inl (OtherError ''yaml''))\<rparr>))
      (OConfigMap \<lparr>cm_Meta = zeroMeta, cm_Data = Some [(''meshNetworks'', ''old'')], cm_rest = []\<rparr>) =
      Inr (OConfigMap cm') \<and> mlookup (cm_Data cm') ''meshNetworks'' = None"
proof -
  let ?L = "memLib\<lparr>MarshalNetworks := (\<lambda>m. Inl (OtherError ''yaml''))\<rparr>"
  have "MarshalNetworks ?L (gws_MeshNetworks (gw_Spec steadyGateway)) = Inl (OtherError ''yaml'')" by simp
  moreover have "\<exists>b. MarshalMeshConfig ?L (effectiveMeshConfig steadyGateway) = Inr b"
    by (simp add: memLib_def)
  ultimately show ?thesis using mesh_networks_error_dropped by blast
qed

section \<open>Role binding and status\<close>



text \<open>C31: Each of the two status writers leaves the four conditions with the reported values at the
  observed generation, and never two conditions of one type.\<close>
theorem status_conditions_consistent:
  assumes "status_conditions (SetStatusCondition L)" and "distinct (map cond_Type (gst_Conditions s))"
  shows "status_rejected n m (ve_reason ve) (markConfigurationInvalid L s n m ve) \<and>
    distinct (map cond_Type (gst_Conditions (markConfigurationInvalid L s n m ve))) \<and>
    status_ready n m (a, ar) (d, dr)
      (setDependencyCondition L (setAutoscalingCondition L (markResourcesReady L s n m) n a ar am) n d dr dm) \<and>
    distinct (map cond_Type (gst_Conditions
      (setDependencyCondition L (setAutoscalingCondition L (markResourcesReady L s n m) n a ar am) n d dr dm)))"
  using assms markConfigurationInvalid_status [OF assms(1)] readyStatus_status [OF assms(1)]
  by (simp add: markConfigurationInvalid_def markResourcesReady_def setAutoscalingCondition_def
      setDependencyCondition_def addCondition_def Let_def status_conditions.set_distinct)

lemma status_conditions_consistent_demo:
  "status_rejected 3 ''KEDA'' ''MissingKEDAConfig'' (markConfigurationInvalid memLib
     \<lparr>gst_Deployed = True, gst_ObservedGeneration = 2, gst_EffectiveScaleMode = '''', gst_Conditions = []\<rparr>
     3 ''KEDA'' \<lparr>ve_reason = ''MissingKEDAConfig'', ve_message = ''''\<rparr>)"
proof -
  have "status_conditions (SetStatusCondition memLib)" by (simp add: documented.status_conditions_axioms)
  from status_conditions_consistent [OF this, of
      "\<lparr>gst_Deployed = True, gst_ObservedGeneration = 2, gst_EffectiveScaleMode = '''', gst_Conditions = []\<rparr>"
      3 "''KEDA''" "\<lparr>ve_reason = ''MissingKEDAConfig'', ve_message = ''''\<rparr>"]
  show ?thesis by simp
qed

end
