(* ===== verification/CtlProperties.thy ===== *)
theory CtlProperties
  imports CtlMemory
begin

text \<open>
  The properties of the controller reconciler and of the objects it builds, each followed
  by an application at a concrete input.
\<close>

section \<open>Reconcile\<close>

text \<open>C2: A reconcile of a live controller resource in an active namespace that returns without error
  leaves the resource with the finalizer and recorded as deployed, and its service account, role
  objects, deployment and service in sync with what the code builds from the stored resource with
  its defaults, where account and roles are enabled.\<close>
theorem controller_reconcile_settles:
  assumes "controller_env r L lookup admits same_but_rest semEq cli defs stores"
    and "Reconcile_ctl L r ords ords' nn w = (Inr u, w')"
    and "lookup w (KHigressController, nn) = Some (OHigressController h0)"
    and "om_DeletionTimestamp (hc_Meta h0) = None"
    and "active_namespace (lookup w) (fst nn)" and "served_reads r lookup"
  shows "\<exists>hs h h'. adopted_ctl admits h0 hs \<and>
    lookup w' (KHigressController, nn) = Some (OHigressController h') \<and>
    deployed_as h0 hs h h' \<and> controller_settled admits semEq ords' h (lookup w')"
  by (rule controller_env.Reconcile_ctl_live_ok [OF assms])

lemma controller_reconcile_settles_demo:
  "\<exists>w' h h'. controllerRun liveController = (Inr (), w') \<and>
    memLookup w' (KHigressController, (''n'', ''c'')) = Some (OHigressController h') \<and>
    hcst_Deployed (hc_Status h') \<and>
    controller_settled memAdmits (=) ((\<lambda>xs. xs), (\<lambda>xs. xs)) h (memLookup w')"
proof -
  obtain w' where run: "controllerRun liveController = (Inr (), w')" using live_run by blast
  from controller_reconcile_settles [OF ctl.controller_env_axioms run [unfolded controllerRun_def]
      live_lookup _ _ memControllerReads] run
  show ?thesis by (auto simp: deployed_as_def)
qed

text \<open>Whatever the outcome of a reconcile of the controller resource, nothing in the cluster
  changes outside its own kinds in its namespace under their names, the shared cluster role, and
  cluster role bindings.\<close>
theorem controller_footprint:
  assumes "controller_env r L lookup admits same_but_rest semEq cli defs stores"
    and "\<not> touches_ctl nn q"
  shows "lookup (snd (Reconcile_ctl L r ords ords' nn w)) q = lookup w q"
  using controller_env.Reconcile_ctl_frame [OF assms] by (simp add: keeps_def)

lemma controller_footprint_demo:
  "memLookup (snd (controllerRun objs)) (KHigressGateway, nn) =
   memLookup (controllerCluster objs) (KHigressGateway, nn)"
  unfolding controllerRun_def
  by (rule controller_footprint [OF ctl.controller_env_axioms]) simp

text \<open>C13: When the reconcile of a controller resource marked for deletion returns, the resource is gone
  or free of the operator's finalizer; and where RBAC is enabled its cluster role binding was
  stored without the subjects of its account. Unlike the gateway's, a resource without RBAC needs
  no binding to be released.\<close>
theorem controller_deletion_releases:
  assumes "controller_env r L lookup admits same_but_rest semEq cli defs stores"
    and "Reconcile_ctl L r ords ords' nn w = (Inr u, w')"
    and "lookup w (KHigressController, nn) = Some (OHigressController h0)"
    and "om_DeletionTimestamp (hc_Meta h0) \<noteq> None"
    and "finalizer_ctl \<in> set (om_Finalizers (hc_Meta h0))"
    and "served_reads r lookup"
  shows "(case lookup w' (KHigressController, nn) of None \<Rightarrow> True
      | Some x \<Rightarrow> finalizer_ctl \<notin> set (om_Finalizers (meta_of x))) \<and>
    (rbacEnabled_ctl (setDefaultValues_ctl h0) = Inr True \<longrightarrow>
     (\<forall>name. getServiceAccount_ctl (setDefaultValues_ctl h0) = Inr name \<longrightarrow>
      (\<exists>crb y. lookup w (KClusterRoleBinding, ('''', name)) = Some (OClusterRoleBinding crb) \<and>
        admits (Some (OClusterRoleBinding crb)) (OClusterRoleBinding
          (crb\<lparr>crb_Subjects := dropSubjects name (fst nn) (crb_Subjects crb)\<rparr>)) y \<and>
        lookup w' (KClusterRoleBinding, ('''', name)) = Some y)))"
  using controller_env.Reconcile_ctl_deletion_ok [OF assms] by blast

lemma controller_deletion_releases_demo:
  "\<exists>w'. controllerRun deletedController = (Inr (), w') \<and>
    (case memLookup w' (KHigressController, (''n'', ''c'')) of None \<Rightarrow> True
      | Some x \<Rightarrow> finalizer_ctl \<notin> set (om_Finalizers (meta_of x)))"
proof -
  obtain w' where run: "controllerRun deletedController = (Inr (), w')" using deleted_controller_run by blast
  from controller_deletion_releases [OF ctl.controller_env_axioms run [unfolded controllerRun_def]
      deleted_controller_lookup _ _ memControllerReads] run
  show ?thesis by auto
qed

section \<open>Resource definitions\<close>

text \<open>C17: When createCRDs returns, it has read every manifest file, and each definition they hold is
  installed with the spec of the manifest or what the server made of it, provided that no two of
  them share a name.\<close>
theorem definitions_installed:
  assumes "controller_env r L lookup admits same_but_rest semEq cli defs stores"
    and "createCRDs r w = (Inr u, w')"
  shows "\<exists>ds w1. getCRDs (OS r) w = (Inr ds, w1) \<and>
    (distinct (map crdef_Name ds) \<longrightarrow> (\<forall>d \<in> set ds. installed stores (SpecDeepEqual r) (defs w') d))"
  by (rule controller_env.createCRDs_ok [OF assms])

lemma definitions_installed_demo:
  "\<exists>w'. createCRDs memController (controllerCluster []) = (Inr (), w') \<and>
    installed (=) (=) (memDefs w') demoDefinition"
proof -
  obtain w' where run: "createCRDs memController (controllerCluster []) = (Inr (), w')"
    using definitions_run by blast
  from definitions_installed [OF ctl.controller_env_axioms run] definitions_read
  have "installed (=) (=) (memDefs w') demoDefinition" by auto
  with run show ?thesis by blast
qed

text \<open>A manifest that cannot be opened is reported as an invalid argument: the deferred close of
  the nil file replaces the error that names the manifest.\<close>
theorem open_error_masked:
  assumes "OpenFile os path w = (Inl (Error err), w')"
  shows "resolveManifest os path crds w = (Inl (Error ErrInvalid), w')"
  using assms by (simp add: resolveManifest_def deferClose_def closeFile_def ifErr_def)

lemma open_error_masked_demo:
  "resolveManifest memOS ''missing'' [] (controllerCluster []) =
     (Inl (Error ErrInvalid), controllerCluster [])"
proof (rule open_error_masked)
  show "OpenFile memOS ''missing'' (controllerCluster []) =
      (Inl (Error (OtherError ''no such file'')), controllerCluster [])"
    by (simp add: memOS_def controllerCluster_def crdsPath_def)
qed

section \<open>The deployment\<close>

text \<open>C27: The pod of a newly built controller deployment is well formed: every mount names a declared
  volume, and volumes, containers and mount paths are distinct.\<close>
theorem controller_pod_wellformed:
  assumes "initDeployment_ctl ord ord' h = Inr d"
  shows "pod_wellformed (pt_Spec (ds_Template (dep_Spec d)))"
  by (rule initDeployment_ctl_wellformed [OF assms])

lemma controller_pod_wellformed_demo:
  "\<exists>d. initDeployment_ctl (\<lambda>xs. xs) (\<lambda>xs. xs) (setDefaultValues_ctl (demoController [] None)) = Inr d \<and>
    pod_wellformed (pt_Spec (ds_Template (dep_Spec d)))"
proof -
  obtain d where "initDeployment_ctl (\<lambda>xs. xs) (\<lambda>xs. xs) (setDefaultValues_ctl (demoController [] None)) = Inr d"
    using demo_deployment by blast
  with controller_pod_wellformed show ?thesis by blast
qed

text \<open>Mutating a controller deployment twice is mutating it once, whatever the orders in which Go
  ranges over the two environment maps: an unchanged controller resource never rolls its pods.\<close>
theorem controller_deployment_stable:
  assumes "muteDeployment_ctl ord ord' h x = Inr y"
  shows "muteDeployment_ctl ord2 ord2' h y = Inr y"
  using assms by (auto simp: muteDeployment_ctl_def ok_simps dest: updateDeploymentSpec_ctl_idem split: kobj.splits)

lemma controller_deployment_stable_demo:
  "\<exists>y. muteDeployment_ctl (\<lambda>xs. xs) (\<lambda>xs. xs) (setDefaultValues_ctl (demoController [] None))
      (ODeployment emptyDeployment) = Inr y \<and>
    muteDeployment_ctl rev rev (setDefaultValues_ctl (demoController [] None)) y = Inr y"
proof -
  obtain y where "muteDeployment_ctl (\<lambda>xs. xs) (\<lambda>xs. xs) (setDefaultValues_ctl (demoController [] None))
      (ODeployment emptyDeployment) = Inr y"
    using demo_mutation by blast
  with controller_deployment_stable show ?thesis by blast
qed

text \<open>The price of that stability: a container that exists under its name is never updated, so a
  change of image, arguments or environment in the controller resource does not reach a deployment
  that has both containers.\<close>
theorem container_changes_ignored:
  assumes "muteDeployment_ctl ord ord' h (ODeployment d) = Inr (ODeployment d')"
    and "genControllerName h \<in> ct_Name ` set (ps_Containers (pt_Spec (ds_Template (dep_Spec d))))"
    and "genPilotName h \<in> ct_Name ` set (ps_Containers (pt_Spec (ds_Template (dep_Spec d))))"
  shows "ps_Containers (pt_Spec (ds_Template (dep_Spec d'))) =
    ps_Containers (pt_Spec (ds_Template (dep_Spec d)))"
  using assms
  by (auto simp: muteDeployment_ctl_def updateDeploymentSpec_ctl_def ok_simps Let_def
      updatePod_ctl_fields ensureContainer_same)

lemma container_changes_ignored_demo:
  "\<exists>d d'. initDeployment_ctl (\<lambda>xs. xs) (\<lambda>xs. xs) (setDefaultValues_ctl (demoController [] None)) = Inr d \<and>
    muteDeployment_ctl (\<lambda>xs. xs) (\<lambda>xs. xs) (upgraded (setDefaultValues_ctl (demoController [] None)))
      (ODeployment d) = Inr (ODeployment d') \<and>
    ps_Containers (pt_Spec (ds_Template (dep_Spec d'))) = ps_Containers (pt_Spec (ds_Template (dep_Spec d)))"
proof -
  let ?h = "setDefaultValues_ctl (demoController [] None)"
  obtain d where d: "initDeployment_ctl (\<lambda>xs. xs) (\<lambda>xs. xs) ?h = Inr d" using demo_deployment by blast
  obtain d' where d': "muteDeployment_ctl (\<lambda>xs. xs) (\<lambda>xs. xs) (upgraded ?h) (ODeployment d) = Inr (ODeployment d')"
    using upgraded_mutation by blast
  from initDeployment_ctl_names [OF d] container_changes_ignored [OF d'] d d'
  show ?thesis by (simp add: upgraded_names demo_istio)
qed

text \<open>C40: Enabling Higress's Istio mode on a deployed controller makes its pod invalid: the pilot
  container stays and mounts the volume config, which is no longer declared.\<close>
theorem istio_toggle_breaks_pod:
  assumes "pilotContainer ord h0 \<in> set (ps_Containers (pt_Spec (ds_Template (dep_Spec d))))"
    and "crd_EnableHigressIstio (hc_common h)"
    and "muteDeployment_ctl ord ord' h (ODeployment d) = Inr (ODeployment d')"
  shows "\<not> mounts_fit (pt_Spec (ds_Template (dep_Spec d')))"
  by (rule pilot_without_config [OF assms])

lemma istio_toggle_breaks_pod_demo:
  "\<exists>d d'. initDeployment_ctl (\<lambda>xs. xs) (\<lambda>xs. xs) (setDefaultValues_ctl (demoController [] None)) = Inr d \<and>
    muteDeployment_ctl (\<lambda>xs. xs) (\<lambda>xs. xs) (withIstio (setDefaultValues_ctl (demoController [] None)))
      (ODeployment d) = Inr (ODeployment d') \<and>
    \<not> mounts_fit (pt_Spec (ds_Template (dep_Spec d')))"
proof -
  let ?h = "setDefaultValues_ctl (demoController [] None)"
  obtain d where d: "initDeployment_ctl (\<lambda>xs. xs) (\<lambda>xs. xs) ?h = Inr d" using demo_deployment by blast
  obtain d' where d': "muteDeployment_ctl (\<lambda>xs. xs) (\<lambda>xs. xs) (withIstio ?h) (ODeployment d) = Inr (ODeployment d')"
    using istio_mutation by blast
  have "pilotContainer (\<lambda>xs. xs) ?h \<in> set (ps_Containers (pt_Spec (ds_Template (dep_Spec d))))"
    using demo_pilot [OF d] .
  moreover have "crd_EnableHigressIstio (hc_common (withIstio ?h))" by (simp add: withIstio_def)
  ultimately show ?thesis using istio_toggle_breaks_pod [OF _ _ d'] d d' by blast
qed

section \<open>The service\<close>

text \<open>Without Higress's Istio mode the controller service exposes every control plane port by name,
  the user's ports come first and are kept, no port name occurs twice that did not before, and
  mutating it again changes nothing.\<close>
theorem controller_service_ports:
  assumes "\<not> crd_EnableHigressIstio (hc_common h)"
    and "base = (case crd_Service (hc_common h) of None \<Rightarrow> ss_Ports (svc_Spec svc) | Some s \<Rightarrow> sv_Ports s)"
    and "distinct (map sp_Name base)"
  shows "sp_Name ` set controlPlanePorts \<subseteq> sp_Name ` set (ss_Ports (svc_Spec (updateServiceSpec_ctl svc h))) \<and>
    take (length base) (ss_Ports (svc_Spec (updateServiceSpec_ctl svc h))) = base \<and>
    distinct (map sp_Name (ss_Ports (svc_Spec (updateServiceSpec_ctl svc h)))) \<and>
    updateServiceSpec_ctl (updateServiceSpec_ctl svc h) h = updateServiceSpec_ctl svc h"
  using controller_ports [OF assms] updateServiceSpec_ctl_idem by blast

lemma controller_service_ports_demo:
  "distinct (map sp_Name (ss_Ports (svc_Spec (updateServiceSpec_ctl
     \<lparr>svc_Meta = zeroMeta, svc_Spec = zeroServiceSpec, svc_rest = []\<rparr> (demoController [] None)))))"
  using controller_service_ports [of "demoController [] None" "[]"
      "\<lparr>svc_Meta = zeroMeta, svc_Spec = zeroServiceSpec, svc_rest = []\<rparr>"]
  by (simp add: demo_istio demo_service zeroServiceSpec_def)

end
