(* ===== verification/Available.thy ===== *)
theory Available
  imports Owner
begin

text \<open>
  Total correctness: what a cluster in which no call fails adds to the contracts of
  \<open>Server\<close> and \<open>Owner\<close>, and how the steps of the two reconcilers return on it.  The laws
  ask for no more than the documented answers of a healthy server: a stored object is
  served, an absent one is reported as such, and a write whose precondition holds is done.
\<close>

section \<open>Actions that return\<close>

text \<open>From a world satisfying \<open>P\<close> the action returns without error in such a world.\<close>

definition runs :: "('w \<Rightarrow> bool) \<Rightarrow> ('w, 'a) io \<Rightarrow> bool" where
  "runs P m \<longleftrightarrow> (\<forall>w. P w \<longrightarrow> (\<exists>x w'. m w = (Inr x, w') \<and> P w'))"

named_theorems runs_intro "an action returns"

lemma runsI: "(\<And>w. P w \<Longrightarrow> \<exists>x w'. m w = (Inr x, w')) \<Longrightarrow> preserves P m \<Longrightarrow> runs P m"
  unfolding runs_def by (metis preservesD)

lemma runsD: "runs P m \<Longrightarrow> P w \<Longrightarrow> \<exists>x w'. m w = (Inr x, w') \<and> P w'"
  by (simp add: runs_def)

lemma runs_always:
  "runs (\<lambda>_. True) m \<Longrightarrow> \<exists>x w'. m w = (Inr x, w')"
  by (simp add: runs_def)

lemma runs_always_unit:
  "runs (\<lambda>_. True) m \<Longrightarrow> \<exists>w'. m w = (Inr (), w')"
  using runs_always [of m w] by simp

lemma bindM_liftR_Inr [simp]: "bindM (liftR (Inr x)) k = k x"
  by (simp add: fun_eq_iff bindM_def)

lemma runs_bindM:
  assumes "runs P m" and "\<And>w x w'. P w \<Longrightarrow> m w = (Inr x, w') \<Longrightarrow> runs P (k x)"
  shows "runs P (bindM m k)"
  unfolding runs_def
proof (intro allI impI)
  fix w assume w: "P w"
  from runsD [OF assms(1) w] obtain x w1 where m: "m w = (Inr x, w1)" and w1: "P w1" by blast
  from runsD [OF assms(2) [OF w m] w1] m
  show "\<exists>y w'. bindM m k w = (Inr y, w') \<and> P w'" by (auto simp: bindM_run)
qed

lemma runs_ret [runs_intro]: "runs P (ret x)"
  by (simp add: runs_def)

lemma runs_liftR: "t = Inr x \<Longrightarrow> runs P (k x) \<Longrightarrow> runs P (bindM (liftR t) k)"
  by (rule runs_bindM) (auto simp: runs_def)

lemma runs_if: "(b \<Longrightarrow> runs P m) \<Longrightarrow> (\<not> b \<Longrightarrow> runs P n) \<Longrightarrow> runs P (if b then m else n)"
  by simp

lemma preserves_always [simp]: "preserves (\<lambda>_. True) m"
  by (simp add: preserves_def)

lemma kind_cases:
  "kind_of x = KClusterRole \<Longrightarrow> \<exists>cr. x = OClusterRole cr"
  "kind_of x = KClusterRoleBinding \<Longrightarrow> \<exists>crb. x = OClusterRoleBinding crb"
  "kind_of x = KRole \<Longrightarrow> \<exists>ro. x = ORole ro"
  "kind_of x = KRoleBinding \<Longrightarrow> \<exists>rb. x = ORoleBinding rb"
  "kind_of x = KConfigMap \<Longrightarrow> \<exists>cm. x = OConfigMap cm"
  "kind_of x = KDeployment \<Longrightarrow> \<exists>d. x = ODeployment d"
  "kind_of x = KService \<Longrightarrow> \<exists>svc. x = OService svc"
  "kind_of x = KHPA \<Longrightarrow> \<exists>hpa. x = OHPA hpa"
  "kind_of x = KUnstructured gvk \<Longrightarrow> \<exists>obj. x = OUnstructured obj"
  by (cases x; simp)+

text \<open>A mutation does its work on an object and leaves its key alone.\<close>

definition mutates :: "mutateFn \<Rightarrow> kobj \<Rightarrow> bool" where
  "mutates f x \<longleftrightarrow> (\<exists>y. f x = Inr y \<and> objkey_of y = objkey_of x)"

lemma mutates_mutate:
  assumes "mutates f x" and "meta_stable f" and "ObjectKeyFromObject x = key"
  shows "\<exists>y. mutate f key x = Inr y \<and> objkey_of y = objkey_of x"
  using assms by (auto simp: mutates_def mutate_def objkey_of_def)

section \<open>A server that answers\<close>

locale available_server = api_server c lookup admits
  for c :: "('w, 'z) client_scheme" and lookup admits +
  fixes known :: "'w \<Rightarrow> kind \<Rightarrow> bool"
  assumes known_get: "keeps known (Get c k n)"
    and get_serves: "lookup w (k, n) = Some x \<Longrightarrow> \<exists>w'. Get c k n w = (Inr x, w')"
    and get_misses: "lookup w (k, n) = None \<Longrightarrow> \<exists>e w'. Get c k n w = (Inl (Error e), w') \<and>
      (is_NotFound e \<or> is_NoMatch e \<and> \<not> known w k)"
    and create_serves: "known w (kind_of x) \<Longrightarrow> lookup w (objkey_of x) = None \<Longrightarrow>
      \<exists>y w'. Create c x w = (Inr y, w')"
    and create_clashes: "lookup w (objkey_of x) \<noteq> None \<Longrightarrow>
      \<exists>e w'. Create c x w = (Inl (Error e), w') \<and> is_AlreadyExists e"
    and update_serves: "lookup w (objkey_of x) \<noteq> None \<Longrightarrow> \<exists>y w'. Update c x w = (Inr y, w')"
    and delete_serves: "lookup w (objkey_of x) \<noteq> None \<Longrightarrow> \<exists>w'. Delete c x w = (Inr (), w')"
begin

lemma served: "served_reads c lookup"
  unfolding served_reads_def using get_serves by (metis fst_conv)

text \<open>The repository's \<open>createOrUpdate\<close> returns whenever its mutation does.\<close>

lemma createOrUpdate_serves:
  assumes known: "known w (kind_of obj)" and f: "meta_stable f"
    and ok: "\<And>x. x = obj \<or> lookup w (objkey_of obj) = Some x \<Longrightarrow> mutates f x"
  shows "\<exists>ry w'. createOrUpdate semEq c obj f w = (Inr ry, w')"
proof (cases "lookup w (objkey_of obj)")
  case None
  then obtain e w1 where get: "Get c (kind_of obj) (ObjectKeyFromObject obj) w = (Inl (Error e), w1)"
    and e: "is_NotFound e" using get_misses [of w "kind_of obj" "ObjectKeyFromObject obj"] known by (auto simp: objkey_of_def)
  obtain y where y: "mutate f (ObjectKeyFromObject obj) obj = Inr y" and key: "objkey_of y = objkey_of obj"
    using mutates_mutate [OF ok f] by blast
  have "known w1 (kind_of y)"
    using keepsD [OF known_get get] known key by (simp add: objkey_of_def)
  moreover have "lookup w1 (objkey_of y) = None" using get_lookup [OF get] None key by simp
  ultimately obtain z w2 where "Create c y w1 = (Inr z, w2)" using create_serves by blast
  with get e y show ?thesis by (simp add: createOrUpdate_def Let_def ifErr_run bindM_run)
next
  case (Some old)
  then obtain w1 where get: "Get c (kind_of obj) (ObjectKeyFromObject obj) w = (Inr old, w1)"
    using get_serves [of w "kind_of obj" "ObjectKeyFromObject obj" old] by (auto simp: objkey_of_def)
  have old: "objkey_of old = objkey_of obj" using stored_key [OF Some] .
  then obtain y where y: "mutate f (ObjectKeyFromObject obj) old = Inr y" and key: "objkey_of y = objkey_of obj"
    using mutates_mutate [OF ok [of old] f, of "ObjectKeyFromObject obj"] Some by (auto simp: objkey_of_def)
  have "lookup w1 (objkey_of y) \<noteq> None" using get_lookup [OF get] Some key by simp
  then obtain z w2 where "Update c y w1 = (Inr z, w2)" using update_serves by blast
  with get y show ?thesis by (simp add: createOrUpdate_def Let_def ifErr_run bindM_run)
qed

lemma CreateIfNotExits_serves:
  assumes "known w (kind_of x)"
  shows "\<exists>b w'. CreateIfNotExits c x w = (Inr b, w')"
  using assms create_serves [of w x] create_clashes [of w x]
  by (cases "lookup w (objkey_of x)") (auto simp: CreateIfNotExits_def ifErr_run)

end

section \<open>An environment that answers\<close>

text \<open>
  \<open>ctrl.SetControllerReference\<close> accepts an object of the owner's namespace that has no owner yet, and
  \<open>controllerutil.CreateOrUpdate\<close> returns when its mutation does.
\<close>

locale available_env =
  owner_env r L lookup admits same_but_rest semEq +
  available_server r lookup admits known
  for r :: "('w, 'z) client_scheme" and L :: "'w lib"
    and lookup admits same_but_rest semEq known +
  assumes cou_serves: "known w (kind_of obj) \<Longrightarrow> meta_stable f \<Longrightarrow>
      (\<And>x. x = obj \<or> lookup w (objkey_of obj) = Some x \<Longrightarrow> mutates f x) \<Longrightarrow>
      \<exists>ry w'. ctrlCreateOrUpdate L (client.truncate r) obj f w = (Inr ry, w')"
    and setref_serves: "om_OwnerReferences (meta_of x) = [] \<Longrightarrow>
      om_Namespace (meta_of x) = om_Namespace (meta_of owner) \<Longrightarrow>
      \<exists>y. SetControllerReference L owner x = Inr y"
    and known_builtin: "(\<And>gvk. k \<noteq> KUnstructured gvk) \<Longrightarrow> known w k"
begin

lemma upsertObj_serves:
  assumes "known w (kind_of obj)" and "meta_stable f"
    and "\<And>x. x = obj \<or> lookup w (objkey_of obj) = Some x \<Longrightarrow> mutates f x"
  shows "\<exists>w'. upsertObj L r n obj f w = (Inr (), w')"
proof -
  obtain ry w' where "ctrlCreateOrUpdate L (client.truncate r) obj f w = (Inr ry, w')"
    using cou_serves [OF assms] by blast
  then show ?thesis by (simp add: upsertObj_def CreateOrUpdate_def bindM_run)
qed

lemma upsertObj_runs:
  assumes "\<And>gvk. kind_of obj \<noteq> KUnstructured gvk" and "meta_stable f"
    and "mutates f obj" and "\<And>w x. P w \<Longrightarrow> lookup w (objkey_of obj) = Some x \<Longrightarrow> mutates f x"
    and "preserves P (upsertObj L r n obj f)"
  shows "runs P (upsertObj L r n obj f)"
proof (rule runsI [OF _ assms(5)])
  fix w assume w: "P w"
  have "mutates f x" if "x = obj \<or> lookup w (objkey_of obj) = Some x" for x
    using that assms(3,4) w by auto
  from upsertObj_serves [OF known_builtin [OF assms(1)] assms(2) this]
  show "\<exists>x w'. upsertObj L r n obj f w = (Inr x, w')" by blast
qed

lemma upsert_runs_always:
  assumes "\<And>gvk. kind_of obj \<noteq> KUnstructured gvk" and "meta_stable f"
    and "\<And>z. kind_of z = kind_of obj \<Longrightarrow> mutates f z"
  shows "runs (\<lambda>_. True) (upsertObj L r n obj f)"
proof (rule upsertObj_runs [OF assms(1,2)])
  show "mutates f obj" by (rule assms(3)) simp
  show "mutates f x" if "lookup w (objkey_of obj) = Some x" for w x
    using stored_key [OF that] by (intro assms(3)) (simp add: objkey_of_def)
qed simp

text \<open>A child that is built, owned and then created or updated.\<close>

lemma owned_serves:
  assumes ini: "ini = Inr x" and refs: "om_OwnerReferences (meta_of (mk x)) = []"
    and ns: "om_Namespace (meta_of (mk x)) = om_Namespace (meta_of owner)"
    and known: "known w (kind_of (mk x))" and f: "meta_stable (f x)"
    and ok: "\<And>z. kind_of z = kind_of (mk x) \<Longrightarrow> mutates (f x) z"
  shows "\<exists>w'. bindM (liftR ini) (\<lambda>x. bindM (liftR (SetControllerReference L owner (mk x)))
    (\<lambda>obj. upsertObj L r n obj (f x))) w = (Inr (), w')"
proof -
  obtain obj where obj: "SetControllerReference L owner (mk x) = Inr obj"
    using setref_serves [OF refs ns] by blast
  have key: "objkey_of obj = objkey_of (mk x)" by (rule refs.setref_key [OF obj])
  then have kind: "kind_of obj = kind_of (mk x)" by (simp add: objkey_of_def)
  have "mutates (f x) z" if "z = obj \<or> lookup w (objkey_of obj) = Some z" for z
  proof (rule ok)
    from that stored_key [of w "objkey_of obj" z] kind
    show "kind_of z = kind_of (mk x)" by (auto simp: objkey_of_def)
  qed
  from upsertObj_serves [of w obj "f x", OF _ f this] known kind
  show ?thesis by (simp add: ini obj bindM_run)
qed

lemma owned_runs:
  assumes ini: "ini = Inr x" and refs: "om_OwnerReferences (meta_of (mk x)) = []"
    and ns: "om_Namespace (meta_of (mk x)) = om_Namespace (meta_of owner)"
    and builtin: "\<And>gvk. kind_of (mk x) \<noteq> KUnstructured gvk" and f: "meta_stable (f x)"
    and ok: "\<And>z. kind_of z = kind_of (mk x) \<Longrightarrow> mutates (f x) z"
    and "preserves P (bindM (liftR ini) (\<lambda>x. bindM (liftR (SetControllerReference L owner (mk x)))
      (\<lambda>obj. upsertObj L r n obj (f x))))"
  shows "runs P (bindM (liftR ini) (\<lambda>x. bindM (liftR (SetControllerReference L owner (mk x)))
      (\<lambda>obj. upsertObj L r n obj (f x))))"
proof (rule runsI [OF _ assms(7)])
  fix w assume "P w"
  show "\<exists>y w'. bindM (liftR ini) (\<lambda>x. bindM (liftR (SetControllerReference L owner (mk x)))
      (\<lambda>obj. upsertObj L r n obj (f x))) w = (Inr y, w')"
    using owned_serves [where mk = mk and f = f, OF ini refs ns known_builtin [OF builtin] f ok] by blast
qed

lemma namespaceActive_serves:
  "active_namespace (lookup w) ns \<Longrightarrow> \<exists>w'. namespaceActive r ns w = (Inr True, w') \<and> lookup w' = lookup w"
  by (rule namespaceActive_run [OF served])

lemma dropBindingSubject_serves:
  assumes "lookup w (KClusterRoleBinding, ('''', name)) = Some (OClusterRoleBinding crb)"
  shows "\<exists>w'. dropBindingSubject r name ns w = (Inr (), w')"
proof -
  let ?x = "OClusterRoleBinding (crb\<lparr>crb_Subjects := dropSubjects name ns (crb_Subjects crb)\<rparr>)"
  obtain w1 where get: "Get r KClusterRoleBinding ('''', name) w = (Inr (OClusterRoleBinding crb), w1)"
    using get_serves [OF assms] by blast
  have "objkey_of ?x = (KClusterRoleBinding, ('''', name))"
    using stored_key [OF assms] by (simp add: objkey_crb)
  then have "lookup w1 (objkey_of ?x) \<noteq> None" using get_lookup [OF get] assms by simp
  then obtain y w2 where "Update r ?x w1 = (Inr y, w2)" using update_serves by blast
  with get show ?thesis by (simp add: dropBindingSubject_def bindM_run asClusterRoleBinding_def)
qed

end

lemmas bindM_serves = bindM_run ifErr_run

end
