(* ===== verification/GwLive.thy ===== *)
theory GwLive
  imports GwReconcile Available
begin

text \<open>
  Total correctness of the gateway reconciler: on a cluster that answers, the reconcile of
  a gateway that can be deployed returns, and a deleted one is released.
\<close>

section \<open>Gateways that can be deployed\<close>

text \<open>
  The two settings that make the reconcile panic are excluded: Skywalking, and a network
  gateway where the gateway or its stored service has no label map.
\<close>

definition labelled :: "state \<Rightarrow> objkey \<Rightarrow> bool" where
  "labelled st q \<longleftrightarrow> (case st q of
      Some (OService svc) \<Rightarrow> om_Labels (svc_Meta svc) \<noteq> None | _ \<Rightarrow> True)"

definition deployable :: "state \<Rightarrow> HigressGateway \<Rightarrow> bool" where
  "deployable st g \<longleftrightarrow> \<not> skywalkingEnabled g \<and>
    (gws_NetWorkGateway (gw_Spec g) \<noteq> '''' \<longrightarrow>
       gw_Labels g \<noteq> None \<and> labelled st (KService, (gw_Namespace g, HigressGatewayServiceName)))"

lemma deployable_default [simp]: "deployable st (setDefaultValues_gw g) = deployable st g"
  by (cases "gws_Skywalking (gw_Spec g)")
    (simp_all add: deployable_def skywalkingEnabled_def setDefaultValues_gw_skywalking)

section \<open>The mutations do their work\<close>

lemma mutates_simps:
  "mutates (muteClusterRole_gw g) (OClusterRole cr)"
  "mutates (muteRole_gw g) (ORole ro)"
  "getServiceAccount_gw g = Inr n \<Longrightarrow> mutates (muteClusterRoleBinding_gw g) (OClusterRoleBinding crb)"
  "getServiceAccount_gw g = Inr n \<Longrightarrow> mutates (muteRoleBinding_gw g) (ORoleBinding rb)"
  "mutates (muteDeployment_gw ord g) (ODeployment d)"
  "crd_AutoScaling (gw_common g) = Some as \<Longrightarrow> mutates (muteHPA g) (OHPA hpa)"
  "crd_AutoScaling (gw_common g) = Some as \<Longrightarrow> mutates (muteScaledObject g) (OUnstructured obj)"
  "MarshalMeshConfig L (effectiveMeshConfig g) = Inr bytes \<Longrightarrow>
     mutates (muteConfigMap g (updateGatewayConfigMapSpec L)) (OConfigMap cm)"
  "(gws_NetWorkGateway (gw_Spec g) \<noteq> '''' \<Longrightarrow> om_Labels (svc_Meta svc) \<noteq> None) \<Longrightarrow>
     mutates (muteService_gw g) (OService svc)"
  by (auto simp: mutates_def objkey_of_def ObjectKeyFromObject_def nskey_of_meta_def
      muteClusterRole_gw_def muteRole_gw_def muteClusterRoleBinding_gw_def updateClusterRoleBinding_gw_def
      muteRoleBinding_gw_def updateRoleBinding_gw_def muteDeployment_gw_def muteHPA_def updateHPAv2Spec_def
      muteScaledObject_def updateScaledObjectSpec_def muteConfigMap_def updateGatewayConfigMapSpec_def
      muteService_gw_def updateServiceSpec_gw_def Let_def)

lemma updateServiceSpec_gw_owned:
  assumes "updateServiceSpec_gw svc g = Inr svc'"
  shows "om_OwnerReferences (svc_Meta svc') = om_OwnerReferences (svc_Meta svc) \<and>
    om_Namespace (svc_Meta svc') = om_Namespace (svc_Meta svc) \<and>
    (gws_NetWorkGateway (gw_Spec g) \<noteq> '''' \<longrightarrow> om_Labels (svc_Meta svc') \<noteq> None)"
  using assms by (cases "om_Labels (svc_Meta svc)") (auto simp: updateServiceSpec_gw_def Let_def split: if_splits)

lemma initService_gw_owned:
  assumes "initService_gw g = Inr (svc, g')"
  shows "om_OwnerReferences (svc_Meta svc) = []" and "om_Namespace (svc_Meta svc) = gw_Namespace g'"
    and "gws_NetWorkGateway (gw_Spec g) \<noteq> '''' \<Longrightarrow> om_Labels (svc_Meta svc) \<noteq> None"
  using assms by (auto simp: initService_gw_def ok_simps zeroMeta_def dest!: updateServiceSpec_gw_owned)

section \<open>The environment\<close>

text \<open>
  Beyond a server that answers: the REST mapper is configured, tells a kind that is
  served from one that is not, and the mesh configuration can be encoded.
\<close>

locale gateway_live =
  gateway_env r L lookup admits same_but_rest semEq +
  available_env r L lookup admits same_but_rest semEq known
  for r :: "('w, 'z) gw_reconciler_scheme" and L :: "'w lib"
    and lookup admits same_but_rest semEq known +
  assumes mapper: "\<exists>mapping. RESTMapper r = Some mapping \<and>
      ((\<exists>w'. mapping gvk w = (Inr (), w') \<and> known w' (KUnstructured gvk)) \<or>
       (\<exists>e w'. mapping gvk w = (Inl (Error e), w') \<and> is_NoMatch e))"
    and marshals: "\<exists>bytes. MarshalMeshConfig L m = Inr bytes"
    and patch_serves: "lookup w (gw_objkey g) = Some (OHigressGateway cur) \<Longrightarrow>
      \<exists>y w'. StatusPatch r (OHigressGateway g) base w = (Inr y, w')"
begin

lemma recordEvent_serves: "\<exists>w'. recordEvent r x t rs msg w = (Inr (), w')"
  by (simp add: recordEvent_def split: option.split)

lemma deleteIfExists_serves:
  "\<exists>e w'. deleteIfExists r k g reason msg w = (Inr (), w') \<or>
     deleteIfExists r k g reason msg w = (Inl (Error e), w') \<and> is_NoMatch e \<and> \<not> known w k"
proof (cases "lookup w (k, gw_key g)")
  case None
  from get_misses [OF this] obtain e w1 where get: "Get r k (gw_key g) w = (Inl (Error e), w1)"
    and e: "is_NotFound e \<or> is_NoMatch e \<and> \<not> known w k" by blast
  then show ?thesis by (cases e) (auto simp: deleteIfExists_def ifErr_run)
next
  case (Some x)
  from get_serves [OF this] obtain w1 where get: "Get r k (gw_key g) w = (Inr x, w1)" by blast
  have "lookup w1 (objkey_of x) \<noteq> None" using get_lookup [OF get] stored_key [OF Some] Some by simp
  then obtain w2 where "Delete r x w1 = (Inr (), w2)" using delete_serves by blast
  with get recordEvent_serves [of "OHigressGateway g" "''Normal''" reason msg w2] show ?thesis
    by (auto simp: deleteIfExists_def ifErr_run)
qed

lemma deleteNativeHPA_serves: "\<exists>w'. deleteNativeHPAIfExists r g w = (Inr (), w')"
  using deleteIfExists_serves [of KHPA g _ _ w] known_builtin [of KHPA w]
  unfolding deleteNativeHPAIfExists_def by fastforce

lemma deleteKEDA_serves: "\<exists>w'. ignoreNoMatch (deleteKEDAScaledObjectIfExists r g) w = (Inr (), w')"
  using deleteIfExists_serves [of "KUnstructured kedaScaledObjectGVK" g
      "''KEDAScaledObjectDeleted''" "''Deleted KEDA ScaledObject''" w]
  unfolding deleteKEDAScaledObjectIfExists_def by (auto simp: ignoreNoMatch_def ifErr_run)

lemma deletes_run [runs_intro]:
  "runs (\<lambda>_. True) (deleteNativeHPAIfExists r g)"
  "runs (\<lambda>_. True) (ignoreNoMatch (deleteKEDAScaledObjectIfExists r g))"
  using deleteNativeHPA_serves deleteKEDA_serves by (auto intro!: runsI)

section \<open>The children\<close>

lemma createServiceAccount_serves:
  assumes "crd_ServiceAccount (gw_common g) = Some sa"
  shows "\<exists>w'. createServiceAccount_gw L r g w = (Inr (), w')"
proof -
  obtain x where x: "initServiceAccount_gw g = Inr x" and refs: "om_OwnerReferences (sao_Meta x) = []"
    and ns: "om_Namespace (sao_Meta x) = gw_Namespace g"
    using getServiceAccount_gw_Some [OF assms] assms
    by (simp add: initServiceAccount_gw_def zeroMeta_def)
  obtain obj where obj: "SetControllerReference L (OHigressGateway g) (OServiceAccount x) = Inr obj"
    using setref_serves [of "OServiceAccount x" "OHigressGateway g"] refs ns by auto
  have "kind_of obj = KServiceAccount" using refs.setref_key [OF obj] by (simp add: objkey_of_def)
  then have "known w (kind_of obj)" by (simp add: known_builtin)
  then obtain b w' where "CreateIfNotExits r obj w = (Inr b, w')" using CreateIfNotExits_serves by blast
  with x obj show ?thesis by (simp add: createServiceAccount_gw_def bindM_run)
qed

lemma createRBAC_serves:
  assumes "crd_ServiceAccount (gw_common g) = Some sa" and "crd_RBAC (gw_common g) = Some rb"
  shows "\<exists>w'. createRBAC_gw L r g w = (Inr (), w')"
proof -
  obtain n where n: "getServiceAccount_gw g = Inr n"
    using getServiceAccount_gw_Some [OF assms(1)] by blast
  obtain crb where crb: "initClusterRoleBinding_gw g = Inr crb"
    by (simp add: initClusterRoleBinding_gw_def updateClusterRoleBinding_gw_def n)
  obtain b where b: "initRoleBinding_gw g = Inr b" by (simp add: initRoleBinding_gw_def n)
  have mute: "kind_of z = KClusterRole \<Longrightarrow> mutates (muteClusterRole_gw g) z"
    "kind_of z = KClusterRoleBinding \<Longrightarrow> mutates (muteClusterRoleBinding_gw g) z"
    "kind_of z = KRole \<Longrightarrow> mutates (muteRole_gw g) z"
    "kind_of z = KRoleBinding \<Longrightarrow> mutates (muteRoleBinding_gw g) z" for z
    using n by (auto simp: mutates_simps dest!: kind_cases)
  have "runs (\<lambda>_. True) (createRBAC_gw L r g)"
    unfolding createRBAC_gw_def assms deref_simps bindM_liftR_Inr crb b
    by (intro runs_if runs_intro runs_bindM upsert_runs_always meta_stable_rbac_gw mute) simp_all
  then show ?thesis by (rule runs_always_unit)
qed

lemma createConfigMap_serves:
  assumes "\<not> skywalkingEnabled g" and "gws_Skywalking (gw_Spec g) = Some sky"
  shows "\<exists>w'. createConfigMap_gw L r g w = (Inr (setDiscoveryAddress g), w')"
proof -
  obtain bytes where "MarshalMeshConfig L (effectiveMeshConfig g) = Inr bytes" using marshals by blast
  then obtain cm where cm: "initGatewayConfigMap L g = Inr (cm, setDiscoveryAddress g)"
    by (simp add: initGatewayConfigMap_def updateGatewayConfigMapSpec_def Let_def)
  have f: "mutates (muteConfigMap (setDiscoveryAddress g) (updateGatewayConfigMapSpec L)) z"
    if "kind_of z = KConfigMap" for z
  proof -
    obtain bytes' where "MarshalMeshConfig L (effectiveMeshConfig (setDiscoveryAddress g)) = Inr bytes'"
      using marshals by blast
    with kind_cases(5) [OF that] show ?thesis by (auto intro: mutates_simps)
  qed
  have "runs (\<lambda>_. True) (upsertObj L r ''gatewayConfigMap'' (OConfigMap cm)
      (muteConfigMap (setDiscoveryAddress g) (updateGatewayConfigMapSpec L)))"
    by (rule upsert_runs_always) (use f in auto)
  from runs_always_unit [OF this] obtain w' where "upsertObj L r ''gatewayConfigMap'' (OConfigMap cm)
      (muteConfigMap (setDiscoveryAddress g) (updateGatewayConfigMapSpec L)) w = (Inr (), w')" ..
  moreover have "\<not> sky_Enable sky" using assms by (simp add: skywalkingEnabled_def)
  ultimately show ?thesis by (simp add: createConfigMap_gw_def bindM_run cm assms(2))
qed

lemma createDeployment_serves: "\<exists>w'. createDeployment_gw L r ord ord' g w = (Inr (), w')"
proof -
  have "runs (\<lambda>_. True) (createDeployment_gw L r ord ord' g)"
    unfolding createDeployment_gw_def
    by (rule owned_runs [OF refl])
      (auto simp: initDeployment_gw_def zeroMeta_def mutates_simps dest!: kind_cases)
  then show ?thesis by (rule runs_always_unit)
qed

lemma reconcileNativeHPA_serves:
  assumes as: "crd_AutoScaling (gw_common g) = Some as"
  shows "\<exists>w'. reconcileNativeHPA L r g w = (Inr (), w')"
proof -
  obtain hpa where hpa: "initHPAv2 g = Inr hpa" and meta: "hpa_Meta hpa =
      zeroMeta\<lparr>om_Name := gw_Name g, om_Namespace := gw_Namespace g,
        om_Labels := gw_Labels g, om_Annotations := gw_Annotations g\<rparr>"
    using as by (simp add: initHPAv2_def updateHPAv2Spec_def)
  have "runs (\<lambda>_. True) (reconcileNativeHPA L r g)"
    unfolding reconcileNativeHPA_def
    by (rule owned_runs [OF hpa])
      (auto simp: meta zeroMeta_def mutates_simps(6) [OF as] dest!: kind_cases(8))
  then show ?thesis by (rule runs_always_unit)
qed

lemma reconcileKEDA_serves:
  assumes as: "crd_AutoScaling (gw_common g) = Some as" and known: "known w (KUnstructured kedaScaledObjectGVK)"
  shows "\<exists>w'. reconcileKEDAScaledObject L r g w = (Inr (), w')"
proof -
  obtain obj where obj: "buildScaledObject g = Inr obj" and gvk: "un_GVK obj = kedaScaledObjectGVK"
    and meta: "un_Meta obj = zeroMeta\<lparr>om_Name := gw_Name g, om_Namespace := gw_Namespace g,
        om_Labels := gw_Labels g, om_Annotations := gw_Annotations g\<rparr>"
    using as by (simp add: buildScaledObject_def updateScaledObjectSpec_def)
  show ?thesis unfolding reconcileKEDAScaledObject_def
    by (rule owned_serves [OF obj])
      (auto simp: meta gvk known zeroMeta_def mutates_simps(7) [OF as] dest!: kind_cases(9))
qed

lemma isKEDACRDInstalled_serves:
  "\<exists>b w'. isKEDACRDInstalled r w = (Inr b, w') \<and> (b \<longrightarrow> known w' (KUnstructured kedaScaledObjectGVK))"
  using mapper [of kedaScaledObjectGVK w] by (auto simp: isKEDACRDInstalled_def ifErr_run)

lemma reconcileAutoscaling_serves:
  assumes "mode \<noteq> AutoScalingModeDisabled \<Longrightarrow> \<exists>as. crd_AutoScaling (gw_common g) = Some as"
  shows "\<exists>out w'. reconcileAutoscaling L r g mode w = (Inr out, w')"
proof -
  consider (disabled) "mode = AutoScalingModeDisabled" | (native) "mode = AutoScalingModeNativeHPA"
    | (keda) "mode = AutoScalingModeKEDA"
    | (other) "mode \<notin> {AutoScalingModeDisabled, AutoScalingModeNativeHPA, AutoScalingModeKEDA}"
    by blast
  then show ?thesis
  proof cases
    case disabled
    have "runs (\<lambda>_. True) (reconcileAutoscaling L r g mode)"
      unfolding reconcileAutoscaling_def disabled by (simp add: runs_bindM runs_intro)
    then show ?thesis by (rule runs_always)
  next
    case native
    then obtain as where as: "crd_AutoScaling (gw_common g) = Some as" using assms by (auto simp: mode_defs)
    obtain w1 where k: "ignoreNoMatch (deleteKEDAScaledObjectIfExists r g) w = (Inr (), w1)"
      using deleteKEDA_serves by blast
    obtain w2 where h: "reconcileNativeHPA L r g w1 = (Inr (), w2)"
      using reconcileNativeHPA_serves [OF as] by blast
    from native k h show ?thesis by (simp add: reconcileAutoscaling_def bindM_run mode_defs)
  next
    case keda
    then obtain as where as: "crd_AutoScaling (gw_common g) = Some as" using assms by (auto simp: mode_defs)
    obtain w1 where h: "deleteNativeHPAIfExists r g w = (Inr (), w1)"
      using deleteNativeHPA_serves by blast
    obtain b w2 where i: "isKEDACRDInstalled r w1 = (Inr b, w2)"
      and b: "b \<longrightarrow> known w2 (KUnstructured kedaScaledObjectGVK)"
      using isKEDACRDInstalled_serves by blast
    show ?thesis
    proof (cases b)
      case True
      with b obtain w3 where "reconcileKEDAScaledObject L r g w2 = (Inr (), w3)"
        using reconcileKEDA_serves [OF as] by blast
      with keda h i True show ?thesis by (simp add: reconcileAutoscaling_def bindM_run mode_defs)
    next
      case False
      with keda h i show ?thesis by (simp add: reconcileAutoscaling_def bindM_run mode_defs)
    qed
  next
    case other
    then show ?thesis by (simp add: reconcileAutoscaling_def)
  qed
qed

lemma createService_serves:
  assumes net: "gws_NetWorkGateway (gw_Spec g) \<noteq> '''' \<Longrightarrow> gw_Labels g \<noteq> None \<and>
      labelled (lookup w) (KService, (gw_Namespace g, HigressGatewayServiceName))"
  shows "\<exists>g' w'. createService_gw L r g w = (Inr g', w')"
proof -
  have "\<exists>p. initService_gw g = Inr p"
    using net by (auto simp: initService_gw_def updateServiceSpec_gw_def Let_def)
  then obtain svc g1 where init: "initService_gw g = Inr (svc, g1)" by auto
  note owned = initService_gw_owned [OF init]
  obtain obj where obj: "SetControllerReference L (OHigressGateway g1) (OService svc) = Inr obj"
    using setref_serves [of "OService svc" "OHigressGateway g1"] owned by auto
  have key: "objkey_of obj = (KService, (gw_Namespace g, HigressGatewayServiceName))"
    using refs.setref_key [OF obj] initService_gw_key [OF init] by simp
  obtain rs where rs: "obj = OService (svc\<lparr>svc_Meta := (svc_Meta svc)\<lparr>om_OwnerReferences := rs\<rparr>\<rparr>)"
    using refs.setref_ok [OF obj] by auto
  have mute: "muteService_gw g1 = muteService_gw g" using initService_gw_instance [OF init] by auto
  have "mutates (muteService_gw g) x" if x: "x = obj \<or> lookup w (objkey_of obj) = Some x" for x
  proof -
    have "kind_of x = KService"
      using x stored_key [of w "objkey_of obj" x] key by (auto simp: objkey_of_def)
    then obtain s where s: "x = OService s" using kind_cases(7) by blast
    have "om_Labels (svc_Meta s) \<noteq> None" if n: "gws_NetWorkGateway (gw_Spec g) \<noteq> ''''"
      using x net [OF n] owned(3) [OF n] s rs key by (auto simp: labelled_def)
    with s show ?thesis by (auto intro: mutates_simps)
  qed
  moreover have "known w (kind_of obj)" using key by (simp add: known_builtin objkey_of_def)
  ultimately obtain w' where "upsertObj L r ''Service'' obj (muteService_gw g) w = (Inr (), w')"
    using upsertObj_serves [of w obj "muteService_gw g"] by blast
  with init obj mute show ?thesis by (simp add: createService_gw_def bindM_run)
qed

lemma patchStatus_serves:
  assumes "lookup w (gw_objkey g) = Some (OHigressGateway cur)"
  shows "\<exists>w'. patchStatus L r g f w = (Inr (), w')"
proof -
  obtain y w' where "StatusPatch r (OHigressGateway (g\<lparr>gw_Status := f (gw_Status g)\<rparr>)) (OHigressGateway g) w =
      (Inr y, w')"
    using patch_serves [of w "g\<lparr>gw_Status := f (gw_Status g)\<rparr>" cur "OHigressGateway g"] assms by auto
  then show ?thesis by (simp add: patchStatus_def Let_def bindM_run)
qed

section \<open>Reconcile\<close>

lemma rejectInvalid_serves:
  assumes stored: "lookup w (gw_objkey g) = Some (OHigressGateway cur)"
  shows "\<exists>w'. rejectInvalid L r g mode ve w = (Inr (), w')"
proof -
  obtain w1 where h: "deleteNativeHPAIfExists r g w = (Inr (), w1)" using deleteNativeHPA_serves by blast
  obtain w2 where k: "ignoreNoMatch (deleteKEDAScaledObjectIfExists r g) w1 = (Inr (), w2)"
    using deleteKEDA_serves by blast
  obtain w3 where e: "recordValidationFailure r g ve w2 = (Inr (), w3)"
    using recordEvent_serves unfolding recordValidationFailure_def by blast
  have "lookup w1 (gw_objkey g) = lookup w (gw_objkey g)"
    by (rule keepsD [OF deleteNativeHPA_frame h]) simp
  moreover have "lookup w2 (gw_objkey g) = lookup w1 (gw_objkey g)"
    by (rule keepsD [OF keeps_ignoreNoMatch [OF deleteKEDA_frame] k]) simp
  moreover have "lookup w3 (gw_objkey g) = lookup w2 (gw_objkey g)"
    using e recordEvent_lookup unfolding recordValidationFailure_def by fastforce
  ultimately have "lookup w3 (gw_objkey g) = Some (OHigressGateway cur)" using stored by simp
  from patchStatus_serves [OF this] h k e show ?thesis by (simp add: rejectInvalid_def bindM_run)
qed

lemma reconcileChildren_serves:
  assumes stored: "lookup w (gw_objkey g) = Some (OHigressGateway cur)"
    and dep: "deployable (lookup w) g"
    and fields: "crd_ServiceAccount (gw_common g) = Some sa" "crd_RBAC (gw_common g) = Some rb"
      "gws_Skywalking (gw_Spec g) = Some sky"
    and mode: "mode \<noteq> AutoScalingModeDisabled \<Longrightarrow> \<exists>as. crd_AutoScaling (gw_common g) = Some as"
  shows "\<exists>w'. reconcileChildren L r ord ord' g mode w = (Inr (), w')"
proof -
  let ?g = "setDiscoveryAddress g" and ?svc = "(KService, (gw_Namespace g, HigressGatewayServiceName))"
  obtain w1 where s1: "createServiceAccount_gw L r g w = (Inr (), w1)"
    using createServiceAccount_serves [OF fields(1)] by blast
  obtain w2 where s2: "createRBAC_gw L r g w1 = (Inr (), w2)"
    using createRBAC_serves [OF fields(1,2)] by blast
  obtain w3 where s3: "createConfigMap_gw L r g w2 = (Inr ?g, w3)"
    using createConfigMap_serves [OF _ fields(3)] dep by (auto simp: deployable_def)
  obtain w4 where s4: "createDeployment_gw L r ord ord' ?g w3 = (Inr (), w4)"
    using createDeployment_serves by blast
  obtain out w5 where s5: "reconcileAutoscaling L r ?g mode w4 = (Inr out, w5)"
    using reconcileAutoscaling_serves [of mode ?g w4] mode by auto
  have keep: "lookup w5 q = lookup w q" if "q \<in> {gw_objkey g, ?svc}" for q
  proof -
    have "lookup w1 q = lookup w q" by (rule keepsD [OF createServiceAccount_frame s1]) (use that in auto)
    moreover have "lookup w2 q = lookup w1 q" by (rule keepsD [OF createRBAC_frame s2]) (use that in auto)
    moreover have "lookup w3 q = lookup w2 q" by (rule keepsD [OF createConfigMap_frame s3]) (use that in auto)
    moreover have "lookup w4 q = lookup w3 q" by (rule keepsD [OF createDeployment_frame s4]) (use that in auto)
    moreover have "lookup w5 q = lookup w4 q" by (rule keepsD [OF reconcileAutoscaling_frame s5]) (use that in auto)
    ultimately show ?thesis by simp
  qed
  have "labelled (lookup w5) ?svc = labelled (lookup w) ?svc" by (simp add: labelled_def keep)
  then obtain g2 w6 where s6: "createService_gw L r ?g w5 = (Inr g2, w6)"
    using createService_serves [of ?g w5] dep by (auto simp: deployable_def)
  have "lookup w6 (gw_objkey g) = lookup w5 (gw_objkey g)"
    by (rule keepsD [OF createService_frame s6]) simp
  moreover have "gw_objkey g2 = gw_objkey g" using createService_instance [OF s6] by auto
  ultimately have "lookup w6 (gw_objkey g2) = Some (OHigressGateway cur)" using keep stored by simp
  from patchStatus_serves [OF this] s1 s2 s3 s4 s5 s6 show ?thesis
    by (simp add: reconcileChildren_def publishReady_def Let_def bindM_run)
qed

lemma ensureFinalizer_serves:
  assumes stored: "lookup w (gw_objkey g) = Some (OHigressGateway cur)"
    and live: "om_DeletionTimestamp (gw_Meta cur) = None"
  shows "\<exists>g' w'. ensureFinalizer_gw L r (gw_key g) g w = (Inr g', w')"
proof (cases "finalizer_gw \<in> set (om_Finalizers (gw_Meta g))")
  case True
  then show ?thesis by (simp add: ensureFinalizer_gw_def fins.add_old)
next
  case False
  let ?x = "set_finalizers (om_Finalizers (gw_Meta g) @ [finalizer_gw]) (OHigressGateway g)"
  have key: "objkey_of ?x = gw_objkey g" by simp
  obtain y w1 where upd: "Update r ?x w = (Inr y, w1)" using update_serves [of w ?x] stored key by auto
  from update_ok [OF upd] stored key have adm: "admits (Some (OHigressGateway cur)) ?x y"
    and w1: "lookup w1 = (lookup w)(gw_objkey g := if gone y then None else Some y)" by auto
  have "\<not> gone y" using admits_deletion [OF adm] live by (simp add: gone_def)
  with w1 have y: "lookup w1 (gw_objkey g) = Some y" by simp
  then obtain w2 where get: "Get r KHigressGateway (gw_key g) w1 = (Inr y, w2)" using get_serves by blast
  have "kind_of y = KHigressGateway" using stored_key [OF y] by (simp add: objkey_of_def)
  then obtain g1 where "y = OHigressGateway g1" by (cases y) auto
  with False upd get show ?thesis
    by (simp add: ensureFinalizer_gw_def fins.add_new bindM_run asGateway_def)
qed

lemma Reconcile_returns:
  assumes stored: "lookup w (KHigressGateway, nn) = Some (OHigressGateway g0)"
    and live: "om_DeletionTimestamp (gw_Meta g0) = None"
    and ns: "active_namespace (lookup w) (fst nn)"
    and dep: "\<And>g1. adopted admits g0 g1 \<Longrightarrow> deployable (lookup w) g1"
  shows "\<exists>w'. Reconcile_gw L r ord ord' nn w = (Inr (), w')"
proof -
  let ?g0 = "setDefaultValues_gw g0"
  have nn: "nn = gw_key g0" using stored_key [OF stored] by simp
  obtain w1 where get: "Get r KHigressGateway nn w = (Inr (OHigressGateway g0), w1)"
    using get_serves stored by (cases nn) blast
  note l1 = get_lookup [OF get]
  obtain w2 where act: "namespaceActive r (fst nn) w1 = (Inr True, w2)" and l2: "lookup w2 = lookup w1"
    using namespaceActive_serves [of w1 "fst nn"] ns l1 by auto
  obtain g w3 where fin: "ensureFinalizer_gw L r nn ?g0 w2 = (Inr g, w3)"
    using ensureFinalizer_serves [of w2 ?g0 g0] stored live l1 l2 nn by auto
  from ensureFinalizer_ok [OF fin] stored l1 l2 obtain g1 where ad: "adopted admits g0 g1"
    and g: "g = setDefaultValues_gw g1" and key: "gw_key g1 = nn"
    and st: "lookup w3 (KHigressGateway, nn) = Some (OHigressGateway g1)" by auto
  have l3: "lookup w3 q = lookup w q" if "q \<noteq> (KHigressGateway, nn)" for q
    using keepsD [OF ensureFinalizer_frame fin] that nn l1 l2 by simp
  obtain v where v: "validateAutoscalingConfig (IsZero L) g = Inr v" using validate_total by blast
  have "\<exists>w'. (case v of Some ve \<Rightarrow> rejectInvalid L r g (getEffectiveScaleMode g) ve
      | None \<Rightarrow> reconcileChildren L r ord ord' g (getEffectiveScaleMode g)) w3 = (Inr (), w')"
  proof (cases v)
    case None
    have "deployable (lookup w3) g = deployable (lookup w) g" by (simp add: deployable_def labelled_def l3)
    then have "deployable (lookup w3) g" using dep [OF ad] g by simp
    moreover obtain sa rb sky where "crd_ServiceAccount (gw_common g) = Some sa"
      "crd_RBAC (gw_common g) = Some rb" "gws_Skywalking (gw_Spec g) = Some sky"
      by (simp add: g setDefaultCommon_gw_fields setDefaultValues_gw_skywalking)
    moreover have "\<exists>as. crd_AutoScaling (gw_common g) = Some as"
      if "getEffectiveScaleMode g \<noteq> AutoScalingModeDisabled"
      using mode_not_disabled_Some [of g] that by auto
    ultimately show ?thesis using reconcileChildren_serves [of w3 g g1] st key g None by simp
  next
    case (Some ve)
    then show ?thesis using rejectInvalid_serves [of w3 g g1] st key g by simp
  qed
  with get act fin v live nn show ?thesis
    by (auto simp: Reconcile_gw_def reconcileLive_def ifErr_run bindM_run asGateway_def Let_def)
qed

lemma Reconcile_deletion_returns:
  assumes stored: "lookup w (KHigressGateway, nn) = Some (OHigressGateway g0)"
    and del: "om_DeletionTimestamp (gw_Meta g0) \<noteq> None"
    and name: "getServiceAccount_gw (setDefaultValues_gw g0) = Inr name"
    and crb: "lookup w (KClusterRoleBinding, ('''', name)) = Some (OClusterRoleBinding crb)"
  shows "\<exists>w'. Reconcile_gw L r ord ord' nn w = (Inr (), w')"
proof -
  let ?g = "setDefaultValues_gw g0"
  have nn: "nn = gw_key g0" using stored_key [OF stored] by simp
  obtain w1 where get: "Get r KHigressGateway nn w = (Inr (OHigressGateway g0), w1)"
    using get_serves stored by (cases nn) blast
  note l1 = get_lookup [OF get]
  have "\<exists>w'. reconcileDeletion_gw L r ?g w1 = (Inr (), w')"
  proof (cases "finalizer_gw \<in> set (om_Finalizers (gw_Meta g0))")
    case True
    obtain w2 where d: "dropBindingSubject r name (gw_Namespace g0) w1 = (Inr (), w2)"
      using dropBindingSubject_serves [of w1 name crb] crb l1 by auto
    let ?x = "RemoveFinalizer L (OHigressGateway ?g) finalizer_gw"
    have key: "objkey_of ?x = (KHigressGateway, nn)" using nn by (simp add: fins.remove_eq)
    have "lookup w2 (objkey_of ?x) = lookup w1 (objkey_of ?x)"
      by (rule keepsD [OF dropBindingSubject_frame d]) (simp add: key)
    then have "lookup w2 (objkey_of ?x) \<noteq> None" using stored l1 key by simp
    then obtain y w3 where "Update r ?x w2 = (Inr y, w3)" using update_serves by blast
    with d name True show ?thesis
      by (simp add: reconcileDeletion_gw_def finalizeHigressGateway_def bindM_run fins.has_iff)
  qed (simp add: reconcileDeletion_gw_def fins.has_iff)
  with get del show ?thesis
    by (auto simp: Reconcile_gw_def ifErr_run bindM_run asGateway_def Let_def)
qed

end

end
