(* ===== verification/CtlLive.thy ===== *)
theory CtlLive
  imports CtlOutcome Available
begin

text \<open>
  Total correctness of the controller reconciler: on a cluster that answers, with readable
  manifests, the reconcile of a live controller resource returns, and a deleted one is
  released.
\<close>

section \<open>The mutations do their work\<close>

lemma mutates_simps_ctl:
  "mutates (muteClusterRole_ctl h) (OClusterRole cr)"
  "mutates (muteRole_ctl h) (ORole ro)"
  "getServiceAccount_ctl h = Inr n \<Longrightarrow> mutates (muteClusterRoleBinding_ctl h) (OClusterRoleBinding crb)"
  "getServiceAccount_ctl h = Inr n \<Longrightarrow> mutates (muteRoleBinding_ctl h) (ORoleBinding rb)"
  "getServiceAccount_ctl h = Inr n \<Longrightarrow> mutates (muteDeployment_ctl ord ord' h) (ODeployment d)"
  "mutates (muteService_ctl h) (OService svc)"
  by (auto simp: mutates_def objkey_of_def ObjectKeyFromObject_def nskey_of_meta_def
      muteClusterRole_ctl_def muteRole_ctl_def muteClusterRoleBinding_ctl_def updateClusterRoleBinding_ctl_def
      muteRoleBinding_ctl_def updateRoleBinding_ctl_def muteDeployment_ctl_def updateDeploymentSpec_ctl_def
      muteService_ctl_def Let_def)

lemma getServiceAccount_ctl_Some:
  "crd_ServiceAccount (hc_common h) = Some sa \<Longrightarrow> \<exists>n. getServiceAccount_ctl h = Inr n"
  by (simp add: getServiceAccount_ctl_def)

lemma rbacEnabled_ctl_Some:
  "crd_ServiceAccount (hc_common h) = Some sa \<Longrightarrow> crd_RBAC (hc_common h) = Some rb \<Longrightarrow>
   \<exists>en. rbacEnabled_ctl h = Inr en"
  by (cases "rbac_Enable rb") (auto simp: rbacEnabled_ctl_def)

section \<open>Files and resource definitions\<close>

text \<open>Every file of a directory parses.\<close>

definition parses :: "(string \<Rightarrow> (goerr + CustomResourceDefinition) list option) \<Rightarrow> bool" where
  "parses d \<longleftrightarrow> (\<forall>p ds. d p = Some ds \<longrightarrow> (\<exists>xs. ds = map Inr xs))"

lemma parsesD: "parses d \<Longrightarrow> d p \<noteq> None \<Longrightarrow> \<exists>xs. d p = Some (map Inr xs)"
  by (auto simp: parses_def)

text \<open>
  \<open>dir\<close> is the view of the manifest directory: what a path decodes to.  A listed file can
  be opened and an open one closed.
\<close>

locale os_files = os_quiet os dir
  for os :: "'w os_lib"
    and dir :: "'w \<Rightarrow> string \<Rightarrow> (goerr + CustomResourceDefinition) list option" +
  assumes readdir_serves: "\<exists>names w'. ReadDir os crdsPath w = (Inr names, w') \<and>
      (\<forall>name \<in> set names. dir w (crdsPath @ ''/'' @ name) \<noteq> None)"
    and open_serves: "dir w p = Some ds \<Longrightarrow> \<exists>f w'. OpenFile os p w = (Inr f, w') \<and> of_Documents f = ds"
    and close_serves: "\<exists>w'. CloseFile os f w = (Inr (), w')"
begin

lemma resolveManifest_serves:
  assumes "dir w p = Some (map Inr xs)"
  shows "\<exists>w'. resolveManifest os p crds w = (Inr (crds @ xs), w') \<and> dir w' = dir w"
proof -
  obtain f w1 where op: "OpenFile os p w = (Inr f, w1)" and f: "of_Documents f = map Inr xs"
    using open_serves [OF assms] by blast
  obtain w2 where cl: "CloseFile os f w1 = (Inr (), w2)" using close_serves by blast
  have "dir w2 = dir w" using keepsD [OF open_keeps op] keepsD [OF close_keeps cl] by simp
  moreover have "decodeLoop p (map Inr xs) crds = Inr (crds @ xs)" by (simp add: decodeLoop_ok)
  ultimately show ?thesis using op cl f
    by (simp add: resolveManifest_def deferClose_def closeFile_def ifErr_run)
qed

lemma resolveAll_serves:
  "parses (dir w) \<Longrightarrow> \<forall>p \<in> set ps. dir w p \<noteq> None \<Longrightarrow> \<exists>ds w'. resolveAll os ps crds w = (Inr ds, w')"
proof (induction ps arbitrary: crds w)
  case (Cons p ps)
  then obtain xs where "dir w p = Some (map Inr xs)" using parsesD [of "dir w" p] by auto
  from resolveManifest_serves [OF this, of crds] obtain w1 where
    s1: "resolveManifest os p crds w = (Inr (crds @ xs), w1)" and d: "dir w1 = dir w" by blast
  have "\<exists>ds w'. resolveAll os ps (crds @ xs) w1 = (Inr ds, w')"
    using Cons.prems d by (intro Cons.IH) auto
  with s1 show ?case by (simp add: bindM_run)
qed simp

lemma getCRDs_serves: "parses (dir w) \<Longrightarrow> \<exists>ds w'. getCRDs os w = (Inr ds, w')"
proof -
  assume p: "parses (dir w)"
  obtain names w1 where rd: "ReadDir os crdsPath w = (Inr names, w1)"
    and names: "\<forall>name \<in> set names. dir w (crdsPath @ ''/'' @ name) \<noteq> None"
    using readdir_serves by blast
  have d: "dir w1 = dir w" by (rule keepsD [OF readdir_keeps rd])
  have "\<exists>ds w'. resolveAll os (map (\<lambda>name. crdsPath @ ''/'' @ name) names) [] w1 = (Inr ds, w')"
    using names p d by (intro resolveAll_serves) auto
  with rd show ?thesis by (simp add: getCRDs_def getCRDsManifests_def bindM_run)
qed

end

text \<open>The API-extensions client of a healthy server.\<close>

locale available_crds = crd_server cli defs stores
  for cli :: "'w crd_client" and defs stores +
  assumes crdget_serves: "defs w n = Some crd \<Longrightarrow> \<exists>w'. CRDGet cli n w = (Inr crd, w')"
    and crdget_misses: "defs w n = None \<Longrightarrow> \<exists>e w'. CRDGet cli n w = (Inl (Error e), w') \<and> is_NotFound e"
    and crdcreate_serves: "defs w (crdef_Name crd) = None \<Longrightarrow> \<exists>y w'. CRDCreate cli crd w = (Inr y, w')"
    and crdupdate_serves: "defs w (crdef_Name crd) \<noteq> None \<Longrightarrow> \<exists>y w'. CRDUpdate cli crd w = (Inr y, w')"
begin

lemma applyCRD_serves: "\<exists>w'. applyCRD specEq cli crd w = (Inr (), w')"
proof (cases "defs w (crdef_Name crd)")
  case None
  from crdget_misses [OF this] obtain e w1 where
    get: "CRDGet cli (crdef_Name crd) w = (Inl (Error e), w1)" and e: "is_NotFound e" by blast
  have "defs w1 (crdef_Name crd) = None" using keepsD [OF crdget_keeps get] None by simp
  then obtain y w2 where "CRDCreate cli crd w1 = (Inr y, w2)" using crdcreate_serves by blast
  with get e show ?thesis by (simp add: applyCRD_def ifErr_run bindM_run)
next
  case (Some ex)
  from crdget_serves [OF this] obtain w1 where get: "CRDGet cli (crdef_Name crd) w = (Inr ex, w1)" ..
  have "defs w1 (crdef_Name (ex\<lparr>crdef_Spec := crdef_Spec crd\<rparr>)) \<noteq> None"
    using keepsD [OF crdget_keeps get] Some def_name [OF Some] by simp
  from crdupdate_serves [OF this] obtain y w2 where
    "CRDUpdate cli (ex\<lparr>crdef_Spec := crdef_Spec crd\<rparr>) w1 = (Inr y, w2)" by blast
  with get show ?thesis by (simp add: applyCRD_def ifErr_run bindM_run)
qed

lemma applyCRDs_serves: "\<exists>w'. applyCRDs specEq cli crds w = (Inr (), w')"
proof (induction crds arbitrary: w)
  case (Cons crd crds)
  obtain w1 where "applyCRD specEq cli crd w = (Inr (), w1)" using applyCRD_serves by blast
  with Cons.IH [of w1] show ?case by (simp add: bindM_run)
qed simp

end

section \<open>The environment\<close>

locale controller_live =
  controller_env r L lookup admits same_but_rest semEq cli defs stores +
  available_env r L lookup admits same_but_rest semEq known +
  manifests: os_files "OS r" dir +
  api: available_crds cli defs stores
  for r :: "('w, 'z) ctl_reconciler_scheme" and L :: "'w lib"
    and lookup admits same_but_rest semEq
    and cli :: "'w crd_client"
    and defs :: "'w \<Rightarrow> string \<Rightarrow> CustomResourceDefinition option" and stores known dir +
  assumes configured: "NewForConfig r = Inr cli"
    and files_quiet: "keeps dir (Get r k n)" "keeps dir (Update r x)"
    and status_serves: "lookup w (hc_objkey h) = Some (OHigressController cur) \<Longrightarrow>
      \<exists>y w'. StatusUpdate r (OHigressController h) w = (Inr y, w')"
begin

lemma createCRDs_serves: "parses (dir w) \<Longrightarrow> \<exists>w'. createCRDs r w = (Inr (), w')"
proof -
  assume "parses (dir w)"
  from manifests.getCRDs_serves [OF this] obtain ds w1 where "getCRDs (OS r) w = (Inr ds, w1)" by blast
  moreover obtain w2 where "applyCRDs (SpecDeepEqual r) cli ds w1 = (Inr (), w2)"
    using api.applyCRDs_serves by blast
  ultimately show ?thesis by (simp add: createCRDs_def configured bindM_run)
qed

lemma createServiceAccount_ctl_serves:
  assumes "crd_ServiceAccount (hc_common h) = Some sa"
  shows "\<exists>w'. createServiceAccount_ctl L r h w = (Inr (), w')"
proof -
  obtain x where x: "initServiceAccount_ctl h = Inr x" and refs: "om_OwnerReferences (sao_Meta x) = []"
    and ns: "om_Namespace (sao_Meta x) = hc_Namespace h"
    using getServiceAccount_ctl_Some [OF assms] assms
    by (auto simp: initServiceAccount_ctl_def zeroMeta_def)
  obtain obj where obj: "SetControllerReference L (OHigressController h) (OServiceAccount x) = Inr obj"
    using setref_serves [of "OServiceAccount x" "OHigressController h"] refs ns by auto
  have "kind_of obj = KServiceAccount" using refs.setref_key [OF obj] by (simp add: objkey_of_def)
  then have "known w (kind_of obj)" by (simp add: known_builtin)
  then obtain b w' where "CreateIfNotExits r obj w = (Inr b, w')" using CreateIfNotExits_serves by blast
  with x obj assms show ?thesis by (simp add: createServiceAccount_ctl_def bindM_run)
qed

lemma fillRBAC_fields:
  "crd_ServiceAccount (hc_common h) = Some sa \<Longrightarrow> crd_ServiceAccount (hc_common (fillRBAC h)) = Some sa"
  "\<exists>rb. crd_RBAC (hc_common (fillRBAC h)) = Some rb"
  by (simp_all add: fillRBAC_def Let_def split: option.split)

lemma createRBAC_ctl_serves:
  assumes "crd_ServiceAccount (hc_common h) = Some sa"
  shows "\<exists>w'. createRBAC_ctl L r h w = (Inr (fillRBAC h), w')"
proof -
  let ?h = "fillRBAC h"
  have sa: "crd_ServiceAccount (hc_common ?h) = Some sa" by (rule fillRBAC_fields(1) [OF assms])
  obtain en where en: "rbacEnabled_ctl ?h = Inr en"
    using fillRBAC_fields(2) [of h] rbacEnabled_ctl_Some [OF sa] by blast
  obtain n where n: "getServiceAccount_ctl ?h = Inr n" using getServiceAccount_ctl_Some [OF sa] ..
  obtain crb where crb: "initClusterRoleBinding_ctl ?h = Inr crb"
    by (simp add: initClusterRoleBinding_ctl_def updateClusterRoleBinding_ctl_def n)
  obtain b where b: "initRoleBinding_ctl ?h = Inr b"
    by (simp add: initRoleBinding_ctl_def updateRoleBinding_ctl_def n)
  have mute: "kind_of z = KClusterRole \<Longrightarrow> mutates (muteClusterRole_ctl ?h) z"
    "kind_of z = KClusterRoleBinding \<Longrightarrow> mutates (muteClusterRoleBinding_ctl ?h) z"
    "kind_of z = KRole \<Longrightarrow> mutates (muteRole_ctl ?h) z"
    "kind_of z = KRoleBinding \<Longrightarrow> mutates (muteRoleBinding_ctl ?h) z" for z
    using n by (auto simp: mutates_simps_ctl dest!: kind_cases)
  have "runs (\<lambda>_. True) (createRBAC_ctl L r h)"
    unfolding createRBAC_ctl_def Let_def en bindM_liftR_Inr crb b
    by (intro runs_if runs_intro runs_bindM upsert_runs_always meta_stable_rbac_ctl mute) simp_all
  from runs_always [OF this] obtain y w' where run: "createRBAC_ctl L r h w = (Inr y, w')" by blast
  with createRBAC_ctl_instance [OF run] show ?thesis by simp
qed

lemma createDeployment_ctl_serves:
  assumes "crd_ServiceAccount (hc_common h) = Some sa"
  shows "\<exists>w'. createDeployment_ctl L r ords ords' h w = (Inr (), w')"
proof -
  obtain n where n: "getServiceAccount_ctl h = Inr n" using getServiceAccount_ctl_Some [OF assms] ..
  obtain d where d: "initDeployment_ctl (fst ords) (snd ords) h = Inr d"
    and m: "om_OwnerReferences (dep_Meta d) = []" "om_Namespace (dep_Meta d) = hc_Namespace h"
    by (simp add: initDeployment_ctl_def updateDeploymentSpec_ctl_def n zeroMeta_def Let_def)
  show ?thesis unfolding createDeployment_ctl_def
    by (rule owned_serves [OF d])
      (auto simp: m known_builtin n mutates_simps_ctl meta_stable_muteDeployment_ctl dest!: kind_cases)
qed

lemma createService_ctl_serves: "\<exists>w'. createService_ctl L r h w = (Inr (), w')"
  unfolding createService_ctl_def
  by (rule owned_serves [OF refl])
    (auto simp: initService_ctl_def zeroMeta_def known_builtin mutates_simps_ctl dest!: kind_cases)

lemma publishDeployed_serves:
  assumes "lookup w (hc_objkey h) = Some (OHigressController cur)"
  shows "\<exists>w'. publishDeployed r h w = (Inr (), w')"
proof (cases "hcst_Deployed (hc_Status h)")
  case False
  obtain y w' where "StatusUpdate r (OHigressController (h\<lparr>hc_Status := (hc_Status h)\<lparr>hcst_Deployed := True\<rparr>\<rparr>)) w =
      (Inr y, w')"
    using status_serves [of w "h\<lparr>hc_Status := (hc_Status h)\<lparr>hcst_Deployed := True\<rparr>\<rparr>" cur] assms by auto
  with False show ?thesis by (simp add: publishDeployed_def bindM_run)
qed (simp add: publishDeployed_def)

lemma ensureFinalizer_ctl_serves:
  assumes stored: "lookup w (hc_objkey h) = Some (OHigressController cur)"
  shows "\<exists>h' w'. ensureFinalizer_ctl L r h w = (Inr h', w')"
proof (cases "finalizer_ctl \<in> set (om_Finalizers (hc_Meta h))")
  case False
  let ?x = "set_finalizers (om_Finalizers (hc_Meta h) @ [finalizer_ctl]) (OHigressController h)"
  have key: "objkey_of ?x = hc_objkey h" by simp
  obtain y w1 where upd: "Update r ?x w = (Inr y, w1)" using update_serves [of w ?x] stored key by auto
  from update_ok [OF upd] stored key have "admits (Some (OHigressController cur)) ?x y" by auto
  from admits_key [OF this] key have "kind_of y = KHigressController" by (simp add: objkey_of_def)
  then obtain h1 where "y = OHigressController h1" by (cases y) auto
  with False upd show ?thesis
    by (simp add: ensureFinalizer_ctl_def fins.add_new bindM_run asController_def)
qed (simp add: ensureFinalizer_ctl_def fins.add_old)

lemma ensureFinalizer_ctl_dir: "keeps dir (ensureFinalizer_ctl L r h)"
  unfolding ensureFinalizer_ctl_def
  by (auto split: prod.split intro!: keeps_intro files_quiet)

lemma namespaceActive_dir: "keeps dir (namespaceActive r ns)"
  unfolding namespaceActive_def by (intro keeps_intro files_quiet)

section \<open>Reconcile\<close>

text \<open>
  The one thing asked of the resource: after the run that adds the finalizer it goes on with the
  server's response as it is, and that has to name a service account.
\<close>

lemma reconcileLive_ctl_serves:
  assumes stored: "lookup w (KHigressController, nn) = Some (OHigressController h0)"
    and ns: "active_namespace (lookup w) (fst nn)" and files: "parses (dir w)"
    and sa: "\<And>hs. adopted_ctl admits h0 hs \<Longrightarrow> finalizer_ctl \<notin> set (om_Finalizers (hc_Meta h0)) \<Longrightarrow>
      crd_ServiceAccount (hc_common hs) \<noteq> None"
  shows "\<exists>w'. reconcileLive_ctl L r ords ords' (setDefaultValues_ctl h0) w = (Inr (), w')"
proof -
  let ?h0 = "setDefaultValues_ctl h0"
  have nn: "nn = hc_key h0" using stored_key [OF stored] by simp
  obtain w1 where s1: "namespaceActive r (fst nn) w = (Inr True, w1)" and l1: "lookup w1 = lookup w"
    using namespaceActive_serves [OF ns] by blast
  obtain h w2 where s2: "ensureFinalizer_ctl L r ?h0 w1 = (Inr h, w2)"
    using ensureFinalizer_ctl_serves [of w1 ?h0 h0] stored l1 nn by auto
  from stored l1 have "lookup w1 (KHigressController, nn) = Some (OHigressController h0)" by simp
  from ensureFinalizer_ctl_ok [OF s2 this] obtain hs where ad: "adopted_ctl admits h0 hs"
    and h: "h = setDefaultValues_ctl hs \<or> h = hs" and key: "hc_key hs = nn"
    and st: "lookup w2 (KHigressController, nn) = Some (OHigressController hs)" by auto
  have "\<exists>sa. crd_ServiceAccount (hc_common h) = Some sa"
  proof (cases "finalizer_ctl \<in> set (om_Finalizers (hc_Meta h0))")
    case True
    with s2 have "h = ?h0" by (simp add: ensureFinalizer_ctl_def fins.add_old)
    then show ?thesis by (simp add: setDefaultCommon_ctl_fields)
  next
    case False
    with sa [OF ad] h show ?thesis by (auto simp: setDefaultCommon_ctl_fields)
  qed
  then obtain a where a: "crd_ServiceAccount (hc_common h) = Some a" ..
  have "parses (dir w2)"
    using files keepsD [OF namespaceActive_dir s1] keepsD [OF ensureFinalizer_ctl_dir s2] by simp
  then obtain w3 where s3: "createCRDs r w2 = (Inr (), w3)" using createCRDs_serves by blast
  obtain w4 where s4: "createServiceAccount_ctl L r h w3 = (Inr (), w4)"
    using createServiceAccount_ctl_serves [OF a] by blast
  obtain w5 where s5: "createRBAC_ctl L r h w4 = (Inr (fillRBAC h), w5)"
    using createRBAC_ctl_serves [OF a] by blast
  obtain w6 where s6: "createDeployment_ctl L r ords ords' (fillRBAC h) w5 = (Inr (), w6)"
    using createDeployment_ctl_serves [OF fillRBAC_fields(1) [OF a]] by blast
  obtain w7 where s7: "createService_ctl L r (fillRBAC h) w6 = (Inr (), w7)"
    using createService_ctl_serves by blast
  have hk: "hc_objkey (fillRBAC h) = (KHigressController, nn)" using h key by auto
  have "lookup w3 (KHigressController, nn) = lookup w2 (KHigressController, nn)"
    by (rule keepsD [OF createCRDs_frame s3])
  moreover have "lookup w4 (KHigressController, nn) = lookup w3 (KHigressController, nn)"
    by (rule keepsD [OF createServiceAccount_ctl_frame s4]) simp
  moreover have "lookup w5 (KHigressController, nn) = lookup w4 (KHigressController, nn)"
    by (rule keepsD [OF createRBAC_ctl_frame s5]) simp_all
  moreover have "lookup w6 (KHigressController, nn) = lookup w5 (KHigressController, nn)"
    by (rule keepsD [OF createDeployment_ctl_frame s6]) simp
  moreover have "lookup w7 (KHigressController, nn) = lookup w6 (KHigressController, nn)"
    by (rule keepsD [OF createService_ctl_frame s7]) simp
  ultimately have "lookup w7 (hc_objkey (fillRBAC h)) = Some (OHigressController hs)" using st hk by simp
  then obtain w8 where "publishDeployed r (fillRBAC h) w7 = (Inr (), w8)"
    using publishDeployed_serves by blast
  with s1 s2 s3 s4 s5 s6 s7 nn show ?thesis by (simp add: reconcileLive_ctl_def bindM_run)
qed

lemma Reconcile_ctl_returns:
  assumes stored: "lookup w (KHigressController, nn) = Some (OHigressController h0)"
    and live: "om_DeletionTimestamp (hc_Meta h0) = None"
    and ns: "active_namespace (lookup w) (fst nn)" and files: "parses (dir w)"
    and sa: "\<And>hs. adopted_ctl admits h0 hs \<Longrightarrow> finalizer_ctl \<notin> set (om_Finalizers (hc_Meta h0)) \<Longrightarrow>
      crd_ServiceAccount (hc_common hs) \<noteq> None"
  shows "\<exists>w'. Reconcile_ctl L r ords ords' nn w = (Inr (), w')"
proof -
  obtain w1 where get: "Get r KHigressController nn w = (Inr (OHigressController h0), w1)"
    using get_serves stored by (cases nn) blast
  have "dir w1 = dir w" by (rule keepsD [OF files_quiet(1) get])
  with reconcileLive_ctl_serves [of w1 nn h0 ords ords'] get_lookup [OF get] assms get show ?thesis
    by (auto simp: Reconcile_ctl_def ifErr_run bindM_run asController_def Let_def)
qed

text \<open>Without RBAC there is nothing to finalize; with it the binding has to be there.\<close>

lemma Reconcile_ctl_deletion_returns:
  assumes stored: "lookup w (KHigressController, nn) = Some (OHigressController h0)"
    and del: "om_DeletionTimestamp (hc_Meta h0) \<noteq> None"
    and crb: "rbacEnabled_ctl (setDefaultValues_ctl h0) = Inr True \<Longrightarrow>
      \<exists>name crb. getServiceAccount_ctl (setDefaultValues_ctl h0) = Inr name \<and>
        lookup w (KClusterRoleBinding, ('''', name)) = Some (OClusterRoleBinding crb)"
  shows "\<exists>w'. Reconcile_ctl L r ords ords' nn w = (Inr (), w')"
proof -
  let ?h = "setDefaultValues_ctl h0"
  have nn: "nn = hc_key h0" using stored_key [OF stored] by simp
  obtain w1 where get: "Get r KHigressController nn w = (Inr (OHigressController h0), w1)"
    using get_serves stored by (cases nn) blast
  note l1 = get_lookup [OF get]
  obtain en where en: "rbacEnabled_ctl ?h = Inr en"
    using rbacEnabled_ctl_Some [of ?h] by (auto simp: setDefaultCommon_ctl_fields)
  have f: "\<exists>w'. finalizeHigressController r ?h w1 = (Inr (), w')"
  proof (cases en)
    case True
    with en crb obtain name b where n: "getServiceAccount_ctl ?h = Inr name"
      and b: "lookup w1 (KClusterRoleBinding, ('''', name)) = Some (OClusterRoleBinding b)"
      using l1 by auto
    from dropBindingSubject_serves [OF b, of "hc_Namespace h0"] en True n show ?thesis
      by (auto simp: finalizeHigressController_def)
  qed (simp add: finalizeHigressController_def en)
  then obtain w2 where d: "finalizeHigressController r ?h w1 = (Inr (), w2)" ..
  let ?x = "RemoveFinalizer L (OHigressController ?h) finalizer_ctl"
  have key: "objkey_of ?x = (KHigressController, nn)" using nn by (simp add: fins.remove_eq)
  have "lookup w2 (objkey_of ?x) = lookup w1 (objkey_of ?x)"
    by (rule keepsD [OF finalizeController_frame d]) (simp add: key)
  then have "lookup w2 (objkey_of ?x) \<noteq> None" using stored l1 key by simp
  then obtain y w3 where "Update r ?x w2 = (Inr y, w3)" using update_serves by blast
  with d have "\<exists>w'. reconcileDeletion_ctl L r ?h w1 = (Inr (), w')"
    by (simp add: reconcileDeletion_ctl_def bindM_run)
  with get del show ?thesis
    by (auto simp: Reconcile_ctl_def ifErr_run bindM_run asController_def Let_def)
qed

end

end
