(* ===== verification/GwConverge.thy ===== *)
theory GwConverge
  imports GwSteady
begin

text \<open>
  Convergence: on a server that fills in defaults, one successful reconcile brings the children
  of a gateway to rest.
\<close>

lemma settles_rbac:
  "settles (muteClusterRole_gw g)" "settles (muteClusterRoleBinding_gw g)"
  "settles (muteRole_gw g)" "settles (muteRoleBinding_gw g)"
  by (auto simp: settles_def muteClusterRole_gw_def muteClusterRoleBinding_gw_def muteRole_gw_def
      muteRoleBinding_gw_def updateClusterRoleBinding_gw_def updateRoleBinding_gw_def ok_simps
      stamped_cases split: kobj.splits)

lemma settles_configmap: "settles (muteConfigMap g (updateGatewayConfigMapSpec L))"
  by (auto simp: settles_def muteConfigMap_def updateGatewayConfigMapSpec_def ok_simps Let_def
      stamped_cases split: kobj.splits sum.splits)

lemma blend_entries_update: "blend_entries (AList.update k v a) b (AList.update k v b)"
  unfolding blend_entries_def by (intro disjI2 exI [of _ k] exI [of _ v]) (simp add: update_conv')

lemma resubmits_plain_gw:
  "resubmits (muteClusterRole_gw g)" "resubmits (muteClusterRoleBinding_gw g)"
  "resubmits (muteRole_gw g)" "resubmits (muteRoleBinding_gw g)"
  "resubmits (muteConfigMap g (updateGatewayConfigMapSpec L))"
  by (rule settles_resubmits, rule settles_rbac settles_configmap,
      auto simp: muteClusterRole_gw_def muteClusterRoleBinding_gw_def muteRole_gw_def
        muteRoleBinding_gw_def muteConfigMap_def ok_simps split: kobj.splits)+

lemma resubmits_deployment: "resubmits (muteDeployment_gw ord g)"
  by (auto simp: resubmits_def muteDeployment_gw_def updateDeploymentSpec_gw_def Let_def either_def
      blend_meta_def blend_deployment_def blend_template_meta_def blend_pod_def split: kobj.splits)

lemma resubmits_hpa: "resubmits (muteHPA g)"
  by (auto simp: resubmits_def muteHPA_def updateHPAv2Spec_def ok_simps either_def blend_meta_def
      blend_hpa_def split: kobj.splits)

lemma resubmits_scaled: "resubmits (muteScaledObject g)"
  by (auto simp: resubmits_def muteScaledObject_def updateScaledObjectSpec_def ok_simps either_def
      blend_meta_def blend_entries_update split: kobj.splits)

lemma updateService_again:
  assumes "updateServiceSpec_gw svc g = Inr svc'" and "om_Labels (svc_Meta b) = om_Labels (svc_Meta svc')"
  shows "\<exists>b'. updateServiceSpec_gw b g = Inr b' \<and> blended (OService svc') (OService b) (OService b')"
  using assms
  by (cases "crd_Service (gw_common g)"; cases "om_Labels (svc_Meta svc)")
    (auto simp: updateServiceSpec_gw_def Let_def either_def blend_meta_def blend_service_def split: if_splits)

lemma resubmits_service: "resubmits (muteService_gw g)"
  unfolding resubmits_def
proof (intro allI impI)
  fix base y x assume run: "muteService_gw g base = Inr y" and k: "keeps_sent y x"
  from run obtain svc svc' where up: "updateServiceSpec_gw svc g = Inr svc'" and y: "y = OService svc'"
    by (auto simp: muteService_gw_def ok_simps split: kobj.splits)
  from k y obtain b where x: "x = OService b" and lab: "om_Labels (svc_Meta b) = om_Labels (svc_Meta svc')"
    by (auto split: kobj.splits)
  from updateService_again [OF up lab] obtain b' where "updateServiceSpec_gw b g = Inr b'"
    and "blended (OService svc') (OService b) (OService b')" by blast
  then show "\<exists>x'. muteService_gw g x = Inr x' \<and> blended y x x'"
    by (simp add: muteService_gw_def x y)
qed

lemmas resubmits_children = resubmits_plain_gw resubmits_deployment resubmits_hpa resubmits_scaled
  resubmits_service

lemma condition_is_unique: "condition_is t s reason st \<Longrightarrow> condition_is t s' reason' st \<Longrightarrow> s = s'"
  by (auto simp: condition_is_def)

context gateway_env
begin

lemma settled_at_rest:
  assumes server: "defaulting admits"
    and settled: "gateway_settled L admits semEq ord g installed (lookup w)"
    and installed: "getEffectiveScaleMode g = AutoScalingModeKEDA \<Longrightarrow> installed"
    and pending: "\<And>q x. q \<in> {hpa_key g, scaled_key g} \<Longrightarrow> lookup w q = Some x \<Longrightarrow>
      om_DeletionTimestamp (meta_of x) = None"
  shows "at_rest (stable admits semEq (lookup w)) L ord g (lookup w)"
proof -
  have rest: "stable admits semEq (lookup w) q f"
    if "synced admits semEq (lookup w) q f" "resubmits f"
      "fst q \<notin> {KHigressGateway, KHigressController}" for q f
    by (rule synced_stable [OF server that(2,1,3)]) (auto dest: stored_key admits_key)
  have gone: "lookup w q = None" if "removed (lookup w q)" "q \<in> {hpa_key g, scaled_key g}" for q
    using pending [OF that(2)] that(1) by (cases "lookup w q") auto
  from settled show ?thesis
    unfolding gateway_settled_def account_settled_def autoscaling_settled_def Let_def at_rest_def
    using installed by (auto intro!: rest resubmits_children gone)
qed

lemma adopted_meta:
  assumes "adopted admits g0 g1" and "om_DeletionTimestamp (gw_Meta g0) = None"
  shows "om_DeletionTimestamp (gw_Meta g1) = None"
proof (cases "finalizer_gw \<in> set (om_Finalizers (gw_Meta g0))")
  case True
  with assms show ?thesis by (simp add: adopted_def)
next
  case False
  with assms(1) have "admits (Some (OHigressGateway g0))
      (set_finalizers (om_Finalizers (gw_Meta g0) @ [finalizer_gw]) (OHigressGateway (setDefaultValues_gw g0)))
      (OHigressGateway g1)" by (simp add: adopted_def)
  from admits_deletion [OF this] assms(2) show ?thesis by simp
qed

text \<open>
  After one reconcile that returned and reported the autoscaling as ready the children are at
  rest: a later reconcile leaves them as they are, even where it sends an update.
\<close>

lemma Reconcile_converges:
  assumes server: "defaulting admits"
    and reads: "served_reads r lookup"
    and run: "Reconcile_gw L r ord ord' nn w = (Inr u, w1)"
    and stored: "lookup w (KHigressGateway, nn) = Some (OHigressGateway g0)"
    and live: "om_DeletionTimestamp (gw_Meta g0) = None"
    and ns: "active_namespace (lookup w) (fst nn)"
    and stored': "lookup w1 (KHigressGateway, nn) = Some (OHigressGateway g')"
    and ready: "condition_is conditionTypeAutoscalingReady ConditionTrue reason (gw_Status g')"
    and pending: "\<And>q x. q \<in> {(KHPA, nn), (KUnstructured kedaScaledObjectGVK, nn)} \<Longrightarrow>
      lookup w1 q = Some x \<Longrightarrow> om_DeletionTimestamp (meta_of x) = None"
    and run2: "Reconcile_gw L r ord2 ord' nn w1 = (Inr v, w2)"
    and q: "q \<noteq> (KHigressGateway, nn)"
  shows "lookup w2 q = lookup w1 q"
proof -
  let ?g = "setDefaultValues_gw g'"
  have nn: "gw_key g' = nn" using stored_key [OF stored'] by simp
  from Reconcile_live_ok [OF run stored live ns reads] stored' obtain g1 where
    ad: "adopted admits g0 g1" and same: "same_but_rest (gw_Meta g') (gw_Meta g1)"
    and fin: "finalizer_gw \<in> set (om_Finalizers (gw_Meta g'))"
    and how: "completed L admits semEq ord' g' (lookup w1) \<or> rejected L g' (lookup w) (lookup w1)"
    by auto
  have "\<not> rejected L g' (lookup w) (lookup w1)"
    using condition_is_unique [OF ready]
    by (auto simp: rejected_def status_rejected_def ConditionTrue_def ConditionFalse_def)
  with how obtain installed where valid: "validateAutoscalingConfig (IsZero L) ?g = Inr None"
    and settled: "gateway_settled L admits semEq ord' ?g installed (lookup w1)"
    and status: "status_ready (om_Generation (gw_Meta g')) (getEffectiveScaleMode g')
      (fst (reported (getEffectiveScaleMode g') installed))
      (snd (reported (getEffectiveScaleMode g') installed)) (gw_Status g')"
    by (auto simp: completed_def Let_def)
  have inst: installed if "getEffectiveScaleMode ?g = AutoScalingModeKEDA"
  proof (rule ccontr)
    assume "\<not> installed"
    with that have "fst (reported (getEffectiveScaleMode g') installed) =
        (ConditionFalse, reasonDependencyMissing)" by (simp add: reported_def mode_defs)
    with status have "condition_is conditionTypeAutoscalingReady ConditionFalse reasonDependencyMissing
        (gw_Status g')" by (simp add: status_ready_def)
    from condition_is_unique [OF this ready] show False by (simp add: ConditionTrue_def ConditionFalse_def)
  qed
  have "at_rest (stable admits semEq (lookup w1)) L ord' ?g (lookup w1)"
    by (rule settled_at_rest [OF server settled inst]) (use pending nn in auto)
  moreover have "om_DeletionTimestamp (gw_Meta g') = None"
  proof -
    have "(gw_Meta g')\<lparr>om_rest := []\<rparr> = (gw_Meta g1)\<lparr>om_rest := []\<rparr>" using same by (simp add: rest_only)
    from arg_cong [OF this, of om_DeletionTimestamp] adopted_meta [OF ad live] show ?thesis by simp
  qed
  ultimately show ?thesis
    using Reconcile_at_rest [OF reads run2 stored' _ fin valid _ q] by simp
qed

end

end
