(* ===== verification/CtlConverge.thy ===== *)
theory CtlConverge
  imports CtlOutcome Steady
begin

text \<open>
  Convergence of the controller resource: on a server that fills in defaults, a reconcile that
  follows a successful one changes nothing.
\<close>

section \<open>The mutations ask for nothing new\<close>

lemma settles_rbac_ctl:
  "settles (muteClusterRole_ctl h)" "settles (muteClusterRoleBinding_ctl h)"
  "settles (muteRole_ctl h)" "settles (muteRoleBinding_ctl h)"
  by (auto simp: settles_def muteClusterRole_ctl_def muteClusterRoleBinding_ctl_def muteRole_ctl_def
      muteRoleBinding_ctl_def updateClusterRoleBinding_ctl_def updateRoleBinding_ctl_def ok_simps
      stamped_cases split: kobj.splits)

lemma resubmits_rbac_ctl:
  "resubmits (muteClusterRole_ctl h)" "resubmits (muteClusterRoleBinding_ctl h)"
  "resubmits (muteRole_ctl h)" "resubmits (muteRoleBinding_ctl h)"
  by (rule settles_resubmits, rule settles_rbac_ctl,
      auto simp: muteClusterRole_ctl_def muteClusterRoleBinding_ctl_def muteRole_ctl_def
        muteRoleBinding_ctl_def ok_simps split: kobj.splits)+

lemma appended_names:
  "p \<in> P \<Longrightarrow> sp_Name p \<in> sp_Name ` (A \<union> {p \<in> P. sp_Name p \<notin> sp_Name ` A})"
  by (cases "sp_Name p \<in> sp_Name ` A") auto

lemma resubmits_service_ctl: "resubmits (muteService_ctl h)"
  unfolding resubmits_def
proof (intro allI impI)
  fix base y x assume run: "muteService_ctl h base = Inr y" and k: "keeps_sent y x"
  from run obtain svc where y: "y = OService (updateServiceSpec_ctl svc h)"
    by (auto simp: muteService_ctl_def split: kobj.splits)
  from k y obtain b where x: "x = OService b"
    and names: "map sp_Name (ss_Ports (svc_Spec b)) =
      map sp_Name (ss_Ports (svc_Spec (updateServiceSpec_ctl svc h)))"
    by (auto split: kobj.splits)
  from arg_cong [OF names, of set] have "sp_Name ` set (ss_Ports (svc_Spec b)) =
      sp_Name ` set (ss_Ports (svc_Spec (updateServiceSpec_ctl svc h)))" by simp
  then have "either ss_Ports (svc_Spec (updateServiceSpec_ctl svc h)) (svc_Spec b)
      (svc_Spec (updateServiceSpec_ctl b h))"
    unfolding either_def ports_updateServiceSpec_ctl
    by (cases "crd_Service (hc_common h)") (auto simp: Let_def filter_empty_conv intro: appended_names)
  then have "blended y x (OService (updateServiceSpec_ctl b h))"
    unfolding x y
    by (cases "crd_Service (hc_common h)")
      (simp_all add: blend_meta_def blend_service_def either_def updateServiceSpec_ctl_def Let_def)
  then show "\<exists>x'. muteService_ctl h x = Inr x' \<and> blended y x x'"
    by (simp add: muteService_ctl_def x)
qed

text \<open>
  Containers that exist are kept, so a deployment that has them all is left alone by the
  mutation, whatever the order in which the two environments are ranged over.
\<close>

abbreviation containers :: "Deployment \<Rightarrow> Container list" where
  "containers d \<equiv> ps_Containers (pt_Spec (ds_Template (dep_Spec d)))"

definition compares_containers :: "(kobj \<Rightarrow> kobj \<Rightarrow> bool) \<Rightarrow> bool" where
  "compares_containers semEq \<longleftrightarrow> (\<forall>a b. semEq (ODeployment a) (ODeployment b) \<longrightarrow>
     map ct_Name (containers a) = map ct_Name (containers b))"

lemma updateDeployment_names:
  assumes "updateDeploymentSpec_ctl o1 o2 d h = Inr d'"
  shows "genControllerName h \<in> ct_Name ` set (containers d')"
    and "\<not> crd_EnableHigressIstio (hc_common h) \<Longrightarrow> genPilotName h \<in> ct_Name ` set (containers d')"
  using assms by (auto simp: updateDeploymentSpec_ctl_def ok_simps Let_def updatePod_ctl_fields ensureContainer_names)

text \<open>On such a deployment the mutation sets the other fields only.\<close>

lemma updateDeployment_kept:
  assumes "updateDeploymentSpec_ctl o1 o2 d h = Inr d'"
    and names: "map ct_Name (containers b) = map ct_Name (containers d')"
  shows "\<exists>b'. updateDeploymentSpec_ctl o3 o4 b h = Inr b' \<and> containers b' = containers b \<and>
    blended (ODeployment d') (ODeployment b) (ODeployment b')"
proof -
  from assms(1) obtain sa where sa: "getServiceAccount_ctl h = Inr sa"
    and d': "updateDeploymentSpec_ctl o1 o2 d h = Inr d'" by (auto simp: updateDeploymentSpec_ctl_def ok_simps)
  have same: "ct_Name ` set (containers b) = ct_Name ` set (containers d')"
    using arg_cong [OF names, of set] by simp
  let ?pod = "pt_Spec (ds_Template (dep_Spec b))"
  have keep: "ps_Containers (updatePod_ctl o3 o4 sa ?pod h) = ps_Containers ?pod"
    using updateDeployment_names [OF assms(1)] unfolding same [symmetric]
    by (simp add: updatePod_ctl_fields ensureContainer_same)
  then have "updatePod_ctl o3 o4 sa ?pod h =
      ?pod\<lparr>ps_ServiceAccountName := sa, ps_Volumes := genVolumes_ctl h\<rparr>"
    by (intro PodSpec.equality) (simp_all add: updatePod_ctl_def Let_def)
  with sa d' show ?thesis
    by (auto simp: updateDeploymentSpec_ctl_def Let_def either_def blend_meta_def blend_deployment_def
        blend_template_meta_def blend_pod_def updatePod_ctl_fields UpdateObjectMeta_def)
qed

lemma stable_deployment_ctl:
  assumes server: "defaulting admits" and sem: "compares_containers semEq"
    and synced: "synced admits semEq st q (muteDeployment_ctl o1 o2 h)"
    and kind: "fst q = KDeployment"
    and key: "\<And>x. st q = Some x \<Longrightarrow> objkey_of x = q"
    and admits_key: "\<And>old x y. admits old x y \<Longrightarrow> objkey_of y = objkey_of x"
  shows "stable admits semEq st q (muteDeployment_ctl o3 o4 h)"
proof -
  from synced obtain x old base y where x: "st q = Some x"
    and run: "muteDeployment_ctl o1 o2 h base = Inr y"
    and y: "admits old y x \<or> (x = base \<and> semEq base y)"
    unfolding synced_def in_sync_def by blast
  from run obtain d d' where base: "base = ODeployment d"
    and up: "updateDeploymentSpec_ctl o1 o2 d h = Inr d'" and "y = ODeployment d'"
    by (auto simp: muteDeployment_ctl_def ok_simps split: kobj.splits)
  with y have how: "admits old (ODeployment d') x \<or> (x = base \<and> semEq base (ODeployment d'))" by simp
  show ?thesis
  proof (cases "x = base \<and> semEq base (ODeployment d')")
    case True
    then have names: "map ct_Name (containers d) = map ct_Name (containers d')"
      using sem base by (auto simp: compares_containers_def)
    from updateDeployment_kept [OF up names, of o1 o2] up
    have kept: "containers d' = containers d" by auto
    from updateDeployment_kept [OF up names, of o3 o4] obtain b' where
      b': "updateDeploymentSpec_ctl o3 o4 d h = Inr b'" "containers b' = containers d" by blast
    have "b' = d'"
      using up b' kept
      by (auto simp: updateDeploymentSpec_ctl_def ok_simps Let_def updatePod_ctl_def)
    with True x base b'(1) show ?thesis by (auto simp: stable_def muteDeployment_ctl_def)
  next
    case False
    with how have ad: "admits old (ODeployment d') x" by blast
    have "kind_of (ODeployment d') \<notin> {KHigressGateway, KHigressController}" by simp
    from server [unfolded defaulting_def, rule_format, OF this ad] have sent: "keeps_sent (ODeployment d') x"
      and again: "\<And>x' z. blended (ODeployment d') x x' \<Longrightarrow> admits (Some x) x' z \<Longrightarrow> z = x"
      by blast+
    from sent obtain b where b: "x = ODeployment b"
      and names: "map ct_Name (containers b) = map ct_Name (containers d')" by (auto split: kobj.splits)
    from updateDeployment_kept [OF up names, of o3 o4] obtain b' where
      b': "updateDeploymentSpec_ctl o3 o4 b h = Inr b'" "blended (ODeployment d') x (ODeployment b')"
      using b by blast
    then have "muteDeployment_ctl o3 o4 h x = Inr (ODeployment b')"
      using b by (simp add: muteDeployment_ctl_def)
    with again [OF b'(2)] x show ?thesis unfolding stable_def by blast
  qed
qed

text \<open>
  The mutations do not depend on the status or on the metadata the operator never reads.
\<close>

definition restamp_ctl :: "raw \<Rightarrow> HigressControllerStatus \<Rightarrow> HigressController \<Rightarrow> HigressController" where
  "restamp_ctl x s h = h\<lparr>hc_Meta := (hc_Meta h)\<lparr>om_rest := x\<rparr>, hc_Status := s\<rparr>"

lemma restamp_ctl_simps [simp]:
  "hc_Spec (restamp_ctl x s h) = hc_Spec h"
  "hc_Status (restamp_ctl x s h) = s"
  "hc_Name (restamp_ctl x s h) = hc_Name h"
  "hc_Namespace (restamp_ctl x s h) = hc_Namespace h"
  "hc_Labels (restamp_ctl x s h) = hc_Labels h"
  "om_Annotations (hc_Meta (restamp_ctl x s h)) = om_Annotations (hc_Meta h)"
  by (simp_all add: restamp_ctl_def)

lemma restamp_ctl_eq:
  assumes "hc_Spec h' = hc_Spec h" and "(hc_Meta h')\<lparr>om_rest := []\<rparr> = (hc_Meta h)\<lparr>om_rest := []\<rparr>"
  shows "h' = restamp_ctl (om_rest (hc_Meta h')) (hc_Status h') h"
proof (rule HigressController.equality)
  have "(hc_Meta h')\<lparr>om_rest := [], om_rest := om_rest (hc_Meta h')\<rparr> =
      (hc_Meta h)\<lparr>om_rest := [], om_rest := om_rest (hc_Meta h')\<rparr>"
    using assms(2) by simp
  then show "hc_Meta h' = hc_Meta (restamp_ctl (om_rest (hc_Meta h')) (hc_Status h') h)"
    by (simp add: restamp_ctl_def)
qed (simp_all add: assms(1))

lemma setDefault_restamp_ctl:
  "setDefaultValues_ctl (restamp_ctl x s h) = restamp_ctl x s (setDefaultValues_ctl h)"
  by (simp add: setDefaultValues_ctl_def hc_common_upd_def restamp_ctl_def)

lemma account_restamp_ctl [simp]:
  "getServiceAccount_ctl (restamp_ctl x s h) = getServiceAccount_ctl h"
  "rbacEnabled_ctl (restamp_ctl x s h) = rbacEnabled_ctl h"
  by (simp_all add: getServiceAccount_ctl_def rbacEnabled_ctl_def cong: if_cong)

lemma container_restamp_ctl [simp]:
  "controllerContainer ord (restamp_ctl x s h) = controllerContainer ord h"
  "pilotContainer ord (restamp_ctl x s h) = pilotContainer ord h"
  "genVolumes_ctl (restamp_ctl x s h) = genVolumes_ctl h"
  by (simp_all add: controllerContainer_def pilotContainer_def genVolumes_ctl_def
      genControllerName_def genControllerArgs_def genControllerPorts_def genControllerEnv_def
      genControllerVolumeMounts_def genControllerSecurityContext_def genPilotName_def genPilotArgs_def
      genPilotPorts_def genPilotEnv_def genPilotVolumeMounts_def genPilotProbe_def
      genPilotSecurityContext_def cong: if_cong option.case_cong)

lemma updateDeploymentSpec_restamp_ctl [simp]:
  "updateDeploymentSpec_ctl o1 o2 d (restamp_ctl x s h) = updateDeploymentSpec_ctl o1 o2 d h"
  by (simp add: updateDeploymentSpec_ctl_def updatePod_ctl_def UpdateObjectMeta_def cong: if_cong)

lemma mute_restamp_ctl [simp]:
  "muteClusterRole_ctl (restamp_ctl x s h) = muteClusterRole_ctl h"
  "muteClusterRoleBinding_ctl (restamp_ctl x s h) = muteClusterRoleBinding_ctl h"
  "muteRole_ctl (restamp_ctl x s h) = muteRole_ctl h"
  "muteRoleBinding_ctl (restamp_ctl x s h) = muteRoleBinding_ctl h"
  "muteDeployment_ctl o1 o2 (restamp_ctl x s h) = muteDeployment_ctl o1 o2 h"
  "muteService_ctl (restamp_ctl x s h) = muteService_ctl h"
  by (auto simp: fun_eq_iff muteClusterRole_ctl_def muteClusterRoleBinding_ctl_def muteRole_ctl_def
      muteRoleBinding_ctl_def muteDeployment_ctl_def muteService_ctl_def updateClusterRoleBinding_ctl_def
      updateRoleBinding_ctl_def updateServiceSpec_ctl_def cong: if_cong option.case_cong split: kobj.split)

lemmas resubmits_children_ctl = resubmits_rbac_ctl resubmits_service_ctl

section \<open>The steady state\<close>

definition at_rest_ctl :: "(objkey \<Rightarrow> mutateFn \<Rightarrow> bool) \<Rightarrow> HigressController \<Rightarrow> state \<Rightarrow> bool" where
  "at_rest_ctl fx h st \<longleftrightarrow>
     (\<exists>n sa. getServiceAccount_ctl h = Inr n \<and> crd_ServiceAccount (hc_common h) = Some sa \<and>
       (sa_Enable sa \<longrightarrow> st (KServiceAccount, (hc_Namespace h, n)) \<noteq> None) \<and>
       (rbacEnabled_ctl h = Inr True \<longrightarrow>
          fx (KClusterRole, ('''', clusterRole_ctl)) (muteClusterRole_ctl h) \<and>
          fx (KClusterRoleBinding, ('''', n)) (muteClusterRoleBinding_ctl h) \<and>
          fx (KRole, (hc_Namespace h, role_ctl)) (muteRole_ctl h) \<and>
          fx (KRoleBinding, (hc_Namespace h, n)) (muteRoleBinding_ctl h))) \<and>
     (\<forall>o1 o2. fx (KDeployment, hc_key h) (muteDeployment_ctl o1 o2 h)) \<and>
     fx (KService, (hc_Namespace h, HigressControllerServiceName)) (muteService_ctl h)"

definition steady_ctl :: "HigressController \<Rightarrow> state \<Rightarrow> bool" where
  "steady_ctl h st \<longleftrightarrow> at_rest_ctl (fixed st) h st"

lemma at_rest_restamp_ctl [simp]: "at_rest_ctl fx (restamp_ctl x s h) st = at_rest_ctl fx h st"
  by (simp add: at_rest_ctl_def)

context controller_env
begin

lemma settled_at_rest_ctl:
  assumes server: "defaulting admits" and sem: "compares_containers semEq"
    and settled: "controller_settled admits semEq ords h (lookup w)"
  shows "at_rest_ctl (stable admits semEq (lookup w)) h (lookup w)"
proof -
  have rest: "stable admits semEq (lookup w) q f"
    if "synced admits semEq (lookup w) q f" "resubmits f"
      "fst q \<notin> {KHigressGateway, KHigressController}" for q f
    by (rule synced_stable [OF server that(2,1,3)]) (auto dest: stored_key admits_key)
  have "synced admits semEq (lookup w) (KDeployment, hc_key h) (muteDeployment_ctl (fst ords) (snd ords) h)"
    using settled unfolding controller_settled_def by blast
  then have dep: "stable admits semEq (lookup w) (KDeployment, hc_key h) (muteDeployment_ctl o1 o2 h)" for o1 o2
    by (rule stable_deployment_ctl [OF server sem]) (auto dest: stored_key admits_key)
  from settled show ?thesis
    unfolding controller_settled_def at_rest_ctl_def
    by (auto intro!: rest resubmits_children_ctl dep)
qed

lemma createServiceAccount_ctl_settled:
  assumes "getServiceAccount_ctl h = Inr n" and "crd_ServiceAccount (hc_common h) = Some sa"
    and "sa_Enable sa \<Longrightarrow> st (KServiceAccount, (hc_Namespace h, n)) \<noteq> None"
  shows "settled_run lookup st (createServiceAccount_ctl L r h)"
  unfolding createServiceAccount_ctl_def assms(2) deref_simps
proof (intro settled_liftR settled_if settled_bindM settled_ret CreateIfNotExits_settled)
  fix acc x obj assume "Inr sa = Inr acc" "\<not> \<not> sa_Enable acc" "initServiceAccount_ctl h = Inr x"
    and "SetControllerReference L (OHigressController h) (OServiceAccount x) = Inr obj"
  with assms show "st (objkey_of obj) \<noteq> None"
    by (auto dest!: initServiceAccount_ctl_key refs.setref_key)
qed

lemma createRBAC_ctl_settled:
  assumes full: "fillRBAC h = h" and n: "getServiceAccount_ctl h = Inr n"
    and rbac: "rbacEnabled_ctl h = Inr True \<Longrightarrow>
          stable admits semEq st (KClusterRole, ('''', clusterRole_ctl)) (muteClusterRole_ctl h) \<and>
          stable admits semEq st (KClusterRoleBinding, ('''', n)) (muteClusterRoleBinding_ctl h) \<and>
          stable admits semEq st (KRole, (hc_Namespace h, role_ctl)) (muteRole_ctl h) \<and>
          stable admits semEq st (KRoleBinding, (hc_Namespace h, n)) (muteRoleBinding_ctl h)"
  shows "settled_run lookup st (createRBAC_ctl L r h)"
  unfolding createRBAC_ctl_def full Let_def
  by (intro settled_liftR settled_if settled_bindM settled_ret upsert_settled meta_stable_rbac_ctl)
    (use rbac n in \<open>auto dest!: initClusterRoleBinding_ctl_key initRoleBinding_ctl_key\<close>)

text \<open>The instance is already marked as deployed, so nothing at all is written.\<close>

lemma reconcileLive_ctl_at_rest:
  assumes st: "at_rest_ctl (stable admits semEq (lookup w)) h (lookup w)"
    and full: "fillRBAC h = h" and fin: "finalizer_ctl \<in> set (om_Finalizers (hc_Meta h))"
    and deployed: "hcst_Deployed (hc_Status h)"
    and run: "reconcileLive_ctl L r ords ords' h w = (Inr u, w')"
  shows "lookup w' = lookup w"
proof -
  from st obtain n sa where n: "getServiceAccount_ctl h = Inr n" "crd_ServiceAccount (hc_common h) = Some sa"
    and acc: "sa_Enable sa \<longrightarrow> lookup w (KServiceAccount, (hc_Namespace h, n)) \<noteq> None"
    and rbac: "rbacEnabled_ctl h = Inr True \<Longrightarrow>
          stable admits semEq (lookup w) (KClusterRole, ('''', clusterRole_ctl)) (muteClusterRole_ctl h) \<and>
          stable admits semEq (lookup w) (KClusterRoleBinding, ('''', n)) (muteClusterRoleBinding_ctl h) \<and>
          stable admits semEq (lookup w) (KRole, (hc_Namespace h, role_ctl)) (muteRole_ctl h) \<and>
          stable admits semEq (lookup w) (KRoleBinding, (hc_Namespace h, n)) (muteRoleBinding_ctl h)"
    unfolding at_rest_ctl_def by blast
  have ns: "settled_run lookup (lookup w) (namespaceActive r ns)" for ns
    using namespaceActive_lookup by (auto simp: settled_run_def)
  have sa: "settled_run lookup (lookup w) (createServiceAccount_ctl L r h)"
    by (rule createServiceAccount_ctl_settled [OF n]) (use acc in blast)
  have ro: "settled_run lookup (lookup w) (createRBAC_ctl L r h)"
    by (rule createRBAC_ctl_settled [OF full n(1) rbac])
  have dep: "settled_run lookup (lookup w) (createDeployment_ctl L r ords ords' h)"
    unfolding createDeployment_ctl_def
    by (rule owned_settled [where k = "(KDeployment, hc_key h)"])
      (use st in \<open>auto simp: at_rest_ctl_def intro: initDeployment_ctl_key\<close>)
  have svc: "settled_run lookup (lookup w) (createService_ctl L r h)"
    unfolding createService_ctl_def
    by (rule owned_settled [where k = "(KService, (hc_Namespace h, HigressControllerServiceName))"])
      (use st in \<open>auto simp: at_rest_ctl_def\<close>)
  have same: "h1 = h" if "createRBAC_ctl L r h w1 = (Inr h1, w2)" for h1 w1 w2
    using createRBAC_ctl_instance [OF that] full by simp
  have ens: "ensureFinalizer_ctl L r h = ret h"
    using fin by (simp add: ensureFinalizer_ctl_def fins.add_old)
  have pub: "publishDeployed r h = ret ()" using deployed by (simp add: publishDeployed_def)
  have rest: "settled_run lookup (lookup w) (bindM (createDeployment_ctl L r ords ords' h) (\<lambda>_.
      bindM (createService_ctl L r h) (\<lambda>_. publishDeployed r h)))"
    unfolding pub by (intro settled_bindM dep svc settled_ret)
  have "settled_run lookup (lookup w) (reconcileLive_ctl L r ords ords' h)"
    unfolding reconcileLive_ctl_def ens bindM_ret
    by (intro settled_bindM [OF ns] settled_if settled_ret settled_bindM [OF sa]
        settled_bindM [OF settled_keeps [OF createCRDs_keeps]] settled_bindM [OF ro])
      (use same rest in auto)
  from settled_runD [OF this run] show ?thesis by simp
qed

text \<open>
  Two successful reconciles in a row of a live resource that carries the finalizer: the second
  changes nothing in the cluster.
\<close>

lemma Reconcile_ctl_converges:
  assumes server: "defaulting admits" and sem: "compares_containers semEq"
    and reads: "served_reads r lookup"
    and run: "Reconcile_ctl L r ords ords' nn w = (Inr u, w1)"
    and stored: "lookup w (KHigressController, nn) = Some (OHigressController h0)"
    and live: "om_DeletionTimestamp (hc_Meta h0) = None"
    and fin: "finalizer_ctl \<in> set (om_Finalizers (hc_Meta h0))"
    and ns: "active_namespace (lookup w) (fst nn)"
    and run2: "Reconcile_ctl L r o1 o2 nn w1 = (Inr v, w2)"
  shows "lookup w2 = lookup w1"
proof -
  from Reconcile_ctl_live_ok [OF run stored live ns reads] obtain hs h h' where
    ad: "adopted_ctl admits h0 hs" and st: "lookup w1 (KHigressController, nn) = Some (OHigressController h')"
    and dep: "deployed_as h0 hs h h'" and settled: "controller_settled admits semEq ords' h (lookup w1)" by blast
  have hs: "hs = h0" using ad fin by (simp add: adopted_ctl_def)
  let ?h = "setDefaultValues_ctl h'"
  have h: "h = setDefaultValues_ctl h0" using dep fin hs by (simp add: deployed_as_def)
  from dep hs have eqs: "hc_Spec h' = hc_Spec h0" "(hc_Meta h')\<lparr>om_rest := []\<rparr> = (hc_Meta h0)\<lparr>om_rest := []\<rparr>"
    and fin': "finalizer_ctl \<in> set (om_Finalizers (hc_Meta h'))" and dpl: "hcst_Deployed (hc_Status h')"
    by (simp_all add: deployed_as_def)
  note stamp = restamp_ctl_eq [OF eqs]
  have "at_rest_ctl (stable admits semEq (lookup w1)) h (lookup w1)"
    by (rule settled_at_rest_ctl [OF server sem settled])
  then have steady: "at_rest_ctl (stable admits semEq (lookup w1)) ?h (lookup w1)"
    by (subst stamp) (simp add: h setDefault_restamp_ctl)
  from reads st have "fst (Get r KHigressController nn w1) = Inr (OHigressController h')"
    by (cases nn) (simp add: served_reads_def)
  then obtain w3 where get: "Get r KHigressController nn w1 = (Inr (OHigressController h'), w3)"
    by (metis prod.collapse)
  have "om_DeletionTimestamp ((hc_Meta h')\<lparr>om_rest := []\<rparr>) = om_DeletionTimestamp ((hc_Meta h0)\<lparr>om_rest := []\<rparr>)"
    by (simp only: eqs(2))
  with live have "om_DeletionTimestamp (hc_Meta h') = None" by simp
  with run2 get have run3: "reconcileLive_ctl L r o1 o2 ?h w3 = (Inr v, w2)"
    by (simp add: Reconcile_ctl_def ifErr_run bindM_run asController_def)
  have "lookup w2 = lookup w3"
  proof (rule reconcileLive_ctl_at_rest [OF _ _ _ _ run3])
    show "at_rest_ctl (stable admits semEq (lookup w3)) ?h (lookup w3)" using steady get_lookup [OF get] by simp
    show "fillRBAC ?h = ?h" by (rule fillRBAC_id) (simp_all add: setDefaultCommon_ctl_fields)
  qed (use fin' dpl in simp_all)
  with get_lookup [OF get] show ?thesis by simp
qed

end

end
