(* ===== verification/LiveMemory.thy ===== *)
theory LiveMemory
  imports SysMemory GwLive CtlLive GwConverge CtlConverge
begin

text \<open>
  The executable cluster answers: it satisfies the contracts of total correctness for both
  reconcilers, and it stores children as a server that fills in defaults may.
\<close>

section \<open>The client\<close>

interpretation mem_live: available_server "memClient z" memLookup memAdmits registered for z
proof (unfold_locales, unfold memClient_sel, goal_cases)
  case (1 k n) show ?case by (auto simp: keeps_def memGet_def split: option.split)
next
  case (2 w k n x) then show ?case using memLookup_Some [of w "(k, n)" x] by (simp add: memGet_def)
next
  case (3 w k n) then show ?case by (simp add: memGet_def notFound_def noMatch_def)
next
  case (4 w x) then show ?case by (simp add: memCreate_def)
next
  case (5 w x)
  then obtain y where y: "memLookup w (objkey_of x) = Some y" by blast
  from memLookup_Some [OF this] y show ?case by (simp add: memCreate_def)
next
  case (6 w x) then show ?case by (auto simp: memUpdate_def Let_def)
next
  case (7 w x) then show ?case by (auto simp: memDelete_def)
qed

lemma mem_cou_serves:
  assumes "registered w (kind_of obj)" and "meta_stable f"
    and "\<And>x. x = obj \<or> memLookup w (objkey_of obj) = Some x \<Longrightarrow> mutates f x"
  shows "\<exists>rs y w'. createOrUpdate (=) (memClient ()) obj f w = (Inr (rs, y), w')"
  using mem_live.createOrUpdate_serves [OF assms] by auto

lemma addOwner_serves: "om_OwnerReferences (meta_of x) = [] \<Longrightarrow> \<exists>y. addOwner owner x = Inr y"
  by (simp add: addOwner_def)

lemma registered_builtin: "(\<And>gvk. k \<noteq> KUnstructured gvk) \<Longrightarrow> registered w k"
  by (cases k) auto

lemma mem_status_serves:
  "memLookup w (gw_objkey g) = Some (OHigressGateway cur) \<Longrightarrow>
     \<exists>y w'. memStatus (OHigressGateway g) w = (Inr y, w')"
  "memLookup w (hc_objkey h) = Some (OHigressController cur') \<Longrightarrow>
     \<exists>y w'. memStatus (OHigressController h) w = (Inr y, w')"
  by (simp_all add: memStatus_def)

subsection \<open>Defaulting\<close>

text \<open>
  The executable cluster fills in nothing but what the server manages itself.  The second server
  fills in two fields of a deployment that are not set, one of which (the strategy) the gateway's
  mutation unsets in every run: it is an instance of \<open>defaulting\<close> as well.
\<close>

lemma admitted_child:
  "kind_of x \<notin> {KHigressGateway, KHigressController} \<Longrightarrow>
   admitted old x = set_deletion (case old of None \<Rightarrow> None | Some z \<Rightarrow> om_DeletionTimestamp (meta_of z)) x"
  unfolding admitted_def
  by (cases "(old, set_deletion (case old of None \<Rightarrow> None | Some z \<Rightarrow> om_DeletionTimestamp (meta_of z)) x)"
        rule: keepStatus.cases) (auto dest: arg_cong [of _ _ kind_of])

definition fillSpec :: "DeploymentSpec \<Rightarrow> DeploymentSpec" where
  "fillSpec s = s
     \<lparr>ds_Replicas := (if ds_Replicas s = None then Some 1 else ds_Replicas s),
      ds_rest := (if ds_rest s = [] then ''RollingUpdate'' else ds_rest s)\<rparr>"

fun filled :: "kobj \<Rightarrow> kobj" where
  "filled (ODeployment d) = ODeployment (d\<lparr>dep_Spec := fillSpec (dep_Spec d)\<rparr>)"
| "filled x = x"

definition fillAdmits :: "kobj option \<Rightarrow> kobj \<Rightarrow> kobj \<Rightarrow> bool" where
  "fillAdmits old x y \<longleftrightarrow> y = filled (admitted old x)"

lemma update_entry_id: "map_of xs k = Some v \<Longrightarrow> AList.update k v xs = xs"
  by (induction xs) (auto split: if_splits)

lemma blend_template_meta_same: "blend_template_meta a a c \<Longrightarrow> c = a"
  by (intro ObjectMeta.equality) (auto simp: blend_template_meta_def either_def)

lemma blend_pod_same: "blend_pod a a c \<Longrightarrow> c = a"
  by (intro PodSpec.equality) (auto simp: blend_pod_def either_def)

lemma blend_deployment_same: "blend_deployment a a c \<Longrightarrow> c = a"
  by (intro DeploymentSpec.equality PodTemplateSpec.equality)
    (auto simp: blend_deployment_def either_def dest: blend_template_meta_same blend_pod_same)

lemma blend_service_same: "blend_service a a c \<Longrightarrow> c = a"
  by (intro ServiceSpec.equality) (auto simp: blend_service_def either_def)

lemma blend_hpa_same: "blend_hpa a a c \<Longrightarrow> c = a"
  by (intro HPASpec.equality) (auto simp: blend_hpa_def either_def)

lemma blend_entries_same: "blend_entries a a c \<Longrightarrow> c = a"
  by (auto simp: blend_entries_def update_entry_id)

lemma blend_meta_same:
  "blend_meta a (a\<lparr>om_DeletionTimestamp := t\<rparr>) c \<Longrightarrow> c = a\<lparr>om_DeletionTimestamp := t\<rparr>"
  by (intro ObjectMeta.equality) (auto simp: blend_meta_def either_def dest: arg_cong [of _ _ om_Name])

lemma blended_same:
  "kind_of x \<notin> {KHigressGateway, KHigressController} \<Longrightarrow> blended x (set_deletion t x) x' \<Longrightarrow>
   x' = set_deletion t x"
  by (cases x; cases x')
    (auto simp: set_deletion_def dest!: blend_deployment_same blend_service_same blend_hpa_same
      blend_entries_same blend_meta_same)

lemma stamped_deletion: "stamped x (set_deletion t x)"
  unfolding stamped_def set_deletion_def
  by (intro exI [of _ t] exI [of _ "om_rest (meta_of x)"] map_meta_cong) simp

lemma keeps_sent_deletion: "keeps_sent x (set_deletion t x)"
  using stamped_deletion [of x t] by (cases x) (simp_all add: set_deletion_def)

lemma set_deletion_again:
  "set_deletion (om_DeletionTimestamp (meta_of (set_deletion t x))) (set_deletion t x) = set_deletion t x"
  by (cases x) (simp_all add: set_deletion_def)

lemma mem_defaulting: "defaulting memAdmits"
  unfolding defaulting_def memAdmits_def
proof (intro allI impI conjI)
  fix old x y assume k: "kind_of x \<notin> {KHigressGateway, KHigressController}" and "y = admitted old x"
  then obtain t where y: "y = set_deletion t x" by (simp add: admitted_child)
  then show "keeps_sent x y" by (simp add: keeps_sent_deletion)
  fix x' z assume "blended x y x'" and z: "z = admitted (Some y) x'"
  with k y have "x' = y" by (simp add: blended_same)
  moreover have "kind_of y = kind_of x" using y by (simp add: set_deletion_def)
  ultimately show "z = y" using k y z admitted_child [of y "Some y"] set_deletion_again by simp
qed

lemma fillSpec_blend:
  assumes "blend_deployment a (fillSpec a) c"
  shows "fillSpec c = fillSpec a"
proof -
  have "pt_Meta (ds_Template c) = pt_Meta (ds_Template a)" "pt_Spec (ds_Template c) = pt_Spec (ds_Template a)"
    using assms by (simp_all add: blend_deployment_def fillSpec_def blend_template_meta_same blend_pod_same)
  then have "ds_Template c = ds_Template a" by (intro PodTemplateSpec.equality) simp_all
  with assms show ?thesis
    by (intro DeploymentSpec.equality) (auto simp: blend_deployment_def fillSpec_def either_def)
qed

lemma filled_other: "kind_of x \<noteq> KDeployment \<Longrightarrow> filled x = x"
  by (cases x) simp_all

lemma filled_kind [simp]: "kind_of (filled x) = kind_of x" "meta_of (filled x) = meta_of x"
  by (cases x; simp)+

text \<open>Every field of a blend is filled to what is stored.\<close>

lemma blend_filled:
  assumes k: "kind_of x \<notin> {KHigressGateway, KHigressController}"
    and bl: "blended x (filled (set_deletion t x)) x'"
  shows "set_deletion t x' = x' \<and> filled x' = filled (set_deletion t x) \<and> kind_of x' = kind_of x"
proof (cases "kind_of x = KDeployment")
  case True
  then obtain a where x: "x = ODeployment a" by (cases x) simp_all
  with bl obtain c where x': "x' = ODeployment c"
    and meta: "dep_Meta c = (dep_Meta a)\<lparr>om_DeletionTimestamp := t\<rparr>"
    and spec: "fillSpec (dep_Spec c) = fillSpec (dep_Spec a)" and rest: "dep_rest c = dep_rest a"
    by (cases x') (auto simp: set_deletion_def dest!: blend_meta_same fillSpec_blend)
  have "c\<lparr>dep_Meta := (dep_Meta c)\<lparr>om_DeletionTimestamp := t\<rparr>\<rparr> = c"
    by (simp add: meta)
  moreover have "c\<lparr>dep_Spec := fillSpec (dep_Spec c)\<rparr> =
      a\<lparr>dep_Meta := (dep_Meta a)\<lparr>om_DeletionTimestamp := t\<rparr>, dep_Spec := fillSpec (dep_Spec a)\<rparr>"
    by (intro Deployment.equality) (simp_all add: meta spec rest)
  ultimately show ?thesis by (simp add: x x' set_deletion_def)
next
  case False
  then have id: "filled (set_deletion t x) = set_deletion t x"
    by (intro filled_other) (simp add: set_deletion_def)
  from bl [unfolded id] k have x': "x' = set_deletion t x" by (rule blended_same [rotated])
  have "set_deletion t (set_deletion t x) = set_deletion t x" by (cases x) (simp_all add: set_deletion_def)
  then show ?thesis using x' by (simp add: set_deletion_def)
qed

lemma filling_server: "defaulting fillAdmits"
  unfolding defaulting_def fillAdmits_def
proof (intro allI impI conjI)
  fix old x y assume k: "kind_of x \<notin> {KHigressGateway, KHigressController}" and "y = filled (admitted old x)"
  then obtain t where y: "y = filled (set_deletion t x)" by (simp add: admitted_child)
  show "keeps_sent x y"
    using keeps_sent_deletion [of x t] unfolding y
    by (cases x) (auto simp: set_deletion_def fillSpec_def)
  fix x' z assume bl: "blended x y x'" and z: "z = filled (admitted (Some y) x')"
  note b = blend_filled [OF k bl [unfolded y]]
  have "om_DeletionTimestamp (meta_of y) = t" by (simp add: y set_deletion_def)
  with b k have "admitted (Some y) x' = x'" by (simp add: admitted_child)
  with b y z show "z = y" by simp
qed

section \<open>The reconcilers\<close>

interpretation gwlive: gateway_live memReconciler memLib memLookup memAdmits memSame "(=)" registered
proof (intro gateway_live.intro available_env.intro)
  show "gateway_env memReconciler memLib memLookup memAdmits memSame (=)" by (rule gw.gateway_env_axioms)
  then show "owner_env memReconciler memLib memLookup memAdmits memSame (=)" by (rule gateway_env.axioms(1))
  show "available_server memReconciler memLookup memAdmits registered"
    unfolding memReconciler_def by (rule mem_live.available_server_axioms)
  show "available_env_axioms memReconciler memLib memLookup registered"
    by unfold_locales (simp_all add: mem_cou_serves addOwner_serves registered_builtin)
  show "gateway_live_axioms memReconciler memLib memLookup registered"
  proof (unfold_locales, goal_cases)
    case (1 gvk w)
    show ?case by (simp add: memMapping_def noMatch_def)
  next
    case (2 m) show ?case by (simp add: memLib_def)
  next
    case (3 w g cur base)
    then show ?case using mem_status_serves(1) [OF 3] by (simp add: memReconciler_def memClient_def)
  qed
qed

definition memDirectory ::
  "memory \<Rightarrow> string \<Rightarrow> (goerr + CustomResourceDefinition) list option" where
  "memDirectory w p = map_option snd (find (\<lambda>f. crdsPath @ ''/'' @ fst f = p) (mem_Files w))"

interpretation mem_files: os_files memOS memDirectory
proof (unfold_locales, goal_cases)
  case (1 w)
  then show ?case by (auto simp: memOS_def memDirectory_def find_None_iff)
next
  case (2 w p ds) then show ?case by (auto simp: memOS_def memDirectory_def)
next
  case (3 f w) then show ?case by (simp add: memOS_def)
qed

interpretation mem_api: available_crds memCRDs memDefs "(=)"
  by unfold_locales (auto simp: memCRDs_def notFound_def)

lemma mem_ops_files: "keeps memDirectory (memGet k n)" "keeps memDirectory (memUpdate x)"
  by (auto simp: keeps_def memGet_def memUpdate_def memDirectory_def memPut_def Let_def fun_eq_iff
      split: option.split)

interpretation ctllive: controller_live memController memLib memLookup memAdmits memSame "(=)"
  memCRDs memDefs "(=)" registered memDirectory
proof (intro controller_live.intro available_env.intro)
  show "controller_env memController memLib memLookup memAdmits memSame (=) memCRDs memDefs (=)"
    by (rule ctl.controller_env_axioms)
  then show "owner_env memController memLib memLookup memAdmits memSame (=)"
    by (rule controller_env.axioms(1))
  show "available_server memController memLookup memAdmits registered"
    unfolding memController_def by (rule mem_live.available_server_axioms)
  show "available_env_axioms memController memLib memLookup registered"
    by unfold_locales (simp_all add: mem_cou_serves addOwner_serves registered_builtin)
  show "os_files (OS memController) memDirectory" by (simp add: mem_files.os_files_axioms)
  show "available_crds memCRDs memDefs (=)" by (rule mem_api.available_crds_axioms)
  show "controller_live_axioms memController memLookup memCRDs memDirectory"
    by unfold_locales (simp_all add: mem_ops_files mem_status_serves)
qed

section \<open>Concrete runs\<close>

text \<open>
  The steady cluster after one more reconcile: the gateway reports its autoscaling as ready, and
  the reconcile returns again.
\<close>

lemma demo_deployable:
  "gws_Skywalking (gw_Spec g) = None \<Longrightarrow> gws_NetWorkGateway (gw_Spec g) = [] \<Longrightarrow> deployable st g"
  by (simp add: deployable_def skywalkingEnabled_def)

lemma steady_spec:
  "gws_Skywalking (gw_Spec steadyGateway) = None" "gws_NetWorkGateway (gw_Spec steadyGateway) = []"
  by (simp_all add: steadyGateway_def gw_common_upd_def demoGateway_def)

lemma steady_active: "active_namespace (memLookup steadyWorld) ''n''"
  by (simp add: active_namespace_def steadyWorld_def demoCluster_def memLookup_def gone_def Let_def)

lemma steady_again:
  obtains w1 w2 g' where "demoReconcile steadyWorld = (Inr (), w1)"
    and "memLookup w1 (KHigressGateway, (''n'', ''g'')) = Some (OHigressGateway g')"
    and "condition_is conditionTypeAutoscalingReady ConditionTrue reasonAutoscalingDisabled (gw_Status g')"
    and "\<And>q. q \<noteq> (KHigressGateway, (''n'', ''g'')) \<Longrightarrow> memLookup w1 q = memLookup steadyWorld q"
    and "demoReconcile w1 = (Inr (), w2)"
proof -
  obtain w1 where run: "demoReconcile steadyWorld = (Inr (), w1)" using steady_run by blast
  note run' = run [unfolded demoReconcile_def]
  have same: "memLookup w1 q = memLookup steadyWorld q" if "q \<noteq> (KHigressGateway, (''n'', ''g''))" for q
    by (rule gw.Reconcile_steady [OF _ memReads run' steady_stored _ _ _ steady_demo that])
      (simp_all add: steady_facts)
  from gw.Reconcile_live_ok [OF run' steady_stored _ _ memReads] steady_active obtain g1 g' where
    ad: "adopted memAdmits steadyGateway g1"
    and g': "memLookup w1 (KHigressGateway, (''n'', ''g'')) = Some (OHigressGateway g')"
    and spec: "gw_Spec g' = gw_Spec g1" and meta: "memSame (gw_Meta g') (gw_Meta g1)"
    and how: "completed memLib memAdmits (=) (\<lambda>xs. xs) g' (memLookup w1) \<or>
      rejected memLib g' (memLookup steadyWorld) (memLookup w1)"
    by (auto simp: steady_facts)
  have g1: "g1 = steadyGateway" using ad by (simp add: adopted_def steady_facts)
  have stamp: "g' = restamp (om_rest (gw_Meta g')) (gw_Status g') steadyGateway"
    using spec meta unfolding g1 memSame_def by (rule restamp_eq)
  have mode: "getEffectiveScaleMode g' = AutoScalingModeDisabled"
    by (subst stamp) (simp add: steady_facts)
  have valid: "validateAutoscalingConfig (IsZero memLib) (setDefaultValues_gw g') = Inr None"
    by (subst stamp) (simp add: setDefault_restamp steady_facts)
  from how valid mode have
    ready: "condition_is conditionTypeAutoscalingReady ConditionTrue reasonAutoscalingDisabled (gw_Status g')"
    by (auto simp: completed_def rejected_def status_ready_def reported_def Let_def)
  have "\<exists>w2. demoReconcile w1 = (Inr (), w2)" unfolding demoReconcile_def
  proof (rule gwlive.Reconcile_returns [OF g'])
    have m: "(gw_Meta g')\<lparr>om_rest := []\<rparr> = (gw_Meta steadyGateway)\<lparr>om_rest := []\<rparr>"
      using meta by (simp add: g1 memSame_def)
    from arg_cong [OF this, of om_DeletionTimestamp] show "om_DeletionTimestamp (gw_Meta g') = None"
      by (simp add: steady_facts)
    show "active_namespace (memLookup w1) (fst (''n'', ''g''))"
      using steady_active by (simp add: active_namespace_def same)
    fix g2 assume "adopted memAdmits g' g2"
    moreover have "om_Finalizers (gw_Meta g') = [finalizer_gw]"
      using arg_cong [OF m, of om_Finalizers] by (simp add: steady_facts)
    ultimately have "g2 = g'" by (simp add: adopted_def)
    then show "deployable (memLookup w1) g2" using spec g1 steady_spec by (simp add: demo_deployable)
  qed
  with that [OF run g' ready same] show thesis by blast
qed

lemma demo_parses: "parses (memDirectory (controllerCluster objs))"
  by (auto simp: parses_def memDirectory_def controllerCluster_def Cons_eq_map_conv)

text \<open>The controller resource, reconciled once more.\<close>

lemma live_files: "mem_Files (snd (controllerRun liveController)) = mem_Files (controllerCluster [])"
  by code_simp

lemma live_again:
  assumes run: "controllerRun liveController = (Inr (), w1)"
  shows "\<exists>w2. Reconcile_ctl memLib memController ords ords' (''n'', ''c'') w1 = (Inr (), w2)"
proof -
  note run' = run [unfolded controllerRun_def]
  from ctl.Reconcile_ctl_live_ok [OF run' live_lookup _ _ memControllerReads] obtain hs h h' where
    h': "memLookup w1 (KHigressController, (''n'', ''c'')) = Some (OHigressController h')"
    and ad: "adopted_ctl memAdmits (demoController [finalizer_ctl] None) hs"
    and dep: "deployed_as (demoController [finalizer_ctl] None) hs h h'" by auto
  have hs: "hs = demoController [finalizer_ctl] None" using ad by (simp add: adopted_ctl_def)
  with dep have m: "(hc_Meta h')\<lparr>om_rest := []\<rparr> = (hc_Meta (demoController [finalizer_ctl] None))\<lparr>om_rest := []\<rparr>"
    and fin: "finalizer_ctl \<in> set (om_Finalizers (hc_Meta h'))" by (simp_all add: deployed_as_def)
  show ?thesis
  proof (rule ctllive.Reconcile_ctl_returns [OF h'])
    from arg_cong [OF m, of om_DeletionTimestamp] show "om_DeletionTimestamp (hc_Meta h') = None" by simp
    have "memLookup w1 (KNamespace, ('''', ''n'')) =
        memLookup (controllerCluster liveController) (KNamespace, ('''', ''n''))"
      by (rule keepsD [OF ctl.Reconcile_ctl_frame run']) simp
    with live_active show "active_namespace (memLookup w1) (fst (''n'', ''c''))"
      by (simp add: active_namespace_def)
    have "mem_Files w1 = mem_Files (controllerCluster [])" using live_files run by simp
    then have "memDirectory w1 = memDirectory (controllerCluster [])"
      by (simp add: fun_eq_iff memDirectory_def)
    with demo_parses [of "[]"] show "parses (memDirectory w1)" by simp
  qed (use fin in auto)
qed

end
