(* ===== verification/LiveProperties.thy ===== *)
theory LiveProperties
  imports LiveMemory
begin

text \<open>
  Liveness: on a cluster that answers every call, the reconcilers finish their work, and what
  they have built is left as it is by the reconciles that follow.
\<close>

section \<open>The gateway\<close>



text \<open>C14: A deleted gateway is released: when the binding of its service account exists, its
  reconcile returns, and the gateway is gone or free of the operator's finalizer.\<close>
theorem gateway_deletion_completes:
  assumes "gateway_live r L lookup admits same_but_rest semEq known"
    and "lookup w (KHigressGateway, nn) = Some (OHigressGateway g0)"
    and "om_DeletionTimestamp (gw_Meta g0) \<noteq> None"
    and "finalizer_gw \<in> set (om_Finalizers (gw_Meta g0))"
    and "getServiceAccount_gw (setDefaultValues_gw g0) = Inr name"
    and "lookup w (KClusterRoleBinding, ('''', name)) = Some (OClusterRoleBinding crb)"
  shows "\<exists>w'. Reconcile_gw L r ord ord' nn w = (Inr (), w') \<and>
    (case lookup w' (KHigressGateway, nn) of None \<Rightarrow> True
      | Some x \<Rightarrow> finalizer_gw \<notin> set (om_Finalizers (meta_of x)))"
proof -
  from gateway_live.Reconcile_deletion_returns [OF assms(1-3,5,6)]
  obtain w' where run: "Reconcile_gw L r ord ord' nn w = (Inr (), w')" by blast
  note env = gateway_live.axioms(1) [OF assms(1)]
  have "served_reads r lookup"
    by (rule available_server.served [OF available_env.axioms(2) [OF gateway_live.axioms(2) [OF assms(1)]]])
  from gateway_env.Reconcile_deletion_ok(2) [OF env run assms(2-5) this] run show ?thesis by blast
qed

lemma gateway_deletion_completes_demo:
  "\<exists>w'. demoReconcile (deletedWorld True) = (Inr (), w') \<and>
    (case memLookup w' (KHigressGateway, (''n'', ''g'')) of None \<Rightarrow> True
      | Some x \<Rightarrow> finalizer_gw \<notin> set (om_Finalizers (meta_of x)))"
proof -
  have "memLookup (deletedWorld True) (KClusterRoleBinding, ('''', ''higress-gateway'')) =
      Some (OClusterRoleBinding demoBinding)"
    by (simp add: deletedWorld_def demoCluster_def memLookup_def gone_def demoBinding_def
        objkey_of_def ObjectKeyFromObject_def nskey_of_meta_def)
  then show ?thesis unfolding demoReconcile_def
    by (intro gateway_deletion_completes [OF gwlive.gateway_live_axioms deleted_lookup _ _ deleted_account])
      simp_all
qed



section \<open>The controller resource\<close>

text \<open>C4: Total correctness of the controller reconcile.  On a cluster that answers, with manifests
  that parse, the reconcile of a live controller resource in an active namespace returns without
  error and leaves it deployed with every child in sync, provided that the resource keeps a
  service account section when the server admits it with its defaults and the finalizer.\<close>
theorem controller_reconcile_completes:
  assumes "controller_live r L lookup admits same_but_rest semEq cli defs stores known dir"
    and "lookup w (KHigressController, nn) = Some (OHigressController h0)"
    and "om_DeletionTimestamp (hc_Meta h0) = None"
    and "active_namespace (lookup w) (fst nn)" and "parses (dir w)"
    and "\<And>hs. adopted_ctl admits h0 hs \<Longrightarrow> finalizer_ctl \<notin> set (om_Finalizers (hc_Meta h0)) \<Longrightarrow>
      crd_ServiceAccount (hc_common hs) \<noteq> None"
  shows "\<exists>w' hs h h'. Reconcile_ctl L r ords ords' nn w = (Inr (), w') \<and> adopted_ctl admits h0 hs \<and>
    lookup w' (KHigressController, nn) = Some (OHigressController h') \<and>
    deployed_as h0 hs h h' \<and> controller_settled admits semEq ords' h (lookup w')"
proof -
  from controller_live.Reconcile_ctl_returns [OF assms]
  obtain w' where run: "Reconcile_ctl L r ords ords' nn w = (Inr (), w')" by blast
  note env = controller_live.axioms(1) [OF assms(1)]
  have "served_reads r lookup"
    by (rule available_server.served [OF available_env.axioms(2) [OF controller_live.axioms(2) [OF assms(1)]]])
  from controller_env.Reconcile_ctl_live_ok [OF env run assms(2-4) this] run show ?thesis by blast
qed

lemma controller_reconcile_completes_demo:
  "\<exists>w' h'. controllerRun liveController = (Inr (), w') \<and>
    memLookup w' (KHigressController, (''n'', ''c'')) = Some (OHigressController h') \<and>
    hcst_Deployed (hc_Status h')"
proof -
  from controller_reconcile_completes [OF ctllive.controller_live_axioms live_lookup _ _ demo_parses,
      of "((\<lambda>xs. xs), (\<lambda>xs. xs))" "((\<lambda>xs. xs), (\<lambda>xs. xs))"]
  show ?thesis by (auto simp: controllerRun_def deployed_as_def)
qed





end
