(* ===== verification/Setup.thy ===== *)
theory Setup
  imports System Manager
begin

text \<open>
  \<open>cmd/main.go\<close> and the two \<open>SetupWithManager\<close>: what the process registers with the
  controller-runtime manager before it starts it, and which events the registered watches
  turn into reconciles.  The manager is a parameter.
\<close>

section \<open>SetupWithManager\<close>

definition watch_gw :: watch where
  "watch_gw = \<lparr>w_For = KHigressGateway,
     w_Owns = [KDeployment, KHPA, KService, KConfigMap, KServiceAccount]\<rparr>"

definition SetupWithManager_gw ::
  "'w lib \<Rightarrow> rangeOrder \<Rightarrow> rangeOrder \<Rightarrow> 'w gw_reconciler \<Rightarrow> 'w manager \<Rightarrow> ('w, unit) io" where
  "SetupWithManager_gw L ord ord' r mgr = Complete mgr watch_gw (Reconcile_gw L r ord ord')"

definition watch_ctl :: watch where
  "watch_ctl = \<lparr>w_For = KHigressController, w_Owns = [KDeployment, KService, KServiceAccount]\<rparr>"

definition SetupWithManager_ctl ::
  "'w lib \<Rightarrow> rangeOrder \<times> rangeOrder \<Rightarrow> rangeOrder \<times> rangeOrder \<Rightarrow> 'w ctl_reconciler \<Rightarrow>
   'w manager \<Rightarrow> ('w, unit) io" where
  "SetupWithManager_ctl L ords ords' r mgr = Complete mgr watch_ctl (Reconcile_ctl L r ords ords')"

section \<open>main\<close>

record flags =
  fl_MetricsAddr :: string
  fl_ProbeAddr :: string
  fl_EnableLeaderElection :: bool

text \<open>What \<open>flag.Parse\<close> leaves when the command line has no flags.\<close>

definition defaultFlags :: flags where
  "defaultFlags = \<lparr>fl_MetricsAddr = '':8080'', fl_ProbeAddr = '':8081'', fl_EnableLeaderElection = False\<rparr>"

record ctrlOptions =
  mo_MetricsBindAddress :: string
  mo_Port :: int
  mo_HealthProbeBindAddress :: string
  mo_LeaderElection :: bool
  mo_LeaderElectionID :: string

definition managerOptions :: "flags \<Rightarrow> ctrlOptions" where
  "managerOptions f = \<lparr>mo_MetricsBindAddress = fl_MetricsAddr f, mo_Port = 9443,
     mo_HealthProbeBindAddress = fl_ProbeAddr f, mo_LeaderElection = fl_EnableLeaderElection f,
     mo_LeaderElectionID = ''bf48ba7e.higress.io''\<rparr>"

definition newGatewayReconciler :: "'w manager \<Rightarrow> 'w gw_reconciler" where
  "newGatewayReconciler mgr = client.extend (GetClient mgr)
     \<lparr>Recorder = Some (GetEventRecorderFor mgr ''higressgateway-controller''),
      RESTMapper = Some (GetRESTMapper mgr)\<rparr>"

text \<open>The configuration's clients and the file system come from outside the manager.\<close>

definition newControllerReconciler ::
  "'w os_lib \<Rightarrow> 'w crd_client res \<Rightarrow> (raw \<Rightarrow> raw \<Rightarrow> bool) \<Rightarrow> 'w manager \<Rightarrow> 'w ctl_reconciler" where
  "newControllerReconciler os cfg eq mgr = client.extend (GetClient mgr)
     \<lparr>OS = os, NewForConfig = cfg, SpecDeepEqual = eq\<rparr>"

text \<open>
  The rest of \<open>main\<close>, once the flags are parsed; the result is the exit status of the process,
  1 where the code calls \<open>os.Exit(1)\<close>.
\<close>

definition main ::
  "'w lib \<Rightarrow> ('w manager \<Rightarrow> 'w ctl_reconciler) \<Rightarrow> (ctrlOptions \<Rightarrow> ('w, 'w manager) io) \<Rightarrow>
   rangeOrder \<times> rangeOrder \<Rightarrow> rangeOrder \<times> rangeOrder \<Rightarrow> rangeOrder \<Rightarrow> rangeOrder \<Rightarrow>
   flags \<Rightarrow> ('w, nat) io" where
  "main L newCtl NewManager ords ords' ord ord' f =
     orExit (NewManager (managerOptions f)) (\<lambda>mgr.
     orExit (SetupWithManager_ctl L ords ords' (newCtl mgr) mgr) (\<lambda>_.
     orExit (SetupWithManager_gw L ord ord' (newGatewayReconciler mgr) mgr) (\<lambda>_.
     orExit (AddHealthzCheck mgr ''healthz'') (\<lambda>_.
     orExit (AddReadyzCheck mgr ''readyz'') (\<lambda>_.
     orExit (Start mgr) (\<lambda>_. ret 0))))))"

section \<open>The order of the start\<close>

definition startSequence :: "setupEvent list" where
  "startSequence = [Registered watch_ctl, Registered watch_gw, Checked ''healthz'', Checked ''readyz'', Ran]"

context manager_log
begin

lemma main_starts:
  "starts log [] startSequence (orExit (SetupWithManager_ctl L ords ords' rc mgr) (\<lambda>_.
     orExit (SetupWithManager_gw L ord ord' rg mgr) (\<lambda>_.
     orExit (AddHealthzCheck mgr ''healthz'') (\<lambda>_.
     orExit (AddReadyzCheck mgr ''readyz'') (\<lambda>_.
     orExit (Start mgr) (\<lambda>_. ret 0))))))"
  unfolding startSequence_def SetupWithManager_ctl_def SetupWithManager_gw_def
  by (intro starts_orExit complete_log healthz_log readyz_log start_log starts_done)

end

section \<open>The exit status\<close>

text \<open>A manager factory keeps the log and hands out managers that obey it.\<close>

locale manager_factory =
  fixes NewManager :: "ctrlOptions \<Rightarrow> ('w, 'w manager) io" and log :: "'w \<Rightarrow> setupEvent list"
  assumes new_manager: "NewManager opts w = (res, w') \<Longrightarrow> log w' = log w \<and>
      (case res of Inr mgr \<Rightarrow> manager_log mgr log | Inl e \<Rightarrow> (\<exists>err. e = Error err))"
begin

lemma main_order:
  assumes "log w = []"
  shows "\<exists>c w' n. main L newCtl NewManager ords ords' ord ord' f w = (Inr c, w') \<and>
    n \<le> length startSequence \<and> log w' = take n startSequence \<and> (c = 0 \<longleftrightarrow> n = length startSequence) \<and> c \<le> 1"
proof -
  obtain res w1 where new: "NewManager (managerOptions f) w = (res, w1)"
    by (cases "NewManager (managerOptions f) w")
  note m = new_manager [OF new]
  show ?thesis
  proof (cases res)
    case (Inl e)
    with m new assms show ?thesis
      by (intro exI [of _ 1] exI [of _ w1] exI [of _ 0])
        (auto simp: main_def orExit_def ifErr_run startSequence_def)
  next
    case (Inr mgr)
    with m have "manager_log mgr log" by simp
    from manager_log.main_starts [OF this, of L ords ords' "newCtl mgr" ord ord'
        "newGatewayReconciler mgr"] m assms
    obtain c w' n where run: "orExit (SetupWithManager_ctl L ords ords' (newCtl mgr) mgr) (\<lambda>_.
     orExit (SetupWithManager_gw L ord ord' (newGatewayReconciler mgr) mgr) (\<lambda>_.
     orExit (AddHealthzCheck mgr ''healthz'') (\<lambda>_.
     orExit (AddReadyzCheck mgr ''readyz'') (\<lambda>_.
     orExit (Start mgr) (\<lambda>_. ret 0))))) w1 = (Inr c, w')"
      and n: "n \<le> length startSequence" "log w' = take n startSequence" "c = 0 \<longleftrightarrow> n = length startSequence" "c \<le> 1"
      unfolding starts_def by auto
    have "main L newCtl NewManager ords ords' ord ord' f w = (Inr c, w')"
      by (simp add: main_def orExit_def [of "NewManager (managerOptions f)"] ifErr_def new Inr run)
    with n show ?thesis by blast
  qed
qed

end

end
