(* ===== verification/Interplay.thy ===== *)
theory Interplay
  imports GwConverge CtlConverge SysMemory
begin

text \<open>
  Where two resources get in each other's way: the objects their reconciles share have no
  state that suits both, so they are rewritten for ever.
\<close>

lemma updateServiceSpec_gw_selector:
  "updateServiceSpec_gw svc g = Inr svc' \<Longrightarrow> ss_Selector (svc_Spec svc') = crd_SelectorLabels (gw_common g)"
  by (cases "crd_Service (gw_common g)") (auto simp: updateServiceSpec_gw_def ok_simps Let_def split: if_splits)

lemma fixed_service_selector:
  assumes "fixed st q (muteService_gw g)"
  shows "\<exists>svc. st q = Some (OService svc) \<and> ss_Selector (svc_Spec svc) = crd_SelectorLabels (gw_common g)"
proof -
  from assms obtain x where st: "st q = Some x" and mu: "muteService_gw g x = Inr x"
    by (auto simp: fixed_def)
  from mu obtain svc where x: "x = OService svc" and up: "updateServiceSpec_gw svc g = Inr svc"
    by (cases x) (auto simp: muteService_gw_def ok_simps)
  from updateServiceSpec_gw_selector [OF up] st x show ?thesis by blast
qed

lemma fixed_deployment_gw_volumes:
  assumes "fixed st q (muteDeployment_gw ord g)"
  shows "\<exists>d. st q = Some (ODeployment d) \<and> ps_Volumes (pt_Spec (ds_Template (dep_Spec d))) = genVolumes_gw g"
proof -
  from assms obtain x where st: "st q = Some x" and mu: "muteDeployment_gw ord g x = Inr x"
    by (auto simp: fixed_def)
  from mu obtain d where x: "x = ODeployment d"
    and up: "updateDeploymentSpec_gw ord d g (shouldPreserveReplicas g) = d"
    by (cases x) (auto simp: muteDeployment_gw_def)
  from arg_cong [OF up, of "\<lambda>d. ps_Volumes (pt_Spec (ds_Template (dep_Spec d)))"] st x
  show ?thesis by (simp add: gatewayPod_fields)
qed

lemma updateDeploymentSpec_ctl_volumes:
  "updateDeploymentSpec_ctl o1 o2 d h = Inr d' \<Longrightarrow>
   ps_Volumes (pt_Spec (ds_Template (dep_Spec d'))) = genVolumes_ctl h"
  by (auto simp: updateDeploymentSpec_ctl_def ok_simps Let_def updatePod_ctl_fields)

lemma fixed_deployment_ctl_volumes:
  assumes "fixed st q (muteDeployment_ctl o1 o2 h)" and "st q = Some (ODeployment d)"
  shows "ps_Volumes (pt_Spec (ds_Template (dep_Spec d))) = genVolumes_ctl h"
proof -
  from assms have up: "updateDeploymentSpec_ctl o1 o2 d h = Inr d"
    by (auto simp: fixed_def muteDeployment_ctl_def ok_simps)
  then show ?thesis by (rule updateDeploymentSpec_ctl_volumes)
qed

lemma volumes_differ: "genVolumes_gw g \<noteq> genVolumes_ctl h"
  using gw_volume_names [of g] ctl_volume_names [of h] by (auto dest: arg_cong [of _ _ "map vol_Name"])

text \<open>C35: Two gateways of one namespace whose selectors differ share one service (its name is fixed), and
  no state of the cluster is steady for both: each reconcile of one undoes the other.\<close>
theorem gateways_share_service:
  assumes "gw_Namespace g1 = gw_Namespace g2"
    and "mlookup (crd_SelectorLabels (gw_common g1)) l \<noteq> mlookup (crd_SelectorLabels (gw_common g2)) l"
  shows "\<not> (steady L ord g1 st \<and> steady L ord' g2 st)"
proof (rule notI, erule conjE)
  let ?q = "(KService, (gw_Namespace g1, HigressGatewayServiceName))"
  assume "steady L ord g1 st" and "steady L ord' g2 st"
  then have "fixed st ?q (muteService_gw g1)" and "fixed st ?q (muteService_gw g2)"
    using assms(1) by (simp_all add: steady_def at_rest_def)
  from this [THEN fixed_service_selector] assms(2) show False by auto
qed

text \<open>C36: A gateway and a controller resource of the same name in one namespace share the deployment of
  that name, and no state of the cluster is steady for both.\<close>
theorem same_name_shares_deployment:
  assumes "gw_key g = hc_key h"
  shows "\<not> (steady L ord g st \<and> steady_ctl h st)"
proof (rule notI, erule conjE)
  assume "steady L ord g st" and ctl: "steady_ctl h st"
  then obtain d where d: "st (KDeployment, hc_key h) = Some (ODeployment d)"
    and gw: "ps_Volumes (pt_Spec (ds_Template (dep_Spec d))) = genVolumes_gw g"
    using fixed_deployment_gw_volumes [of st "(KDeployment, hc_key h)" ord g] assms by (auto simp: steady_def at_rest_def)
  have "fixed st (KDeployment, hc_key h) (muteDeployment_ctl id id h)" using ctl by (simp add: steady_ctl_def at_rest_ctl_def)
  from fixed_deployment_ctl_volumes [OF this d] gw volumes_differ show False by metis
qed

text \<open>The witnesses: two gateways of the namespace \<open>n\<close>, and a controller resource called like one.\<close>

definition labelledGateway :: "string \<Rightarrow> HigressGateway" where
  "labelledGateway v = gw_common_upd (\<lambda>c. c\<lparr>crd_SelectorLabels := Some [(''app'', v)]\<rparr>)
     (demoGateway [finalizer_gw] None None)"

definition namesakeController :: HigressController where
  "namesakeController = (demoController [finalizer_ctl] None)\<lparr>hc_Meta :=
     (hc_Meta (demoController [finalizer_ctl] None))\<lparr>om_Name := ''g''\<rparr>\<rparr>"

lemma gateways_share_service_demo:
  "\<forall>st. \<not> (steady memLib (\<lambda>xs. xs) (labelledGateway ''a'') st \<and>
            steady memLib (\<lambda>xs. xs) (labelledGateway ''b'') st)"
proof (rule allI, rule gateways_share_service [where l = "''app''"])
  show "gw_Namespace (labelledGateway ''a'') = gw_Namespace (labelledGateway ''b'')"
    by (simp add: labelledGateway_def)
  show "mlookup (crd_SelectorLabels (gw_common (labelledGateway ''a''))) ''app'' \<noteq>
      mlookup (crd_SelectorLabels (gw_common (labelledGateway ''b''))) ''app''"
    by (simp add: labelledGateway_def)
qed

lemma same_name_shares_deployment_demo:
  "\<forall>st. \<not> (steady memLib (\<lambda>xs. xs) (setDefaultValues_gw steadyGateway) st \<and>
            steady_ctl (setDefaultValues_ctl namesakeController) st)"
  by (rule allI, rule same_name_shares_deployment) (simp add: steady_facts namesakeController_def)

end
