(* ===== verification/SetupProperties.thy ===== *)
theory SetupProperties
  imports Setup Interplay LiveMemory
begin

text \<open>
  The properties of the start of the process and of its watches, over any manager that
  satisfies the contracts of \<open>Manager\<close>.
\<close>

section \<open>Which events lead to a reconcile\<close>

lemma stamped_refs:
  assumes "stamped y z"
  shows "kind_of z = kind_of y" and "om_OwnerReferences (meta_of z) = om_OwnerReferences (meta_of y)"
    and "om_Namespace (meta_of z) = om_Namespace (meta_of y)"
  using assms by (auto simp: stamped_def)

lemma owned_event:
  assumes refs: "owner_references setref" and handlers: "event_handlers enqueue"
    and set: "setref owner x = Inr y" and owner: "kind_of owner = w_For v"
    and kind: "w_For v \<in> {KHigressGateway, KHigressController}"
    and x: "kind_of x \<in> set (w_Owns v)" "om_Namespace (meta_of x) = om_Namespace (meta_of owner)"
    and st: "stamped y z"
  shows "(om_Namespace (meta_of owner), om_Name (meta_of owner)) \<in> enqueue v z"
proof -
  from owner_references.setref_adds [OF refs set] owner kind obtain ref where
    ref: "ref \<in> set (ownerRefs v y)" and name: "or_Name ref = om_Name (meta_of owner)"
    by (auto simp: ownerRefs_def)
  from controller_refs.setref_ok [OF owner_references.axioms(1) [OF refs] set] obtain rs where
    y: "y = map_meta (\<lambda>m. m\<lparr>om_OwnerReferences := rs\<rparr>) x" by blast
  have "kind_of z \<in> set (w_Owns v)" using x(1) y stamped_refs(1) [OF st] by simp
  moreover have "ref \<in> set (ownerRefs v z)" using ref stamped_refs(2) [OF st] by (simp add: ownerRefs_def)
  ultimately have "(om_Namespace (meta_of z), or_Name ref) \<in> enqueue v z"
    by (rule event_handlers.owner_event [OF handlers])
  then show ?thesis using name x(2) y stamped_refs(3) [OF st] by simp
qed

text \<open>The children the gateway reconciler submits with a controller reference.\<close>

definition ownedChildren :: "rangeOrder \<Rightarrow> HigressGateway \<Rightarrow> kobj list" where
  "ownedChildren ord g = [ODeployment (initDeployment_gw ord g)] @ map OHPA (okR (initHPAv2 g)) @
     map (OService \<circ> fst) (okR (initService_gw g)) @ map OServiceAccount (okR (initServiceAccount_gw g))"

lemma set_okR: "x \<in> set (okR r) \<longleftrightarrow> r = Inr x"
  by (auto simp: okR_def split: sum.splits)

lemma ownedChildren_owned:
  assumes "x \<in> set (ownedChildren ord g)"
  shows "kind_of x \<in> set (w_Owns watch_gw)" and "om_Namespace (meta_of x) = gw_Namespace g"
proof -
  have svc: "om_Namespace (svc_Meta svc) = gw_Namespace g" if "initService_gw g = Inr (svc, g')" for svc g'
    using initService_gw_key [OF that] by (simp add: objkey_of_def ObjectKeyFromObject_def nskey_of_meta_def)
  have hpa: "om_Namespace (hpa_Meta h) = gw_Namespace g" if "initHPAv2 g = Inr h" for h
    using initHPAv2_key [OF that] by (simp add: objkey_of_def ObjectKeyFromObject_def nskey_of_meta_def)
  show "kind_of x \<in> set (w_Owns watch_gw)"
    using assms by (auto simp: ownedChildren_def watch_gw_def)
  show "om_Namespace (meta_of x) = gw_Namespace g"
    using assms by (auto simp: ownedChildren_def set_okR svc hpa initServiceAccount_gw_def ok_simps
        initDeployment_gw_def)
qed

text \<open>C18: A change of the gateway's deployment, horizontal autoscaler, service or service account, as the
  operator submitted it and the server stored it, enqueues a reconcile of the gateway; a change
  of its ScaledObject or of its role objects enqueues nothing, nor does one of its config map,
  which is declared owned but is built without a controller reference.\<close>
theorem watched_children:
  assumes refs: "owner_references (SetControllerReference L)" and handlers: "event_handlers enqueue"
  shows "(\<forall>x \<in> set (ownedChildren ord g). \<forall>y z. SetControllerReference L (OHigressGateway g) x = Inr y \<longrightarrow>
      stamped y z \<longrightarrow> gw_key g \<in> enqueue watch_gw z) \<and>
    (\<forall>x. kind_of x \<in> {KUnstructured kedaScaledObjectGVK, KClusterRole, KClusterRoleBinding, KRole, KRoleBinding} \<longrightarrow>
      enqueue watch_gw x = {}) \<and>
    (\<forall>cm g'. initGatewayConfigMap L g = Inr (cm, g') \<longrightarrow> enqueue watch_gw (OConfigMap cm) = {})"
proof (intro conjI ballI allI impI)
  fix x y z assume x: "x \<in> set (ownedChildren ord g)"
    and y: "SetControllerReference L (OHigressGateway g) x = Inr y" and z: "stamped y z"
  from owned_event [OF refs handlers y _ _ ownedChildren_owned(1) [OF x] _ z] ownedChildren_owned(2) [OF x]
  show "gw_key g \<in> enqueue watch_gw z" by (simp add: watch_gw_def)
next
  fix x assume "kind_of x \<in> {KUnstructured kedaScaledObjectGVK, KClusterRole, KClusterRoleBinding, KRole, KRoleBinding}"
  then show "enqueue watch_gw x = {}"
    by (intro event_handlers.unwatched_event [OF handlers]) (auto simp: watch_gw_def)
next
  fix cm g' assume cm: "initGatewayConfigMap L g = Inr (cm, g')"
  have "om_OwnerReferences (cm_Meta cm) = []"
    using cm by (auto simp: initGatewayConfigMap_def updateGatewayConfigMapSpec_def ok_simps Let_def zeroMeta_def
        split: sum.splits)
  then show "enqueue watch_gw (OConfigMap cm) = {}"
    by (intro event_handlers.unowned_event [OF handlers]) (simp_all add: watch_gw_def ownerRefs_def)
qed

lemma watched_children_demo:
  "\<exists>y. addOwner (OHigressGateway steadyGateway) (ODeployment (initDeployment_gw (\<lambda>xs. xs) steadyGateway)) = Inr y \<and>
    (''n'', ''g'') \<in> set (requests watch_gw y)"
proof -
  let ?x = "ODeployment (initDeployment_gw (\<lambda>xs. xs) steadyGateway)"
  have "om_OwnerReferences (meta_of ?x) = []" by (simp add: initDeployment_gw_def zeroMeta_def)
  from addOwner_serves [OF this] obtain y where y: "addOwner (OHigressGateway steadyGateway) ?x = Inr y" ..
  have "owner_references (SetControllerReference memLib)" by (simp add: owning.owner_references_axioms)
  from watched_children [OF this handlers.event_handlers_axioms, of "\<lambda>xs. xs" steadyGateway] y stamped_refl
  show ?thesis by (auto simp: ownedChildren_def steady_facts)
qed

section \<open>The start of the process\<close>

text \<open>C19: The process registers the watches of both reconcilers and both health checks, in this order, and
  starts the manager only after all of them; it exits with status 0 exactly when the manager has
  run until it was told to stop, and with status 1 at the first failure.\<close>
theorem main_starts_in_order:
  assumes "manager_factory NewManager log" and "log w = []"
  shows "\<exists>c w' n. main L newCtl NewManager ords ords' ord ord' f w = (Inr c, w') \<and>
    n \<le> length startSequence \<and> log w' = take n startSequence \<and>
    (c = 0 \<longleftrightarrow> n = length startSequence) \<and> c \<le> 1"
  by (rule manager_factory.main_order [OF assms])

text \<open>A manager of the executable cluster that fails at its \<open>k\<close>-th call.\<close>

definition memCall :: "nat \<Rightarrow> setupEvent \<Rightarrow> (memory, unit) io" where
  "memCall k e w = (if length (mem_Log w) = k then (Inl (Error (OtherError ''refused'')), w)
     else (Inr (), w\<lparr>mem_Log := mem_Log w @ [e]\<rparr>))"

definition memManager :: "nat \<Rightarrow> memory manager" where
  "memManager k = \<lparr>GetClient = memClient (), GetEventRecorderFor = (\<lambda>name. memEvent), GetRESTMapper = memMapping,
     Complete = (\<lambda>v rec. memCall k (Registered v)), AddHealthzCheck = (\<lambda>n. memCall k (Checked n)),
     AddReadyzCheck = (\<lambda>n. memCall k (Checked n)), Start = memCall k Ran\<rparr>"

definition memNewManager :: "nat \<Rightarrow> ctrlOptions \<Rightarrow> (memory, memory manager) io" where
  "memNewManager k opts = ret (memManager k)"

interpretation mem_manager: manager_log "memManager k" mem_Log for k
  by unfold_locales (auto simp: memManager_def memCall_def split: if_splits)

interpretation mem_factory: manager_factory "memNewManager k" mem_Log for k
  by unfold_locales (auto simp: memNewManager_def mem_manager.manager_log_axioms)

lemma main_starts_in_order_demo:
  "\<exists>c w' n. main memLib (newControllerReconciler memOS (Inr memCRDs) (=)) (memNewManager 2)
      ((\<lambda>xs. xs), (\<lambda>xs. xs)) ((\<lambda>xs. xs), (\<lambda>xs. xs)) (\<lambda>xs. xs) (\<lambda>xs. xs) defaultFlags (demoWorld None) = (Inr c, w') \<and>
    mem_Log w' = take n startSequence \<and> (c = 0 \<longleftrightarrow> n = length startSequence)"
  using main_starts_in_order [OF mem_factory.manager_factory_axioms [of 2], of "demoWorld None" memLib
      "newControllerReconciler memOS (Inr memCRDs) (=)" "((\<lambda>xs. xs), (\<lambda>xs. xs))" "((\<lambda>xs. xs), (\<lambda>xs. xs))"
      "\<lambda>xs. xs" "\<lambda>xs. xs" defaultFlags]
  by (auto simp: demoWorld_def demoCluster_def)

text \<open>The reconcilers that \<open>main\<close> builds are the ones the theorems of this development are exercised on.\<close>

lemma main_reconcilers:
  "newGatewayReconciler (memManager k) = memReconciler"
  "newControllerReconciler memOS (Inr memCRDs) (=) (memManager k) = memController"
  by (simp_all add: newGatewayReconciler_def newControllerReconciler_def memManager_def memReconciler_def
      memController_def client.defs memClient_def)

end
