(* ===== verification/GoHeap.thy ===== *)
theory GoHeap
  imports Prelude "HOL-Library.Sublist"
begin

text \<open>
  Go's memory as far as copying is concerned: values with references into a heap of cells,
  the layout of a type, and the statements the deep copies of the API types are made of.
  What a value leads to is its \<open>view\<close>, the cells it leads through are its \<open>addrs\<close>; a
  statement is \<open>deep\<close> when it yields the same view in cells that were not there before.
  The collection \<open>deep_intro\<close> has one rule for each form of statement.
\<close>

named_theorems deep_intro "a statement of a deep copy copies deeply"

section \<open>Values and layouts\<close>

type_synonym addr = nat

datatype scalar = Str string | Num int | Boolean bool

text \<open>
  A scalar; a reference (pointer, slice or map) that is nil or leads to a cell; a struct
  with its fields, or the elements of a slice or the entries of a map, which a cell holds.
\<close>

datatype gval = Base scalar | Ref "addr option" | Fields "(string \<times> gval) list"

text \<open>The cells allocated so far; an address is an index.\<close>

type_synonym heap = "gval list"

definition cell :: "heap \<Rightarrow> addr \<Rightarrow> gval option" where
  "cell h a = (if a < length h then Some (h ! a) else None)"

text \<open>What the operator knows of a type: where its references are.\<close>

datatype gtype = TBase | TPtr gtype | TSeq gtype | TStruct "(string \<times> gtype) list"

fun typed :: "heap \<Rightarrow> gtype \<Rightarrow> gval \<Rightarrow> bool"
  and typeds :: "heap \<Rightarrow> (string \<times> gtype) list \<Rightarrow> (string \<times> gval) list \<Rightarrow> bool" where
  "typed h TBase v = (case v of Base s \<Rightarrow> True | _ \<Rightarrow> False)"
| "typed h (TPtr T) v = (case v of
      Ref None \<Rightarrow> True
    | Ref (Some a) \<Rightarrow> (case cell h a of Some c \<Rightarrow> typed h T c | None \<Rightarrow> False)
    | _ \<Rightarrow> False)"
| "typed h (TSeq T) v = (case v of
      Ref None \<Rightarrow> True
    | Ref (Some a) \<Rightarrow> (case cell h a of
          Some (Fields xs) \<Rightarrow> list_all (\<lambda>x. typed h T (snd x)) xs | _ \<Rightarrow> False)
    | _ \<Rightarrow> False)"
| "typed h (TStruct fs) v = (case v of Fields xs \<Rightarrow> typeds h fs xs | _ \<Rightarrow> False)"
| "typeds h [] xs = (xs = [])"
| "typeds h (f # fs) xs = (case xs of
      [] \<Rightarrow> False | x # ys \<Rightarrow> fst x = fst f \<and> typed h (snd f) (snd x) \<and> typeds h fs ys)"

text \<open>The content of a value, with the references followed.\<close>

datatype content = Plain scalar | Absent | Parts "(string \<times> content) list"

fun view :: "heap \<Rightarrow> gtype \<Rightarrow> gval \<Rightarrow> content"
  and views :: "heap \<Rightarrow> (string \<times> gtype) list \<Rightarrow> (string \<times> gval) list \<Rightarrow> (string \<times> content) list"
where
  "view h TBase v = (case v of Base s \<Rightarrow> Plain s | _ \<Rightarrow> Absent)"
| "view h (TPtr T) v = (case v of
      Ref (Some a) \<Rightarrow> (case cell h a of Some c \<Rightarrow> Parts [([], view h T c)] | None \<Rightarrow> Absent)
    | _ \<Rightarrow> Absent)"
| "view h (TSeq T) v = (case v of
      Ref (Some a) \<Rightarrow> (case cell h a of
          Some (Fields xs) \<Rightarrow> Parts (map (\<lambda>x. (fst x, view h T (snd x))) xs) | _ \<Rightarrow> Absent)
    | _ \<Rightarrow> Absent)"
| "view h (TStruct fs) v = (case v of Fields xs \<Rightarrow> Parts (views h fs xs) | _ \<Rightarrow> Absent)"
| "views h [] xs = []"
| "views h (f # fs) xs = (case xs of
      [] \<Rightarrow> [] | x # ys \<Rightarrow> (fst x, view h (snd f) (snd x)) # views h fs ys)"

fun addrs :: "heap \<Rightarrow> gtype \<Rightarrow> gval \<Rightarrow> addr set"
  and addrss :: "heap \<Rightarrow> (string \<times> gtype) list \<Rightarrow> (string \<times> gval) list \<Rightarrow> addr set" where
  "addrs h TBase v = {}"
| "addrs h (TPtr T) v = (case v of
      Ref (Some a) \<Rightarrow> insert a (case cell h a of Some c \<Rightarrow> addrs h T c | None \<Rightarrow> {})
    | _ \<Rightarrow> {})"
| "addrs h (TSeq T) v = (case v of
      Ref (Some a) \<Rightarrow> insert a (case cell h a of
          Some (Fields xs) \<Rightarrow> \<Union>(set (map (\<lambda>x. addrs h T (snd x)) xs)) | _ \<Rightarrow> {})
    | _ \<Rightarrow> {})"
| "addrs h (TStruct fs) v = (case v of Fields xs \<Rightarrow> addrss h fs xs | _ \<Rightarrow> {})"
| "addrss h [] xs = {}"
| "addrss h (f # fs) xs = (case xs of
      [] \<Rightarrow> {} | x # ys \<Rightarrow> addrs h (snd f) (snd x) \<union> addrss h fs ys)"

text \<open>A type without references: an assignment copies it.\<close>

fun flat :: "gtype \<Rightarrow> bool" and flats :: "(string \<times> gtype) list \<Rightarrow> bool" where
  "flat TBase = True"
| "flat (TPtr T) = False"
| "flat (TSeq T) = False"
| "flat (TStruct fs) = flats fs"
| "flats [] = True"
| "flats (f # fs) = (flat (snd f) \<and> flats fs)"

section \<open>The statements of a deep copy\<close>

text \<open>A statement \<open>f(&in, &out)\<close>: from the value of \<open>in\<close> to the value of \<open>out\<close>.\<close>

type_synonym copier = "gval \<Rightarrow> heap \<Rightarrow> gval \<times> heap"

text \<open>
  \<open>new(T)\<close> and \<open>make(...)\<close>: the next free cell.  Every use fills it before it is read, so
  its zero value is not tied to the type.
\<close>

definition new :: "heap \<Rightarrow> addr \<times> heap" where
  "new h = (length h, h @ [Base (Num 0)])"

definition assign :: "addr \<Rightarrow> gval \<Rightarrow> heap \<Rightarrow> heap" where
  "assign a v h = h[a := v]"

text \<open>\<open>out.F = in.F\<close>, \<open>**out = **in\<close>, \<open>(*out)[key] = val\<close>: the references are shared.\<close>

definition shallow :: copier where
  "shallow v h = (v, h)"

text \<open>
  \<open>if in.F != nil { *out = new(T); d }\<close> with the statement \<open>d\<close> that fills the new cell.
\<close>

definition ptrCopy :: "copier \<Rightarrow> copier" where
  "ptrCopy d v h = (case v of
      Ref (Some a) \<Rightarrow> (case cell h a of
          Some c \<Rightarrow> (case new h of (b, h1) \<Rightarrow> case d c h1 of (c', h2) \<Rightarrow> (Ref (Some b), assign b c' h2))
        | None \<Rightarrow> (v, h))
    | _ \<Rightarrow> (v, h))"

fun elemsCopy :: "copier \<Rightarrow> (string \<times> gval) list \<Rightarrow> heap \<Rightarrow> (string \<times> gval) list \<times> heap" where
  "elemsCopy d [] h = ([], h)"
| "elemsCopy d (x # xs) h = (case d (snd x) h of (y, h1) \<Rightarrow>
     case elemsCopy d xs h1 of (ys, h2) \<Rightarrow> ((fst x, y) # ys, h2))"

text \<open>
  \<open>if in.F != nil { *out = make(...); for ... }\<close>: the loop over a slice or a map that copies
  each element with \<open>d\<close>; \<open>copy(*out, *in)\<close> is the loop with \<open>shallow\<close>.
\<close>

definition seqCopy :: "copier \<Rightarrow> copier" where
  "seqCopy d v h = (case v of
      Ref (Some a) \<Rightarrow> (case cell h a of
          Some (Fields xs) \<Rightarrow> (case new h of (b, h1) \<Rightarrow>
            case elemsCopy d xs h1 of (ys, h2) \<Rightarrow> (Ref (Some b), assign b (Fields ys) h2))
        | _ \<Rightarrow> (v, h))
    | _ \<Rightarrow> (v, h))"

text \<open>
  \<open>*val.DeepCopy()\<close> on the loop variable \<open>val\<close>, a cell of its own: the cell of the copy is read.
\<close>

definition viaDeepCopy :: "copier \<Rightarrow> copier" where
  "viaDeepCopy D v h = (case new h of (b, h1) \<Rightarrow> case D (Ref (Some b)) (assign b v h1) of
      (Ref (Some c), h2) \<Rightarrow> (case cell h2 c of Some w \<Rightarrow> (w, h2) | None \<Rightarrow> (v, h2))
    | (_, h2) \<Rightarrow> (v, h2))"

text \<open>
  \<open>DeepCopyObject\<close>: the copy as an interface value, or the nil interface.
\<close>

definition asObject :: "copier \<Rightarrow> copier" where
  "asObject D p h = (case D p h of (c, h') \<Rightarrow> (if c \<noteq> Ref None then (c, h') else (Ref None, h')))"

text \<open>\<open>*out = *in\<close> and then the statements for single fields, in their order.\<close>

fun setField :: "string \<Rightarrow> gval \<Rightarrow> (string \<times> gval) list \<Rightarrow> (string \<times> gval) list" where
  "setField f y [] = []"
| "setField f y (x # xs) = (if fst x = f then (f, y) # xs else x # setField f y xs)"

fun fieldsCopy ::
  "(string \<times> copier) list \<Rightarrow> (string \<times> gval) list \<Rightarrow> (string \<times> gval) list \<Rightarrow> heap \<Rightarrow>
   (string \<times> gval) list \<times> heap" where
  "fieldsCopy [] xs out h = (out, h)"
| "fieldsCopy (s # ss) xs out h = (case map_of xs (fst s) of
      None \<Rightarrow> fieldsCopy ss xs out h
    | Some x \<Rightarrow> (case snd s x h of (y, h1) \<Rightarrow> fieldsCopy ss xs (setField (fst s) y out) h1))"

definition structCopy :: "(string \<times> copier) list \<Rightarrow> copier" where
  "structCopy ss v h = (case v of
      Fields xs \<Rightarrow> (case fieldsCopy ss xs xs h of (ys, h') \<Rightarrow> (Fields ys, h')) | _ \<Rightarrow> (v, h))"

section \<open>Deep copies\<close>

text \<open>The same content, in cells that were not there before.\<close>

definition copied :: "gtype \<Rightarrow> heap \<Rightarrow> gval \<Rightarrow> heap \<Rightarrow> gval \<Rightarrow> bool" where
  "copied T h v h' v' \<longleftrightarrow> typed h' T v' \<and> view h' T v' = view h T v \<and>
     (\<forall>a \<in> addrs h' T v'. length h \<le> a)"

definition deep :: "gtype \<Rightarrow> copier \<Rightarrow> bool" where
  "deep T d \<longleftrightarrow> (\<forall>h v v' h'. typed h T v \<longrightarrow> d v h = (v', h') \<longrightarrow>
     prefix h h' \<and> copied T h v h' v')"

lemma deepI:
  assumes "\<And>h v v' h'. typed h T v \<Longrightarrow> d v h = (v', h') \<Longrightarrow> prefix h h' \<and> copied T h v h' v'"
  shows "deep T d"
  using assms unfolding deep_def by blast

lemma deepD:
  assumes "deep T d" "typed h T v" "d v h = (v', h')"
  shows "prefix h h'" "copied T h v h' v'"
  using assms unfolding deep_def by blast+

section \<open>Cells and frames\<close>

lemma cell_prefix: "prefix h h' \<Longrightarrow> a < length h \<Longrightarrow> cell h' a = cell h a"
  by (auto simp: prefix_def cell_def nth_append)

lemma cell_lt: "cell h a = Some c \<Longrightarrow> a < length h"
  by (simp add: cell_def split: if_splits)

lemma cell_assign: "cell (assign a v h) b = (if b = a \<and> a < length h then Some v else cell h b)"
  by (auto simp: cell_def assign_def)

lemma length_assign [simp]: "length (assign a v h) = length h"
  by (simp add: assign_def)

lemma prefix_assign:
  assumes "prefix h h'" "length h \<le> a"
  shows "prefix h (assign a v h')"
proof -
  from assms obtain zs where "h' = h @ zs" by (auto simp: prefix_def)
  with assms(2) show ?thesis by (auto simp: assign_def list_update_append)
qed

text \<open>A value depends on the cells it leads through only.\<close>

lemma frame:
  "typed h T v \<Longrightarrow> \<forall>a \<in> addrs h T v. cell h' a = cell h a \<Longrightarrow>
     typed h' T v \<and> view h' T v = view h T v \<and> addrs h' T v = addrs h T v"
  "typeds h fs xs \<Longrightarrow> \<forall>a \<in> addrss h fs xs. cell h' a = cell h a \<Longrightarrow>
     typeds h' fs xs \<and> views h' fs xs = views h fs xs \<and> addrss h' fs xs = addrss h fs xs"
proof (induction h T v and h fs xs rule: typed_typeds.induct)
  case (3 h T v)
  show ?case
  proof (cases "\<exists>a xs. v = Ref (Some a) \<and> cell h a = Some (Fields xs)")
    case True
    then obtain a xs where v: "v = Ref (Some a)" "cell h a = Some (Fields xs)"
      by blast
    from v 3(3) have same: "cell h' a = Some (Fields xs)"
      by simp
    have el: "typed h' T (snd x) \<and> view h' T (snd x) = view h T (snd x) \<and>
        addrs h' T (snd x) = addrs h T (snd x)" if "x \<in> set xs" for x
    proof (rule 3(1)[OF v(1) refl v(2) refl that])
      show "typed h T (snd x)"
        using 3(2) v that by (simp add: list_all_iff)
      show "\<forall>a \<in> addrs h T (snd x). cell h' a = cell h a"
        using 3(3) v that by auto
    qed
    with v same show ?thesis
      by (simp add: list_all_iff cong: map_cong)
  next
    case False
    with 3(2) show ?thesis
      by (auto split: gval.splits option.splits)
  qed
qed (auto split: option.splits gval.splits list.splits)

lemma addrs_allocated:
  "typed h T v \<Longrightarrow> a \<in> addrs h T v \<Longrightarrow> a < length h"
  "typeds h fs xs \<Longrightarrow> a \<in> addrss h fs xs \<Longrightarrow> a < length h"
  by (induction h T v and h fs xs rule: typed_typeds.induct)
    (auto simp: list_all_iff cell_lt split: option.splits gval.splits list.splits)

lemma frame_prefix:
  assumes "typed h T v" "prefix h h'"
  shows "typed h' T v" "view h' T v = view h T v" "addrs h' T v = addrs h T v"
  using frame(1)[OF assms(1), of h'] addrs_allocated(1)[OF assms(1)] cell_prefix[OF assms(2)]
  by blast+

lemma flat_frame:
  "flat T \<Longrightarrow> typed h T v \<Longrightarrow> addrs h T v = {}"
  "flats fs \<Longrightarrow> typeds h fs xs \<Longrightarrow> addrss h fs xs = {}"
  by (induction h T v and h fs xs rule: typed_typeds.induct)
    (auto split: gval.splits list.splits)


section \<open>Rules\<close>

lemma copied_refl_flat:
  assumes "flat T" "typed h0 T v" "prefix h0 h"
  shows "copied T h0 v h v"
  using frame_prefix[OF assms(2,3)] flat_frame(1)[OF assms(1,2)]
  by (simp add: copied_def)

text \<open>A copy stays a copy while the heap grows.\<close>

lemma copied_extend:
  assumes "copied T h v h1 v'" "prefix h1 h2"
  shows "copied T h v h2 v'"
  using assms frame_prefix[of h1 T v' h2] by (auto simp: copied_def)

text \<open>A copy taken later is a copy of what was there before.\<close>

lemma copied_base:
  assumes "copied T h1 v h2 v'" "prefix h h1" "typed h T v"
  shows "copied T h v h2 v'"
  using assms frame_prefix[OF assms(3,2)] prefix_length_le[OF assms(2)]
  by (auto simp: copied_def)

lemma copied_assign:
  assumes "copied T h v h' v'" "b < length h"
  shows "copied T h v (assign b c h') v'"
proof -
  have "\<forall>a \<in> addrs h' T v'. cell (assign b c h') a = cell h' a"
    using assms by (auto simp: copied_def cell_assign)
  with assms(1) frame(1)[of h' T v' "assign b c h'"] show ?thesis
    by (simp add: copied_def)
qed

lemma deep_shallow [deep_intro]: "flat T \<Longrightarrow> deep T shallow"
  by (rule deepI) (auto simp: shallow_def intro: copied_refl_flat)

lemma new_simps:
  assumes "new h = (b, h1)"
  shows "b = length h" "prefix h h1" "length h1 = Suc (length h)"
  using assms by (auto simp: new_def)

lemma deep_ptrCopy [deep_intro]:
  assumes d: "deep T d"
  shows "deep (TPtr T) (ptrCopy d)"
proof (rule deepI)
  fix h v v' h'
  assume ty: "typed h (TPtr T) v" and run: "ptrCopy d v h = (v', h')"
  show "prefix h h' \<and> copied (TPtr T) h v h' v'"
  proof (cases "v = Ref None")
    case True
    with run show ?thesis
      by (auto simp: ptrCopy_def copied_def)
  next
    case False
    with ty obtain a c where v: "v = Ref (Some a)" "cell h a = Some c" "typed h T c"
      by (auto split: gval.splits option.splits)
    obtain b h1 where new: "new h = (b, h1)" by force
    obtain c' h2 where step: "d c h1 = (c', h2)" by force
    note n = new_simps[OF new]
    have tc: "typed h1 T c" "view h1 T c = view h T c"
      using frame_prefix[OF v(3) n(2)] by simp_all
    note p = deepD(1)[OF d tc(1) step] and cp = deepD(2)[OF d tc(1) step]
    have h': "h' = assign b c' h2" and v': "v' = Ref (Some b)"
      using run v new step by (auto simp: ptrCopy_def)
    have "b < length h2"
      using n prefix_length_le[OF p] by simp
    then have at: "cell h' b = Some c'"
      by (simp add: h' cell_assign)
    have cc: "copied T h1 c h' c'"
      unfolding h' using copied_assign[OF cp] n by simp
    have "prefix h h'"
      unfolding h' by (rule prefix_assign) (use n p in \<open>auto intro: prefix_order.trans\<close>)
    moreover have "copied (TPtr T) h v h' v'"
      using cc at v v' tc n by (auto simp: copied_def)
    ultimately show ?thesis ..
  qed
qed

lemma deep_elemsCopy:
  assumes d: "deep T d"
  shows "\<lbrakk>\<forall>x \<in> set xs. typed h T (snd x); elemsCopy d xs h = (ys, h')\<rbrakk> \<Longrightarrow>
    prefix h h' \<and> map fst ys = map fst xs \<and>
    list_all2 (\<lambda>x y. copied T h (snd x) h' (snd y)) xs ys"
proof (induction xs arbitrary: h h' ys)
  case Nil
  then show ?case by simp
next
  case (Cons x xs)
  obtain y h1 where step: "d (snd x) h = (y, h1)" by force
  obtain zs h2 where rest: "elemsCopy d xs h1 = (zs, h2)" by force
  from Cons.prems step rest have ys: "ys = (fst x, y) # zs" "h' = h2"
    by auto
  have tx: "typed h T (snd x)" using Cons.prems by simp
  note p = deepD[OF d tx step]
  have "\<forall>x \<in> set xs. typed h1 T (snd x)"
    using Cons.prems(1) frame_prefix(1)[OF _ p(1)] by simp
  from Cons.IH[OF this rest]
  have q: "prefix h1 h2" "map fst zs = map fst xs"
    "list_all2 (\<lambda>x y. copied T h1 (snd x) h2 (snd y)) xs zs"
    by simp_all
  have "list_all2 (\<lambda>x y. copied T h (snd x) h2 (snd y)) xs zs"
    using q(3) Cons.prems(1) copied_base[OF _ p(1)]
    by (auto simp: list_all2_conv_all_nth)
  with copied_extend[OF p(2) q(1)] q p(1) ys show ?case
    by (auto intro: prefix_order.trans)
qed

lemma deep_seqCopy [deep_intro]:
  assumes d: "deep T d"
  shows "deep (TSeq T) (seqCopy d)"
proof (rule deepI)
  fix h v v' h'
  assume ty: "typed h (TSeq T) v" and run: "seqCopy d v h = (v', h')"
  show "prefix h h' \<and> copied (TSeq T) h v h' v'"
  proof (cases "v = Ref None")
    case True
    with run show ?thesis
      by (auto simp: seqCopy_def copied_def)
  next
    case False
    with ty obtain a xs where v: "v = Ref (Some a)" "cell h a = Some (Fields xs)"
      and tx: "\<forall>x \<in> set xs. typed h T (snd x)"
      by (auto simp: list_all_iff split: gval.splits option.splits)
    obtain b h1 where new: "new h = (b, h1)" by force
    obtain ys h2 where loop: "elemsCopy d xs h1 = (ys, h2)" by force
    note n = new_simps[OF new]
    have h': "h' = assign b (Fields ys) h2" and v': "v' = Ref (Some b)"
      using run v new loop by (auto simp: seqCopy_def)
    from tx have tx1: "\<forall>x \<in> set xs. typed h1 T (snd x)"
      using frame_prefix(1)[OF _ n(2)] by blast
    from deep_elemsCopy[OF d tx1 loop]
    have q: "prefix h1 h2" "map fst ys = map fst xs"
      and each: "list_all2 (\<lambda>x y. copied T h1 (snd x) h2 (snd y)) xs ys"
      by simp_all
    have "b < length h2"
      using n prefix_length_le[OF q(1)] by simp
    then have at: "cell h' b = Some (Fields ys)"
      by (simp add: h' cell_assign)
    have el: "list_all2 (\<lambda>x y. fst y = fst x \<and> copied T h (snd x) h' (snd y)) xs ys"
      unfolding list_all2_conv_all_nth
    proof (intro conjI allI impI)
      show "length xs = length ys" using each by (rule list_all2_lengthD)
      fix i assume i: "i < length xs"
      show "fst (ys ! i) = fst (xs ! i)"
        using i q(2) by (metis length_map nth_map)
      have "copied T h1 (snd (xs ! i)) h2 (snd (ys ! i))"
        using each i by (simp add: list_all2_conv_all_nth)
      then have "copied T h1 (snd (xs ! i)) h' (snd (ys ! i))"
        unfolding h' using n by (intro copied_assign) simp_all
      then show "copied T h (snd (xs ! i)) h' (snd (ys ! i))"
        using copied_base[OF _ n(2)] tx i by simp
    qed
    then have vw: "map (\<lambda>x. (fst x, view h' T (snd x))) ys = map (\<lambda>x. (fst x, view h T (snd x))) xs"
      by (induction xs ys rule: list_all2_induct) (auto simp: copied_def)
    have es: "\<forall>y \<in> set ys. typed h' T (snd y) \<and> (\<forall>a \<in> addrs h' T (snd y). length h \<le> a)"
      using el by (induction xs ys rule: list_all2_induct) (auto simp: copied_def)
    have "prefix h h'"
      unfolding h' by (rule prefix_assign) (use n q in \<open>auto intro: prefix_order.trans\<close>)
    moreover have "copied (TSeq T) h v h' v'"
      using at v v' n vw es by (auto simp: copied_def list_all_iff)
    ultimately show ?thesis ..
  qed
qed

lemma deep_viaDeepCopy [deep_intro]:
  assumes d: "deep (TPtr T) D"
  shows "deep T (viaDeepCopy D)"
proof (rule deepI)
  fix h v v' h'
  assume ty: "typed h T v" and run: "viaDeepCopy D v h = (v', h')"
  let ?b = "length h" and ?h1 = "h @ [v]"
  have var: "(case new h of (b, h1) \<Rightarrow> (b, assign b v h1)) = (?b, ?h1)"
    by (simp add: new_def assign_def)
  have p1: "prefix h ?h1" and at: "cell ?h1 ?b = Some v"
    by (simp_all add: cell_def)
  note tv = frame_prefix[OF ty p1]
  have tb: "typed ?h1 (TPtr T) (Ref (Some ?b))"
    using tv at by simp
  obtain r h2 where step: "D (Ref (Some ?b)) ?h1 = (r, h2)" by force
  note c = deepD[OF d tb step]
  from c(2) at tv obtain a w where r: "r = Ref (Some a)" "cell h2 a = Some w"
    by (auto simp: copied_def split: gval.splits option.splits)
  have eq: "v' = w" "h' = h2"
    using run var step r by (auto simp: viaDeepCopy_def new_def assign_def)
  have "prefix h h'"
    using prefix_order.trans[OF p1 c(1)] eq by simp
  moreover have "copied T h v h' v'"
    using c(2) r at tv eq by (auto simp: copied_def)
  ultimately show "prefix h h' \<and> copied T h v h' v'" ..
qed

lemma deep_asObject [deep_intro]: "deep T D \<Longrightarrow> deep T (asObject D)"
  by (rule deepI) (auto simp: asObject_def dest: deepD split: prod.splits if_splits)

subsection \<open>Structs\<close>

lemma typeds_nth:
  "typeds h fs xs \<longleftrightarrow> length xs = length fs \<and>
     (\<forall>i < length fs. fst (xs ! i) = fst (fs ! i) \<and> typed h (snd (fs ! i)) (snd (xs ! i)))"
  by (induction fs arbitrary: xs) (auto simp: All_less_Suc2 split: list.splits)

lemma fields_copied:
  assumes "length xs = length fs" "length ys = length fs"
    and "\<forall>i < length fs. fst (xs ! i) = fst (fs ! i) \<and> fst (ys ! i) = fst (fs ! i) \<and>
      copied (snd (fs ! i)) h (snd (xs ! i)) h' (snd (ys ! i))"
  shows "copied (TStruct fs) h (Fields xs) h' (Fields ys)"
  using assms
proof (induction fs arbitrary: xs ys)
  case Nil
  then show ?case by (simp add: copied_def)
next
  case (Cons f fs)
  obtain x xs' y ys' where eq: "xs = x # xs'" "ys = y # ys'"
    using Cons.prems(1,2) by (metis length_Suc_conv length_Cons)
  have "copied (TStruct fs) h (Fields xs') h' (Fields ys')"
    using Cons.prems eq by (intro Cons.IH) (auto simp: All_less_Suc2)
  moreover have "fst x = fst f" "fst y = fst f" "copied (snd f) h (snd x) h' (snd y)"
    using Cons.prems(3) eq by (auto simp: All_less_Suc2)
  ultimately show ?case
    unfolding eq by (auto simp: copied_def)
qed

lemma setField_nth:
  "distinct (map fst out) \<Longrightarrow> i < length out \<Longrightarrow> fst (out ! i) = f \<Longrightarrow>
    setField f y out = out[i := (f, y)]"
  by (induction out arbitrary: i) (auto simp: less_Suc_eq_0_disj nth_Cons' image_iff)

lemma map_of_nth:
  "distinct (map fst xs) \<Longrightarrow> i < length xs \<Longrightarrow> map_of xs (fst (xs ! i)) = Some (snd (xs ! i))"
  by simp

text \<open>The copy under way: the fields of \<open>D\<close> are copied, the others still shared.\<close>

definition copying ::
  "(string \<times> gtype) list \<Rightarrow> heap \<Rightarrow> (string \<times> gval) list \<Rightarrow> string set \<Rightarrow> heap \<Rightarrow>
   (string \<times> gval) list \<Rightarrow> bool" where
  "copying fs h0 xs D h out \<longleftrightarrow> prefix h0 h \<and> length out = length fs \<and>
     (\<forall>i < length fs. fst (out ! i) = fst (fs ! i) \<and>
       (if fst (fs ! i) \<in> D then copied (snd (fs ! i)) h0 (snd (xs ! i)) h (snd (out ! i))
        else out ! i = xs ! i))"

lemma copying_step:
  assumes names: "distinct (map fst fs)" and ty: "typeds h0 fs xs"
    and inv: "copying fs h0 xs D h out"
    and s: "map_of fs f = Some T" "deep T d"
    and x: "map_of xs f = Some x" and step: "d x h = (y, h1)"
  shows "copying fs h0 xs (insert f D) h1 (setField f y out)"
proof -
  from s(1) obtain i where i: "i < length fs" "fs ! i = (f, T)"
    by (metis in_set_conv_nth map_of_SomeD)
  have xs: "map fst xs = map fst fs"
    using ty by (auto simp: typeds_nth intro: nth_equalityI)
  have out: "map fst out = map fst fs"
    using inv by (auto simp: copying_def intro: nth_equalityI)
  have fx: "fst (xs ! i) = f" "i < length xs"
    using ty i by (simp_all add: typeds_nth)
  have x_eq: "x = snd (xs ! i)"
    using map_of_nth[of xs i] names xs fx x by simp
  have set: "setField f y out = out[i := (f, y)]"
    using setField_nth[of out i f y] names out inv i by (simp add: copying_def)
  have p0: "prefix h0 h" using inv by (simp add: copying_def)
  have tx: "typed h0 T x"
    using ty i x_eq by (auto simp: typeds_nth dest!: spec[of _ i])
  note c = deepD[OF s(2) frame_prefix(1)[OF tx p0] step]
  have fi: "fst (fs ! i) = f" "snd (fs ! i) = T"
    using i by simp_all
  have "copied T h0 x h1 y"
    using copied_base[OF c(2) p0 tx] .
  moreover have "copied (snd (fs ! j)) h0 (snd (xs ! j)) h1 (snd (out ! j))"
    if "j < length fs" "fst (fs ! j) \<in> D" for j
    using inv that copied_extend[OF _ c(1)] by (simp add: copying_def)
  moreover have "fst (fs ! j) \<noteq> f" if "j < length fs" "j \<noteq> i" for j
    using names i that by (metis distinct_conv_nth fst_conv length_map nth_map)
  ultimately show ?thesis
    using inv i(1) fi x_eq c(1) unfolding set copying_def
    by (auto simp: nth_list_update intro: prefix_order.trans)
qed

lemma copying_fields:
  assumes names: "distinct (map fst fs)" and ty: "typeds h0 fs xs"
  shows "\<lbrakk>fieldsCopy ss xs out h = (ys, h'); copying fs h0 xs D h out;
      \<forall>s \<in> set ss. \<exists>T. map_of fs (fst s) = Some T \<and> deep T (snd s)\<rbrakk> \<Longrightarrow>
    copying fs h0 xs (D \<union> fst ` set ss) h' ys"
proof (induction ss arbitrary: D out h)
  case Nil
  then show ?case by simp
next
  case (Cons s ss)
  from Cons.prems(3) obtain T where T: "map_of fs (fst s) = Some T" "deep T (snd s)"
    by auto
  have "map fst xs = map fst fs"
    using ty by (auto simp: typeds_nth intro: nth_equalityI)
  then obtain x where x: "map_of xs (fst s) = Some x"
    using T(1) by (metis domIff dom_map_of_conv_image_fst list.set_map option.distinct(1) not_None_eq)
  obtain y h1 where step: "snd s x h = (y, h1)" by force
  have "copying fs h0 xs (insert (fst s) D \<union> fst ` set ss) h' ys"
    using Cons.prems x step copying_step[OF names ty Cons.prems(2) T x step]
    by (intro Cons.IH[of "setField (fst s) y out" h1]) auto
  then show ?case by simp
qed

lemma deep_structCopy:
  assumes names: "distinct (map fst fs)"
    and steps: "list_all (\<lambda>s. case map_of fs (fst s) of Some T \<Rightarrow> deep T (snd s) | None \<Rightarrow> False) ss"
    and rest: "list_all (\<lambda>f. fst f \<in> fst ` set ss \<or> flat (snd f)) fs"
  shows "deep (TStruct fs) (structCopy ss)"
proof (rule deepI)
  fix h v v' h'
  assume ty: "typed h (TStruct fs) v" and run: "structCopy ss v h = (v', h')"
  then obtain xs where v: "v = Fields xs" and tx: "typeds h fs xs"
    by (auto split: gval.splits)
  obtain ys where loop: "fieldsCopy ss xs xs h = (ys, h')" and v': "v' = Fields ys"
    using run v by (auto simp: structCopy_def split: prod.splits)
  have "copying fs h xs {} h xs"
    using tx by (auto simp: copying_def typeds_nth)
  moreover have "\<forall>s \<in> set ss. \<exists>T. map_of fs (fst s) = Some T \<and> deep T (snd s)"
    using steps by (auto simp: list_all_iff split: option.splits)
  ultimately have c: "copying fs h xs (fst ` set ss) h' ys"
    using copying_fields[OF names tx loop] by fastforce
  have "copied (snd (fs ! i)) h (snd (xs ! i)) h' (snd (ys ! i))" if i: "i < length fs" for i
  proof (cases "fst (fs ! i) \<in> fst ` set ss")
    case True
    with c i show ?thesis by (simp add: copying_def)
  next
    case False
    with rest i have "flat (snd (fs ! i))" by (auto simp: list_all_length)
    with False c i tx show ?thesis
      by (auto simp: copying_def typeds_nth intro: copied_refl_flat)
  qed
  with c tx have "copied (TStruct fs) h (Fields xs) h' (Fields ys)"
    by (intro fields_copied) (auto simp: copying_def typeds_nth)
  with c v v' show "prefix h h' \<and> copied (TStruct fs) h v h' v'"
    by (simp add: copying_def)
qed

subsection \<open>Copying along a layout\<close>

text \<open>
  The copy a layout itself describes, and the layouts whose field names it can tell apart.
\<close>

fun deepCopyAs :: "gtype \<Rightarrow> copier" and stepsAs :: "(string \<times> gtype) list \<Rightarrow> (string \<times> copier) list"
where
  "deepCopyAs TBase = shallow"
| "deepCopyAs (TPtr T) = ptrCopy (deepCopyAs T)"
| "deepCopyAs (TSeq T) = seqCopy (deepCopyAs T)"
| "deepCopyAs (TStruct fs) = structCopy (stepsAs fs)"
| "stepsAs [] = []"
| "stepsAs (f # fs) = (fst f, deepCopyAs (snd f)) # stepsAs fs"

fun distinctNames :: "gtype \<Rightarrow> bool" and distinctNamess :: "(string \<times> gtype) list \<Rightarrow> bool" where
  "distinctNames TBase = True"
| "distinctNames (TPtr T) = distinctNames T"
| "distinctNames (TSeq T) = distinctNames T"
| "distinctNames (TStruct fs) = (distinct (map fst fs) \<and> distinctNamess fs)"
| "distinctNamess [] = True"
| "distinctNamess (f # fs) = (distinctNames (snd f) \<and> distinctNamess fs)"

lemma fst_stepsAs: "fst ` set (stepsAs fs) = fst ` set fs"
  by (induction fs) auto

lemma deep_deepCopyAs:
  "distinctNames T \<Longrightarrow> deep T (deepCopyAs T)"
  "distinctNamess fs \<Longrightarrow> distinct (map fst fs) \<Longrightarrow>
     list_all (\<lambda>s. case map_of fs (fst s) of Some T \<Rightarrow> deep T (snd s) | None \<Rightarrow> False) (stepsAs fs)"
proof (induction T and fs rule: deepCopyAs_stepsAs.induct)
  case (4 fs)
  then show ?case
    by (auto intro!: deep_structCopy simp: list_all_iff fst_stepsAs)
next
  case (6 f fs)
  have "fst s \<noteq> fst f" if "s \<in> set (stepsAs fs)" for s
    using 6(4) imageI[OF that, of fst] unfolding fst_stepsAs by (metis distinct.simps(2) list.map(2) list.set_map)
  with 6 show ?case
    by (auto simp: list_all_iff)
qed (auto intro: deep_intro)

section \<open>Isolation\<close>

text \<open>A run that writes no allocated cell outside \<open>A\<close>.\<close>

definition writesOnly :: "addr set \<Rightarrow> heap \<Rightarrow> heap \<Rightarrow> bool" where
  "writesOnly A h h' \<longleftrightarrow> (\<forall>a < length h. a \<notin> A \<longrightarrow> cell h' a = cell h a)"

text \<open>
  What a caller of \<open>DeepCopy\<close> relies on: the copy \<open>q\<close> of \<open>p\<close> has its content, \<open>p\<close> is as it was,
  and no write through one of them, or into cells allocated later, shows in the other.
\<close>

definition isolated :: "gtype \<Rightarrow> heap \<Rightarrow> gval \<Rightarrow> heap \<Rightarrow> gval \<Rightarrow> bool" where
  "isolated T h p h' q \<longleftrightarrow> typed h' T q \<and> view h' T q = view h T p \<and> view h' T p = view h T p \<and>
     (\<forall>h''. writesOnly (addrs h' T p) h' h'' \<longrightarrow> view h'' T q = view h T p) \<and>
     (\<forall>h''. writesOnly (addrs h' T q) h' h'' \<longrightarrow> view h'' T p = view h T p)"

lemma deep_isolated:
  assumes d: "deep T d" and ty: "typed h T p" and run: "d p h = (q, h')"
  shows "isolated T h p h' q"
proof -
  note c = deepD[OF d ty run]
  note p = frame_prefix[OF ty c(1)]
  have tq: "typed h' T q" "view h' T q = view h T p" "\<forall>a \<in> addrs h' T q. length h \<le> a"
    using c(2) by (simp_all add: copied_def)
  have ap: "a < length h" if "a \<in> addrs h' T p" for a
    using addrs_allocated(1)[OF ty, of a] that p(3) by simp
  have aq: "a < length h'" if "a \<in> addrs h' T q" for a
    using addrs_allocated(1)[OF tq(1)] that .
  have "view h'' T q = view h' T q" if w: "writesOnly (addrs h' T p) h' h''" for h''
    using frame(1)[OF tq(1), of h''] w aq ap tq(3) by (force simp: writesOnly_def)
  moreover have "view h'' T p = view h' T p" if w: "writesOnly (addrs h' T q) h' h''" for h''
    using frame(1)[OF p(1), of h''] w addrs_allocated(1)[OF p(1)] ap tq(3)
    by (force simp: writesOnly_def)
  ultimately show ?thesis
    unfolding isolated_def using tq p(2) by simp
qed

end
