(* ===== verification/ApiLayouts.thy ===== *)
theory ApiLayouts
  imports GoHeap
begin

text \<open>
  The layouts of the API types: the fields of every struct of \<open>common.go\<close>,
  \<open>higressgateway_types.go\<close> and \<open>higresscontroller_types.go\<close>, in their order, with the
  pointers, slices and maps among them.  An embedded struct is a field with the name of its
  type.  The layout of a library type is the parameter \<open>ly\<close>, by the name the code imports
  it under.
\<close>

definition KEDAScaleTrigger_layout :: "gtype" where
  "KEDAScaleTrigger_layout = TStruct [
     (''Type'', TBase), (''Metadata'', TSeq TBase), (''AuthenticationRef'', TPtr TBase)]"

definition KEDAScalingConfig_layout :: "gtype" where
  "KEDAScalingConfig_layout = TStruct [
     (''PollingIntervalSeconds'', TPtr TBase), (''CooldownPeriodSeconds'', TPtr TBase),
     (''IdleReplicaCount'', TPtr TBase), (''Triggers'', TSeq KEDAScaleTrigger_layout)]"

definition AutoScaling_layout :: "gtype" where
  "AutoScaling_layout = TStruct [
     (''Mode'', TBase), (''Enable'', TBase), (''MinReplicas'', TPtr TBase),
     (''MaxReplicas'', TBase), (''TargetCPUUtilizationPercentage'', TPtr TBase),
     (''KEDA'', TPtr KEDAScalingConfig_layout)]"

definition Service_layout :: "(string \<Rightarrow> gtype) \<Rightarrow> gtype" where
  "Service_layout ly = TStruct [
     (''Type'', TBase), (''Ports'', TSeq (ly ''v1.ServicePort'')), (''Annotations'', TSeq TBase),
     (''LoadBalancerIP'', TBase), (''LoadBalancerSourceRanges'', TSeq TBase),
     (''ExternalTrafficPolicy'', TBase)]"

definition RBAC_layout :: "gtype" where
  "RBAC_layout = TStruct [
     (''Enable'', TBase)]"

definition ServiceAccount_layout :: "gtype" where
  "ServiceAccount_layout = TStruct [
     (''Enable'', TBase), (''Name'', TBase), (''Annotations'', TSeq TBase)]"

definition Istio_layout :: "gtype" where
  "Istio_layout = TStruct [
     (''EnableAnalysis'', TBase)]"

definition MultiCluster_layout :: "gtype" where
  "MultiCluster_layout = TStruct [
     (''Enable'', TBase), (''ClusterName'', TBase)]"

definition CRDCommonFields_layout :: "(string \<Rightarrow> gtype) \<Rightarrow> gtype" where
  "CRDCommonFields_layout ly = TStruct [
     (''Replicas'', TPtr TBase), (''SelectorLabels'', TSeq TBase), (''NodeSelector'', TSeq TBase),
     (''Affinity'', TPtr (ly ''v1.Affinity'')), (''Toleration'', TSeq (ly ''v1.Toleration'')),
     (''Service'', TPtr (Service_layout ly)), (''RBAC'', TPtr RBAC_layout),
     (''ServiceAccount'', TPtr ServiceAccount_layout), (''AutoScaling'', TPtr AutoScaling_layout),
     (''PodSecurityContext'', TPtr (ly ''v1.PodSecurityContext'')), (''EnableStatus'', TBase),
     (''EnableHigressIstio'', TBase), (''EnableIstioAPI'', TBase), (''IstioNamespace'', TBase),
     (''Revision'', TBase), (''Istiod'', TPtr Istio_layout),
     (''MultiCluster'', TPtr MultiCluster_layout), (''Local'', TBase), (''JwtPolicy'', TBase)]"

definition ConfigSource_layout :: "gtype" where
  "ConfigSource_layout = TStruct [
     (''Address'', TBase)]"

definition Image_layout :: "gtype" where
  "Image_layout = TStruct [
     (''Repository'', TBase), (''Tag'', TBase), (''ImagePullPolicy'', TBase)]"

definition ContainerCommonFields_layout :: "(string \<Rightarrow> gtype) \<Rightarrow> gtype" where
  "ContainerCommonFields_layout ly = TStruct [
     (''Name'', TBase), (''Annotations'', TSeq TBase), (''Image'', Image_layout),
     (''ImagePullSecrets'', TSeq (ly ''v1.LocalObjectReference'')), (''Env'', TSeq TBase),
     (''ReadinessProbe'', TPtr (ly ''v1.Probe'')), (''Ports'', TSeq (ly ''v1.ContainerPort'')),
     (''Resources'', TPtr (ly ''v1.ResourceRequirements'')),
     (''SecurityContext'', TPtr (ly ''v1.SecurityContext'')), (''LogLevel'', TBase),
     (''LogAsJson'', TBase)]"

definition ControllerSpec_layout :: "(string \<Rightarrow> gtype) \<Rightarrow> gtype" where
  "ControllerSpec_layout ly = TStruct [
     (''ContainerCommonFields'', ContainerCommonFields_layout ly), (''GatewayName'', TBase),
     (''IngressClass'', TBase), (''WatchNamespace'', TBase), (''SDSTokenAud'', TBase)]"

definition Endpoint_layout :: "gtype" where
  "Endpoint_layout = TStruct [
     (''FromCidr'', TBase), (''FromRegistry'', TBase)]"

definition Gateway_layout :: "gtype" where
  "Gateway_layout = TStruct [
     (''Address'', TBase), (''RegistryServiceName'', TBase), (''Port'', TBase)]"

definition PilotSpec_layout :: "(string \<Rightarrow> gtype) \<Rightarrow> gtype" where
  "PilotSpec_layout ly = TStruct [
     (''ContainerCommonFields'', ContainerCommonFields_layout ly), (''TraceSampling'', TBase),
     (''JwksResolveExtraRootCA'', TBase), (''Plugins'', TSeq TBase),
     (''KeepaliveMaxServerConnectionAge'', TBase), (''ClusterDomain'', TBase),
     (''OneNamespace'', TBase), (''EnableProtocolSniffingForOutbound'', TBase),
     (''EnableProtocolSniffingForInbound'', TBase)]"

definition HigressControllerSpec_layout :: "(string \<Rightarrow> gtype) \<Rightarrow> gtype" where
  "HigressControllerSpec_layout ly = TStruct [
     (''CRDCommonFields'', CRDCommonFields_layout ly), (''Controller'', ControllerSpec_layout ly),
     (''Pilot'', PilotSpec_layout ly)]"

definition HigressControllerStatus_layout :: "gtype" where
  "HigressControllerStatus_layout = TStruct [
     (''Deployed'', TBase)]"

definition HigressController_layout :: "(string \<Rightarrow> gtype) \<Rightarrow> gtype" where
  "HigressController_layout ly = TStruct [
     (''TypeMeta'', ly ''metav1.TypeMeta''), (''ObjectMeta'', ly ''metav1.ObjectMeta''),
     (''Spec'', HigressControllerSpec_layout ly), (''Status'', HigressControllerStatus_layout)]"

definition HigressControllerList_layout :: "(string \<Rightarrow> gtype) \<Rightarrow> gtype" where
  "HigressControllerList_layout ly = TStruct [
     (''TypeMeta'', ly ''metav1.TypeMeta''), (''ListMeta'', ly ''metav1.ListMeta''),
     (''Items'', TSeq (HigressController_layout ly))]"

definition Skywalking_layout :: "gtype" where
  "Skywalking_layout = TStruct [
     (''Enable'', TBase), (''Port'', TPtr TBase), (''Address'', TBase), (''CustomBootStrap'', TBase)]"

definition TracingZipkin_layout :: "gtype" where
  "TracingZipkin_layout = TStruct [
     (''Address'', TBase)]"

definition TracingLightstep_layout :: "gtype" where
  "TracingLightstep_layout = TStruct [
     (''Address'', TBase), (''AccessToken'', TBase)]"

definition TracingDatadog_layout :: "gtype" where
  "TracingDatadog_layout = TStruct [
     (''Address'', TBase)]"

definition TracingStackdriver_layout :: "gtype" where
  "TracingStackdriver_layout = TStruct [
     (''Debug'', TBase), (''MaxNumberOfAttributes'', TPtr TBase),
     (''MaxNumberOfAnnotations'', TPtr TBase), (''MaxNumberOfMessageEvents'', TPtr TBase)]"

definition TracingOpencensusagent_layout :: "gtype" where
  "TracingOpencensusagent_layout = TStruct [
     (''Address'', TBase)]"

definition Tracing_layout :: "gtype" where
  "Tracing_layout = TStruct [
     (''Zipkin'', TPtr TracingZipkin_layout), (''Lightstep'', TPtr TracingLightstep_layout),
     (''Datadog'', TPtr TracingDatadog_layout), (''Stackdriver'', TPtr TracingStackdriver_layout),
     (''OpenCensusAgent'', TPtr TracingOpencensusagent_layout)]"

definition ProxyStatsMatcher_layout :: "gtype" where
  "ProxyStatsMatcher_layout = TStruct [
     (''InclusionPrefixes'', TSeq TBase), (''InclusionSuffixes'', TSeq TBase),
     (''InclusionRegexps'', TSeq TBase)]"

definition ProxyConfig_layout :: "gtype" where
  "ProxyConfig_layout = TStruct [
     (''DisableAlpnH2'', TBase), (''MeshId'', TBase), (''Tracing'', TPtr Tracing_layout),
     (''DiscoveryAddress'', TBase), (''ProxyStatsMatcher'', TPtr ProxyStatsMatcher_layout)]"

definition MeshConfig_layout :: "gtype" where
  "MeshConfig_layout = TStruct [
     (''TrustDomain'', TBase), (''AccessLogEncoding'', TBase), (''AccessLogFile'', TBase),
     (''IngressControllerMode'', TBase), (''AccessLogFormat'', TBase), (''DnsRefreshRate'', TBase),
     (''EnableAutoMtls'', TBase), (''EnablePrometheusMerge'', TBase),
     (''ProtocolDetectionTimeout'', TBase), (''ConfigSources'', TSeq ConfigSource_layout),
     (''DefaultConfig'', ProxyConfig_layout), (''RootNamespace'', TBase)]"

definition Network_layout :: "gtype" where
  "Network_layout = TStruct [
     (''Endpoints'', TSeq Endpoint_layout), (''Gateways'', TSeq Gateway_layout)]"

definition SchedulingPolicy_layout :: "gtype" where
  "SchedulingPolicy_layout = TStruct [
     (''SchedulerName'', TBase), (''PriorityClassName'', TBase), (''Labels'', TSeq TBase),
     (''Annotations'', TSeq TBase)]"

definition HigressGatewaySpec_layout :: "(string \<Rightarrow> gtype) \<Rightarrow> gtype" where
  "HigressGatewaySpec_layout ly = TStruct [
     (''CRDCommonFields'', CRDCommonFields_layout ly),
     (''ContainerCommonFields'', ContainerCommonFields_layout ly), (''NetWorkGateway'', TBase),
     (''Skywalking'', TPtr Skywalking_layout), (''RollingMaxSurge'', ly ''intstr.IntOrString''),
     (''RollingMaxUnavailable'', ly ''intstr.IntOrString''), (''MeshConfig'', MeshConfig_layout),
     (''MeshNetworks'', TSeq Network_layout), (''VolumeWasmPlugins'', TSeq TBase),
     (''HostNetwork'', TBase), (''Scheduling'', TPtr SchedulingPolicy_layout)]"

definition HigressGatewayStatus_layout :: "(string \<Rightarrow> gtype) \<Rightarrow> gtype" where
  "HigressGatewayStatus_layout ly = TStruct [
     (''Deployed'', TBase), (''ObservedGeneration'', TBase), (''EffectiveScaleMode'', TBase),
     (''Conditions'', TSeq (ly ''metav1.Condition''))]"

definition HigressGateway_layout :: "(string \<Rightarrow> gtype) \<Rightarrow> gtype" where
  "HigressGateway_layout ly = TStruct [
     (''TypeMeta'', ly ''metav1.TypeMeta''), (''ObjectMeta'', ly ''metav1.ObjectMeta''),
     (''Spec'', HigressGatewaySpec_layout ly), (''Status'', HigressGatewayStatus_layout ly)]"

definition HigressGatewayList_layout :: "(string \<Rightarrow> gtype) \<Rightarrow> gtype" where
  "HigressGatewayList_layout ly = TStruct [
     (''TypeMeta'', ly ''metav1.TypeMeta''), (''ListMeta'', ly ''metav1.ListMeta''),
     (''Items'', TSeq (HigressGateway_layout ly))]"

end
