(* ===== verification/DeepCopy.thy ===== *)
theory DeepCopy
  imports ApiLayouts
begin

text \<open>
  The deep copies of the API types (\<open>zz_generated.deepcopy.go\<close>): for each type the
  statements of its \<open>DeepCopyInto\<close> in their order, its \<open>DeepCopy\<close>, and for the four runtime
  objects their \<open>DeepCopyObject\<close>.  The \<open>DeepCopyInto\<close> of a library type is the parameter
  \<open>lib\<close>.  The locale \<open>copied_types\<close> says what the library promises and holds that every one
  of the functions copies deeply.
\<close>

section \<open>The functions\<close>

definition DeepCopyInto_KEDAScaleTrigger :: "copier" where
  "DeepCopyInto_KEDAScaleTrigger = structCopy [
     (''Metadata'', seqCopy shallow), (''AuthenticationRef'', ptrCopy shallow)]"

definition DeepCopy_KEDAScaleTrigger :: "copier" where
  "DeepCopy_KEDAScaleTrigger = ptrCopy DeepCopyInto_KEDAScaleTrigger"

definition DeepCopyInto_KEDAScalingConfig :: "copier" where
  "DeepCopyInto_KEDAScalingConfig = structCopy [
     (''PollingIntervalSeconds'', ptrCopy shallow), (''CooldownPeriodSeconds'', ptrCopy shallow),
     (''IdleReplicaCount'', ptrCopy shallow), (''Triggers'', seqCopy DeepCopyInto_KEDAScaleTrigger)]"

definition DeepCopy_KEDAScalingConfig :: "copier" where
  "DeepCopy_KEDAScalingConfig = ptrCopy DeepCopyInto_KEDAScalingConfig"

definition DeepCopyInto_AutoScaling :: "copier" where
  "DeepCopyInto_AutoScaling = structCopy [
     (''MinReplicas'', ptrCopy shallow), (''TargetCPUUtilizationPercentage'', ptrCopy shallow),
     (''KEDA'', ptrCopy DeepCopyInto_KEDAScalingConfig)]"

definition DeepCopy_AutoScaling :: "copier" where
  "DeepCopy_AutoScaling = ptrCopy DeepCopyInto_AutoScaling"

definition DeepCopyInto_Service :: "(string \<Rightarrow> copier) \<Rightarrow> copier" where
  "DeepCopyInto_Service lib = structCopy [
     (''Ports'', seqCopy (lib ''v1.ServicePort'')), (''Annotations'', seqCopy shallow),
     (''LoadBalancerSourceRanges'', seqCopy shallow)]"

definition DeepCopy_Service :: "(string \<Rightarrow> copier) \<Rightarrow> copier" where
  "DeepCopy_Service lib = ptrCopy (DeepCopyInto_Service lib)"

definition DeepCopyInto_RBAC :: "copier" where
  "DeepCopyInto_RBAC = structCopy []"

definition DeepCopy_RBAC :: "copier" where
  "DeepCopy_RBAC = ptrCopy DeepCopyInto_RBAC"

definition DeepCopyInto_ServiceAccount :: "copier" where
  "DeepCopyInto_ServiceAccount = structCopy [
     (''Annotations'', seqCopy shallow)]"

definition DeepCopy_ServiceAccount :: "copier" where
  "DeepCopy_ServiceAccount = ptrCopy DeepCopyInto_ServiceAccount"

definition DeepCopyInto_Istio :: "copier" where
  "DeepCopyInto_Istio = structCopy []"

definition DeepCopy_Istio :: "copier" where
  "DeepCopy_Istio = ptrCopy DeepCopyInto_Istio"

definition DeepCopyInto_MultiCluster :: "copier" where
  "DeepCopyInto_MultiCluster = structCopy []"

definition DeepCopy_MultiCluster :: "copier" where
  "DeepCopy_MultiCluster = ptrCopy DeepCopyInto_MultiCluster"

definition DeepCopyInto_CRDCommonFields :: "(string \<Rightarrow> copier) \<Rightarrow> copier" where
  "DeepCopyInto_CRDCommonFields lib = structCopy [
     (''Replicas'', ptrCopy shallow), (''SelectorLabels'', seqCopy shallow),
     (''NodeSelector'', seqCopy shallow), (''Affinity'', ptrCopy (lib ''v1.Affinity'')),
     (''Toleration'', seqCopy (lib ''v1.Toleration'')),
     (''Service'', ptrCopy (DeepCopyInto_Service lib)), (''RBAC'', ptrCopy shallow),
     (''ServiceAccount'', ptrCopy DeepCopyInto_ServiceAccount),
     (''AutoScaling'', ptrCopy DeepCopyInto_AutoScaling),
     (''PodSecurityContext'', ptrCopy (lib ''v1.PodSecurityContext'')),
     (''Istiod'', ptrCopy shallow), (''MultiCluster'', ptrCopy shallow)]"

definition DeepCopy_CRDCommonFields :: "(string \<Rightarrow> copier) \<Rightarrow> copier" where
  "DeepCopy_CRDCommonFields lib = ptrCopy (DeepCopyInto_CRDCommonFields lib)"

definition DeepCopyInto_ConfigSource :: "copier" where
  "DeepCopyInto_ConfigSource = structCopy []"

definition DeepCopy_ConfigSource :: "copier" where
  "DeepCopy_ConfigSource = ptrCopy DeepCopyInto_ConfigSource"

definition DeepCopyInto_Image :: "copier" where
  "DeepCopyInto_Image = structCopy []"

definition DeepCopy_Image :: "copier" where
  "DeepCopy_Image = ptrCopy DeepCopyInto_Image"

definition DeepCopyInto_ContainerCommonFields :: "(string \<Rightarrow> copier) \<Rightarrow> copier" where
  "DeepCopyInto_ContainerCommonFields lib = structCopy [
     (''Annotations'', seqCopy shallow), (''Image'', shallow),
     (''ImagePullSecrets'', seqCopy shallow), (''Env'', seqCopy shallow),
     (''ReadinessProbe'', ptrCopy (lib ''v1.Probe'')), (''Ports'', seqCopy shallow),
     (''Resources'', ptrCopy (lib ''v1.ResourceRequirements'')),
     (''SecurityContext'', ptrCopy (lib ''v1.SecurityContext''))]"

definition DeepCopy_ContainerCommonFields :: "(string \<Rightarrow> copier) \<Rightarrow> copier" where
  "DeepCopy_ContainerCommonFields lib = ptrCopy (DeepCopyInto_ContainerCommonFields lib)"

definition DeepCopyInto_ControllerSpec :: "(string \<Rightarrow> copier) \<Rightarrow> copier" where
  "DeepCopyInto_ControllerSpec lib = structCopy [
     (''ContainerCommonFields'', DeepCopyInto_ContainerCommonFields lib)]"

definition DeepCopy_ControllerSpec :: "(string \<Rightarrow> copier) \<Rightarrow> copier" where
  "DeepCopy_ControllerSpec lib = ptrCopy (DeepCopyInto_ControllerSpec lib)"

definition DeepCopyInto_Endpoint :: "copier" where
  "DeepCopyInto_Endpoint = structCopy []"

definition DeepCopy_Endpoint :: "copier" where
  "DeepCopy_Endpoint = ptrCopy DeepCopyInto_Endpoint"

definition DeepCopyInto_Gateway :: "copier" where
  "DeepCopyInto_Gateway = structCopy []"

definition DeepCopy_Gateway :: "copier" where
  "DeepCopy_Gateway = ptrCopy DeepCopyInto_Gateway"

definition DeepCopyInto_PilotSpec :: "(string \<Rightarrow> copier) \<Rightarrow> copier" where
  "DeepCopyInto_PilotSpec lib = structCopy [
     (''ContainerCommonFields'', DeepCopyInto_ContainerCommonFields lib),
     (''Plugins'', seqCopy shallow)]"

definition DeepCopy_PilotSpec :: "(string \<Rightarrow> copier) \<Rightarrow> copier" where
  "DeepCopy_PilotSpec lib = ptrCopy (DeepCopyInto_PilotSpec lib)"

definition DeepCopyInto_HigressControllerSpec :: "(string \<Rightarrow> copier) \<Rightarrow> copier" where
  "DeepCopyInto_HigressControllerSpec lib = structCopy [
     (''CRDCommonFields'', DeepCopyInto_CRDCommonFields lib),
     (''Controller'', DeepCopyInto_ControllerSpec lib), (''Pilot'', DeepCopyInto_PilotSpec lib)]"

definition DeepCopy_HigressControllerSpec :: "(string \<Rightarrow> copier) \<Rightarrow> copier" where
  "DeepCopy_HigressControllerSpec lib = ptrCopy (DeepCopyInto_HigressControllerSpec lib)"

definition DeepCopyInto_HigressControllerStatus :: "copier" where
  "DeepCopyInto_HigressControllerStatus = structCopy []"

definition DeepCopy_HigressControllerStatus :: "copier" where
  "DeepCopy_HigressControllerStatus = ptrCopy DeepCopyInto_HigressControllerStatus"

definition DeepCopyInto_HigressController :: "(string \<Rightarrow> copier) \<Rightarrow> copier" where
  "DeepCopyInto_HigressController lib = structCopy [
     (''TypeMeta'', shallow), (''ObjectMeta'', lib ''metav1.ObjectMeta''),
     (''Spec'', DeepCopyInto_HigressControllerSpec lib), (''Status'', shallow)]"

definition DeepCopy_HigressController :: "(string \<Rightarrow> copier) \<Rightarrow> copier" where
  "DeepCopy_HigressController lib = ptrCopy (DeepCopyInto_HigressController lib)"

definition DeepCopyObject_HigressController :: "(string \<Rightarrow> copier) \<Rightarrow> copier" where
  "DeepCopyObject_HigressController lib = asObject (DeepCopy_HigressController lib)"

definition DeepCopyInto_HigressControllerList :: "(string \<Rightarrow> copier) \<Rightarrow> copier" where
  "DeepCopyInto_HigressControllerList lib = structCopy [
     (''TypeMeta'', shallow), (''ListMeta'', lib ''metav1.ListMeta''),
     (''Items'', seqCopy (DeepCopyInto_HigressController lib))]"

definition DeepCopy_HigressControllerList :: "(string \<Rightarrow> copier) \<Rightarrow> copier" where
  "DeepCopy_HigressControllerList lib = ptrCopy (DeepCopyInto_HigressControllerList lib)"

definition DeepCopyObject_HigressControllerList :: "(string \<Rightarrow> copier) \<Rightarrow> copier" where
  "DeepCopyObject_HigressControllerList lib = asObject (DeepCopy_HigressControllerList lib)"

definition DeepCopyInto_Skywalking :: "copier" where
  "DeepCopyInto_Skywalking = structCopy [
     (''Port'', ptrCopy shallow)]"

definition DeepCopy_Skywalking :: "copier" where
  "DeepCopy_Skywalking = ptrCopy DeepCopyInto_Skywalking"

definition DeepCopyInto_TracingZipkin :: "copier" where
  "DeepCopyInto_TracingZipkin = structCopy []"

definition DeepCopy_TracingZipkin :: "copier" where
  "DeepCopy_TracingZipkin = ptrCopy DeepCopyInto_TracingZipkin"

definition DeepCopyInto_TracingLightstep :: "copier" where
  "DeepCopyInto_TracingLightstep = structCopy []"

definition DeepCopy_TracingLightstep :: "copier" where
  "DeepCopy_TracingLightstep = ptrCopy DeepCopyInto_TracingLightstep"

definition DeepCopyInto_TracingDatadog :: "copier" where
  "DeepCopyInto_TracingDatadog = structCopy []"

definition DeepCopy_TracingDatadog :: "copier" where
  "DeepCopy_TracingDatadog = ptrCopy DeepCopyInto_TracingDatadog"

definition DeepCopyInto_TracingStackdriver :: "copier" where
  "DeepCopyInto_TracingStackdriver = structCopy [
     (''MaxNumberOfAttributes'', ptrCopy shallow), (''MaxNumberOfAnnotations'', ptrCopy shallow),
     (''MaxNumberOfMessageEvents'', ptrCopy shallow)]"

definition DeepCopy_TracingStackdriver :: "copier" where
  "DeepCopy_TracingStackdriver = ptrCopy DeepCopyInto_TracingStackdriver"

definition DeepCopyInto_TracingOpencensusagent :: "copier" where
  "DeepCopyInto_TracingOpencensusagent = structCopy []"

definition DeepCopy_TracingOpencensusagent :: "copier" where
  "DeepCopy_TracingOpencensusagent = ptrCopy DeepCopyInto_TracingOpencensusagent"

definition DeepCopyInto_Tracing :: "copier" where
  "DeepCopyInto_Tracing = structCopy [
     (''Zipkin'', ptrCopy shallow), (''Lightstep'', ptrCopy shallow),
     (''Datadog'', ptrCopy shallow), (''Stackdriver'', ptrCopy DeepCopyInto_TracingStackdriver),
     (''OpenCensusAgent'', ptrCopy shallow)]"

definition DeepCopy_Tracing :: "copier" where
  "DeepCopy_Tracing = ptrCopy DeepCopyInto_Tracing"

definition DeepCopyInto_ProxyStatsMatcher :: "copier" where
  "DeepCopyInto_ProxyStatsMatcher = structCopy [
     (''InclusionPrefixes'', seqCopy shallow), (''InclusionSuffixes'', seqCopy shallow),
     (''InclusionRegexps'', seqCopy shallow)]"

definition DeepCopy_ProxyStatsMatcher :: "copier" where
  "DeepCopy_ProxyStatsMatcher = ptrCopy DeepCopyInto_ProxyStatsMatcher"

definition DeepCopyInto_ProxyConfig :: "copier" where
  "DeepCopyInto_ProxyConfig = structCopy [
     (''Tracing'', ptrCopy DeepCopyInto_Tracing),
     (''ProxyStatsMatcher'', ptrCopy DeepCopyInto_ProxyStatsMatcher)]"

definition DeepCopy_ProxyConfig :: "copier" where
  "DeepCopy_ProxyConfig = ptrCopy DeepCopyInto_ProxyConfig"

definition DeepCopyInto_MeshConfig :: "copier" where
  "DeepCopyInto_MeshConfig = structCopy [
     (''ConfigSources'', seqCopy shallow), (''DefaultConfig'', DeepCopyInto_ProxyConfig)]"

definition DeepCopy_MeshConfig :: "copier" where
  "DeepCopy_MeshConfig = ptrCopy DeepCopyInto_MeshConfig"

definition DeepCopyInto_Network :: "copier" where
  "DeepCopyInto_Network = structCopy [
     (''Endpoints'', seqCopy shallow), (''Gateways'', seqCopy shallow)]"

definition DeepCopy_Network :: "copier" where
  "DeepCopy_Network = ptrCopy DeepCopyInto_Network"

definition DeepCopyInto_SchedulingPolicy :: "copier" where
  "DeepCopyInto_SchedulingPolicy = structCopy [
     (''Labels'', seqCopy shallow), (''Annotations'', seqCopy shallow)]"

definition DeepCopy_SchedulingPolicy :: "copier" where
  "DeepCopy_SchedulingPolicy = ptrCopy DeepCopyInto_SchedulingPolicy"

definition DeepCopyInto_HigressGatewaySpec :: "(string \<Rightarrow> copier) \<Rightarrow> copier" where
  "DeepCopyInto_HigressGatewaySpec lib = structCopy [
     (''CRDCommonFields'', DeepCopyInto_CRDCommonFields lib),
     (''ContainerCommonFields'', DeepCopyInto_ContainerCommonFields lib),
     (''Skywalking'', ptrCopy DeepCopyInto_Skywalking), (''RollingMaxSurge'', shallow),
     (''RollingMaxUnavailable'', shallow), (''MeshConfig'', DeepCopyInto_MeshConfig),
     (''MeshNetworks'', seqCopy (viaDeepCopy DeepCopy_Network)),
     (''VolumeWasmPlugins'', seqCopy shallow),
     (''Scheduling'', ptrCopy DeepCopyInto_SchedulingPolicy)]"

definition DeepCopy_HigressGatewaySpec :: "(string \<Rightarrow> copier) \<Rightarrow> copier" where
  "DeepCopy_HigressGatewaySpec lib = ptrCopy (DeepCopyInto_HigressGatewaySpec lib)"

definition DeepCopyInto_HigressGatewayStatus :: "(string \<Rightarrow> copier) \<Rightarrow> copier" where
  "DeepCopyInto_HigressGatewayStatus lib = structCopy [
     (''Conditions'', seqCopy (lib ''metav1.Condition''))]"

definition DeepCopy_HigressGatewayStatus :: "(string \<Rightarrow> copier) \<Rightarrow> copier" where
  "DeepCopy_HigressGatewayStatus lib = ptrCopy (DeepCopyInto_HigressGatewayStatus lib)"

definition DeepCopyInto_HigressGateway :: "(string \<Rightarrow> copier) \<Rightarrow> copier" where
  "DeepCopyInto_HigressGateway lib = structCopy [
     (''TypeMeta'', shallow), (''ObjectMeta'', lib ''metav1.ObjectMeta''),
     (''Spec'', DeepCopyInto_HigressGatewaySpec lib),
     (''Status'', DeepCopyInto_HigressGatewayStatus lib)]"

definition DeepCopy_HigressGateway :: "(string \<Rightarrow> copier) \<Rightarrow> copier" where
  "DeepCopy_HigressGateway lib = ptrCopy (DeepCopyInto_HigressGateway lib)"

definition DeepCopyObject_HigressGateway :: "(string \<Rightarrow> copier) \<Rightarrow> copier" where
  "DeepCopyObject_HigressGateway lib = asObject (DeepCopy_HigressGateway lib)"

definition DeepCopyInto_HigressGatewayList :: "(string \<Rightarrow> copier) \<Rightarrow> copier" where
  "DeepCopyInto_HigressGatewayList lib = structCopy [
     (''TypeMeta'', shallow), (''ListMeta'', lib ''metav1.ListMeta''),
     (''Items'', seqCopy (DeepCopyInto_HigressGateway lib))]"

definition DeepCopy_HigressGatewayList :: "(string \<Rightarrow> copier) \<Rightarrow> copier" where
  "DeepCopy_HigressGatewayList lib = ptrCopy (DeepCopyInto_HigressGatewayList lib)"

definition DeepCopyObject_HigressGatewayList :: "(string \<Rightarrow> copier) \<Rightarrow> copier" where
  "DeepCopyObject_HigressGatewayList lib = asObject (DeepCopy_HigressGatewayList lib)"

section \<open>Types without library parts\<close>

lemma flat_RBAC [simp]: "flat RBAC_layout"
  by (simp add: RBAC_layout_def)

lemma flat_Istio [simp]: "flat Istio_layout"
  by (simp add: Istio_layout_def)

lemma flat_MultiCluster [simp]: "flat MultiCluster_layout"
  by (simp add: MultiCluster_layout_def)

lemma flat_ConfigSource [simp]: "flat ConfigSource_layout"
  by (simp add: ConfigSource_layout_def)

lemma flat_Image [simp]: "flat Image_layout"
  by (simp add: Image_layout_def)

lemma flat_Endpoint [simp]: "flat Endpoint_layout"
  by (simp add: Endpoint_layout_def)

lemma flat_Gateway [simp]: "flat Gateway_layout"
  by (simp add: Gateway_layout_def)

lemma flat_HigressControllerStatus [simp]: "flat HigressControllerStatus_layout"
  by (simp add: HigressControllerStatus_layout_def)

lemma flat_TracingZipkin [simp]: "flat TracingZipkin_layout"
  by (simp add: TracingZipkin_layout_def)

lemma flat_TracingLightstep [simp]: "flat TracingLightstep_layout"
  by (simp add: TracingLightstep_layout_def)

lemma flat_TracingDatadog [simp]: "flat TracingDatadog_layout"
  by (simp add: TracingDatadog_layout_def)

lemma flat_TracingOpencensusagent [simp]: "flat TracingOpencensusagent_layout"
  by (simp add: TracingOpencensusagent_layout_def)

lemma deep_KEDAScaleTrigger [deep_intro]: "deep KEDAScaleTrigger_layout DeepCopyInto_KEDAScaleTrigger"
  unfolding KEDAScaleTrigger_layout_def DeepCopyInto_KEDAScaleTrigger_def
  by (rule deep_structCopy) (auto intro!: deep_intro)

lemma deep_KEDAScalingConfig [deep_intro]: "deep KEDAScalingConfig_layout DeepCopyInto_KEDAScalingConfig"
  unfolding KEDAScalingConfig_layout_def DeepCopyInto_KEDAScalingConfig_def
  by (rule deep_structCopy) (auto intro!: deep_intro)

lemma deep_AutoScaling [deep_intro]: "deep AutoScaling_layout DeepCopyInto_AutoScaling"
  unfolding AutoScaling_layout_def DeepCopyInto_AutoScaling_def
  by (rule deep_structCopy) (auto intro!: deep_intro)

lemma deep_RBAC [deep_intro]: "deep RBAC_layout DeepCopyInto_RBAC"
  unfolding RBAC_layout_def DeepCopyInto_RBAC_def
  by (rule deep_structCopy) (auto intro!: deep_intro)

lemma deep_ServiceAccount [deep_intro]: "deep ServiceAccount_layout DeepCopyInto_ServiceAccount"
  unfolding ServiceAccount_layout_def DeepCopyInto_ServiceAccount_def
  by (rule deep_structCopy) (auto intro!: deep_intro)

lemma deep_Istio [deep_intro]: "deep Istio_layout DeepCopyInto_Istio"
  unfolding Istio_layout_def DeepCopyInto_Istio_def
  by (rule deep_structCopy) (auto intro!: deep_intro)

lemma deep_MultiCluster [deep_intro]: "deep MultiCluster_layout DeepCopyInto_MultiCluster"
  unfolding MultiCluster_layout_def DeepCopyInto_MultiCluster_def
  by (rule deep_structCopy) (auto intro!: deep_intro)

lemma deep_ConfigSource [deep_intro]: "deep ConfigSource_layout DeepCopyInto_ConfigSource"
  unfolding ConfigSource_layout_def DeepCopyInto_ConfigSource_def
  by (rule deep_structCopy) (auto intro!: deep_intro)

lemma deep_Image [deep_intro]: "deep Image_layout DeepCopyInto_Image"
  unfolding Image_layout_def DeepCopyInto_Image_def
  by (rule deep_structCopy) (auto intro!: deep_intro)

lemma deep_Endpoint [deep_intro]: "deep Endpoint_layout DeepCopyInto_Endpoint"
  unfolding Endpoint_layout_def DeepCopyInto_Endpoint_def
  by (rule deep_structCopy) (auto intro!: deep_intro)

lemma deep_Gateway [deep_intro]: "deep Gateway_layout DeepCopyInto_Gateway"
  unfolding Gateway_layout_def DeepCopyInto_Gateway_def
  by (rule deep_structCopy) (auto intro!: deep_intro)

lemma deep_HigressControllerStatus [deep_intro]: "deep HigressControllerStatus_layout DeepCopyInto_HigressControllerStatus"
  unfolding HigressControllerStatus_layout_def DeepCopyInto_HigressControllerStatus_def
  by (rule deep_structCopy) (auto intro!: deep_intro)

lemma deep_Skywalking [deep_intro]: "deep Skywalking_layout DeepCopyInto_Skywalking"
  unfolding Skywalking_layout_def DeepCopyInto_Skywalking_def
  by (rule deep_structCopy) (auto intro!: deep_intro)

lemma deep_TracingZipkin [deep_intro]: "deep TracingZipkin_layout DeepCopyInto_TracingZipkin"
  unfolding TracingZipkin_layout_def DeepCopyInto_TracingZipkin_def
  by (rule deep_structCopy) (auto intro!: deep_intro)

lemma deep_TracingLightstep [deep_intro]: "deep TracingLightstep_layout DeepCopyInto_TracingLightstep"
  unfolding TracingLightstep_layout_def DeepCopyInto_TracingLightstep_def
  by (rule deep_structCopy) (auto intro!: deep_intro)

lemma deep_TracingDatadog [deep_intro]: "deep TracingDatadog_layout DeepCopyInto_TracingDatadog"
  unfolding TracingDatadog_layout_def DeepCopyInto_TracingDatadog_def
  by (rule deep_structCopy) (auto intro!: deep_intro)

lemma deep_TracingStackdriver [deep_intro]: "deep TracingStackdriver_layout DeepCopyInto_TracingStackdriver"
  unfolding TracingStackdriver_layout_def DeepCopyInto_TracingStackdriver_def
  by (rule deep_structCopy) (auto intro!: deep_intro)

lemma deep_TracingOpencensusagent [deep_intro]: "deep TracingOpencensusagent_layout DeepCopyInto_TracingOpencensusagent"
  unfolding TracingOpencensusagent_layout_def DeepCopyInto_TracingOpencensusagent_def
  by (rule deep_structCopy) (auto intro!: deep_intro)

lemma deep_Tracing [deep_intro]: "deep Tracing_layout DeepCopyInto_Tracing"
  unfolding Tracing_layout_def DeepCopyInto_Tracing_def
  by (rule deep_structCopy) (auto intro!: deep_intro)

lemma deep_ProxyStatsMatcher [deep_intro]: "deep ProxyStatsMatcher_layout DeepCopyInto_ProxyStatsMatcher"
  unfolding ProxyStatsMatcher_layout_def DeepCopyInto_ProxyStatsMatcher_def
  by (rule deep_structCopy) (auto intro!: deep_intro)

lemma deep_ProxyConfig [deep_intro]: "deep ProxyConfig_layout DeepCopyInto_ProxyConfig"
  unfolding ProxyConfig_layout_def DeepCopyInto_ProxyConfig_def
  by (rule deep_structCopy) (auto intro!: deep_intro)

lemma deep_MeshConfig [deep_intro]: "deep MeshConfig_layout DeepCopyInto_MeshConfig"
  unfolding MeshConfig_layout_def DeepCopyInto_MeshConfig_def
  by (rule deep_structCopy) (auto intro!: deep_intro)

lemma deep_Network [deep_intro]: "deep Network_layout DeepCopyInto_Network"
  unfolding Network_layout_def DeepCopyInto_Network_def
  by (rule deep_structCopy) (auto intro!: deep_intro)

lemma deep_DeepCopy_Network [deep_intro]: "deep (TPtr Network_layout) DeepCopy_Network"
  unfolding DeepCopy_Network_def by (intro deep_intro)

lemma deep_SchedulingPolicy [deep_intro]: "deep SchedulingPolicy_layout DeepCopyInto_SchedulingPolicy"
  unfolding SchedulingPolicy_layout_def DeepCopyInto_SchedulingPolicy_def
  by (rule deep_structCopy) (auto intro!: deep_intro)

section \<open>Types with library parts\<close>

text \<open>
  The library types that are copied by their own \<open>DeepCopyInto\<close>, and those that are copied
  by an assignment.
\<close>

definition copiedTypes :: "string list" where
  "copiedTypes = [''v1.ServicePort'', ''v1.Affinity'', ''v1.Toleration'', ''v1.PodSecurityContext'',
     ''v1.Probe'', ''v1.ResourceRequirements'', ''v1.SecurityContext'', ''metav1.ObjectMeta'',
     ''metav1.ListMeta'', ''metav1.Condition'']"

definition assignedTypes :: "string list" where
  "assignedTypes = [''v1.LocalObjectReference'', ''v1.ContainerPort'', ''metav1.TypeMeta'',
     ''intstr.IntOrString'']"

definition library_copies :: "(string \<Rightarrow> gtype) \<Rightarrow> (string \<Rightarrow> copier) \<Rightarrow> bool" where
  "library_copies ly lib \<longleftrightarrow> list_all (\<lambda>n. deep (ly n) (lib n)) copiedTypes \<and>
     list_all (\<lambda>n. flat (ly n)) assignedTypes"

locale copied_types =
  fixes ly :: "string \<Rightarrow> gtype" and lib :: "string \<Rightarrow> copier"
  assumes library: "library_copies ly lib"
begin

lemma lib_deep [deep_intro]: "n \<in> set copiedTypes \<Longrightarrow> deep (ly n) (lib n)"
  using library by (simp add: library_copies_def list_all_iff)

lemma lib_flat [simp]:
  "flat (ly ''v1.LocalObjectReference'')" "flat (ly ''v1.ContainerPort'')"
  "flat (ly ''metav1.TypeMeta'')" "flat (ly ''intstr.IntOrString'')"
  using library by (simp_all add: library_copies_def assignedTypes_def)

lemma deep_Service [deep_intro]: "deep (Service_layout ly) (DeepCopyInto_Service lib)"
  unfolding Service_layout_def DeepCopyInto_Service_def
  by (rule deep_structCopy) (auto intro!: deep_intro simp: copiedTypes_def)

lemma deep_CRDCommonFields [deep_intro]: "deep (CRDCommonFields_layout ly) (DeepCopyInto_CRDCommonFields lib)"
  unfolding CRDCommonFields_layout_def DeepCopyInto_CRDCommonFields_def
  by (rule deep_structCopy) (auto intro!: deep_intro simp: copiedTypes_def)

lemma deep_ContainerCommonFields [deep_intro]: "deep (ContainerCommonFields_layout ly) (DeepCopyInto_ContainerCommonFields lib)"
  unfolding ContainerCommonFields_layout_def DeepCopyInto_ContainerCommonFields_def
  by (rule deep_structCopy) (auto intro!: deep_intro simp: copiedTypes_def)

lemma deep_ControllerSpec [deep_intro]: "deep (ControllerSpec_layout ly) (DeepCopyInto_ControllerSpec lib)"
  unfolding ControllerSpec_layout_def DeepCopyInto_ControllerSpec_def
  by (rule deep_structCopy) (auto intro!: deep_intro simp: copiedTypes_def)

lemma deep_PilotSpec [deep_intro]: "deep (PilotSpec_layout ly) (DeepCopyInto_PilotSpec lib)"
  unfolding PilotSpec_layout_def DeepCopyInto_PilotSpec_def
  by (rule deep_structCopy) (auto intro!: deep_intro simp: copiedTypes_def)

lemma deep_HigressControllerSpec [deep_intro]: "deep (HigressControllerSpec_layout ly) (DeepCopyInto_HigressControllerSpec lib)"
  unfolding HigressControllerSpec_layout_def DeepCopyInto_HigressControllerSpec_def
  by (rule deep_structCopy) (auto intro!: deep_intro simp: copiedTypes_def)

lemma deep_HigressController [deep_intro]: "deep (HigressController_layout ly) (DeepCopyInto_HigressController lib)"
  unfolding HigressController_layout_def DeepCopyInto_HigressController_def
  by (rule deep_structCopy) (auto intro!: deep_intro simp: copiedTypes_def)

lemma deep_HigressControllerList [deep_intro]: "deep (HigressControllerList_layout ly) (DeepCopyInto_HigressControllerList lib)"
  unfolding HigressControllerList_layout_def DeepCopyInto_HigressControllerList_def
  by (rule deep_structCopy) (auto intro!: deep_intro simp: copiedTypes_def)

lemma deep_HigressGatewaySpec [deep_intro]: "deep (HigressGatewaySpec_layout ly) (DeepCopyInto_HigressGatewaySpec lib)"
  unfolding HigressGatewaySpec_layout_def DeepCopyInto_HigressGatewaySpec_def
  by (rule deep_structCopy) (auto intro!: deep_intro simp: copiedTypes_def)

lemma deep_HigressGatewayStatus [deep_intro]: "deep (HigressGatewayStatus_layout ly) (DeepCopyInto_HigressGatewayStatus lib)"
  unfolding HigressGatewayStatus_layout_def DeepCopyInto_HigressGatewayStatus_def
  by (rule deep_structCopy) (auto intro!: deep_intro simp: copiedTypes_def)

lemma deep_HigressGateway [deep_intro]: "deep (HigressGateway_layout ly) (DeepCopyInto_HigressGateway lib)"
  unfolding HigressGateway_layout_def DeepCopyInto_HigressGateway_def
  by (rule deep_structCopy) (auto intro!: deep_intro simp: copiedTypes_def)

lemma deep_HigressGatewayList [deep_intro]: "deep (HigressGatewayList_layout ly) (DeepCopyInto_HigressGatewayList lib)"
  unfolding HigressGatewayList_layout_def DeepCopyInto_HigressGatewayList_def
  by (rule deep_structCopy) (auto intro!: deep_intro simp: copiedTypes_def)

end

end
