(* ===== verification/DeepCopyProperties.thy ===== *)
theory DeepCopyProperties
  imports DeepCopy
begin

text \<open>
  What the operator relies on in its deep copies: every API type is copied deeply, the copy
  of a runtime object is isolated from the original, and the base that \<open>patchStatus\<close> takes
  keeps the old status while the instance's is rewritten in place.
\<close>

section \<open>The types and the runtime objects\<close>

text \<open>The layout, the \<open>DeepCopyInto\<close> and the \<open>DeepCopy\<close> of each type of the package.\<close>

definition apiTypes ::
  "(string \<Rightarrow> gtype) \<Rightarrow> (string \<Rightarrow> copier) \<Rightarrow> (gtype \<times> copier \<times> copier) list" where
  "apiTypes ly lib = [
     (AutoScaling_layout, DeepCopyInto_AutoScaling, DeepCopy_AutoScaling),
     (CRDCommonFields_layout ly, DeepCopyInto_CRDCommonFields lib, DeepCopy_CRDCommonFields lib),
     (ConfigSource_layout, DeepCopyInto_ConfigSource, DeepCopy_ConfigSource),
     (ContainerCommonFields_layout ly, DeepCopyInto_ContainerCommonFields lib,
       DeepCopy_ContainerCommonFields lib),
     (ControllerSpec_layout ly, DeepCopyInto_ControllerSpec lib, DeepCopy_ControllerSpec lib),
     (Endpoint_layout, DeepCopyInto_Endpoint, DeepCopy_Endpoint),
     (Gateway_layout, DeepCopyInto_Gateway, DeepCopy_Gateway),
     (HigressController_layout ly, DeepCopyInto_HigressController lib,
       DeepCopy_HigressController lib),
     (HigressControllerList_layout ly, DeepCopyInto_HigressControllerList lib,
       DeepCopy_HigressControllerList lib),
     (HigressControllerSpec_layout ly, DeepCopyInto_HigressControllerSpec lib,
       DeepCopy_HigressControllerSpec lib),
     (HigressControllerStatus_layout, DeepCopyInto_HigressControllerStatus,
       DeepCopy_HigressControllerStatus),
     (HigressGateway_layout ly, DeepCopyInto_HigressGateway lib, DeepCopy_HigressGateway lib),
     (HigressGatewayList_layout ly, DeepCopyInto_HigressGatewayList lib,
       DeepCopy_HigressGatewayList lib),
     (HigressGatewaySpec_layout ly, DeepCopyInto_HigressGatewaySpec lib,
       DeepCopy_HigressGatewaySpec lib),
     (HigressGatewayStatus_layout ly, DeepCopyInto_HigressGatewayStatus lib,
       DeepCopy_HigressGatewayStatus lib),
     (Image_layout, DeepCopyInto_Image, DeepCopy_Image),
     (KEDAScalingConfig_layout, DeepCopyInto_KEDAScalingConfig, DeepCopy_KEDAScalingConfig),
     (KEDAScaleTrigger_layout, DeepCopyInto_KEDAScaleTrigger, DeepCopy_KEDAScaleTrigger),
     (Istio_layout, DeepCopyInto_Istio, DeepCopy_Istio),
     (MeshConfig_layout, DeepCopyInto_MeshConfig, DeepCopy_MeshConfig),
     (MultiCluster_layout, DeepCopyInto_MultiCluster, DeepCopy_MultiCluster),
     (Network_layout, DeepCopyInto_Network, DeepCopy_Network),
     (PilotSpec_layout ly, DeepCopyInto_PilotSpec lib, DeepCopy_PilotSpec lib),
     (ProxyConfig_layout, DeepCopyInto_ProxyConfig, DeepCopy_ProxyConfig),
     (ProxyStatsMatcher_layout, DeepCopyInto_ProxyStatsMatcher, DeepCopy_ProxyStatsMatcher),
     (RBAC_layout, DeepCopyInto_RBAC, DeepCopy_RBAC),
     (Service_layout ly, DeepCopyInto_Service lib, DeepCopy_Service lib),
     (ServiceAccount_layout, DeepCopyInto_ServiceAccount, DeepCopy_ServiceAccount),
     (SchedulingPolicy_layout, DeepCopyInto_SchedulingPolicy, DeepCopy_SchedulingPolicy),
     (Skywalking_layout, DeepCopyInto_Skywalking, DeepCopy_Skywalking),
     (Tracing_layout, DeepCopyInto_Tracing, DeepCopy_Tracing),
     (TracingDatadog_layout, DeepCopyInto_TracingDatadog, DeepCopy_TracingDatadog),
     (TracingLightstep_layout, DeepCopyInto_TracingLightstep, DeepCopy_TracingLightstep),
     (TracingOpencensusagent_layout, DeepCopyInto_TracingOpencensusagent,
       DeepCopy_TracingOpencensusagent),
     (TracingStackdriver_layout, DeepCopyInto_TracingStackdriver, DeepCopy_TracingStackdriver),
     (TracingZipkin_layout, DeepCopyInto_TracingZipkin, DeepCopy_TracingZipkin)]"

text \<open>The objects registered with the scheme.\<close>

definition registeredObjects ::
  "(string \<Rightarrow> gtype) \<Rightarrow> (string \<Rightarrow> copier) \<Rightarrow> (gtype \<times> copier) list" where
  "registeredObjects ly lib =
    [(HigressGateway_layout ly, DeepCopyObject_HigressGateway lib),
     (HigressGatewayList_layout ly, DeepCopyObject_HigressGatewayList lib),
     (HigressController_layout ly, DeepCopyObject_HigressController lib),
     (HigressControllerList_layout ly, DeepCopyObject_HigressControllerList lib)]"

lemmas DeepCopy_defs =
  DeepCopy_AutoScaling_def DeepCopy_CRDCommonFields_def DeepCopy_ConfigSource_def
  DeepCopy_ContainerCommonFields_def DeepCopy_ControllerSpec_def DeepCopy_Endpoint_def
  DeepCopy_Gateway_def DeepCopy_HigressController_def DeepCopy_HigressControllerList_def
  DeepCopy_HigressControllerSpec_def DeepCopy_HigressControllerStatus_def
  DeepCopy_HigressGateway_def DeepCopy_HigressGatewayList_def DeepCopy_HigressGatewaySpec_def
  DeepCopy_HigressGatewayStatus_def DeepCopy_Image_def DeepCopy_KEDAScalingConfig_def
  DeepCopy_KEDAScaleTrigger_def DeepCopy_Istio_def DeepCopy_MeshConfig_def
  DeepCopy_MultiCluster_def DeepCopy_Network_def DeepCopy_PilotSpec_def
  DeepCopy_ProxyConfig_def DeepCopy_ProxyStatsMatcher_def DeepCopy_RBAC_def
  DeepCopy_Service_def DeepCopy_ServiceAccount_def DeepCopy_SchedulingPolicy_def
  DeepCopy_Skywalking_def DeepCopy_Tracing_def DeepCopy_TracingDatadog_def
  DeepCopy_TracingLightstep_def DeepCopy_TracingOpencensusagent_def
  DeepCopy_TracingStackdriver_def DeepCopy_TracingZipkin_def
lemmas DeepCopyObject_defs =
  DeepCopyObject_HigressGateway_def DeepCopyObject_HigressGatewayList_def
  DeepCopyObject_HigressController_def DeepCopyObject_HigressControllerList_def

lemma ptrCopy_nil: "ptrCopy d (Ref None) h = (Ref None, h)"
  by (simp add: ptrCopy_def)

context copied_types
begin

lemma types_deep: "list_all (\<lambda>(T, into, dc). deep T into \<and> dc = ptrCopy into) (apiTypes ly lib)"
  unfolding apiTypes_def DeepCopy_defs by (simp add: deep_intro)

lemma objects_deep: "list_all (\<lambda>(T, D). deep (TPtr T) D) (registeredObjects ly lib)"
  unfolding registeredObjects_def DeepCopyObject_defs DeepCopy_defs by (simp add: deep_intro)

lemma gateway_deep: "deep (TPtr (HigressGateway_layout ly)) (DeepCopy_HigressGateway lib)"
  unfolding DeepCopy_defs by (intro deep_intro)

end

section \<open>The status patch\<close>

fun part :: "string \<Rightarrow> content \<Rightarrow> content" where
  "part f (Parts xs) = (case map_of xs f of Some c \<Rightarrow> c | None \<Rightarrow> Absent)"
| "part f _ = Absent"

text \<open>\<open>p.Status\<close> of a pointer \<open>p\<close> to a gateway.\<close>

definition statusOf :: "(string \<Rightarrow> gtype) \<Rightarrow> heap \<Rightarrow> gval \<Rightarrow> content" where
  "statusOf ly h p = part ''Status'' (part [] (view h (TPtr (HigressGateway_layout ly)) p))"

text \<open>
  \<open>patchStatus\<close> up to the decision to send a patch: the base is copied, the caller's function
  rewrites the status of the instance in memory, and the two statuses are compared.  The
  result is the decision and the base the patch is computed against.
\<close>

definition patchStatus_mem ::
  "(content \<Rightarrow> content \<Rightarrow> bool) \<Rightarrow> (string \<Rightarrow> gtype) \<Rightarrow> (string \<Rightarrow> copier) \<Rightarrow>
   (heap \<Rightarrow> heap) \<Rightarrow> gval \<Rightarrow> heap \<Rightarrow> bool \<times> gval \<times> heap" where
  "patchStatus_mem deepEqual ly lib mutate instance' h =
    (case DeepCopy_HigressGateway lib instance' h of (base, h1) \<Rightarrow>
       let h2 = mutate h1
       in (\<not> deepEqual (statusOf ly h2 base) (statusOf ly h2 instance'), base, h2))"

section \<open>Layouts of the library\<close>

text \<open>
  The library types as the Kubernetes API documents them, as far as their references matter
  here, with the copies their layouts describe: they keep what \<open>copied_types\<close> asks for.
\<close>

definition kubeTable :: "(string \<times> gtype) list" where
  "kubeTable =
    [(''v1.ServicePort'', TStruct [(''Name'', TBase), (''Protocol'', TBase),
        (''AppProtocol'', TPtr TBase), (''Port'', TBase), (''TargetPort'', TBase), (''NodePort'', TBase)]),
     (''v1.Affinity'', TStruct [(''NodeAffinity'', TPtr TBase), (''PodAffinity'', TPtr TBase),
        (''PodAntiAffinity'', TPtr TBase)]),
     (''v1.Toleration'', TStruct [(''Key'', TBase), (''Operator'', TBase), (''Value'', TBase),
        (''Effect'', TBase), (''TolerationSeconds'', TPtr TBase)]),
     (''v1.ResourceRequirements'', TStruct [(''Limits'', TSeq TBase), (''Requests'', TSeq TBase)]),
     (''metav1.ObjectMeta'', TStruct [(''Name'', TBase), (''Namespace'', TBase),
        (''Generation'', TBase), (''DeletionTimestamp'', TPtr TBase), (''Labels'', TSeq TBase),
        (''Annotations'', TSeq TBase), (''Finalizers'', TSeq TBase)]),
     (''metav1.ListMeta'', TStruct [(''ResourceVersion'', TBase), (''RemainingItemCount'', TPtr TBase)]),
     (''metav1.Condition'', TStruct [(''Type'', TBase), (''Status'', TBase),
        (''ObservedGeneration'', TBase), (''LastTransitionTime'', TBase), (''Reason'', TBase),
        (''Message'', TBase)])]"

definition kubeLayouts :: "string \<Rightarrow> gtype" where
  "kubeLayouts n = (case map_of kubeTable n of Some T \<Rightarrow> T | None \<Rightarrow> TBase)"

definition kubeCopies :: "string \<Rightarrow> copier" where
  "kubeCopies n = deepCopyAs (kubeLayouts n)"

lemma kube_library: "library_copies kubeLayouts kubeCopies"
proof -
  have "list_all (\<lambda>n. distinctNames (kubeLayouts n)) copiedTypes"
    "list_all (\<lambda>n. flat (kubeLayouts n)) assignedTypes"
    by (simp_all add: copiedTypes_def assignedTypes_def kubeLayouts_def kubeTable_def)
  then show ?thesis
    using deep_deepCopyAs(1) by (auto simp: library_copies_def kubeCopies_def list_all_iff)
qed

interpretation kube: copied_types kubeLayouts kubeCopies
  by unfold_locales (rule kube_library)

section \<open>Properties\<close>

text \<open>C22: \<open>DeepCopyInto\<close> of every type of the package copies deeply, and \<open>DeepCopy\<close> is it on a
  new cell, with nil for nil.\<close>
theorem every_type_copied_deeply:
  assumes "library_copies ly lib"
  shows "list_all (\<lambda>(T, into, dc). deep T into \<and> deep (TPtr T) dc \<and>
    (\<forall>h. dc (Ref None) h = (Ref None, h))) (apiTypes ly lib)"
  using copied_types.types_deep [OF copied_types.intro [OF assms]]
  by (auto simp: list_all_iff ptrCopy_nil intro: deep_intro)

lemma every_type_copied_deeply_demo:
  "list_all (\<lambda>(T, into, dc). deep T into \<and> deep (TPtr T) dc \<and>
    (\<forall>h. dc (Ref None) h = (Ref None, h))) (apiTypes kubeLayouts kubeCopies)"
  by (rule every_type_copied_deeply [OF kube_library])

text \<open>C21: A copy of a registered object has its content, and neither of the two sees what is
  written through the other.\<close>
theorem runtime_copies_isolated:
  assumes "library_copies ly lib" and "(T, D) \<in> set (registeredObjects ly lib)"
    and "typed h (TPtr T) p" and "D p h = (q, h')"
  shows "isolated (TPtr T) h p h' q"
proof -
  have "deep (TPtr T) D"
    using copied_types.objects_deep [OF copied_types.intro [OF assms(1)]] assms(2)
    by (auto simp: list_all_iff)
  then show ?thesis
    using assms(3,4) by (rule deep_isolated)
qed

text \<open>C20: The status patch is decided and computed against the status the instance had, whatever
  memory of the instance the caller's function rewrites in place.\<close>
theorem status_patch_is_against_old:
  assumes "library_copies ly lib" and "typed h (TPtr (HigressGateway_layout ly)) p"
    and "\<And>h1. writesOnly (addrs h (TPtr (HigressGateway_layout ly)) p) h1 (mutate h1)"
    and "patchStatus_mem deepEqual ly lib mutate p h = (sent, base, h2)"
  shows "(sent \<longleftrightarrow> \<not> deepEqual (statusOf ly h p) (statusOf ly h2 p)) \<and>
    view h2 (TPtr (HigressGateway_layout ly)) base = view h (TPtr (HigressGateway_layout ly)) p"
proof -
  let ?T = "TPtr (HigressGateway_layout ly)"
  obtain q h1 where run: "DeepCopy_HigressGateway lib p h = (q, h1)" by force
  note d = copied_types.gateway_deep [OF copied_types.intro [OF assms(1)]]
  have same: "addrs h1 ?T p = addrs h ?T p"
    using frame_prefix(3) [OF assms(2) deepD(1) [OF d assms(2) run]] .
  have eq: "base = q" "h2 = mutate h1"
    "sent \<longleftrightarrow> \<not> deepEqual (statusOf ly h2 q) (statusOf ly h2 p)"
    using assms(4) run by (auto simp: patchStatus_mem_def Let_def)
  have "view h2 ?T q = view h ?T p"
    using deep_isolated [OF d assms(2) run] assms(3) [of h1] same
    by (simp add: isolated_def eq(2))
  then show ?thesis
    by (simp add: eq(1,3) statusOf_def)
qed

section \<open>A gateway in memory\<close>

text \<open>A gateway at address 0 with one reported condition in the cell 1.\<close>

fun zeroOf :: "gtype \<Rightarrow> gval" and zerosOf :: "(string \<times> gtype) list \<Rightarrow> (string \<times> gval) list" where
  "zeroOf TBase = Base (Num 0)"
| "zeroOf (TPtr T) = Ref None"
| "zeroOf (TSeq T) = Ref None"
| "zeroOf (TStruct fs) = Fields (zerosOf fs)"
| "zerosOf [] = []"
| "zerosOf (f # fs) = (fst f, zeroOf (snd f)) # zerosOf fs"

lemma typed_zeroOf [simp]: "typed h T (zeroOf T)" "typeds h fs (zerosOf fs)"
  by (induction T and fs rule: zeroOf_zerosOf.induct) simp_all

definition demoConditions :: "string \<Rightarrow> gval" where
  "demoConditions s = Fields [([], Fields [(''Type'', Base (Str ''Ready'')), (''Status'', Base (Str s)),
     (''ObservedGeneration'', Base (Num 1)), (''LastTransitionTime'', Base (Str [])),
     (''Reason'', Base (Str [])), (''Message'', Base (Str []))])]"

definition demoHeap :: heap where
  "demoHeap =
    [Fields [(''TypeMeta'', zeroOf (kubeLayouts ''metav1.TypeMeta'')),
       (''ObjectMeta'', zeroOf (kubeLayouts ''metav1.ObjectMeta'')),
       (''Spec'', zeroOf (HigressGatewaySpec_layout kubeLayouts)),
       (''Status'', Fields [(''Deployed'', Base (Boolean True)), (''ObservedGeneration'', Base (Num 1)),
          (''EffectiveScaleMode'', Base (Str [])), (''Conditions'', Ref (Some 1))])],
     demoConditions ''True'']"

lemma demo_typed: "typed demoHeap (TPtr (HigressGateway_layout kubeLayouts)) (Ref (Some 0))"
proof -
  have "typed demoHeap (HigressGatewayStatus_layout kubeLayouts)
    (Fields [(''Deployed'', Base (Boolean True)), (''ObservedGeneration'', Base (Num 1)),
      (''EffectiveScaleMode'', Base (Str [])), (''Conditions'', Ref (Some 1))])"
    by (simp add: HigressGatewayStatus_layout_def demoHeap_def demoConditions_def cell_def
        kubeLayouts_def kubeTable_def)
  then show ?thesis
    by (simp add: HigressGateway_layout_def cell_def demoHeap_def)
qed

lemma demo_status:
  assumes "cell h 0 = cell demoHeap 0" "cell h 1 = Some (demoConditions s)"
  shows "statusOf kubeLayouts h (Ref (Some 0)) =
    Parts [(''Deployed'', Plain (Boolean True)), (''ObservedGeneration'', Plain (Num 1)),
      (''EffectiveScaleMode'', Plain (Str [])), (''Conditions'', Parts [([], Parts [
        (''Type'', Plain (Str ''Ready'')), (''Status'', Plain (Str s)),
        (''ObservedGeneration'', Plain (Num 1)), (''LastTransitionTime'', Plain (Str [])),
        (''Reason'', Plain (Str [])), (''Message'', Plain (Str []))])])]"
proof -
  have 0: "cell h 0 = Some (demoHeap ! 0)"
    using assms(1) by (simp add: cell_def demoHeap_def)
  have "kubeLayouts ''metav1.Condition'' = TStruct [(''Type'', TBase), (''Status'', TBase),
      (''ObservedGeneration'', TBase), (''LastTransitionTime'', TBase), (''Reason'', TBase), (''Message'', TBase)]"
    by (simp add: kubeLayouts_def kubeTable_def)
  with 0 assms(2) show ?thesis
    by (simp add: statusOf_def HigressGateway_layout_def HigressGatewayStatus_layout_def
        demoHeap_def demoConditions_def)
qed

lemma runtime_copies_isolated_demo:
  "\<exists>q h'. DeepCopyObject_HigressGateway kubeCopies (Ref (Some 0)) demoHeap = (q, h') \<and>
     isolated (TPtr (HigressGateway_layout kubeLayouts)) demoHeap (Ref (Some 0)) h' q"
proof -
  obtain q h' where run: "DeepCopyObject_HigressGateway kubeCopies (Ref (Some 0)) demoHeap = (q, h')"
    by force
  have "(HigressGateway_layout kubeLayouts, DeepCopyObject_HigressGateway kubeCopies)
      \<in> set (registeredObjects kubeLayouts kubeCopies)"
    by (simp add: registeredObjects_def)
  from runtime_copies_isolated [OF kube_library this demo_typed run] run show ?thesis
    by blast
qed

lemma status_patch_is_against_old_demo:
  "fst (patchStatus_mem (=) kubeLayouts kubeCopies (assign 1 (demoConditions ''False''))
     (Ref (Some 0)) demoHeap)"
proof -
  let ?mutate = "assign 1 (demoConditions ''False'')"
  obtain sent base h2 where
    run: "patchStatus_mem (=) kubeLayouts kubeCopies ?mutate (Ref (Some 0)) demoHeap = (sent, base, h2)"
    by (metis prod_cases3)
  obtain q h1 where copy: "DeepCopy_HigressGateway kubeCopies (Ref (Some 0)) demoHeap = (q, h1)"
    by force
  have "1 \<in> addrs demoHeap (TPtr (HigressGateway_layout kubeLayouts)) (Ref (Some 0))"
    by (simp add: HigressGateway_layout_def HigressGatewayStatus_layout_def cell_def demoHeap_def)
  then have "writesOnly (addrs demoHeap (TPtr (HigressGateway_layout kubeLayouts)) (Ref (Some 0))) h
      (?mutate h)" for h
    by (auto simp: writesOnly_def cell_assign)
  note th = status_patch_is_against_old [OF kube_library demo_typed this run]
  have p: "prefix demoHeap h1"
    by (rule deepD(1) [OF kube.gateway_deep demo_typed copy])
  have h2: "h2 = ?mutate h1"
    using run copy by (auto simp: patchStatus_mem_def Let_def)
  have len: "length demoHeap = 2" "1 < length h1"
    using prefix_length_le [OF p] by (simp_all add: demoHeap_def)
  have "cell h2 0 = cell demoHeap 0" "cell h2 1 = Some (demoConditions ''False'')"
    using cell_prefix [OF p, of 0] len by (simp_all add: h2 cell_assign)
  note new = demo_status [OF this]
  have "cell demoHeap 1 = Some (demoConditions ''True'')"
    by (simp add: demoHeap_def cell_def)
  note old = demo_status [OF refl this]
  from th run show ?thesis
    by (simp add: new old)
qed

end
