(* ===== verification/Spec2Isabelle.thy ===== *)
theory Spec2Isabelle
  imports SysMemory GwProperties GwObjects CtlProperties LiveProperties SetupProperties DeepCopyProperties
begin

text \<open>
  The higress operator: a Kubernetes operator, written in Go with controller-runtime, that
  keeps the objects of two custom resources in place.  A \<open>HigressGateway\<close> stands for an Envoy
  gateway (deployment, service, config map, roles, autoscaler), a \<open>HigressController\<close> for the
  control plane (deployment with one or two containers, service, roles, resource
  definitions).  Each resource has a reconciler whose \<open>Reconcile\<close> is called for a namespaced
  name whenever the resource or an owned object changes; it reads the resource, adds a
  finalizer, writes the children with create-or-update and reports in the status.  The two
  reconcilers share the cluster and nothing else.

  \<^bold>\<open>How the model is made.\<close>  Everything the code does is a HOL function over explicit
  values.  Structs are records with the fields in the order of the code; of a struct of the
  Kubernetes libraries the model keeps the fields the operator reads or writes, and the rest in
  one serialised field (\<open>..._rest\<close>).  A nil-able pointer is an option, a Go map an option of an
  association list (nil or allocated), \<open>int32\<close> and \<open>int64\<close> are words, and the order in which Go
  ranges over a map is a parameter.  A call that reaches the outside world is an action
  \<open>'w \<Rightarrow> fault + 'a \<times> 'w\<close> (\<open>Prelude\<close>): a fault is an error value or a panic, the effects before it
  stay.  Values that Go mutates in place are returned; where the code shares a map or a slice
  with the instance (labels of the service, mesh configuration) the changed instance is a
  second result.  All definitions compute; no fuel is needed, every loop of the code runs over
  a finite list and is a structural recursion.

  \<^bold>\<open>Theories and the code they model.\<close>
    \<^item> \<open>Prelude\<close>: Go values, panics and errors, actions, the collections \<open>ok_simps\<close> (inversion of a
      run that returned), \<open>keeps_intro\<close> and \<open>preserves_intro\<close> (frames).
    \<^item> \<open>KubeTypes\<close>, \<open>ApiTypes\<close>: the objects of the cluster (datatype \<open>kobj\<close>), and the structs of
      \<open>api/v1alpha1/common.go\<close>, \<open>higressgateway_types.go\<close>, \<open>higresscontroller_types.go\<close>.
    \<^item> \<open>Client\<close>: the client record and \<open>internal/controller/utils.go\<close> and \<open>const.go\<close>.
    \<^item> \<open>Server\<close>: the contract of the API server and of create-or-update, as locales over a view
      \<open>lookup\<close> of the stored objects and a relation \<open>admits old x y\<close> (the server may store \<open>y\<close> when
      \<open>x\<close> is submitted over \<open>old\<close>).  \<open>Lib\<close>: the record of the library functions used, and the laws
      of conditions, owner references and finalizers.  \<open>Owner\<close>: their composition and what both
      reconcilers use of it.
    \<^item> \<open>GwScaling\<close> (defaults, effective mode, validation), \<open>Workload\<close> and \<open>GwDeployment\<close>
      (\<open>deployment.go\<close>), \<open>GwService\<close> (\<open>service.go\<close>, \<open>configmap.go\<close>), \<open>RbacCommon\<close> and \<open>GwRbac\<close> (\<open>rbac.go\<close>,
      \<open>serviceAccount.go\<close>), \<open>GwReconciler\<close> (the reconciler's record, deletion of autoscalers),
      \<open>GwHpa\<close> (\<open>hpa.go\<close>), \<open>GwKeda\<close> (\<open>keda.go\<close>), \<open>GwStatus\<close> (conditions, status patch) and
      \<open>GwController\<close> (\<open>higressgateway_controller.go\<close>), all of \<open>internal/controller/higressgateway\<close>.
    \<^item> \<open>CtlRbac\<close>, \<open>CtlDeployment\<close>, \<open>CtlService\<close>, \<open>CtlCrds\<close> (\<open>crds.go\<close>, installing the definitions) and
      \<open>CtlController\<close> (\<open>higresscontroller_controller.go\<close>): the same of
      \<open>internal/controller/higresscontroller\<close>.  A name both packages declare carries \<open>_gw\<close> or \<open>_ctl\<close>.
    \<^item> \<open>Manager\<close>, \<open>Setup\<close>: the manager of controller-runtime, \<open>cmd/main.go\<close> from the parsed flags on,
      and the two \<open>SetupWithManager\<close> with the events they turn into reconciles.
    \<^item> \<open>GoHeap\<close>, \<open>ApiLayouts\<close>, \<open>DeepCopy\<close>: \<open>zz_generated.deepcopy.go\<close> over an explicit memory: values
      with references into a heap of cells, where the references of each API type are, and the
      statements of every \<open>DeepCopyInto\<close>, \<open>DeepCopy\<close> and \<open>DeepCopyObject\<close>.  The other theories work on
      immutable values; \<open>DeepCopyProperties\<close> shows why they may: the copies are isolated.
    \<^item> \<open>System\<close>: both reconcilers over one cluster as a step relation, with the steps of other
      actors in between.

  \<^bold>\<open>What the lemmas show.\<close>
    \<^item> Frames, whatever the outcome of a run: \<open>GwContract\<close>, \<open>CtlContract\<close> (which keys a reconcile
      may write, \<open>touches\<close> and \<open>touches_ctl\<close>).
    \<^item> Partial correctness: \<open>GwOutcome\<close>, \<open>GwReconcile\<close>, \<open>CtlOutcome\<close> (a run that returned left every
      child \<open>in_sync\<close> with what the code builds from the stored resource, or rejected an invalid
      section; deletion; the finalizer; the error paths).
    \<^item> Total correctness: \<open>Available\<close>, \<open>GwLive\<close>, \<open>CtlLive\<close> (on a cluster that answers the runs return).
    \<^item> Convergence: \<open>Steady\<close>, \<open>GwSteady\<close>, \<open>GwConverge\<close>, \<open>CtlConverge\<close> (fixed points of the mutations,
      and that a successful run reaches them); \<open>Interplay\<close> (resources that share an object have no
      common fixed point).
    \<^item> The properties, each with an application to a concrete input: \<open>GwProperties\<close>, \<open>GwObjects\<close>,
      \<open>CtlProperties\<close>, \<open>LiveProperties\<close>, \<open>Interplay\<close>, \<open>SetupProperties\<close>, \<open>DeepCopyProperties\<close> and this
      theory.
    \<^item> \<open>Memory\<close>, \<open>GwMemory\<close>, \<open>CtlMemory\<close>, \<open>SysMemory\<close>, \<open>LiveMemory\<close>: an executable cluster that
      satisfies every contract, on which the witnesses run; it is the interpretation of each
      locale, with the code's own \<open>createOrUpdate\<close> in the place of the library's.

  \<^bold>\<open>What is assumed.\<close>  The contracts state documented behaviour: a read returns what is stored
  (read-your-writes, no stale cache), a write that returned is stored as \<open>admits\<close> allows and
  keeps name, namespace and finalizers, a failed write changes nothing, no other actor
  interferes during one run (between runs any step \<open>E\<close> may), \<open>controllerutil.CreateOrUpdate\<close>
  satisfies \<open>upsert\<close>, which the repository's own \<open>createOrUpdate\<close> is proved to satisfy.  The
  theorems on convergence ask in addition that the server stores children verbatim and that
  semantic equality is equality; a server that fills in defaults makes the gateway's mutation
  differ in every run (see \<open>defaulted_deployment_never_fixed\<close> in \<open>GwObjects\<close>).

  The deep copies assume of the library's types that their \<open>DeepCopyInto\<close> copies deeply, and that
  the ones copied by an assignment hold no references.

  \<^bold>\<open>Not modelled.\<close>  Logging; flag parsing and the scheme; the text of YAML and JSON (encoders are
  parameters); the interleaving of two runs call by call, and update conflicts; the cache and
  the work queue of controller-runtime.  Left for later: runs at the granularity of API calls
  with conflicting writers, and the objects a reconciler builds on the explicit memory.
\<close>

section \<open>The operator as a whole\<close>

text \<open>C5: Once a live gateway carries the operator's finalizer, it keeps it: no sequence of
  reconciles of either reconciler, for any resources and with any outcome, makes the stored
  gateway lose the finalizer or marks it for deletion, as long as the other actors that work on
  the cluster in between do neither.\<close>
theorem finalizer_held_forever:
  assumes "operator_env gr cr L lookup admits same_but_rest semEq cli defs stores"
    and "reachable L gr cr N E w0 w" and "held nn (lookup w0)"
    and "\<And>w w'. E w w' \<Longrightarrow> held nn (lookup w) \<Longrightarrow> held nn (lookup w')"
  shows "held nn (lookup w)"
  by (rule operator_env.reachable_held [OF assms])

lemma finalizer_held_forever_demo:
  "held (''n'', ''g'') (memLookup ((snd (demoReconcile (demoWorld None)))\<lparr>mem_Events := []\<rparr>))"
proof (rule finalizer_held_forever [OF op.operator_env_axioms reach_gateway])
  show "held (''n'', ''g'') (memLookup (demoWorld None))"
    by (simp add: held_def meta_holds_def)
qed (simp add: pruneEvents_lookup)

text \<open>C7: Isolation: an object that belongs to none of the resources reconciled, under the naming of
  the two reconcilers, is never created, changed or deleted by any sequence of reconciles of
  these resources, failing ones included, that is not interrupted by another actor changing it.\<close>
theorem operator_isolation:
  assumes "operator_env gr cr L lookup admits same_but_rest semEq cli defs stores"
    and "reachable L gr cr N E w0 w"
    and "\<And>nn. nn \<in> N \<Longrightarrow> \<not> touches nn q \<and> \<not> touches_ctl nn q"
    and "\<And>w w'. E w w' \<Longrightarrow> lookup w' q = lookup w q"
  shows "lookup w q = lookup w0 q"
  by (rule operator_env.reachable_frame [OF assms])

lemma operator_isolation_demo:
  "memLookup ((snd (demoReconcile (demoWorld None)))\<lparr>mem_Events := []\<rparr>) (KConfigMap, (''n'', ''user-config'')) =
   memLookup (demoWorld None) (KConfigMap, (''n'', ''user-config''))"
  by (rule operator_isolation [OF op.operator_env_axioms reach_gateway])
    (simp_all add: HigressGatewayConfig_def pruneEvents_lookup)

text \<open>C8: Tenants: no sequence of reconciles of resources of other namespaces creates, changes or
  deletes an object of a namespace.\<close>
theorem namespace_isolation:
  assumes "operator_env gr cr L lookup admits same_but_rest semEq cli defs stores"
    and "reachable L gr cr N E w0 w" and "ns \<notin> fst ` N" and "ns \<noteq> []"
    and "\<And>w w'. E w w' \<Longrightarrow> lookup w' (k, (ns, n)) = lookup w (k, (ns, n))"
  shows "lookup w (k, (ns, n)) = lookup w0 (k, (ns, n))"
proof (rule operator_env.reachable_frame [OF assms(1,2) _ assms(5)])
  fix nn assume "nn \<in> N"
  with assms(3) have "ns \<noteq> fst nn" by auto
  with touches_namespace [of nn k ns n] assms(4)
  show "\<not> touches nn (k, (ns, n)) \<and> \<not> touches_ctl nn (k, (ns, n))" by blast
qed

lemma namespace_isolation_demo:
  "memLookup ((snd (demoReconcile (demoWorld None)))\<lparr>mem_Events := []\<rparr>) (KDeployment, (''m'', ''g'')) =
   memLookup (demoWorld None) (KDeployment, (''m'', ''g''))"
  by (rule namespace_isolation [OF op.operator_env_axioms reach_gateway])
    (simp_all add: pruneEvents_lookup)

section \<open>The repository's create-or-update routine\<close>

text \<open>C16: The repository's \<open>createOrUpdate\<close> refines the contract of \<open>CreateOrUpdate\<close> over every API
  server: it touches no other object; a missing object is created as the mutation makes
  it; a stored one is updated with the mutation of what is stored, or left alone when
  that is no semantic change; and a mutation that fails blocks every write.\<close>
theorem create_or_update_refines:
  assumes "api_server c lookup admits"
  shows "upsert (createOrUpdate semEq c) lookup admits semEq"
  by (rule api_server.createOrUpdate_upsert [OF assms])

lemma create_or_update_refines_demo:
  "upsert (createOrUpdate (=) (memClient ())) memLookup memAdmits (=)"
  by (rule create_or_update_refines [OF mem_server.api_server_axioms])

end
